(* ===== verification/PyFloat.thy ===== *)
theory PyFloat
  imports Complex_Main "HOL-Library.Log_Nat"
begin

text \<open>
  IEEE 754 binary64 arithmetic, the arithmetic of a Python \<open>float\<close>. A finite double is
  represented by the rational number it denotes; \<open>rnd\<close> rounds an exact result to the
  nearest double (ties to even, 53-bit significand, gradual underflow at \<open>2^-1074\<close>), and
  every arithmetic operation of the model rounds once, as the hardware does. Overflow,
  infinities, NaN and the sign of zero are outside the value domain.
\<close>

section \<open>Rounding\<close>

definition flog2 :: "rat \<Rightarrow> int" where
  "flog2 x = (let (n, d) = quotient_of x; e = bitlen n - bitlen d
              in if 2 powi e \<le> x then e else e - 1)"

definition round_half_even :: "rat \<Rightarrow> int" where
  "round_half_even x = (let f = \<lfloor>x\<rfloor>; r = x - of_int f
     in if r < 1/2 then f else if 1/2 < r then f + 1 else if even f then f else f + 1)"

definition ulp_exp :: "rat \<Rightarrow> int" where
  "ulp_exp x = max (flog2 \<bar>x\<bar> - 52) (-1074)"

definition rnd :: "rat \<Rightarrow> rat" where
  "rnd x = (if x = 0 then 0
            else of_int (round_half_even (x / 2 powi ulp_exp x)) * 2 powi ulp_exp x)"

definition is_flt :: "rat \<Rightarrow> bool" where
  "is_flt x \<longleftrightarrow> rnd x = x"

subsection \<open>The binary exponent\<close>

lemma bitlen_rat_bounds:
  assumes "0 < n"
  shows "2 powi (bitlen n - 1) \<le> (of_int n :: rat)" and "(of_int n :: rat) < 2 powi bitlen n"
proof -
  have b: "2 ^ nat (bitlen n - 1) \<le> n" "n < 2 ^ nat (bitlen n)"
    using bitlen_bounds[OF assms] by auto
  have pos: "0 < bitlen n" using assms bitlen_nonneg[of n] bitlen_eq_zero_iff[of n] by linarith
  have "(2::rat) powi (bitlen n - 1) = of_int (2 ^ nat (bitlen n - 1))"
    using pos by (simp add: power_int_def)
  then show "2 powi (bitlen n - 1) \<le> (of_int n :: rat)" using b(1) by (simp only: of_int_le_iff)
  have "(2::rat) powi bitlen n = of_int (2 ^ nat (bitlen n))"
    using pos by (simp add: power_int_def)
  then show "(of_int n :: rat) < 2 powi bitlen n" using b(2) by (simp only: of_int_less_iff)
qed

lemma flog2_bounds:
  assumes "0 < x"
  shows "2 powi flog2 x \<le> x" and "x < 2 powi (flog2 x + 1)"
proof -
  obtain n d where q: "quotient_of x = (n, d)" by (cases "quotient_of x") auto
  have x: "x = of_int n / of_int d" using q by (rule quotient_of_div)
  have d: "0 < d" using q by (rule quotient_of_denom_pos)
  have n: "0 < n" using assms d by (auto simp: x zero_less_divide_iff)
  define e where "e = bitlen n - bitlen d"
  have lo: "2 powi (e - 1) \<le> x"
  proof -
    have "(2::rat) powi (e - 1) = 2 powi (bitlen n - 1) / 2 powi bitlen d"
      by (simp add: e_def power_int_diff[symmetric] algebra_simps)
    also have "\<dots> \<le> of_int n / of_int d"
      using bitlen_rat_bounds[OF n] bitlen_rat_bounds[OF d] d n
      by (intro frac_le) auto
    finally show ?thesis by (simp add: x)
  qed
  have hi: "x < 2 powi (e + 1)"
  proof -
    have "x < 2 powi bitlen n / 2 powi (bitlen d - 1)"
      unfolding x using bitlen_rat_bounds[OF n] bitlen_rat_bounds[OF d] d n
      by (intro frac_less) auto
    also have "\<dots> = 2 powi (e + 1)"
      by (simp add: e_def power_int_diff[symmetric] algebra_simps)
    finally show ?thesis .
  qed
  have f: "flog2 x = (if 2 powi e \<le> x then e else e - 1)"
    by (simp add: flog2_def q e_def)
  show "2 powi flog2 x \<le> x" using lo by (simp add: f)
  show "x < 2 powi (flog2 x + 1)" using hi by (simp add: f)
qed

lemma powi_two_mono: "i \<le> j \<Longrightarrow> (2::rat) powi i \<le> 2 powi j"
  by (rule power_int_increasing) auto

lemma powi_two_less_D: "(2::rat) powi i < 2 powi j \<Longrightarrow> i < j"
  by (meson linorder_not_less powi_two_mono)

lemma flog2_mono: "0 < x \<Longrightarrow> x \<le> y \<Longrightarrow> flog2 x \<le> flog2 y"
  using powi_two_less_D[of "flog2 x" "flog2 y + 1"] flog2_bounds[of x] flog2_bounds[of y] by simp

lemma flog2_unique: "2 powi e \<le> x \<Longrightarrow> x < 2 powi (e + 1) \<Longrightarrow> flog2 x = e"
  using powi_two_less_D[of "flog2 x" "e + 1"] powi_two_less_D[of e "flog2 x + 1"]
    flog2_bounds[of x] zero_less_power_int[of "2::rat" e] by linarith

subsection \<open>Rounding to an integer\<close>

lemma round_half_even_of_int [simp]: "round_half_even (of_int n) = n"
  by (simp add: round_half_even_def)

lemma round_half_even_cases:
  "round_half_even x = \<lfloor>x\<rfloor> \<or> round_half_even x = \<lfloor>x\<rfloor> + 1"
  by (simp add: round_half_even_def Let_def)

lemma round_half_even_error: "\<bar>of_int (round_half_even x) - x\<bar> \<le> 1/2"
  using floor_correct[of x] of_int_floor_le[of x]
  by (auto simp: round_half_even_def Let_def abs_if simp del: of_int_floor_le)

lemma round_half_even_mono:
  assumes "x \<le> y" shows "round_half_even x \<le> round_half_even y"
proof (cases "\<lfloor>x\<rfloor> = \<lfloor>y\<rfloor>")
  case True
  then show ?thesis using assms by (auto simp: round_half_even_def Let_def)
next
  case False
  then have "\<lfloor>x\<rfloor> + 1 \<le> \<lfloor>y\<rfloor>" using floor_mono[OF assms] by simp
  then show ?thesis using round_half_even_cases[of x] round_half_even_cases[of y] by linarith
qed

lemma round_half_even_minus: "round_half_even (- x) = - round_half_even x"
proof (cases "x = of_int \<lfloor>x\<rfloor>")
  case True
  then show ?thesis by (metis of_int_minus round_half_even_of_int)
next
  case False
  then have "of_int \<lfloor>x\<rfloor> < x" using of_int_floor_le[of x] by linarith
  then have "\<lfloor>- x\<rfloor> = - \<lfloor>x\<rfloor> - 1"
    using floor_correct[of x] by (intro floor_unique) auto
  then show ?thesis by (auto simp: round_half_even_def Let_def)
qed

lemma round_half_even_ge: "of_int n \<le> x \<Longrightarrow> n \<le> round_half_even x"
  using round_half_even_mono[of "of_int n" x] by simp

lemma round_half_even_le: "x \<le> of_int n \<Longrightarrow> round_half_even x \<le> n"
  using round_half_even_mono[of x "of_int n"] by simp


subsection \<open>Rounding to a double\<close>

lemma ulp_exp_minus [simp]: "ulp_exp (- x) = ulp_exp x"
  by (simp add: ulp_exp_def)

lemma ulp_exp_mono: "0 < x \<Longrightarrow> x \<le> y \<Longrightarrow> ulp_exp x \<le> ulp_exp y"
  using flog2_mono[of x y] by (simp add: ulp_exp_def)

lemma rnd_0 [simp]: "rnd 0 = 0"
  by (simp add: rnd_def)

lemma rnd_minus: "rnd (- x) = - rnd x"
  by (simp add: rnd_def round_half_even_minus)

lemma rnd_nonneg:
  assumes "0 \<le> x" shows "0 \<le> rnd x"
proof -
  have "0 \<le> round_half_even (x / 2 powi ulp_exp x)"
    using assms by (intro round_half_even_ge) simp
  then show ?thesis by (simp add: rnd_def)
qed

lemma rnd_ge_grid:
  assumes "0 < x" "of_int k * 2 powi ulp_exp x \<le> x"
  shows "of_int k * 2 powi ulp_exp x \<le> rnd x"
proof -
  have "k \<le> round_half_even (x / 2 powi ulp_exp x)"
    using assms by (intro round_half_even_ge) (simp add: pos_le_divide_eq)
  then show ?thesis using assms by (simp add: rnd_def)
qed

lemma rnd_le_grid:
  assumes "0 < x" "x \<le> of_int k * 2 powi ulp_exp x"
  shows "rnd x \<le> of_int k * 2 powi ulp_exp x"
proof -
  have "round_half_even (x / 2 powi ulp_exp x) \<le> k"
    using assms by (intro round_half_even_le) (simp add: pos_divide_le_eq)
  then show ?thesis using assms by (simp add: rnd_def)
qed

lemma powi_two_grid:
  assumes "j \<le> i"
  shows "(2::rat) powi i = of_int (2 ^ nat (i - j)) * 2 powi j"
proof -
  have "(2::rat) powi i = 2 powi (i - j) * 2 powi j"
    by (simp add: power_int_add[symmetric])
  then show ?thesis using assms by (simp add: power_int_def)
qed

lemma rnd_mono_pos:
  assumes "0 < x" "x \<le> y"
  shows "rnd x \<le> rnd y"
proof (cases "ulp_exp x = ulp_exp y")
  case True
  have "round_half_even (x / 2 powi ulp_exp y) \<le> round_half_even (y / 2 powi ulp_exp y)"
    using assms by (intro round_half_even_mono) (simp add: divide_right_mono)
  then show ?thesis using assms True by (simp add: rnd_def)
next
  case False
  define b where "b = flog2 y"
  have y: "0 < y" using assms by simp
  have less: "ulp_exp x < ulp_exp y" using False ulp_exp_mono[OF assms] by simp
  then have uy: "ulp_exp y = b - 52"
    using y by (auto simp: ulp_exp_def b_def max_def split: if_splits)
  have fx: "flog2 x + 1 \<le> b"
    using less assms y by (auto simp: ulp_exp_def b_def max_def split: if_splits)
  have "x \<le> 2 powi b"
    using flog2_bounds(2)[OF assms(1)] powi_two_mono[OF fx] by linarith
  moreover have gx: "(2::rat) powi b = of_int (2 ^ nat (b - ulp_exp x)) * 2 powi ulp_exp x"
    using less uy by (intro powi_two_grid) simp
  ultimately have 1: "rnd x \<le> 2 powi b"
    using rnd_le_grid[OF assms(1), of "2 ^ nat (b - ulp_exp x)"] by simp
  have gy: "(2::rat) powi b = of_int (2 ^ nat (b - ulp_exp y)) * 2 powi ulp_exp y"
    using uy by (intro powi_two_grid) simp
  have 2: "2 powi b \<le> rnd y"
    using rnd_ge_grid[OF y, of "2 ^ nat (b - ulp_exp y)"] gy flog2_bounds(1)[OF y]
    by (simp add: b_def)
  from 1 2 show ?thesis by simp
qed

lemma rnd_mono: "x \<le> y \<Longrightarrow> rnd x \<le> rnd y"
proof (cases "0 < x")
  case True
  then show "x \<le> y \<Longrightarrow> ?thesis" by (rule rnd_mono_pos)
next
  case False
  assume xy: "x \<le> y"
  show ?thesis
  proof (cases "0 \<le> y")
    case True
    then show ?thesis using False rnd_nonneg[of y] rnd_nonneg[of "- x"] by (simp add: rnd_minus)
  next
    case neg: False
    then have "rnd (- y) \<le> rnd (- x)" using xy by (intro rnd_mono_pos) auto
    then show ?thesis by (simp add: rnd_minus)
  qed
qed

subsection \<open>The doubles\<close>

lemma is_flt_minus [simp]: "is_flt (- x) = is_flt x"
  by (auto simp: is_flt_def rnd_minus)

lemma is_flt_0 [simp]: "is_flt 0"
  by (simp add: is_flt_def)

lemma rnd_exact:
  assumes "0 < x" "x = of_int m * 2 powi k" "ulp_exp x \<le> k"
  shows "rnd x = x"
proof -
  define g where "g = m * 2 ^ nat (k - ulp_exp x)"
  have "x = of_int g * 2 powi ulp_exp x"
    using powi_two_grid[OF assms(3)] assms(2) by (simp add: g_def)
  then show ?thesis
    using rnd_ge_grid[OF assms(1), of g] rnd_le_grid[OF assms(1), of g] by simp
qed

lemma is_flt_dyadic_pos:
  assumes "0 < m" "m < 2 ^ 53" "-1074 \<le> k"
  shows "is_flt (of_int m * 2 powi k)"
proof -
  let ?x = "of_int m * 2 powi k :: rat"
  have pos: "0 < ?x" using assms by simp
  have "(of_int m :: rat) < of_int (2 ^ 53)" using assms(2) by (simp only: of_int_less_iff)
  then have "?x < of_int (2 ^ 53) * 2 powi k" by simp
  also have "(of_int (2 ^ 53) :: rat) * 2 powi k = 2 powi (k + 53)"
    by (subst power_int_add) (simp_all add: mult.commute)
  finally have "flog2 ?x < k + 53"
    using flog2_bounds(1)[OF pos] powi_two_less_D[of "flog2 ?x" "k + 53"] by linarith
  then have "ulp_exp ?x \<le> k" using assms pos by (simp add: ulp_exp_def abs_mult)
  then show ?thesis unfolding is_flt_def by (rule rnd_exact[OF pos refl])
qed

lemma is_flt_dyadic:
  assumes "\<bar>m\<bar> \<le> 2 ^ 53" "-1074 \<le> k"
  shows "is_flt (of_int m * 2 powi k)"
proof -
  have pos: "is_flt (of_int n * 2 powi k)" if "0 \<le> n" "n \<le> 2 ^ 53" for n
  proof -
    have "n = 0 \<or> 0 < n \<and> n < 2 ^ 53 \<or> n = 2 ^ 53" using that by linarith
    then consider "n = 0" | "0 < n" "n < 2 ^ 53" | "n = 2 ^ 53" by blast
    then show ?thesis
    proof cases
      case 3
      have eq: "(of_int (2 ^ 53) :: rat) * 2 powi k = of_int (2 ^ 52) * 2 powi (k + 1)"
        by (subst power_int_add) simp_all
      show ?thesis unfolding 3 eq using assms(2) by (intro is_flt_dyadic_pos) auto
    qed (use is_flt_dyadic_pos assms(2) in auto)
  qed
  show ?thesis
  proof (cases "0 \<le> m")
    case True then show ?thesis using pos[of m] assms by simp
  next
    case False
    then have "is_flt (- (of_int (- m) * 2 powi k))" using pos[of "- m"] assms by simp
    then show ?thesis by simp
  qed
qed


lemma rnd_is_grid:
  "\<exists>m k. \<bar>m\<bar> \<le> 2 ^ 53 \<and> -1074 \<le> k \<and> rnd x = of_int m * 2 powi k"
proof -
  have pos: "\<exists>m k. \<bar>m\<bar> \<le> 2 ^ 53 \<and> -1074 \<le> k \<and> rnd y = of_int m * 2 powi k"
    if "0 < y" for y :: rat
  proof -
    let ?q = "ulp_exp y" and ?m = "round_half_even (y / 2 powi ulp_exp y)"
    have "flog2 y + 1 \<le> 53 + ?q" using that by (simp add: ulp_exp_def)
    then have "y < 2 powi (53 + ?q)"
      using flog2_bounds(2)[OF that] powi_two_mono[of "flog2 y + 1" "53 + ?q"] by linarith
    also have "(2::rat) powi (53 + ?q) = of_int (2 ^ 53) * 2 powi ?q"
      by (subst power_int_add) simp_all
    finally have "y / 2 powi ?q \<le> of_int (2 ^ 53)" by (simp add: pos_divide_le_eq)
    then have hi: "?m \<le> 2 ^ 53" by (rule round_half_even_le)
    have lo: "0 \<le> ?m" using that by (intro round_half_even_ge) simp
    show ?thesis
      using that lo hi by (intro exI[of _ ?m] exI[of _ ?q]) (simp add: rnd_def ulp_exp_def)
  qed
  consider "x = 0" | "0 < x" | "0 < - x" by linarith
  then show ?thesis
  proof cases
    case 1 then show ?thesis by (intro exI[of _ 0] exI[of _ 0]) simp
  next
    case 2 then show ?thesis by (rule pos)
  next
    case 3
    then obtain m k where "\<bar>m\<bar> \<le> 2 ^ 53" "-1074 \<le> k" "rnd (- x) = of_int m * 2 powi k"
      using pos by blast
    then show ?thesis by (intro exI[of _ "- m"] exI[of _ k]) (simp add: rnd_minus equation_minus_iff)
  qed
qed

lemma is_flt_rnd [simp]: "is_flt (rnd x)"
  using rnd_is_grid[of x] is_flt_dyadic by metis

lemma rnd_rnd [simp]: "rnd (rnd x) = rnd x"
  using is_flt_rnd[of x] by (simp add: is_flt_def)

lemma rnd_flt [simp]: "is_flt x \<Longrightarrow> rnd x = x"
  by (simp add: is_flt_def)

lemma is_flt_of_int: "\<bar>m\<bar> \<le> 2 ^ 53 \<Longrightarrow> is_flt (of_int m)"
  using is_flt_dyadic[of m 0] by simp

lemma is_flt_numeral [simp]:
  "(numeral w :: int) \<le> 2 ^ 53 \<Longrightarrow> is_flt (numeral w)"
  using is_flt_of_int[of "numeral w"] by simp

lemma is_flt_1 [simp]: "is_flt 1"
  using is_flt_of_int[of 1] by simp

lemma rnd_nonpos: "x \<le> 0 \<Longrightarrow> rnd x \<le> 0"
  using rnd_mono[of x 0] by simp

lemma is_flt_tiny: "is_flt (2 powi (-1074))"
  using is_flt_dyadic[of 1 "-1074"] by simp

lemma is_flt_multiple_tiny:
  assumes "is_flt x"
  obtains m where "x = of_int m * 2 powi (-1074)"
proof -
  obtain m k where "-1074 \<le> k" "x = of_int m * 2 powi k"
    using rnd_is_grid[of x] assms by auto
  then have "x = of_int (m * 2 ^ nat (k - (-1074))) * 2 powi (-1074)"
    using powi_two_grid[of "-1074" k] by simp
  then show thesis by (rule that)
qed

section \<open>Arithmetic\<close>

definition fadd :: "rat \<Rightarrow> rat \<Rightarrow> rat" where "fadd x y = rnd (x + y)"
definition fsub :: "rat \<Rightarrow> rat \<Rightarrow> rat" where "fsub x y = rnd (x - y)"
definition fmul :: "rat \<Rightarrow> rat \<Rightarrow> rat" where "fmul x y = rnd (x * y)"
definition fdiv :: "rat \<Rightarrow> rat \<Rightarrow> rat" where "fdiv x y = rnd (x / y)"

text \<open>
  \<open>fdiv x 0\<close> is 0 as in HOL, where Python raises \<open>ZeroDivisionError\<close>: every
  division of the model stands behind the guard the source puts before it.
\<close>

lemmas f_defs = fadd_def fsub_def fmul_def fdiv_def

lemma is_flt_ops [simp]:
  "is_flt (fadd x y)" "is_flt (fsub x y)" "is_flt (fmul x y)" "is_flt (fdiv x y)"
  by (simp_all add: f_defs)

lemma fadd_nonneg [simp]: "0 \<le> x \<Longrightarrow> 0 \<le> y \<Longrightarrow> 0 \<le> fadd x y"
  by (simp add: f_defs rnd_nonneg)

lemma fadd_0 [simp]: "is_flt x \<Longrightarrow> fadd x 0 = x" "is_flt x \<Longrightarrow> fadd 0 x = x"
  by (simp_all add: f_defs)

lemma fadd_commute: "fadd x y = fadd y x"
  by (simp add: f_defs add.commute)

lemma fadd_mono: "x \<le> x' \<Longrightarrow> y \<le> y' \<Longrightarrow> fadd x y \<le> fadd x' y'"
  by (simp add: f_defs rnd_mono add_mono)

lemma fadd_ge_left: "is_flt x \<Longrightarrow> 0 \<le> y \<Longrightarrow> x \<le> fadd x y"
  using fadd_mono[of x x 0 y] by simp

lemma fadd_ge_right: "is_flt y \<Longrightarrow> 0 \<le> x \<Longrightarrow> y \<le> fadd x y"
  using fadd_ge_left[of y x] by (simp add: fadd_commute)

lemma fsub_self [simp]: "fsub x x = 0"
  by (simp add: f_defs)

lemma fsub_0 [simp]: "is_flt x \<Longrightarrow> fsub x 0 = x"
  by (simp add: f_defs)

lemma fsub_nonneg: "y \<le> x \<Longrightarrow> 0 \<le> fsub x y"
  by (simp add: f_defs rnd_nonneg)

lemma fsub_nonpos: "x \<le> y \<Longrightarrow> fsub x y \<le> 0"
  by (simp add: f_defs rnd_nonpos)

lemma fsub_mono: "x \<le> x' \<Longrightarrow> y' \<le> y \<Longrightarrow> fsub x y \<le> fsub x' y'"
  by (simp add: f_defs rnd_mono diff_mono)

lemma fsub_le_left: "is_flt x \<Longrightarrow> 0 \<le> y \<Longrightarrow> fsub x y \<le> x"
  using fsub_mono[of x x 0 y] by simp

text \<open>Gradual underflow: the difference of two different doubles is never rounded to 0.\<close>

lemma fsub_pos_iff:
  assumes "is_flt x" "is_flt y"
  shows "0 < fsub x y \<longleftrightarrow> y < x"
proof
  assume "0 < fsub x y" then show "y < x" using fsub_nonpos[of x y] by linarith
next
  assume less: "y < x"
  obtain m n where x: "x = of_int m * 2 powi (-1074)" and y: "y = of_int n * 2 powi (-1074)"
    using assms is_flt_multiple_tiny by metis
  have "n < m" using less by (simp add: x y del: power_int_minus)
  then have "(1::rat) \<le> of_int (m - n)" by (subst of_int_1[symmetric], subst of_int_le_iff) simp
  then have "2 powi (-1074) \<le> of_int (m - n) * (2::rat) powi (-1074)"
    using zero_less_power_int[of "2::rat" "-1074"] by (simp del: power_int_minus of_int_diff)
  also have "\<dots> = x - y" by (simp add: x y left_diff_distrib)
  finally have "rnd (2 powi (-1074)) \<le> fsub x y" by (simp only: f_defs rnd_mono)
  then show "0 < fsub x y"
    using is_flt_tiny zero_less_power_int[of "2::rat" "-1074"] by (simp del: power_int_minus)
qed

lemma fsub_le_0_iff: "is_flt x \<Longrightarrow> is_flt y \<Longrightarrow> fsub x y \<le> 0 \<longleftrightarrow> x \<le> y"
  using fsub_pos_iff[of x y] by linarith

lemma fmul_nonneg [simp]: "0 \<le> x \<Longrightarrow> 0 \<le> y \<Longrightarrow> 0 \<le> fmul x y"
  by (simp add: f_defs rnd_nonneg)

lemma fmul_0 [simp]: "fmul x 0 = 0" "fmul 0 x = 0"
  by (simp_all add: f_defs)

lemma fmul_1 [simp]: "is_flt x \<Longrightarrow> fmul x 1 = x" "is_flt x \<Longrightarrow> fmul 1 x = x"
  by (simp_all add: f_defs)

lemma fmul_mono: "x \<le> x' \<Longrightarrow> 0 \<le> y \<Longrightarrow> fmul x y \<le> fmul x' y"
  by (simp add: f_defs rnd_mono mult_right_mono)

lemma fmul_mono_right: "y \<le> y' \<Longrightarrow> 0 \<le> x \<Longrightarrow> fmul x y \<le> fmul x y'"
  by (simp add: f_defs rnd_mono mult_left_mono)

lemma fmul_le_left: "is_flt x \<Longrightarrow> 0 \<le> x \<Longrightarrow> y \<le> 1 \<Longrightarrow> fmul x y \<le> x"
  using fmul_mono_right[of y 1 x] by simp

lemma fdiv_nonneg [simp]: "0 \<le> x \<Longrightarrow> 0 \<le> y \<Longrightarrow> 0 \<le> fdiv x y"
  by (simp add: f_defs rnd_nonneg)

lemma fdiv_0 [simp]: "fdiv 0 y = 0"
  by (simp add: f_defs)

lemma fdiv_self [simp]: "x \<noteq> 0 \<Longrightarrow> fdiv x x = 1"
  by (simp add: f_defs)

lemma fdiv_le_1: "0 \<le> x \<Longrightarrow> x \<le> y \<Longrightarrow> fdiv x y \<le> 1"
  using rnd_mono[of "x / y" 1] by (cases "y = 0") (auto simp: f_defs divide_le_eq)

lemma fdiv_le_left: "is_flt x \<Longrightarrow> 0 \<le> x \<Longrightarrow> 1 \<le> y \<Longrightarrow> fdiv x y \<le> x"
  using rnd_mono[of "x / y" x] by (simp add: f_defs divide_le_eq mult_le_cancel_left1)


section \<open>Sums\<close>

text \<open>
  \<open>sum(xs)\<close> over floats in CPython 3.12, the interpreter of the production image: Neumaier's
  compensated summation. \<open>s\<close> is the running sum, \<open>c\<close> the compensation.
\<close>

fun neumaier :: "rat \<Rightarrow> rat \<Rightarrow> rat list \<Rightarrow> rat" where
  "neumaier s c [] = (if c = 0 then s else fadd s c)"
| "neumaier s c (x # xs) =
     (let t = fadd s x
      in neumaier t (fadd c (if \<bar>x\<bar> \<le> \<bar>s\<bar> then fadd (fsub s t) x else fadd (fsub x t) s)) xs)"

fun py_sum :: "rat list \<Rightarrow> rat" where
  "py_sum [] = 0"
| "py_sum (x # xs) = neumaier x 0 xs"

lemma is_flt_neumaier: "is_flt s \<Longrightarrow> is_flt (neumaier s c xs)"
  by (induction xs arbitrary: s c) (auto simp: Let_def)

lemma is_flt_py_sum: "\<forall>x \<in> set xs. is_flt x \<Longrightarrow> is_flt (py_sum xs)"
  by (cases xs) (auto intro: is_flt_neumaier)

end
