(* ===== verification/PyValue.thy ===== *)
theory PyValue
  imports PyFloat "HOL-Library.Char_ord" "HOL-Library.List_Lexorder" "HOL-Library.Product_Lexorder"
begin

text \<open>
  Python values as the code handles them: the dynamically typed values of a JSON object or a
  loosely typed dict, their truth values, \<open>float(...)\<close> with its failure, \<open>str(...)\<close> and the
  string methods the code calls. A \<open>string\<close> is a list of ASCII characters.
\<close>

section \<open>Strings\<close>

definition py_upper :: "string \<Rightarrow> string" where
  "py_upper = map (\<lambda>c. let n = (of_char c :: nat) in if 97 \<le> n \<and> n \<le> 122 then char_of (n - 32) else c)"

definition py_lower :: "string \<Rightarrow> string" where
  "py_lower = map (\<lambda>c. let n = (of_char c :: nat) in if 65 \<le> n \<and> n \<le> 90 then char_of (n + 32) else c)"

lemma py_lower_Nil [simp]: "py_lower [] = []"
  by (simp add: py_lower_def)

lemma py_lower_Cons: "\<exists>d. py_lower (c # s) = d # py_lower s \<and> py_lower [c] = [d]"
  by (simp add: py_lower_def)

lemma py_lower_upper: "py_lower (py_upper s) = py_lower s"
  by (auto simp: py_lower_def py_upper_def Let_def)

definition py_space :: "char \<Rightarrow> bool" where
  "py_space c = (let n = (of_char c :: nat) in n = 32 \<or> 9 \<le> n \<and> n \<le> 13 \<or> 28 \<le> n \<and> n \<le> 31)"

definition py_strip :: "string \<Rightarrow> string" where
  "py_strip s = rev (dropWhile py_space (rev (dropWhile py_space s)))"

text \<open>\<open>sub in s\<close>, \<open>s.startswith\<close>, \<open>s.endswith\<close>.\<close>

fun py_prefix :: "string \<Rightarrow> string \<Rightarrow> bool" where
  "py_prefix [] s = True"
| "py_prefix (c # cs) [] = False"
| "py_prefix (c # cs) (d # ds) = (c = d \<and> py_prefix cs ds)"

fun py_contains :: "string \<Rightarrow> string \<Rightarrow> bool" where
  "py_contains sub [] = (sub = [])"
| "py_contains sub (c # cs) = (py_prefix sub (c # cs) \<or> py_contains sub cs)"

definition py_endswith :: "string \<Rightarrow> string \<Rightarrow> bool" where
  "py_endswith suf s = py_prefix (rev suf) (rev s)"

text \<open>\<open>s.split("-")[-1]\<close>: what follows the last hyphen, or all of \<open>s\<close>.\<close>

definition after_last_dash :: "string \<Rightarrow> string" where
  "after_last_dash s = rev (takeWhile (\<lambda>c. c \<noteq> CHR ''-'') (rev s))"

section \<open>Decimal literals\<close>

definition digit_val :: "char \<Rightarrow> int option" where
  "digit_val c = (let n = (of_char c :: int) in if 48 \<le> n \<and> n \<le> 57 then Some (n - 48) else None)"

text \<open>
  \<open>read_digits v k s\<close> reads a digit part (digits, single underscores between digits allowed)
  onto the value \<open>v\<close>; \<open>k\<close> counts the digits read.
\<close>

fun read_digits :: "int \<Rightarrow> nat \<Rightarrow> string \<Rightarrow> int \<times> nat \<times> string" where
  "read_digits v k [] = (v, k, [])"
| "read_digits v k (c # cs) =
     (case digit_val c of
        Some d \<Rightarrow> read_digits (10 * v + d) (Suc k) cs
      | None \<Rightarrow>
          if c = CHR ''_'' \<and> 0 < k
          then (case cs of [] \<Rightarrow> (v, k, c # cs)
                | c' # cs' \<Rightarrow> (case digit_val c' of
                     Some d \<Rightarrow> read_digits (10 * v + d) (Suc k) cs'
                   | None \<Rightarrow> (v, k, c # cs)))
          else (v, k, c # cs))"

definition read_sign :: "string \<Rightarrow> bool \<times> string" where
  "read_sign s = (case s of [] \<Rightarrow> (False, [])
     | c # cs \<Rightarrow> if c = CHR ''-'' then (True, cs) else if c = CHR ''+'' then (False, cs) else (False, s))"

definition read_exponent :: "string \<Rightarrow> int option" where
  "read_exponent s = (case s of [] \<Rightarrow> Some 0
     | c # cs \<Rightarrow> if c = CHR ''e'' \<or> c = CHR ''E''
         then (let (neg, r) = read_sign cs; (v, k, r') = read_digits 0 0 r
               in if k = 0 \<or> r' \<noteq> [] then None else Some (if neg then - v else v))
         else None)"

text \<open>
  \<open>float(s)\<close>: \<open>None\<close> where Python raises \<open>ValueError\<close>. The literals \<open>nan\<close> and \<open>inf\<close> denote
  no finite double and are rejected too.
\<close>

definition parse_float :: "string \<Rightarrow> rat option" where
  "parse_float s =
     (let (neg, r0) = read_sign (py_strip s);
          (v, k, r1) = read_digits 0 0 r0;
          (w, j, r2) = (case r1 of [] \<Rightarrow> (v, 0, r1)
             | c # cs \<Rightarrow> if c = CHR ''.'' then
                  (let (w, j, r) = read_digits 0 0 cs in (v * 10 ^ j + w, j, r)) else (v, 0, r1))
      in if k = 0 \<and> j = 0 then None
         else case read_exponent r2 of None \<Rightarrow> None
              | Some e \<Rightarrow> Some (rnd ((if neg then -1 else 1) * of_int w * 10 powi (e - int j))))"

lemma parse_float_flt: "parse_float s = Some x \<Longrightarrow> is_flt x"
  by (auto simp: parse_float_def Let_def split: prod.splits option.splits if_splits list.splits)

section \<open>Decimal output\<close>

function nat_digits :: "int \<Rightarrow> string" where
  "nat_digits n = (if n < 10 then [char_of (n + 48)] else nat_digits (n div 10) @ [char_of (n mod 10 + 48)])"
  by pat_completeness auto
termination
  by (relation "measure nat") auto

declare nat_digits.simps [simp del]

definition int_str :: "int \<Rightarrow> string" where
  "int_str i = (if i < 0 then CHR ''-'' # nat_digits (- i) else nat_digits i)"

definition flog10 :: "rat \<Rightarrow> int" where
  "flog10 x = (let (n, d) = quotient_of x; e = int (length (nat_digits n)) - int (length (nat_digits d))
               in if 10 powi e \<le> x then e else e - 1)"

text \<open>The shortest decimal significand that reads back as the double \<open>x > 0\<close>: \<open>(m, k)\<close> denotes \<open>m * 10^k\<close>.\<close>

fun shortest_from :: "nat \<Rightarrow> nat \<Rightarrow> rat \<Rightarrow> int \<times> int" where
  "shortest_from 0 p x = (let k = flog10 x - 16 in (round_half_even (x / 10 powi k), k))"
| "shortest_from (Suc n) p x =
     (let k = flog10 x + 1 - int p; m = round_half_even (x / 10 powi k)
      in if rnd (of_int m * 10 powi k) = x then (m, k) else shortest_from n (Suc p) x)"

definition strip_zeros :: "string \<Rightarrow> string" where
  "strip_zeros ds = rev (dropWhile (\<lambda>c. c = CHR ''0'') (rev ds))"

definition zeros :: "nat \<Rightarrow> string" where "zeros n = replicate n CHR ''0''"

text \<open>\<open>repr(x)\<close> of a double.\<close>

definition float_repr :: "rat \<Rightarrow> string" where
  "float_repr x =
     (if x = 0 then ''0.0''
      else let (m, k) = shortest_from 16 1 \<bar>x\<bar>;
               full = nat_digits m;
               decpt = int (length full) + k;
               ds = strip_zeros full;
               n = int (length ds);
               body = (if -4 < decpt \<and> decpt \<le> 16
                       then if decpt \<le> 0 then ''0.'' @ zeros (nat (- decpt)) @ ds
                            else if n \<le> decpt then ds @ zeros (nat (decpt - n)) @ ''.0''
                            else take (nat decpt) ds @ ''.'' @ drop (nat decpt) ds
                       else (let e = decpt - 1; es = nat_digits \<bar>e\<bar> in
                             (if n = 1 then ds else take 1 ds @ ''.'' @ drop 1 ds) @ ''e'' @
                             (if e < 0 then ''-'' else ''+'') @ (if length es < 2 then CHR ''0'' # es else es)))
           in (if x < 0 then CHR ''-'' # body else body))"

text \<open>\<open>f"{x:.12f}"\<close> and its kin: correctly rounded fixed notation with \<open>p > 0\<close> decimals.\<close>

definition float_fixed :: "nat \<Rightarrow> rat \<Rightarrow> string" where
  "float_fixed p x =
     (let m = \<bar>round_half_even (x * 10 ^ p)\<bar>;
          ds = nat_digits m;
          padded = zeros (Suc p - length ds) @ ds
      in (if x < 0 then ''-'' else []) @ take (length padded - p) padded @ ''.'' @ drop (length padded - p) padded)"

text \<open>\<open>round(x, p)\<close>.\<close>

definition float_round :: "nat \<Rightarrow> rat \<Rightarrow> rat" where
  "float_round p x = rnd (of_int (round_half_even (x * 10 ^ p)) / 10 ^ p)"

section \<open>Dynamically typed values\<close>

datatype pyval = VNone | VBool bool | VInt int | VFloat rat | VStr string
  | VList "pyval list" | VDict "(string \<times> pyval) list"

type_synonym pydict = "(string \<times> pyval) list"

definition dict_get :: "pydict \<Rightarrow> string \<Rightarrow> pyval" where
  "dict_get d k = (case map_of d k of None \<Rightarrow> VNone | Some v \<Rightarrow> v)"

fun truthy :: "pyval \<Rightarrow> bool" where
  "truthy VNone = False"
| "truthy (VBool b) = b"
| "truthy (VInt i) = (i \<noteq> 0)"
| "truthy (VFloat x) = (x \<noteq> 0)"
| "truthy (VStr s) = (s \<noteq> [])"
| "truthy (VList xs) = (xs \<noteq> [])"
| "truthy (VDict d) = (d \<noteq> [])"

definition py_or :: "pyval \<Rightarrow> pyval \<Rightarrow> pyval" where
  "py_or v w = (if truthy v then v else w)"

text \<open>\<open>float(v)\<close>; \<open>None\<close> is a \<open>TypeError\<close> or \<open>ValueError\<close>.\<close>

fun py_float :: "pyval \<Rightarrow> rat option" where
  "py_float (VBool b) = Some (if b then 1 else 0)"
| "py_float (VInt i) = Some (rnd (of_int i))"
| "py_float (VFloat x) = Some x"
| "py_float (VStr s) = parse_float s"
| "py_float _ = None"

text \<open>The helper \<open>_float(value, default)\<close> that nearly every module defines.\<close>

definition float_or :: "rat \<Rightarrow> pyval \<Rightarrow> rat" where
  "float_or dflt v = (case py_float v of None \<Rightarrow> dflt | Some x \<Rightarrow> x)"

abbreviation to_float :: "pyval \<Rightarrow> rat" where
  "to_float \<equiv> float_or 0"

text \<open>
  \<open>str(v)\<close>. The text of a container is never compared with anything; it is a fixed text here.
\<close>

fun py_str :: "pyval \<Rightarrow> string" where
  "py_str VNone = ''None''"
| "py_str (VBool b) = (if b then ''True'' else ''False'')"
| "py_str (VInt i) = int_str i"
| "py_str (VFloat x) = float_repr x"
| "py_str (VStr s) = s"
| "py_str (VList _) = ''[...]''"
| "py_str (VDict _) = ''{...}''"

text \<open>\<open>int(v)\<close>; \<open>None\<close> is a \<open>TypeError\<close> or \<open>ValueError\<close>.\<close>

definition parse_int :: "string \<Rightarrow> int option" where
  "parse_int s = (let (neg, r) = read_sign (py_strip s); (v, k, r') = read_digits 0 0 r
     in if k = 0 \<or> r' \<noteq> [] then None else Some (if neg then - v else v))"

definition trunc :: "rat \<Rightarrow> int" where
  "trunc x = (if x < 0 then - \<lfloor>- x\<rfloor> else \<lfloor>x\<rfloor>)"

fun py_int :: "pyval \<Rightarrow> int option" where
  "py_int (VBool b) = Some (if b then 1 else 0)"
| "py_int (VInt i) = Some i"
| "py_int (VFloat x) = Some (trunc x)"
| "py_int (VStr s) = parse_int s"
| "py_int _ = None"

definition int_or :: "int \<Rightarrow> pyval \<Rightarrow> int" where
  "int_or dflt v = (case py_int v of None \<Rightarrow> dflt | Some i \<Rightarrow> i)"

text \<open>\<open>v == w\<close>: numbers and booleans compare by value, everything else by structure.\<close>

fun py_number :: "pyval \<Rightarrow> rat option" where
  "py_number (VBool b) = Some (if b then 1 else 0)"
| "py_number (VInt i) = Some (of_int i)"
| "py_number (VFloat x) = Some x"
| "py_number _ = None"

definition py_eq :: "pyval \<Rightarrow> pyval \<Rightarrow> bool" where
  "py_eq v w = (case (py_number v, py_number w) of (Some x, Some y) \<Rightarrow> x = y | _ \<Rightarrow> v = w)"

text \<open>\<open>k in d\<close>, \<open>d[k] = v\<close> (in place, or a new last key) and \<open>d.update(e)\<close>.\<close>

definition has_key :: "pydict \<Rightarrow> string \<Rightarrow> bool" where
  "has_key d k = (map_of d k \<noteq> None)"

fun dict_put :: "(string \<times> 'v) list \<Rightarrow> string \<Rightarrow> 'v \<Rightarrow> (string \<times> 'v) list" where
  "dict_put [] k v = [(k, v)]"
| "dict_put ((j, w) # d) k v = (if j = k then (k, v) # d else (j, w) # dict_put d k v)"

definition dict_update :: "(string \<times> 'v) list \<Rightarrow> (string \<times> 'v) list \<Rightarrow> (string \<times> 'v) list" where
  "dict_update d e = foldl (\<lambda>d (k, v). dict_put d k v) d e"

lemma map_of_dict_put [simp]: "map_of (dict_put d k v) = (map_of d)(k \<mapsto> v)"
  by (induction d k v rule: dict_put.induct) (auto simp: fun_eq_iff)

lemma dict_get_put [simp]: "dict_get (dict_put d k v) j = (if j = k then v else dict_get d j)"
  by (simp add: dict_get_def)

lemma dict_get_Nil [simp]: "dict_get [] k = VNone"
  by (simp add: dict_get_def)

lemma dict_get_Cons [simp]: "dict_get ((j, v) # d) k = (if j = k then v else dict_get d k)"
  by (simp add: dict_get_def)

lemma map_of_dict_update: "map_of (dict_update d e) k = (case map_of (rev e) k of None \<Rightarrow> map_of d k | Some v \<Rightarrow> Some v)"
  unfolding dict_update_def
  by (induction e rule: rev_induct) (auto split: option.splits prod.splits)

text \<open>\<open>d.get(k, dflt)\<close>.\<close>

definition dict_get_or :: "pydict \<Rightarrow> string \<Rightarrow> pyval \<Rightarrow> pyval" where
  "dict_get_or d k dflt = (case map_of d k of None \<Rightarrow> dflt | Some v \<Rightarrow> v)"

text \<open>The spellings of \<open>True\<close> in a setting: \<open>str(v).strip().lower() in {"1", "true", "yes", "on"}\<close>.\<close>

definition flag_text :: "string \<Rightarrow> bool" where
  "flag_text s = (py_lower (py_strip s) \<in> {''1'', ''true'', ''yes'', ''on''})"

definition py_flag :: "pyval \<Rightarrow> bool" where
  "py_flag v = (case v of VBool b \<Rightarrow> b | _ \<Rightarrow> flag_text (py_str v))"

text \<open>A value that is used as a dict; anything else reads as the empty one.\<close>

fun as_dict :: "pyval \<Rightarrow> pydict" where
  "as_dict (VDict d) = d"
| "as_dict _ = []"

fun as_list :: "pyval \<Rightarrow> pyval list" where
  "as_list (VList xs) = xs"
| "as_list _ = []"

end
