(* ===== verification/Prelude.thy ===== *)
theory Prelude
  imports PyValue
begin

text \<open>
  What the components share: the named collections their proofs use, the readings of nullable
  columns, generic facts on lists that serve as database tables, and the two chains of the
  code base (\<open>or\<close>-chains of strings and the first matching row of a query).
\<close>

named_theorems flow_simps \<open>defining equations of the components' operations\<close>
named_theorems table_simps \<open>reading a table after a write\<close>

section \<open>Nullable columns\<close>

text \<open>\<open>_float(v)\<close> and \<open>float(v or 0.0)\<close> on a nullable REAL column; \<open>str(v or "")\<close> on a TEXT one.\<close>

definition nz :: "rat option \<Rightarrow> rat" where
  "nz v = (case v of None \<Rightarrow> 0 | Some x \<Rightarrow> x)"

definition os :: "string option \<Rightarrow> string" where
  "os v = (case v of None \<Rightarrow> [] | Some s \<Rightarrow> s)"

text \<open>\<open>str(v or dflt)\<close> and \<open>x or y\<close> on numbers.\<close>

definition str_or :: "string option \<Rightarrow> string \<Rightarrow> string" where
  "str_or v dflt = (if os v = [] then dflt else os v)"

definition num_or :: "rat \<Rightarrow> rat \<Rightarrow> rat" where
  "num_or x y = (if x = 0 then y else x)"

text \<open>\<open>x or y\<close> on nullable texts and integers.\<close>

definition or_text :: "string option \<Rightarrow> string option \<Rightarrow> string option" where
  "or_text a b = (if os a = [] then b else a)"

definition or_int :: "int option \<Rightarrow> int option \<Rightarrow> int option" where
  "or_int a b = (if a = None \<or> a = Some 0 then b else a)"

lemma nz_simps [simp]: "nz None = 0" "nz (Some x) = x"
  by (simp_all add: nz_def)

lemma os_simps [simp]: "os None = []" "os (Some s) = s"
  by (simp_all add: os_def)

definition flt_opt :: "rat option \<Rightarrow> bool" where
  "flt_opt v \<longleftrightarrow> is_flt (nz v)"

lemma is_flt_num_or [simp]: "is_flt x \<Longrightarrow> is_flt y \<Longrightarrow> is_flt (num_or x y)"
  by (simp add: num_or_def)

lemma is_flt_max [simp]: "is_flt x \<Longrightarrow> is_flt y \<Longrightarrow> is_flt (max x y)"
  by (simp add: max_def)

lemma is_flt_min [simp]: "is_flt x \<Longrightarrow> is_flt y \<Longrightarrow> is_flt (min x y)"
  by (simp add: min_def)

section \<open>Tables\<close>

text \<open>
  A table is the list of its rows in insertion order. \<open>update_where p f t\<close> is
  \<open>UPDATE ... SET f WHERE p\<close>; a query returns the first row of \<open>p\<close> (\<open>LIMIT 1\<close>) or all of them.
\<close>

definition first_row :: "('r \<Rightarrow> bool) \<Rightarrow> 'r list \<Rightarrow> 'r option" where
  "first_row p t = find p t"

definition update_where :: "('r \<Rightarrow> bool) \<Rightarrow> ('r \<Rightarrow> 'r) \<Rightarrow> 'r list \<Rightarrow> 'r list" where
  "update_where p f t = map (\<lambda>r. if p r then f r else r) t"

lemma first_row_Nil [simp]: "first_row p [] = None"
  by (simp add: first_row_def)

lemma first_row_Cons [simp]: "first_row p (r # t) = (if p r then Some r else first_row p t)"
  by (simp add: first_row_def)

lemma update_where_Nil [simp]: "update_where p f [] = []"
  by (simp add: update_where_def)

lemma update_where_Cons [simp]:
  "update_where p f (r # t) = (if p r then f r else r) # update_where p f t"
  by (simp add: update_where_def)

lemma length_update_where [simp]: "length (update_where p f t) = length t"
  by (simp add: update_where_def)

lemma first_row_append:
  "first_row p (t @ u) = (case first_row p t of Some r \<Rightarrow> Some r | None \<Rightarrow> first_row p u)"
  by (induction t) auto

lemma first_row_SomeD: "first_row p t = Some r \<Longrightarrow> p r \<and> r \<in> set t"
  by (induction t) (auto split: if_splits)

lemma first_row_None_iff: "first_row p t = None \<longleftrightarrow> (\<forall>r \<in> set t. \<not> p r)"
  by (induction t) auto

text \<open>A write that keeps the key column, read back by key.\<close>

lemma first_row_update_key [table_simps]:
  assumes "\<And>r. key (f r) = key r"
  shows "first_row (\<lambda>r. key r = k) (update_where (\<lambda>r. key r = j) f t)
         = (if k = j then map_option f (first_row (\<lambda>r. key r = k) t)
            else first_row (\<lambda>r. key r = k) t)"
  using assms by (induction t) auto

lemma map_update_where:
  assumes "\<And>r. g (f r) = g r"
  shows "map g (update_where p f t) = map g t"
  using assms by (induction t) auto

lemma set_update_where: "set (update_where p f t) = (\<lambda>r. if p r then f r else r) ` set t"
  by (simp add: update_where_def)

lemma in_update_whereE:
  assumes "r \<in> set (update_where p f t)"
  obtains x where "x \<in> set t" "p x" "r = f x" | "r \<in> set t" "\<not> p r"
  using assms by (auto simp: set_update_where split: if_splits)

lemma list_all_update_where:
  "list_all Q (update_where p f t) = list_all (\<lambda>x. Q (if p x then f x else x)) t"
  by (induction t) auto

lemma update_where_id: "(\<And>r. r \<in> set t \<Longrightarrow> p r \<Longrightarrow> f r = r) \<Longrightarrow> update_where p f t = t"
  by (induction t) auto

text \<open>Rows sorted \<open>ORDER BY k DESC\<close> (last inserted first among equals), \<open>LIMIT 1\<close>.\<close>

definition order_desc :: "('r \<Rightarrow> 'k::linorder) \<Rightarrow> 'r list \<Rightarrow> 'r list" where
  "order_desc k t = rev (sort_key k t)"

lemma set_order_desc [simp]: "set (order_desc k t) = set t"
  by (simp add: order_desc_def)

definition head_row :: "'r list \<Rightarrow> 'r option" where
  "head_row t = (case t of [] \<Rightarrow> None | r # _ \<Rightarrow> Some r)"

lemma head_row_simps [simp]: "head_row [] = None" "head_row (r # t) = Some r"
  by (simp_all add: head_row_def)

lemma head_row_SomeD: "head_row t = Some r \<Longrightarrow> r \<in> set t"
  by (cases t) auto

end
