(* ===== verification/FillsLedger.thy ===== *)
theory FillsLedger
  imports Prelude
begin

text \<open>
  The exchange fill ledger and its FIFO accounting (\<open>app/exchange_fills_ledger.py\<close>): the
  canonical key of a fill, the queue of open lots per market, the consumption of lots by a
  sell, the running totals, the open positions left at the end and the report of
  \<open>compute_realized_pnl_from_ledger\<close>. SHA-256 is a parameter \<open>sha\<close>: nothing here depends on it.
\<close>

section \<open>Rows, lots and the state of the loop\<close>

text \<open>
  The keys of a ledger row that the accounting reads; \<open>None\<close> is NULL or a missing key. The last
  four are the alternative keys \<open>exchange\<close>, \<open>trade_uuid\<close>, \<open>strategy_name\<close> and \<open>session_id\<close>.
\<close>

record fill_row =
  fr_id :: "int option"
  exchange_name :: "string option"
  exchange_order_uuid :: "string option"
  exchange_fill_id :: "string option"
  fill_key :: "string option"
  fr_symbol :: "string option"
  fr_market :: "string option"
  fr_side :: "string option"
  fr_price :: "rat option"
  fr_quantity :: "rat option"
  executed_value :: "rat option"
  fr_fee :: "rat option"
  fee_currency :: "string option"
  fill_sequence :: "int option"
  executed_at_utc :: "string option"
  matched_strategy_name :: "string option"
  matched_session_id :: "int option"
  fr_exchange :: "string option"
  trade_uuid :: "string option"
  strategy_name_alt :: "string option"
  session_id_alt :: "int option"

record lot =
  lot_quantity :: rat
  lot_cost :: rat
  lot_fee :: rat

record matched_lot =
  ml_quantity :: rat
  ml_cost_basis :: rat
  ml_buy_fee :: rat
  ml_quantity_before :: rat
  ml_cost_before :: rat

record queue_snapshot =
  qs_quantity :: rat
  qs_cost_basis :: rat
  qs_fee_basis :: rat
  qs_avg_entry_price :: rat
  qs_lot_count :: nat

record realized_trade =
  rt_market :: string
  rt_order_uuid :: "string option"
  rt_strategy_name :: "string option"
  rt_session_id :: "int option"
  rt_executed_value :: rat
  rt_basis :: rat
  rt_gross :: rat
  rt_buy_fee :: rat
  rt_sell_fee :: rat
  rt_net :: rat
  rt_unpaired_quantity :: rat

record fifo_trace_row =
  ft_fill_id :: pyval
  ft_row :: fill_row
  ft_symbol :: string
  ft_before :: queue_snapshot
  ft_after :: queue_snapshot
  ft_matched :: "matched_lot list"
  ft_before_fee :: rat
  ft_fee :: rat
  ft_after_fee :: rat
  ft_remaining_quantity :: rat
  ft_remaining_cost_basis :: rat
  ft_avg_entry_price :: rat
  ft_error :: "string option"
  ft_warnings :: "string list"

record fifo_state =
  lots :: "string \<Rightarrow> lot list"
  touched :: "string list"
  gross :: rat
  buy_fee_total :: rat
  sell_fee_total :: rat
  non_krw_fee_total :: rat
  unpaired_sell_value :: rat
  realized_trades :: "realized_trade list"
  fifo_trace :: "fifo_trace_row list"
  warning_log :: "string list"
  fill_keys_seen :: "string list"
  buy_count :: nat
  sell_count :: nat
  buy_value :: rat
  sell_value :: rat

definition fifo_init :: fifo_state where
  "fifo_init = \<lparr>lots = (\<lambda>_. []), touched = [], gross = 0, buy_fee_total = 0, sell_fee_total = 0,
     non_krw_fee_total = 0, unpaired_sell_value = 0, realized_trades = [], fifo_trace = [],
     warning_log = [], fill_keys_seen = [], buy_count = 0, sell_count = 0, buy_value = 0,
     sell_value = 0\<rparr>"

text \<open>The tolerance \<open>0.000000000001\<close>.\<close>

definition qty_eps :: rat where
  "qty_eps = rnd (1 / 10 ^ 12)"

section \<open>The key of a fill\<close>

definition fill_num :: "rat option \<Rightarrow> string" where
  "fill_num v = float_fixed 12 (nz v)"

fun join_bar :: "string list \<Rightarrow> string" where
  "join_bar [] = []"
| "join_bar [s] = s"
| "join_bar (s # t # ss) = s @ ''|'' @ join_bar (t # ss)"

definition canonical_fill_key :: "(string \<Rightarrow> string) \<Rightarrow> fill_row \<Rightarrow> string" where
  "canonical_fill_key sha f =
     (let fill_id = os (or_text (exchange_fill_id f) (trade_uuid f));
          exchange = str_or (or_text (exchange_name f) (fr_exchange f)) ''bithumb''
      in if fill_id \<noteq> []
         then sha (join_bar [exchange, os (exchange_order_uuid f), fill_id])
         else sha (join_bar
           [exchange, os (exchange_order_uuid f), os (fr_symbol f), os (fr_side f),
            fill_num (fr_price f), fill_num (fr_quantity f), fill_num (fr_fee f), os (executed_at_utc f),
            (case fill_sequence f of None \<Rightarrow> [] | Some i \<Rightarrow> int_str i)]))"

definition row_key :: "(string \<Rightarrow> string) \<Rightarrow> fill_row \<Rightarrow> string" where
  "row_key sha r = str_or (fill_key r) (canonical_fill_key sha r)"

section \<open>Lots\<close>

definition queue_snapshot_of :: "lot list \<Rightarrow> queue_snapshot" where
  "queue_snapshot_of q =
     (let quantity = py_sum (map lot_quantity q); cost = py_sum (map lot_cost q); fee = py_sum (map lot_fee q)
      in \<lparr>qs_quantity = quantity, qs_cost_basis = cost, qs_fee_basis = fee,
          qs_avg_entry_price = (if quantity \<noteq> 0 then fdiv cost quantity else 0),
          qs_lot_count = length q\<rparr>)"

text \<open>One round of the matching loop takes \<open>used\<close> from the lot at the head of the queue.\<close>

definition take_ratio :: "rat \<Rightarrow> lot \<Rightarrow> rat" where
  "take_ratio used l = (if lot_quantity l > 0 then fdiv used (lot_quantity l) else 0)"

definition lot_after :: "rat \<Rightarrow> lot \<Rightarrow> lot" where
  "lot_after used l = (let ratio = take_ratio used l in
     \<lparr>lot_quantity = fsub (lot_quantity l) used,
      lot_cost = fsub (lot_cost l) (fmul (lot_cost l) ratio),
      lot_fee = fsub (lot_fee l) (fmul (lot_fee l) ratio)\<rparr>)"

definition lot_match :: "rat \<Rightarrow> lot \<Rightarrow> matched_lot" where
  "lot_match used l = (let ratio = take_ratio used l in
     \<lparr>ml_quantity = used, ml_cost_basis = fmul (lot_cost l) ratio, ml_buy_fee = fmul (lot_fee l) ratio,
      ml_quantity_before = lot_quantity l, ml_cost_before = lot_cost l\<rparr>)"

record sell_progress =
  sp_remaining :: rat
  sp_basis :: rat
  sp_buy_fee :: rat
  sp_matched :: "matched_lot list"

definition sell_round :: "lot \<Rightarrow> sell_progress \<Rightarrow> sell_progress" where
  "sell_round l p =
     (let used = min (sp_remaining p) (lot_quantity l); m = lot_match used l
      in \<lparr>sp_remaining = fsub (sp_remaining p) used,
          sp_basis = fadd (sp_basis p) (ml_cost_basis m),
          sp_buy_fee = fadd (sp_buy_fee p) (ml_buy_fee m),
          sp_matched = sp_matched p @ [m]\<rparr>)"

text \<open>
  \<open>while remaining > 0 and lots[market]\<close>. A round either empties the head lot, which is then
  popped, or it exhausts \<open>remaining\<close>: that is why the loop stops.
\<close>

function consume_lots :: "lot list \<Rightarrow> sell_progress \<Rightarrow> lot list \<times> sell_progress" where
  "consume_lots q p =
     (if sp_remaining p > 0
      then (case q of
              [] \<Rightarrow> ([], p)
            | l # ls \<Rightarrow>
                (let l' = lot_after (min (sp_remaining p) (lot_quantity l)) l
                 in consume_lots (if lot_quantity l' \<le> qty_eps then ls else l' # ls) (sell_round l p)))
      else (q, p))"
  by pat_completeness auto

lemma qty_eps_pos: "0 < qty_eps" and is_flt_qty_eps [simp]: "is_flt qty_eps"
  by (code_simp, simp add: qty_eps_def)

lemma round_progress:
  "lot_quantity (lot_after (min r (lot_quantity l)) l) \<le> qty_eps \<or> fsub r (min r (lot_quantity l)) = 0"
  using qty_eps_pos by (simp add: lot_after_def Let_def min_def)

termination consume_lots
proof (relation "measure (\<lambda>(q, p). 2 * length q + (if sp_remaining p > 0 then 1 else 0))")
  fix q :: "lot list" and p :: sell_progress and l ls x
  assume "sp_remaining p > 0" "q = l # ls" "x = lot_after (min (sp_remaining p) (lot_quantity l)) l"
  then show "((if lot_quantity x \<le> qty_eps then ls else x # ls, sell_round l p), q, p)
      \<in> measure (\<lambda>(q, p). 2 * length q + (if sp_remaining p > 0 then 1 else 0))"
    using round_progress[of "sp_remaining p" l] by (auto simp: sell_round_def Let_def)
qed simp

declare consume_lots.simps [simp del]

section \<open>One ledger row\<close>

definition sort_rows :: "fill_row list \<Rightarrow> fill_row list" where
  "sort_rows rows = sort_key (\<lambda>r. (os (executed_at_utc r), case fr_id r of None \<Rightarrow> 0 | Some i \<Rightarrow> i)) rows"

definition row_side :: "fill_row \<Rightarrow> string" where
  "row_side r = py_upper (os (fr_side r))"

definition row_fee_currency :: "fill_row \<Rightarrow> string" where
  "row_fee_currency r = py_upper (str_or (fee_currency r) ''KRW'')"

definition row_fee :: "fill_row \<Rightarrow> rat" where
  "row_fee r = (if row_fee_currency r = ''KRW'' then nz (fr_fee r) else 0)"

definition row_warnings :: "(string \<Rightarrow> string) \<Rightarrow> fifo_state \<Rightarrow> fill_row \<Rightarrow> string list" where
  "row_warnings sha s r =
     (if row_key sha r \<in> set (fill_keys_seen s) then [''DUPLICATE_FILL_KEY_REAPPLIED''] else []) @
     (if row_fee_currency r \<noteq> ''KRW'' then [''NON_KRW_FEE_NOT_CONVERTED''] else [])"

definition fifo_trace_row_of ::
  "nat \<Rightarrow> fill_row \<Rightarrow> queue_snapshot \<Rightarrow> queue_snapshot \<Rightarrow> matched_lot list \<Rightarrow> rat \<Rightarrow> rat \<Rightarrow> rat \<Rightarrow> string list \<Rightarrow> fifo_trace_row"
where
  "fifo_trace_row_of index r before after matched gr fe net ws =
     \<lparr>ft_fill_id = (case fr_id r of
          Some i \<Rightarrow> if i \<noteq> 0 then VInt i else if os (exchange_fill_id r) \<noteq> [] then VStr (os (exchange_fill_id r)) else VInt (int index + 1)
        | None \<Rightarrow> if os (exchange_fill_id r) \<noteq> [] then VStr (os (exchange_fill_id r)) else VInt (int index + 1)),
      ft_row = r,
      ft_symbol = str_or (fr_symbol r) (after_last_dash (os (fr_market r))), ft_before = before, ft_after = after, ft_matched = matched,
      ft_before_fee = gr, ft_fee = fe, ft_after_fee = net,
      ft_remaining_quantity = qs_quantity after, ft_remaining_cost_basis = qs_cost_basis after,
      ft_avg_entry_price = qs_avg_entry_price after,
      ft_error = (case ws of [] \<Rightarrow> None | w # _ \<Rightarrow> Some w), ft_warnings = ws\<rparr>"

text \<open>The bookkeeping every row does before its side is looked at.\<close>

definition row_prologue :: "(string \<Rightarrow> string) \<Rightarrow> fifo_state \<Rightarrow> fill_row \<Rightarrow> fifo_state" where
  "row_prologue sha s r =
     s\<lparr>fill_keys_seen := fill_keys_seen s @ [row_key sha r],
       non_krw_fee_total := (if row_fee_currency r \<noteq> ''KRW'' then fadd (non_krw_fee_total s) (nz (fr_fee r))
                             else non_krw_fee_total s),
       touched := touched s @ [os (fr_market r)]\<rparr>"

definition note_row :: "nat \<Rightarrow> fill_row \<Rightarrow> queue_snapshot \<Rightarrow> matched_lot list \<Rightarrow> rat \<Rightarrow> rat \<Rightarrow> rat \<Rightarrow> string list \<Rightarrow> fifo_state \<Rightarrow> fifo_state" where
  "note_row index r before matched gr fe net ws s =
     s\<lparr>warning_log := warning_log s @ ws,
       fifo_trace := fifo_trace s @
         [fifo_trace_row_of index r before (queue_snapshot_of (lots s (os (fr_market r)))) matched gr fe net ws]\<rparr>"

definition buy_row :: "fill_row \<Rightarrow> fifo_state \<Rightarrow> fifo_state" where
  "buy_row r s = (let m = os (fr_market r); value = nz (executed_value r) in
     s\<lparr>lots := (lots s)(m := lots s m @ [\<lparr>lot_quantity = nz (fr_quantity r), lot_cost = value, lot_fee = row_fee r\<rparr>]),
       buy_fee_total := fadd (buy_fee_total s) (row_fee r),
       buy_count := Suc (buy_count s),
       buy_value := fadd (buy_value s) value\<rparr>)"

definition sell_start :: "fill_row \<Rightarrow> sell_progress" where
  "sell_start r = \<lparr>sp_remaining = nz (fr_quantity r), sp_basis = 0, sp_buy_fee = 0, sp_matched = []\<rparr>"

definition realized_trade_of :: "fill_row \<Rightarrow> sell_progress \<Rightarrow> realized_trade" where
  "realized_trade_of r p =
     (let value = nz (executed_value r);
          trade_gross = fsub value (sp_basis p);
          trade_fee = fadd (sp_buy_fee p) (row_fee r)
      in \<lparr>rt_market = os (fr_market r), rt_order_uuid = exchange_order_uuid r,
          rt_strategy_name = or_text (matched_strategy_name r) (strategy_name_alt r),
          rt_session_id = or_int (matched_session_id r) (session_id_alt r),
          rt_executed_value = value, rt_basis = sp_basis p, rt_gross = trade_gross,
          rt_buy_fee = sp_buy_fee p, rt_sell_fee = row_fee r,
          rt_net = fsub trade_gross trade_fee, rt_unpaired_quantity = sp_remaining p\<rparr>)"

definition sell_row :: "fill_row \<Rightarrow> sell_progress \<Rightarrow> lot list \<Rightarrow> fifo_state \<Rightarrow> fifo_state" where
  "sell_row r p q s =
     (let m = os (fr_market r); value = nz (executed_value r); t = realized_trade_of r p in
      s\<lparr>lots := (lots s)(m := q),
        sell_count := Suc (sell_count s),
        sell_value := fadd (sell_value s) value,
        unpaired_sell_value :=
          (if sp_remaining p > qty_eps
           then fadd (unpaired_sell_value s) (fmul value (fdiv (sp_remaining p) (nz (fr_quantity r))))
           else unpaired_sell_value s),
        sell_fee_total := fadd (sell_fee_total s) (row_fee r),
        gross := fadd (gross s) (rt_gross t),
        realized_trades := realized_trades s @ [t]\<rparr>)"

definition fifo_step :: "(string \<Rightarrow> string) \<Rightarrow> nat \<Rightarrow> fill_row \<Rightarrow> fifo_state \<Rightarrow> fifo_state" where
  "fifo_step sha index r s0 =
     (let ws = row_warnings sha s0 r;
          s = row_prologue sha s0 r;
          m = os (fr_market r);
          before = queue_snapshot_of (lots s m)
      in if nz (fr_quantity r) \<le> 0
         then note_row index r before [] 0 0 0 (ws @ [''NON_POSITIVE_QUANTITY'']) s
         else if row_side r = ''BUY''
         then note_row index r before [] 0 0 0 ws (buy_row r s)
         else if row_side r \<noteq> ''SELL''
         then note_row index r before [] 0 0 0 (ws @ [''UNKNOWN_SIDE_IGNORED'']) s
         else (let (q, p) = consume_lots (lots s m) (sell_start r);
                   t = realized_trade_of r p;
                   ws' = (if sp_remaining p > qty_eps then ws @ [''SELL_EXCEEDS_OPEN_QUANTITY''] else ws)
               in note_row index r before (sp_matched p) (rt_gross t) (fadd (rt_buy_fee t) (rt_sell_fee t))
                    (rt_net t) ws' (sell_row r p q s)))"

fun fifo_run :: "(string \<Rightarrow> string) \<Rightarrow> nat \<Rightarrow> fill_row list \<Rightarrow> fifo_state \<Rightarrow> fifo_state" where
  "fifo_run sha index [] s = s"
| "fifo_run sha index (r # rs) s = fifo_run sha (Suc index) rs (fifo_step sha index r s)"

section \<open>The report\<close>

record open_position_row =
  op_market :: string
  op_quantity :: rat
  op_cost_basis :: rat
  op_fee_basis :: rat
  op_avg_entry_price :: rat
  op_price :: rat
  op_value :: rat
  op_unrealized :: rat
  op_exit_fee :: rat
  op_unrealized_after_fee :: rat

definition open_position_of :: "(string \<rightharpoonup> rat) \<Rightarrow> rat \<Rightarrow> string \<Rightarrow> lot list \<Rightarrow> open_position_row" where
  "open_position_of prices fee_rate m q =
     (let quantity = py_sum (map lot_quantity q); cost = py_sum (map lot_cost q);
          fee_basis = py_sum (map lot_fee q);
          price = nz (prices m); value = fmul quantity price;
          unrealized = fsub value cost; exit_fee = max (fmul value fee_rate) 0
      in \<lparr>op_market = m, op_quantity = quantity, op_cost_basis = cost, op_fee_basis = fee_basis,
          op_avg_entry_price = (if quantity \<noteq> 0 then fdiv cost quantity else 0),
          op_price = price, op_value = value, op_unrealized = unrealized, op_exit_fee = exit_fee,
          op_unrealized_after_fee = fsub unrealized exit_fee\<rparr>)"

definition fsum_seq :: "rat list \<Rightarrow> rat" where
  "fsum_seq xs = foldl fadd 0 xs"

record ledger_report =
  lr_fill_count :: nat
  lr_buy_count :: nat
  lr_sell_count :: nat
  lr_buy_value :: rat
  lr_sell_value :: rat
  lr_gross :: rat
  lr_buy_fee_total :: rat
  lr_sell_fee_total :: rat
  lr_realized_fee_total :: rat
  lr_non_krw_fee_total :: rat
  lr_net :: rat
  lr_open_cost_basis :: rat
  lr_open_quantity :: rat
  lr_avg_entry_price :: rat
  lr_unrealized :: rat
  lr_exit_fee :: rat
  lr_unrealized_after_fee :: rat
  lr_total_pnl :: rat
  lr_open_positions :: "open_position_row list"
  lr_unpaired_sell_value :: rat
  lr_realized_trade_count :: nat
  lr_realized_trades :: "realized_trade list"
  lr_fifo_trace :: "fifo_trace_row list"
  lr_trace_count :: nat
  lr_warning_counts :: "(string \<times> nat) list"
  lr_duplicate_fill_key_count :: nat
  lr_sell_exceeds_count :: nat

text \<open>\<open>Counter\<close>: the distinct elements, sorted, with their counts.\<close>

definition counter :: "string list \<Rightarrow> (string \<times> nat) list" where
  "counter xs = map (\<lambda>x. (x, count_list xs x)) (sort (remdups xs))"

definition duplicate_count :: "string list \<Rightarrow> nat" where
  "duplicate_count xs = length (filter (\<lambda>x. 1 < count_list xs x) (remdups xs))"

definition ledger_report_of :: "(string \<rightharpoonup> rat) \<Rightarrow> rat \<Rightarrow> nat \<Rightarrow> fifo_state \<Rightarrow> ledger_report" where
  "ledger_report_of prices fee_rate n s =
     (let ops = map (\<lambda>m. open_position_of prices fee_rate m (lots s m)) (sort (remdups (touched s)));
          open_cost = fsum_seq (map op_cost_basis ops);
          open_qty = fsum_seq (map op_quantity ops);
          unreal = fsum_seq (map op_unrealized ops);
          exit_fee = fsum_seq (map op_exit_fee ops);
          realized_fee = py_sum (map (\<lambda>t. fadd (rt_buy_fee t) (rt_sell_fee t)) (realized_trades s));
          net = fsub (gross s) realized_fee
      in \<lparr>lr_fill_count = n, lr_buy_count = buy_count s, lr_sell_count = sell_count s,
          lr_buy_value = buy_value s, lr_sell_value = sell_value s, lr_gross = gross s,
          lr_buy_fee_total = buy_fee_total s, lr_sell_fee_total = sell_fee_total s,
          lr_realized_fee_total = realized_fee, lr_non_krw_fee_total = non_krw_fee_total s,
          lr_net = net, lr_open_cost_basis = open_cost, lr_open_quantity = open_qty,
          lr_avg_entry_price = (if open_qty \<noteq> 0 then fdiv open_cost open_qty else 0),
          lr_unrealized = unreal, lr_exit_fee = exit_fee,
          lr_unrealized_after_fee = fsub unreal exit_fee,
          lr_total_pnl = fsub (fadd net unreal) exit_fee,
          lr_open_positions = filter (\<lambda>pos. op_quantity pos > qty_eps) ops,
          lr_unpaired_sell_value = unpaired_sell_value s,
          lr_realized_trade_count = length (realized_trades s),
          lr_realized_trades = take 50 (realized_trades s),
          lr_fifo_trace = take 200 (fifo_trace s),
          lr_trace_count = length (fifo_trace s),
          lr_warning_counts = counter (warning_log s),
          lr_duplicate_fill_key_count = duplicate_count (fill_keys_seen s),
          lr_sell_exceeds_count = count_list (warning_log s) ''SELL_EXCEEDS_OPEN_QUANTITY''\<rparr>)"

definition compute_realized_pnl_from_ledger ::
  "(string \<Rightarrow> string) \<Rightarrow> (string \<rightharpoonup> rat) \<Rightarrow> rat \<Rightarrow> fill_row list \<Rightarrow> ledger_report" where
  "compute_realized_pnl_from_ledger sha prices fee_rate rows =
     ledger_report_of prices fee_rate (length rows) (fifo_run sha 0 (sort_rows rows) fifo_init)"


section \<open>Lemmas on the matching loop\<close>

definition lot_ok :: "lot \<Rightarrow> bool" where
  "lot_ok l \<longleftrightarrow> 0 < lot_quantity l \<and> is_flt (lot_quantity l)
     \<and> 0 \<le> lot_cost l \<and> is_flt (lot_cost l) \<and> 0 \<le> lot_fee l \<and> is_flt (lot_fee l)"

lemma consume_done: "sp_remaining p \<le> 0 \<Longrightarrow> consume_lots q p = (q, p)"
  by (simp add: consume_lots.simps)

lemma consume_Nil [simp]: "consume_lots [] p = ([], p)"
  by (simp add: consume_lots.simps)

lemma sell_round_simps [simp]:
  "sp_remaining (sell_round l p) = fsub (sp_remaining p) (min (sp_remaining p) (lot_quantity l))"
  "sp_matched (sell_round l p) = sp_matched p @ [lot_match (min (sp_remaining p) (lot_quantity l)) l]"
  by (simp_all add: sell_round_def Let_def)

lemma lot_after_whole: "lot_quantity (lot_after (lot_quantity l) l) = 0"
  by (simp add: lot_after_def Let_def)

text \<open>A round that leaves the lot in the queue ends the loop; otherwise the lot is popped.\<close>

lemma consume_Cons:
  assumes "0 < sp_remaining p"
  shows "consume_lots (l # ls) p =
    (let l' = lot_after (min (sp_remaining p) (lot_quantity l)) l
     in if lot_quantity l' \<le> qty_eps then consume_lots ls (sell_round l p) else (l' # ls, sell_round l p))"
proof -
  let ?l' = "lot_after (min (sp_remaining p) (lot_quantity l)) l"
  have "consume_lots (l # ls) p =
     consume_lots (if lot_quantity ?l' \<le> qty_eps then ls else ?l' # ls) (sell_round l p)"
    using assms by (subst consume_lots.simps) (simp add: Let_def)
  moreover have "consume_lots (?l' # ls) (sell_round l p) = (?l' # ls, sell_round l p)"
    if "\<not> lot_quantity ?l' \<le> qty_eps"
    using that round_progress[of "sp_remaining p" l] by (intro consume_done) simp
  ultimately show ?thesis by (simp add: Let_def)
qed

lemma lot_after_ok:
  assumes "lot_ok l" "0 \<le> used" "used \<le> lot_quantity l" "qty_eps < lot_quantity (lot_after used l)"
  shows "lot_ok (lot_after used l)"
proof -
  have r: "take_ratio used l \<le> 1"
    using assms(1-3) by (auto simp: take_ratio_def lot_ok_def intro: fdiv_le_1)
  have "fmul c (take_ratio used l) \<le> c" if "0 \<le> c" "is_flt c" for c
    using that r by (simp add: fmul_le_left)
  then show ?thesis
    using assms(1,4) qty_eps_pos by (auto simp: lot_ok_def lot_after_def Let_def intro: fsub_nonneg)
qed

lemma consume_lots_ok:
  assumes "\<forall>l \<in> set q. lot_ok l" "consume_lots q p = (q', p')"
  shows "\<forall>l \<in> set q'. lot_ok l"
  using assms
proof (induction q arbitrary: p)
  case (Cons l ls)
  show ?case
  proof (cases "0 < sp_remaining p")
    case True
    then have "0 \<le> min (sp_remaining p) (lot_quantity l)"
      using Cons.prems(1) by (simp add: lot_ok_def)
    then show ?thesis
      using Cons True lot_after_ok[of l "min (sp_remaining p) (lot_quantity l)"]
      by (auto simp: consume_Cons Let_def split: if_splits)
  qed (use Cons.prems in \<open>auto simp: consume_done\<close>)
qed simp

lemma consume_lots_ok_fst:
  "\<forall>l \<in> set q. lot_ok l \<Longrightarrow> l \<in> set (fst (consume_lots q p)) \<Longrightarrow> lot_ok l"
  using consume_lots_ok[of q p "fst (consume_lots q p)" "snd (consume_lots q p)"] by simp

text \<open>Either the sell is fully matched, or it has emptied the queue.\<close>

lemma consume_lots_exhausts:
  assumes "consume_lots q p = (q', p')"
  shows "sp_remaining p' \<le> 0 \<or> q' = []"
  using assms
proof (induction q arbitrary: p)
  case (Cons l ls)
  show ?case
  proof (cases "0 < sp_remaining p")
    case True
    then show ?thesis
      using Cons round_progress[of "sp_remaining p" l]
      by (auto simp: consume_Cons Let_def split: if_splits)
  qed (use Cons.prems in \<open>simp add: consume_done\<close>)
qed simp

lemma lot_match_whole:
  assumes "lot_ok l"
  shows "ml_quantity (lot_match (lot_quantity l) l) = lot_quantity l"
    "ml_cost_basis (lot_match (lot_quantity l) l) = lot_cost l"
    "ml_buy_fee (lot_match (lot_quantity l) l) = lot_fee l"
  using assms by (simp_all add: lot_match_def take_ratio_def lot_ok_def Let_def)

definition whole_match :: "lot \<Rightarrow> matched_lot \<Rightarrow> bool" where
  "whole_match l m \<longleftrightarrow> ml_quantity m = lot_quantity l \<and> ml_cost_basis m = lot_cost l \<and> ml_buy_fee m = lot_fee l"

text \<open>The oldest lots go first, each whole before the next is touched.\<close>

lemma consume_lots_prefix:
  assumes "\<forall>l \<in> set q. lot_ok l" "is_flt (sp_remaining p)" "consume_lots q p = (q', p')"
  shows "\<exists>ms. sp_matched p' = sp_matched p @ ms \<and> length ms \<le> length q
    \<and> map ml_quantity_before ms = map lot_quantity (take (length ms) q)
    \<and> (\<forall>i < length ms - 1. whole_match (q ! i) (ms ! i))
    \<and> (q' = drop (length ms) q \<or> ms \<noteq> [] \<and>
        q' = lot_after (ml_quantity (last ms)) (q ! (length ms - 1)) # drop (length ms) q)"
  using assms
proof (induction q arbitrary: p)
  case Nil
  then show ?case by (intro exI[of _ "[]"]) simp
next
  case (Cons l ls)
  show ?case
  proof (cases "0 < sp_remaining p")
    case False
    then show ?thesis using Cons.prems by (intro exI[of _ "[]"]) (simp add: consume_done)
  next
    case True
    let ?u = "min (sp_remaining p) (lot_quantity l)"
    let ?l' = "lot_after ?u l" and ?p' = "sell_round l p"
    have mb: "ml_quantity_before (lot_match ?u l) = lot_quantity l" "ml_quantity (lot_match ?u l) = ?u"
      by (simp_all add: lot_match_def Let_def)
    show ?thesis
    proof (cases "lot_quantity ?l' \<le> qty_eps")
      case False
      then show ?thesis
        using Cons.prems(3) True mb by (intro exI[of _ "[lot_match ?u l]"]) (auto simp: consume_Cons Let_def)
    next
      case pop: True
      have run: "consume_lots ls ?p' = (q', p')"
        using Cons.prems(3) True pop by (simp add: consume_Cons)
      obtain ms where ms: "sp_matched p' = sp_matched ?p' @ ms" "length ms \<le> length ls"
        "map ml_quantity_before ms = map lot_quantity (take (length ms) ls)"
        "\<forall>i < length ms - 1. whole_match (ls ! i) (ms ! i)"
        "q' = drop (length ms) ls \<or> ms \<noteq> [] \<and>
          q' = lot_after (ml_quantity (last ms)) (ls ! (length ms - 1)) # drop (length ms) ls"
        using Cons.IH[OF _ _ run] Cons.prems(1) by auto
      have "whole_match l (lot_match ?u l)" if "ms \<noteq> []"
      proof -
        have "?u = lot_quantity l"
        proof (rule ccontr)
          assume "?u \<noteq> lot_quantity l"
          then have "?u = sp_remaining p" by (simp add: min_def split: if_splits)
          then have "sp_remaining ?p' \<le> 0" by simp
          then have "sp_matched p' = sp_matched ?p'" using run by (simp add: consume_done)
          then show False using ms(1) that by simp
        qed
        then show ?thesis using lot_match_whole[of l] Cons.prems(1) by (simp add: whole_match_def)
      qed
      then show ?thesis
        using ms mb
        by (intro exI[of _ "lot_match ?u l # ms"])
          (auto simp: nth_Cons split: nat.splits)
    qed
  qed
qed


section \<open>Lemmas on the run\<close>

definition row_ok :: "fill_row \<Rightarrow> bool" where
  "row_ok r \<longleftrightarrow> 0 \<le> nz (executed_value r) \<and> is_flt (nz (executed_value r))
     \<and> 0 \<le> nz (fr_fee r) \<and> is_flt (nz (fr_fee r)) \<and> is_flt (nz (fr_quantity r))"

definition ledger_inv :: "fifo_state \<Rightarrow> bool" where
  "ledger_inv s \<longleftrightarrow> (\<forall>m. \<forall>l \<in> set (lots s m). lot_ok l)"

lemmas row_defs = fifo_step_def note_row_def buy_row_def sell_row_def row_prologue_def Let_def

lemma fifo_step_lots:
  "lots (fifo_step sha i r s) = (let m = os (fr_market r) in
     if nz (fr_quantity r) \<le> 0 then lots s
     else if row_side r = ''BUY'' then (lots s)(m := lots s m @
       [\<lparr>lot_quantity = nz (fr_quantity r), lot_cost = nz (executed_value r), lot_fee = row_fee r\<rparr>])
     else if row_side r = ''SELL'' then (lots s)(m := fst (consume_lots (lots s m) (sell_start r)))
     else lots s)"
  by (simp add: row_defs split: prod.split)

lemma fifo_step_trades:
  "realized_trades (fifo_step sha i r s) = realized_trades s @
     (if 0 < nz (fr_quantity r) \<and> row_side r = ''SELL''
      then [realized_trade_of r (snd (consume_lots (lots s (os (fr_market r))) (sell_start r)))] else [])"
  by (auto simp: row_defs split: prod.split)

lemma fifo_step_inv:
  assumes "row_ok r" "ledger_inv s"
  shows "ledger_inv (fifo_step sha i r s)"
  unfolding ledger_inv_def
proof (intro allI ballI)
  fix m l
  assume l: "l \<in> set (lots (fifo_step sha i r s) m)"
  let ?new = "\<lparr>lot_quantity = nz (fr_quantity r), lot_cost = nz (executed_value r), lot_fee = row_fee r\<rparr>"
  have new: "lot_ok ?new" if "0 < nz (fr_quantity r)"
    using assms(1) that by (auto simp: lot_ok_def row_ok_def row_fee_def)
  have old: "lot_ok l'" if "l' \<in> set (lots s m')" for l' m'
    using assms(2) that by (auto simp: ledger_inv_def)
  show "lot_ok l"
    using l new old consume_lots_ok_fst[of "lots s (os (fr_market r))" l "sell_start r"]
    by (simp add: fifo_step_lots Let_def not_le split: if_splits) blast+
qed

lemma fifo_run_inv: "\<forall>r \<in> set rs. row_ok r \<Longrightarrow> ledger_inv s \<Longrightarrow> ledger_inv (fifo_run sha i rs s)"
  by (induction rs arbitrary: i s) (auto intro: fifo_step_inv)

lemma ledger_inv_init: "ledger_inv fifo_init"
  by (simp add: ledger_inv_def fifo_init_def)

lemma fifo_step_counts:
  "length (fifo_trace (fifo_step sha i r s)) = Suc (length (fifo_trace s))"
  "sell_count (fifo_step sha i r s) + length (realized_trades s)
     = sell_count s + length (realized_trades (fifo_step sha i r s))"
  "buy_count (fifo_step sha i r s) + sell_count (fifo_step sha i r s) \<le> Suc (buy_count s + sell_count s)"
  by (auto simp: row_defs split: prod.splits)

lemma fifo_run_counts:
  "length (fifo_trace (fifo_run sha i rs s)) = length rs + length (fifo_trace s)
   \<and> sell_count (fifo_run sha i rs s) + length (realized_trades s)
     = sell_count s + length (realized_trades (fifo_run sha i rs s))
   \<and> buy_count (fifo_run sha i rs s) + sell_count (fifo_run sha i rs s) \<le> length rs + buy_count s + sell_count s"
proof (induction rs arbitrary: i s)
  case (Cons r rs)
  show ?case
    using Cons[of "Suc i" "fifo_step sha i r s"] fifo_step_counts[of sha i r s] by auto
qed simp

text \<open>A row of one market never touches the lots or the trades of another.\<close>

lemma fifo_step_other:
  assumes "os (fr_market r) \<noteq> m"
  shows "lots (fifo_step sha i r s) m = lots s m"
    "filter (\<lambda>t. rt_market t = m) (realized_trades (fifo_step sha i r s))
     = filter (\<lambda>t. rt_market t = m) (realized_trades s)"
  using assms by (auto simp: fifo_step_lots fifo_step_trades realized_trade_of_def Let_def)

lemma fifo_run_market:
  assumes "lots s m = lots s' m"
    "filter (\<lambda>t. rt_market t = m) (realized_trades s) = filter (\<lambda>t. rt_market t = m) (realized_trades s')"
  shows "lots (fifo_run sha i rs s) m = lots (fifo_run sha j (filter (\<lambda>r. os (fr_market r) = m) rs) s') m
    \<and> filter (\<lambda>t. rt_market t = m) (realized_trades (fifo_run sha i rs s))
      = filter (\<lambda>t. rt_market t = m) (realized_trades (fifo_run sha j (filter (\<lambda>r. os (fr_market r) = m) rs) s'))"
  using assms
proof (induction rs arbitrary: i j s s')
  case (Cons r rs)
  show ?case
  proof (cases "os (fr_market r) = m")
    case True
    have "lots (fifo_step sha i r s) m = lots (fifo_step sha j r s') m"
      using True Cons.prems(1) by (simp add: fifo_step_lots Let_def)
    moreover have "filter (\<lambda>t. rt_market t = m) (realized_trades (fifo_step sha i r s))
        = filter (\<lambda>t. rt_market t = m) (realized_trades (fifo_step sha j r s'))"
      using True Cons.prems by (simp add: fifo_step_trades)
    ultimately show ?thesis using True Cons.IH by simp
  next
    case False
    then show ?thesis
      using Cons.IH[of "fifo_step sha i r s" s' "Suc i" j] Cons.prems fifo_step_other[OF False] by simp
  qed
qed simp

lemma set_sort_rows [simp]: "set (sort_rows rs) = set rs"
  by (simp add: sort_rows_def)

lemma length_sort_rows [simp]: "length (sort_rows rs) = length rs"
  by (simp add: sort_rows_def)

lemma filter_sort_rows: "filter P (sort_rows rs) = sort_rows (filter P rs)"
  by (simp add: sort_rows_def filter_sort)


text \<open>A plain KRW fill, for concrete runs.\<close>

definition sample_fill :: "string \<Rightarrow> rat \<Rightarrow> rat \<Rightarrow> string \<Rightarrow> fill_row" where
  "sample_fill side quantity value tm =
     \<lparr>fr_id = None, exchange_name = None, exchange_order_uuid = Some ''C1'', exchange_fill_id = None,
      fill_key = Some (side @ tm), fr_symbol = None, fr_market = Some ''KRW-BTC'', fr_side = Some side,
      fr_price = None, fr_quantity = Some quantity, executed_value = Some value, fr_fee = Some 2,
      fee_currency = None, fill_sequence = None, executed_at_utc = Some tm,
      matched_strategy_name = None, matched_session_id = None, fr_exchange = None, trade_uuid = None,
      strategy_name_alt = None, session_id_alt = None\<rparr>"

section \<open>Properties\<close>

text \<open>
  C19. FIFO matching. A sell takes the open lots of its market oldest first: the matched lots are
  a prefix of the queue, each but the last taken whole at its full cost and fee, what stays in
  the queue is the rest of it (the last matched lot possibly reduced), and the loop ends with
  the sell fully matched or the queue empty.
\<close>

theorem sell_consumes_oldest_first:
  assumes "\<forall>l \<in> set q. lot_ok l" and "is_flt (nz (fr_quantity r))"
    and "consume_lots q (sell_start r) = (q', p)"
  shows "let ms = sp_matched p; n = length ms in
    n \<le> length q \<and> map ml_quantity_before ms = map lot_quantity (take n q)
    \<and> (\<forall>i < n - 1. ml_quantity (ms ! i) = lot_quantity (q ! i) \<and> ml_cost_basis (ms ! i) = lot_cost (q ! i)
          \<and> ml_buy_fee (ms ! i) = lot_fee (q ! i))
    \<and> (q' = drop n q \<or> 0 < n \<and> q' = lot_after (ml_quantity (last ms)) (q ! (n - 1)) # drop n q)
    \<and> (sp_remaining p \<le> 0 \<or> q' = [])"
  using consume_lots_prefix[OF assms(1) _ assms(3)] consume_lots_exhausts[OF assms(3)] assms(2)
  by (auto simp: sell_start_def whole_match_def Let_def)

theorem sell_consumes_oldest_first_witness:
  "\<exists>q' p. consume_lots [\<lparr>lot_quantity = 1, lot_cost = 1000, lot_fee = 1\<rparr>, \<lparr>lot_quantity = 2, lot_cost = 4000, lot_fee = 2\<rparr>]
      (sell_start (sample_fill ''SELL'' 2 9000 ''2026-01-01'')) = (q', p) \<and> (sp_remaining p \<le> 0 \<or> q' = [])"
proof -
  let ?q = "[\<lparr>lot_quantity = 1, lot_cost = 1000, lot_fee = 1\<rparr>, \<lparr>lot_quantity = 2, lot_cost = 4000, lot_fee = 2\<rparr>]"
  let ?r = "sample_fill ''SELL'' 2 9000 ''2026-01-01''"
  have h: "\<forall>l \<in> set ?q. lot_ok l" "is_flt (nz (fr_quantity ?r))"
    by (simp_all add: lot_ok_def sample_fill_def)
  obtain q' p where c: "consume_lots ?q (sell_start ?r) = (q', p)" by fastforce
  show ?thesis using sell_consumes_oldest_first[OF h c] c by (auto simp: Let_def)
qed

text \<open>
  C35. The open lots stay well formed: from rows with finite, non-negative values and fees, every
  lot left in a queue has a positive quantity and a non-negative cost and fee, whatever sells
  came in between.
\<close>

theorem ledger_lots_well_formed:
  assumes "\<forall>r \<in> set rows. row_ok r"
  shows "\<forall>l \<in> set (lots (fifo_run sha 0 (sort_rows rows) fifo_init) m).
    0 < lot_quantity l \<and> 0 \<le> lot_cost l \<and> 0 \<le> lot_fee l"
proof -
  have "ledger_inv (fifo_run sha 0 (sort_rows rows) fifo_init)"
    using assms by (intro fifo_run_inv ledger_inv_init) simp
  then show ?thesis by (simp add: ledger_inv_def lot_ok_def)
qed

theorem ledger_lots_well_formed_witness:
  "list_all (\<lambda>l. 0 < lot_quantity l \<and> 0 \<le> lot_cost l \<and> 0 \<le> lot_fee l)
    (lots (fifo_run (\<lambda>s. s) 0 (sort_rows [sample_fill ''SELL'' 1 5000 ''2026-01-02'',
      sample_fill ''BUY'' 3 12000 ''2026-01-01'']) fifo_init) ''KRW-BTC'')"
  unfolding list_all_iff by (rule ledger_lots_well_formed) (simp add: row_ok_def sample_fill_def)

text \<open>
  C36. Markets do not mix: the open lots and the realised trades of a market are those of the
  ledger's rows of this market alone.
\<close>

theorem ledger_markets_isolated:
  "let whole = fifo_run sha 0 (sort_rows rows) fifo_init;
       own = fifo_run sha 0 (sort_rows (filter (\<lambda>r. os (fr_market r) = m) rows)) fifo_init
   in lots whole m = lots own m
      \<and> filter (\<lambda>t. rt_market t = m) (realized_trades whole)
        = filter (\<lambda>t. rt_market t = m) (realized_trades own)"
  using fifo_run_market[of fifo_init m fifo_init sha 0 "sort_rows rows" 0]
  by (simp add: filter_sort_rows Let_def)

text \<open>
  Every ledger row is accounted once: the trace has one entry per row, each sell that is
  counted yields one realised trade, and buys and sells together never exceed the rows.
\<close>

lemma ledger_rows_accounted_once:
  "let rep = compute_realized_pnl_from_ledger sha prices fee_rate rows in
   lr_trace_count rep = lr_fill_count rep \<and> lr_realized_trade_count rep = lr_sell_count rep
   \<and> lr_buy_count rep + lr_sell_count rep \<le> lr_fill_count rep"
  using fifo_run_counts[of sha 0 "sort_rows rows" fifo_init]
  by (simp add: compute_realized_pnl_from_ledger_def ledger_report_of_def Let_def fifo_init_def)

text \<open>
  C21. Buying a quantity and selling exactly this quantity realises the difference of the two
  values less both fees, leaves no open position and no unpaired quantity.
\<close>

theorem ledger_round_trip:
  assumes b: "row_side b = ''BUY''" "row_ok b" "row_fee_currency b = ''KRW''" "0 < nz (fr_quantity b)"
    and s: "row_side s = ''SELL''" "row_ok s" "row_fee_currency s = ''KRW''"
    and same: "fr_market s = fr_market b" "fr_quantity s = fr_quantity b"
    and order: "os (executed_at_utc b) < os (executed_at_utc s)"
  shows "let rep = compute_realized_pnl_from_ledger sha prices fee_rate [s, b];
             gain = fsub (nz (executed_value s)) (nz (executed_value b));
             fees = fadd (nz (fr_fee b)) (nz (fr_fee s))
    in lr_net rep = fsub gain fees \<and> lr_gross rep = gain \<and> lr_realized_fee_total rep = fees
       \<and> lr_open_positions rep = [] \<and> lr_unpaired_sell_value rep = 0
       \<and> lr_buy_count rep = 1 \<and> lr_sell_count rep = 1"
proof -
  let ?l = "\<lparr>lot_quantity = nz (fr_quantity b), lot_cost = nz (executed_value b), lot_fee = nz (fr_fee b)\<rparr>"
  have l: "lot_ok ?l" using b by (auto simp: lot_ok_def row_ok_def)
  have cons: "consume_lots [?l] (sell_start s) = ([], sell_round ?l (sell_start s))"
    using b same qty_eps_pos
    by (simp add: consume_Cons sell_start_def Let_def lot_after_whole[of ?l, simplified] less_imp_le)
  have rnd: "sell_round ?l (sell_start s) =
     \<lparr>sp_remaining = 0, sp_basis = nz (executed_value b), sp_buy_fee = nz (fr_fee b),
      sp_matched = [lot_match (nz (fr_quantity b)) ?l]\<rparr>"
    using lot_match_whole[OF l] b same
    by (simp add: sell_round_def sell_start_def Let_def row_fee_def row_ok_def)
  have sorted: "sort_rows [s, b] = [b, s]"
    using order by (auto simp: sort_rows_def less_eq_prod_def)
  show ?thesis
    using b s same qty_eps_pos
    by (simp add: compute_realized_pnl_from_ledger_def sorted row_defs cons rnd fifo_init_def
        ledger_report_of_def realized_trade_of_def row_fee_def row_ok_def open_position_of_def fsum_seq_def)
qed

theorem ledger_round_trip_witness:
  "lr_net (compute_realized_pnl_from_ledger (\<lambda>s. s) (\<lambda>_. None) 0
     [sample_fill ''SELL'' 3 13000 ''2026-01-02'', sample_fill ''BUY'' 3 12000 ''2026-01-01'']) = 996"
proof -
  let ?b = "sample_fill ''BUY'' 3 12000 ''2026-01-01''" and ?s = "sample_fill ''SELL'' 3 13000 ''2026-01-02''"
  have "row_side ?b = ''BUY''" "row_ok ?b" "row_fee_currency ?b = ''KRW''" "0 < nz (fr_quantity ?b)"
    "row_side ?s = ''SELL''" "row_ok ?s" "row_fee_currency ?s = ''KRW''"
    "fr_market ?s = fr_market ?b" "fr_quantity ?s = fr_quantity ?b"
    "os (executed_at_utc ?b) < os (executed_at_utc ?s)"
    by (simp_all add: sample_fill_def row_side_def row_ok_def row_fee_currency_def str_or_def)
      (code_simp+)?
  from ledger_round_trip[OF this, of "\<lambda>s. s" "\<lambda>_. None" 0]
  show ?thesis by (simp add: Let_def sample_fill_def f_defs)
qed

end
