(* ===== verification/Settings.thy ===== *)
theory Settings
  imports Prelude
begin

text \<open>
  Runtime settings (\<open>app/aggression_presets.py\<close>): the three presets, the safety settings that no
  preset can weaken, the policy keys that no preset may carry, the order in which a setting is
  looked up (active preset, then process environment, then default), the typed readings of a
  setting, and the preview and application of a preset.
\<close>

section \<open>The presets\<close>

definition conservative_settings :: pydict where
  "conservative_settings =
    [(''AUTO_MAX_ORDER_KRW'', VInt 20000),
     (''MAX_LIVE_ORDER_KRW'', VInt 20000),
     (''RISK_MAX_ORDER_KRW'', VInt 20000),
     (''AUTO_MAX_ORDERS_PER_DAY'', VInt 2),
     (''AUTO_MAX_NEW_ENTRIES_PER_TICK'', VInt 1),
     (''AUTO_SINGLE_POSITION_MAX_EXPOSURE_PCT'', VInt 25),
     (''RISK_MAX_ORDERS_PER_DAY'', VInt 3),
     (''RISK_MAX_ENTRY_ORDERS_PER_DAY'', VInt 1),
     (''RISK_MAX_EXIT_ORDERS_PER_DAY'', VInt 10),
     (''AUTO_COOLDOWN_SECONDS'', VInt 2700),
     (''RISK_MIN_COOLDOWN_SECONDS'', VInt 2700),
     (''AUTO_SCALE_IN_ENABLED'', VBool False),
     (''AUTO_SCALE_IN_MAX_COUNT_PER_POSITION'', VInt 0),
     (''AUTO_SCALE_IN_MIN_POSITION_PNL_PERCENT'', VFloat (1 / 2)),
     (''AUTO_SCALE_IN_MAX_POSITION_EXPOSURE_PCT'', VInt 25),
     (''AUTO_SCALE_IN_MIN_INTERVAL_SECONDS'', VInt 3600),
     (''AUTO_SCALE_IN_REQUIRE_BUY_SIGNAL'', VBool True),
     (''AUTO_SCALE_IN_BLOCK_TREND_DOWN'', VBool True),
     (''AUTO_SCALE_IN_NO_AVERAGING_DOWN'', VBool True),
     (''AUTO_STOP_LOSS_PERCENT'', VFloat (rnd (3 / 5))),
     (''AUTO_TAKE_PROFIT_PERCENT'', VFloat (rnd (4 / 5))),
     (''AUTO_MAX_HOLD_MINUTES'', VInt 45),
     (''SMART_DYNAMIC_SIZING_ENABLED'', VBool True),
     (''SMART_DYNAMIC_SIZING_MODE'', VStr ''shadow''),
     (''SMART_DYNAMIC_SIZING_MIN_MULTIPLIER'', VFloat (1 / 2)),
     (''SMART_DYNAMIC_SIZING_MAX_MULTIPLIER'', VFloat 1),
     (''SMART_DYNAMIC_SIZING_MIN_CONFIDENCE'', VInt 40),
     (''SMART_DYNAMIC_SIZING_REQUIRE_POSITIVE_NET_EDGE'', VBool True),
     (''SMART_AGGRESSIVE_MAX_EXPOSURE_BREAKOUT'', VInt 55),
     (''SMART_AGGRESSIVE_MAX_EXPOSURE_TREND_UP'', VInt 45),
     (''SMART_AGGRESSIVE_MAX_EXPOSURE_RANGE'', VInt 25),
     (''RISK_MAX_POSITION_RATIO_PERCENT'', VInt 15),
     (''MAX_LIVE_POSITION_RATIO'', VFloat (1 / 4))]"

definition balanced_settings :: pydict where
  "balanced_settings =
    [(''AUTO_MAX_ORDER_KRW'', VInt 30000),
     (''MAX_LIVE_ORDER_KRW'', VInt 30000),
     (''RISK_MAX_ORDER_KRW'', VInt 30000),
     (''AUTO_MAX_ORDERS_PER_DAY'', VInt 3),
     (''AUTO_MAX_NEW_ENTRIES_PER_TICK'', VInt 2),
     (''AUTO_SINGLE_POSITION_MAX_EXPOSURE_PCT'', VInt 45),
     (''RISK_MAX_ORDERS_PER_DAY'', VInt 6),
     (''RISK_MAX_ENTRY_ORDERS_PER_DAY'', VInt 2),
     (''RISK_MAX_EXIT_ORDERS_PER_DAY'', VInt 10),
     (''AUTO_COOLDOWN_SECONDS'', VInt 1800),
     (''RISK_MIN_COOLDOWN_SECONDS'', VInt 1800),
     (''AUTO_SCALE_IN_ENABLED'', VBool True),
     (''AUTO_SCALE_IN_MAX_COUNT_PER_POSITION'', VInt 2),
     (''AUTO_SCALE_IN_MIN_POSITION_PNL_PERCENT'', VFloat 0),
     (''AUTO_SCALE_IN_MAX_POSITION_EXPOSURE_PCT'', VInt 45),
     (''AUTO_SCALE_IN_MIN_INTERVAL_SECONDS'', VInt 900),
     (''AUTO_SCALE_IN_REQUIRE_BUY_SIGNAL'', VBool True),
     (''AUTO_SCALE_IN_BLOCK_TREND_DOWN'', VBool True),
     (''AUTO_SCALE_IN_NO_AVERAGING_DOWN'', VBool True),
     (''AUTO_STOP_LOSS_PERCENT'', VFloat (rnd (4 / 5))),
     (''AUTO_TAKE_PROFIT_PERCENT'', VFloat (rnd (6 / 5))),
     (''AUTO_MAX_HOLD_MINUTES'', VInt 90),
     (''SMART_DYNAMIC_SIZING_ENABLED'', VBool True),
     (''SMART_DYNAMIC_SIZING_MODE'', VStr ''shadow''),
     (''SMART_DYNAMIC_SIZING_MIN_MULTIPLIER'', VFloat (1 / 2)),
     (''SMART_DYNAMIC_SIZING_MAX_MULTIPLIER'', VFloat (3 / 2)),
     (''SMART_DYNAMIC_SIZING_MIN_CONFIDENCE'', VInt 30),
     (''SMART_DYNAMIC_SIZING_REQUIRE_POSITIVE_NET_EDGE'', VBool True),
     (''SMART_AGGRESSIVE_MAX_EXPOSURE_BREAKOUT'', VInt 70),
     (''SMART_AGGRESSIVE_MAX_EXPOSURE_TREND_UP'', VInt 60),
     (''SMART_AGGRESSIVE_MAX_EXPOSURE_RANGE'', VInt 45),
     (''RISK_MAX_POSITION_RATIO_PERCENT'', VInt 20),
     (''MAX_LIVE_POSITION_RATIO'', VFloat (1 / 2))]"

definition aggressive_settings :: pydict where
  "aggressive_settings =
    [(''AUTO_MAX_ORDER_KRW'', VInt 50000),
     (''MAX_LIVE_ORDER_KRW'', VInt 50000),
     (''RISK_MAX_ORDER_KRW'', VInt 50000),
     (''AUTO_MAX_ORDERS_PER_DAY'', VInt 6),
     (''AUTO_MAX_NEW_ENTRIES_PER_TICK'', VInt 3),
     (''AUTO_SINGLE_POSITION_MAX_EXPOSURE_PCT'', VInt 60),
     (''RISK_MAX_ORDERS_PER_DAY'', VInt 10),
     (''RISK_MAX_ENTRY_ORDERS_PER_DAY'', VInt 4),
     (''RISK_MAX_EXIT_ORDERS_PER_DAY'', VInt 10),
     (''AUTO_COOLDOWN_SECONDS'', VInt 900),
     (''RISK_MIN_COOLDOWN_SECONDS'', VInt 900),
     (''AUTO_SCALE_IN_ENABLED'', VBool True),
     (''AUTO_SCALE_IN_MAX_COUNT_PER_POSITION'', VInt 3),
     (''AUTO_SCALE_IN_MIN_POSITION_PNL_PERCENT'', VFloat (rnd (1 / 5))),
     (''AUTO_SCALE_IN_MAX_POSITION_EXPOSURE_PCT'', VInt 60),
     (''AUTO_SCALE_IN_MIN_INTERVAL_SECONDS'', VInt 600),
     (''AUTO_SCALE_IN_REQUIRE_BUY_SIGNAL'', VBool True),
     (''AUTO_SCALE_IN_BLOCK_TREND_DOWN'', VBool True),
     (''AUTO_SCALE_IN_NO_AVERAGING_DOWN'', VBool True),
     (''AUTO_STOP_LOSS_PERCENT'', VFloat 1),
     (''AUTO_TAKE_PROFIT_PERCENT'', VFloat (rnd (9 / 5))),
     (''AUTO_MAX_HOLD_MINUTES'', VInt 120),
     (''SMART_DYNAMIC_SIZING_ENABLED'', VBool True),
     (''SMART_DYNAMIC_SIZING_MODE'', VStr ''apply''),
     (''SMART_DYNAMIC_SIZING_MIN_MULTIPLIER'', VFloat (1 / 2)),
     (''SMART_DYNAMIC_SIZING_MAX_MULTIPLIER'', VFloat (rnd (9 / 5))),
     (''SMART_DYNAMIC_SIZING_MIN_CONFIDENCE'', VInt 35),
     (''SMART_DYNAMIC_SIZING_REQUIRE_POSITIVE_NET_EDGE'', VBool True),
     (''SMART_AGGRESSIVE_MAX_EXPOSURE_BREAKOUT'', VInt 85),
     (''SMART_AGGRESSIVE_MAX_EXPOSURE_TREND_UP'', VInt 75),
     (''SMART_AGGRESSIVE_MAX_EXPOSURE_RANGE'', VInt 55),
     (''RISK_MAX_POSITION_RATIO_PERCENT'', VInt 30),
     (''MAX_LIVE_POSITION_RATIO'', VFloat (rnd (3 / 5)))]"

definition presets :: "(string \<times> string \<times> pydict) list" where
  "presets = [(''conservative'', ''Conservative'', conservative_settings),
    (''balanced'', ''Balanced'', balanced_settings), (''aggressive'', ''Aggressive'', aggressive_settings)]"

definition forced_safety_settings :: pydict where
  "forced_safety_settings =
   [(''AUTO_SCALE_IN_NO_AVERAGING_DOWN'', VBool True),
    (''RISK_BLOCK_ON_BALANCE_MISMATCH'', VBool True),
    (''RISK_BLOCK_ON_OPEN_ORDER'', VBool True),
    (''RISK_BLOCK_ON_PARTIAL_FILL'', VBool True),
    (''RISK_REQUIRE_ORDER_CHANCE_SUCCESS'', VBool True)]"

definition protected_policy_keys :: "string list" where
  "protected_policy_keys = [''auto_trading_enabled'', ''daily_loss_limit_pct'', ''max_total_exposure_krw'']"

definition apply_forced_safety :: "pydict \<Rightarrow> pydict" where
  "apply_forced_safety settings =
     dict_update (filter (\<lambda>(k, _). k \<notin> set protected_policy_keys) settings) forced_safety_settings"

section \<open>Looking a setting up\<close>

text \<open>The process environment and the \<open>app_settings\<close> table as \<open>load_app_settings\<close> returns it.\<close>

record runtime =
  environ :: "string \<rightharpoonup> string"
  app_settings :: pydict

definition preset_key :: string where "preset_key = ''aggression_preset''"

definition settings_of_payload :: "pydict \<Rightarrow> pydict" where
  "settings_of_payload payload = (case dict_get payload ''settings'' of VDict d \<Rightarrow> d | _ \<Rightarrow> [])"

definition load_active_aggression_preset :: "runtime \<Rightarrow> pydict" where
  "load_active_aggression_preset rt = (case dict_get (app_settings rt) preset_key of
     VDict payload \<Rightarrow> dict_put (dict_put payload ''settings'' (VDict (apply_forced_safety (settings_of_payload payload))))
       ''active'' (VBool (truthy (dict_get payload ''name'')))
   | _ \<Rightarrow> [(''name'', VNone), (''settings'', VDict []), (''active'', VBool False)])"

definition active_settings :: "runtime \<Rightarrow> pydict" where
  "active_settings rt = settings_of_payload (load_active_aggression_preset rt)"

definition getenv :: "runtime \<Rightarrow> string \<Rightarrow> pyval \<Rightarrow> pyval" where
  "getenv rt name dflt = (case environ rt name of Some s \<Rightarrow> VStr s | None \<Rightarrow> dflt)"

definition runtime_setting :: "runtime \<Rightarrow> string \<Rightarrow> pyval \<Rightarrow> pyval" where
  "runtime_setting rt name dflt =
     (case map_of (active_settings rt) name of Some v \<Rightarrow> v | None \<Rightarrow> getenv rt name dflt)"

definition runtime_setting_bool :: "runtime \<Rightarrow> string \<Rightarrow> bool \<Rightarrow> bool" where
  "runtime_setting_bool rt name dflt = py_flag (runtime_setting rt name (VBool dflt))"

definition runtime_setting_int :: "runtime \<Rightarrow> string \<Rightarrow> int \<Rightarrow> int" where
  "runtime_setting_int rt name dflt = int_or dflt (runtime_setting rt name (VInt dflt))"

definition runtime_setting_float :: "runtime \<Rightarrow> string \<Rightarrow> rat \<Rightarrow> rat" where
  "runtime_setting_float rt name dflt = float_or dflt (runtime_setting rt name (VFloat dflt))"

definition runtime_setting_str :: "runtime \<Rightarrow> string \<Rightarrow> string \<Rightarrow> string" where
  "runtime_setting_str rt name dflt = (case runtime_setting rt name (VStr dflt) of VNone \<Rightarrow> dflt | v \<Rightarrow> py_str v)"

section \<open>Preview and application of a preset\<close>

datatype preset_error = UnknownPreset string

definition normalize_preset_name :: "string \<Rightarrow> preset_error + string" where
  "normalize_preset_name name = (let n = py_lower (py_strip name) in
     if map_of presets n = None then Inl (UnknownPreset name) else Inr n)"

definition preset_label :: "string \<Rightarrow> string" where
  "preset_label n = (case map_of presets n of Some (label, _) \<Rightarrow> label | None \<Rightarrow> [])"

definition safe_preset_settings :: "string \<Rightarrow> pydict" where
  "safe_preset_settings n = (case map_of presets n of Some (_, d) \<Rightarrow> apply_forced_safety d | None \<Rightarrow> [])"

definition settings_delta :: "runtime \<Rightarrow> pydict \<Rightarrow> (string \<times> pyval \<times> pyval) list" where
  "settings_delta rt settings =
     (let before = (\<lambda>key. case map_of (active_settings rt) key of Some v \<Rightarrow> v | None \<Rightarrow> getenv rt key VNone)
      in map (\<lambda>(key, v). (key, before key, v))
           (filter (\<lambda>(key, v). \<not> py_eq (before key) v) (sort_key fst settings)))"

definition runtime_summary :: "runtime \<Rightarrow> pydict \<Rightarrow> string \<Rightarrow> pydict \<Rightarrow> pydict" where
  "runtime_summary rt policy market override =
     (let settings = dict_update (active_settings rt) override;
          look = (\<lambda>key dflt. case map_of settings key of Some v \<Rightarrow> v | None \<Rightarrow> getenv rt key dflt);
          num = (\<lambda>key dflt. VFloat (to_float (look key dflt)));
          int' = (\<lambda>key dflt. VInt (int_or 0 (look key (VInt dflt))));
          flag = (\<lambda>key dflt. VBool (py_flag (look key (VBool dflt))));
          pol = (\<lambda>key. to_float (dict_get policy key));
          max_total = pol ''max_total_exposure_krw'';
          pct = max (max (to_float (look ''SMART_AGGRESSIVE_MAX_EXPOSURE_BREAKOUT'' (VInt 85)))
                         (to_float (look ''SMART_AGGRESSIVE_MAX_EXPOSURE_TREND_UP'' (VInt 75))))
                    (to_float (look ''SMART_AGGRESSIVE_MAX_EXPOSURE_RANGE'' (VInt 45)))
      in [(''policy'', VDict
             [(''market'', VStr market),
              (''auto_trading_enabled'', VBool (truthy (dict_get policy ''auto_trading_enabled''))),
              (''max_total_exposure_krw'', VFloat max_total),
              (''daily_loss_limit_pct'', VFloat (pol ''daily_loss_limit_pct'')),
              (''daily_loss_limit_krw'', VFloat (pol ''daily_loss_limit_krw'')),
              (''unchanged_by_preset'', VList (map VStr protected_policy_keys))]),
          (''limits'', VDict
             [(''auto_max_order_krw'', num ''AUTO_MAX_ORDER_KRW'' (VInt 30000)),
              (''max_live_order_krw'', num ''MAX_LIVE_ORDER_KRW'' (VInt 30000)),
              (''risk_max_order_krw'', num ''RISK_MAX_ORDER_KRW'' (VInt 30000)),
              (''auto_orders_per_day'', int' ''AUTO_MAX_ORDERS_PER_DAY'' 3),
              (''risk_orders_per_day'', int' ''RISK_MAX_ORDERS_PER_DAY'' 3),
              (''entry_orders_per_day'', int' ''RISK_MAX_ENTRY_ORDERS_PER_DAY'' 2),
              (''exit_orders_per_day'', int' ''RISK_MAX_EXIT_ORDERS_PER_DAY'' 3),
              (''cooldown_seconds'', int' ''AUTO_COOLDOWN_SECONDS'' 1800),
              (''risk_cooldown_seconds'', int' ''RISK_MIN_COOLDOWN_SECONDS'' 1800)]),
          (''scale_in'', VDict
             [(''enabled'', flag ''AUTO_SCALE_IN_ENABLED'' True),
              (''max_count'', int' ''AUTO_SCALE_IN_MAX_COUNT_PER_POSITION'' 3),
              (''min_position_pnl_pct'', num ''AUTO_SCALE_IN_MIN_POSITION_PNL_PERCENT'' (VFloat 0)),
              (''max_position_exposure_pct'', num ''AUTO_SCALE_IN_MAX_POSITION_EXPOSURE_PCT'' (VFloat 45)),
              (''no_averaging_down'', flag ''AUTO_SCALE_IN_NO_AVERAGING_DOWN'' True)]),
          (''exit'', VDict
             [(''stop_loss_percent'', num ''AUTO_STOP_LOSS_PERCENT'' (VFloat (rnd (4 / 5)))),
              (''take_profit_percent'', num ''AUTO_TAKE_PROFIT_PERCENT'' (VFloat (rnd (6 / 5)))),
              (''max_hold_minutes'', int' ''AUTO_MAX_HOLD_MINUTES'' 90)]),
          (''dynamic_sizing'', VDict
             [(''enabled'', flag ''SMART_DYNAMIC_SIZING_ENABLED'' False),
              (''mode'', VStr (py_str (look ''SMART_DYNAMIC_SIZING_MODE'' (VStr ''shadow'')))),
              (''max_multiplier'', num ''SMART_DYNAMIC_SIZING_MAX_MULTIPLIER'' (VFloat (3 / 2))),
              (''min_confidence'', num ''SMART_DYNAMIC_SIZING_MIN_CONFIDENCE'' (VInt 30)),
              (''require_positive_net_edge'', flag ''SMART_DYNAMIC_SIZING_REQUIRE_POSITIVE_NET_EDGE'' True)]),
          (''expected_max_exposure'', VDict
             [(''max_aggressive_exposure_pct'', VFloat pct),
              (''expected_max_exposure_krw'',
                 VFloat (if max_total > 0 then fdiv (fmul max_total pct) 100 else 0)),
              (''policy_max_total_exposure_krw'', VFloat max_total)])])"

definition safety_guard_summary :: pydict where
  "safety_guard_summary =
     [(''emergency_stop_preserved'', VBool True), (''daily_loss_limit_preserved'', VBool True),
      (''max_total_exposure_policy_preserved'', VBool True), (''auto_trading_switch_preserved'', VBool True),
      (''balance_mismatch_block_preserved'', VBool True), (''open_order_mismatch_block_preserved'', VBool True),
      (''no_averaging_down_preserved'', VBool True),
      (''forced_runtime_settings'', VDict forced_safety_settings)]"

record preset_preview =
  pp_preset :: string
  pp_label :: string
  pp_before :: pydict
  pp_after :: pydict
  pp_delta :: "(string \<times> pyval \<times> pyval) list"

definition build_aggression_preset_preview ::
  "runtime \<Rightarrow> pydict \<Rightarrow> string \<Rightarrow> string \<Rightarrow> preset_error + preset_preview" where
  "build_aggression_preset_preview rt policy preset_name market =
     (case normalize_preset_name preset_name of
        Inl e \<Rightarrow> Inl e
      | Inr n \<Rightarrow> (let preset_settings = safe_preset_settings n in
          Inr \<lparr>pp_preset = n, pp_label = preset_label n,
               pp_before = runtime_summary rt policy market [],
               pp_after = runtime_summary rt policy market preset_settings,
               pp_delta = settings_delta rt preset_settings\<rparr>))"

text \<open>
  \<open>update_app_settings\<close> drops keys that look like credentials and upserts the rest;
  \<open>apply_aggression_preset\<close> stores the payload and logs the change (\<open>preset_log\<close>).
\<close>

definition secret_fragments :: "string list" where
  "secret_fragments = [''secret'', ''access_key'', ''authorization'', ''jwt'', ''token'', ''api_key'']"

definition sanitize_app_settings :: "pydict \<Rightarrow> pydict" where
  "sanitize_app_settings settings =
     filter (\<lambda>(k, _). \<not> list_ex (\<lambda>frag. py_contains frag (py_lower k)) secret_fragments) settings"

definition update_app_settings :: "pydict \<Rightarrow> runtime \<Rightarrow> runtime" where
  "update_app_settings settings rt =
     rt\<lparr>app_settings := dict_update (app_settings rt) (sanitize_app_settings settings)\<rparr>"

record preset_log =
  pl_preset_name :: string
  pl_previous_preset :: pyval
  pl_previous_settings :: pydict
  pl_applied_settings :: pydict
  pl_before :: pydict
  pl_after :: pydict
  pl_guards :: pydict
  pl_requested_by :: string
  pl_reason :: string

definition apply_aggression_preset ::
  "runtime \<Rightarrow> pydict \<Rightarrow> string \<Rightarrow> string \<Rightarrow> string \<Rightarrow> string \<Rightarrow> string
   \<Rightarrow> preset_error + runtime \<times> pydict \<times> preset_log" where
  "apply_aggression_preset rt policy now_utc preset_name market requested_by reason =
     (case build_aggression_preset_preview rt policy preset_name market of
        Inl e \<Rightarrow> Inl e
      | Inr pv \<Rightarrow>
          (let n = pp_preset pv;
               previous = load_active_aggression_preset rt;
               who = (if requested_by = [] then ''admin'' else requested_by);
               payload = [(''name'', VStr n), (''label'', VStr (preset_label n)),
                 (''settings'', VDict (safe_preset_settings n)), (''applied_at'', VStr now_utc),
                 (''requested_by'', VStr who), (''reason'', VStr reason)]
           in Inr (update_app_settings [(preset_key, VDict payload)] rt, payload,
                   \<lparr>pl_preset_name = n, pl_previous_preset = dict_get previous ''name'',
                    pl_previous_settings = settings_of_payload previous,
                    pl_applied_settings = safe_preset_settings n, pl_before = pp_before pv,
                    pl_after = pp_after pv, pl_guards = safety_guard_summary,
                    pl_requested_by = who, pl_reason = reason\<rparr>)))"

section \<open>Lemmas\<close>

lemma map_of_filter_keys: "map_of (filter (\<lambda>(k, _). k \<notin> K) d) k = (if k \<in> K then None else map_of d k)"
  by (induction d) auto

lemma map_of_apply_forced_safety:
  "map_of (apply_forced_safety d) k = (case map_of (rev forced_safety_settings) k of Some v \<Rightarrow> Some v
     | None \<Rightarrow> if k \<in> set protected_policy_keys then None else map_of d k)"
  by (simp add: apply_forced_safety_def map_of_dict_update map_of_filter_keys split: option.split)

lemma forced_value: "k \<in> fst ` set forced_safety_settings \<Longrightarrow> map_of (rev forced_safety_settings) k = Some (VBool True)"
  by (auto simp: forced_safety_settings_def)

lemma forced_not_protected: "k \<in> set protected_policy_keys \<Longrightarrow> map_of (rev forced_safety_settings) k = None"
  by (auto simp: forced_safety_settings_def protected_policy_keys_def)

lemma apply_forced_safety_idem: "map_of (apply_forced_safety (apply_forced_safety d)) = map_of (apply_forced_safety d)"
  by (rule ext) (auto simp: map_of_apply_forced_safety split: option.splits)

lemma active_settings_of_payload:
  "dict_get (app_settings rt) preset_key = VDict payload
    \<Longrightarrow> active_settings rt = apply_forced_safety (settings_of_payload payload)"
  by (simp add: active_settings_def load_active_aggression_preset_def settings_of_payload_def)

lemma sanitize_preset_key: "sanitize_app_settings [(preset_key, v)] = [(preset_key, v)]"
proof -
  have "\<not> list_ex (\<lambda>frag. py_contains frag (py_lower preset_key)) secret_fragments" by code_simp
  then show ?thesis by (simp add: sanitize_app_settings_def)
qed

lemma dict_get_update_one: "dict_get (dict_update d [(j, v)]) k = (if k = j then v else dict_get d k)"
  by (simp add: dict_update_def)

lemmas apply_preset_defs = apply_aggression_preset_def build_aggression_preset_preview_def
  update_app_settings_def Let_def sanitize_preset_key dict_get_update_one

lemma apply_preset_active:
  assumes "apply_aggression_preset rt policy now name market who why = Inr (rt', payload, entry)"
  shows "normalize_preset_name name = Inr (pl_preset_name entry)
    \<and> map_of (active_settings rt') = map_of (safe_preset_settings (pl_preset_name entry))
    \<and> environ rt' = environ rt"
proof -
  obtain n where n: "normalize_preset_name name = Inr n"
    using assms by (auto simp: apply_preset_defs split: sum.splits)
  have p: "dict_get (app_settings rt') preset_key = VDict payload" "pl_preset_name entry = n" "environ rt' = environ rt"
    "dict_get payload ''settings'' = VDict (safe_preset_settings n)"
    using assms n by (auto simp: apply_preset_defs dict_get_Cons)
  then have "settings_of_payload payload = safe_preset_settings n" by (simp add: settings_of_payload_def)
  note p = p this
  obtain l d where "map_of presets n = Some (l, d)"
    using n by (auto simp: normalize_preset_name_def Let_def split: if_splits)
  then have "map_of (apply_forced_safety (safe_preset_settings n)) = map_of (safe_preset_settings n)"
    by (simp add: safe_preset_settings_def apply_forced_safety_idem)
  then show ?thesis using n p active_settings_of_payload[OF p(1)] by simp
qed

definition sample_runtime :: runtime where
  "sample_runtime = \<lparr>environ = (\<lambda>_. None), app_settings =
     [(preset_key, VDict [(''name'', VStr ''custom''),
        (''settings'', VDict [(''RISK_BLOCK_ON_OPEN_ORDER'', VBool False), (''auto_trading_enabled'', VBool True)])])]\<rparr>"

section \<open>Properties\<close>

text \<open>
  C22. No stored preset weakens the safety settings: whatever JSON object is stored as the active
  preset, each forced safety flag reads True under any environment, and none of the protected
  policy keys is taken from the preset.
\<close>

theorem forced_safety_wins:
  assumes "dict_get (app_settings rt) preset_key = VDict payload"
  shows "(k \<in> fst ` set forced_safety_settings \<longrightarrow> runtime_setting_bool rt k dflt = True)
    \<and> (k \<in> set protected_policy_keys \<longrightarrow> runtime_setting rt k v = getenv rt k v)"
  using active_settings_of_payload[OF assms] forced_value[of k] forced_not_protected[of k]
  by (auto simp: runtime_setting_bool_def runtime_setting_def map_of_apply_forced_safety py_flag_def
      simp del: set_map split: option.splits)

theorem forced_safety_wins_witness:
  "runtime_setting_bool sample_runtime ''RISK_BLOCK_ON_OPEN_ORDER'' False = True
   \<and> runtime_setting sample_runtime ''auto_trading_enabled'' VNone = VNone"
proof -
  have p: "dict_get (app_settings sample_runtime) preset_key = VDict [(''name'', VStr ''custom''),
        (''settings'', VDict [(''RISK_BLOCK_ON_OPEN_ORDER'', VBool False), (''auto_trading_enabled'', VBool True)])]"
    by (simp add: sample_runtime_def dict_get_def)
  have "''RISK_BLOCK_ON_OPEN_ORDER'' \<in> fst ` set forced_safety_settings" "''auto_trading_enabled'' \<in> set protected_policy_keys"
    "getenv sample_runtime ''auto_trading_enabled'' VNone = VNone"
    by (simp_all add: forced_safety_settings_def protected_policy_keys_def getenv_def sample_runtime_def)
  then show ?thesis
    using forced_safety_wins[OF p, of "''RISK_BLOCK_ON_OPEN_ORDER''" False VNone]
      forced_safety_wins[OF p, of "''auto_trading_enabled''" False VNone] by auto
qed

text \<open>
  C37. Applying a preset takes effect on the next read: every setting of the preset is then read
  back with the preset's value, every setting it does not name comes from the environment or the
  default, and no other application setting changes.
\<close>

theorem applied_preset_is_read_back:
  assumes "apply_aggression_preset rt policy now name market who why = Inr (rt', payload, entry)"
  shows "runtime_setting rt' k v = (case map_of (safe_preset_settings (pl_preset_name entry)) k of
      Some w \<Rightarrow> w | None \<Rightarrow> getenv rt k v)
    \<and> (j \<noteq> preset_key \<longrightarrow> dict_get (app_settings rt') j = dict_get (app_settings rt) j)"
proof -
  have "dict_get (app_settings rt') j = dict_get (app_settings rt) j" if "j \<noteq> preset_key"
    using assms that by (auto simp: apply_preset_defs split: sum.splits)
  then show ?thesis
    using apply_preset_active[OF assms] by (auto simp: runtime_setting_def getenv_def split: option.splits)
qed

theorem applied_preset_is_read_back_witness:
  "\<exists>rt' payload entry. apply_aggression_preset sample_runtime [] ''now'' '' Balanced '' ''KRW-BTC'' '''' '''' = Inr (rt', payload, entry)
     \<and> runtime_setting rt' ''MAX_LIVE_ORDER_KRW'' VNone = VInt 30000"
proof -
  let ?a = "apply_aggression_preset sample_runtime [] ''now'' '' Balanced '' ''KRW-BTC'' '''' ''''"
  have n: "normalize_preset_name '' Balanced '' = Inr ''balanced''" by code_simp
  then obtain rt' payload entry where r: "?a = Inr (rt', payload, entry)" "pl_preset_name entry = ''balanced''"
    by (simp add: apply_aggression_preset_def build_aggression_preset_preview_def Let_def)
  have "map_of (safe_preset_settings ''balanced'') ''MAX_LIVE_ORDER_KRW'' = Some (VInt 30000)" by code_simp
  then show ?thesis using applied_preset_is_read_back[OF r(1), of "''MAX_LIVE_ORDER_KRW''" VNone] r by simp
qed

end
