(* ===== verification/Sizing.thy ===== *)
theory Sizing
  imports Settings
begin

text \<open>
  The size of an order: the cap by the available balance (\<open>app/order_sizing.py\<close>) and the dynamic
  multiplier by the measured edge (\<open>app/dynamic_sizing.py\<close>).
\<close>

section \<open>Capping by the available balance\<close>

record balance_cap =
  bc_requested :: rat
  bc_available :: "rat option"
  bc_minimum :: rat
  bc_fee_buffer_rate :: rat
  bc_allowed :: bool
  bc_block_code :: "string option"
  bc_sizing_reason :: string
  bc_max_affordable :: "rat option"
  bc_actual :: rat
  bc_cap_applied :: bool

definition profit_engine_extra_fee_buffer_rate :: "runtime \<Rightarrow> rat" where
  "profit_engine_extra_fee_buffer_rate rt =
     float_or (rnd (1 / 5000)) (getenv rt ''PROFIT_ENGINE_EXTRA_FEE_BUFFER_RATE'' VNone)"

definition cap_tolerance :: rat where
  "cap_tolerance = rnd (1 / 10 ^ 9)"

definition calculate_available_balance_capped_order ::
  "runtime \<Rightarrow> rat \<Rightarrow> rat option \<Rightarrow> rat \<Rightarrow> rat \<Rightarrow> rat option \<Rightarrow> balance_cap" where
  "calculate_available_balance_capped_order rt requested_order_krw available_krw min_order_krw fee_rate extra =
     (let requested = max requested_order_krw 0;
          available = map_option (\<lambda>a. max a 0) available_krw;
          minimum = max min_order_krw 0;
          rate = max (fadd fee_rate (case extra of Some x \<Rightarrow> x | None \<Rightarrow> profit_engine_extra_fee_buffer_rate rt)) 0;
          base = \<lparr>bc_requested = requested, bc_available = available, bc_minimum = minimum,
            bc_fee_buffer_rate = rate, bc_allowed = False, bc_block_code = None, bc_sizing_reason = [],
            bc_max_affordable = None, bc_actual = 0, bc_cap_applied = False\<rparr>;
          blocked = (\<lambda>code. base\<lparr>bc_block_code := Some code, bc_sizing_reason := code\<rparr>)
      in if requested \<le> 0 then blocked ''ORDER_AMOUNT_ZERO''
         else case available of None \<Rightarrow> blocked ''BALANCE_UNAVAILABLE''
         | Some a \<Rightarrow>
           if a \<le> 0 then blocked ''INSUFFICIENT_BALANCE''
           else (let affordable = (if rate > -1 then fdiv a (fadd 1 rate) else a);
                     actual = min requested affordable;
                     cap_applied = (fadd actual cap_tolerance < requested)
                 in if actual < minimum
                    then (blocked ''ORDER_BELOW_MINIMUM'')\<lparr>bc_max_affordable := Some affordable, bc_cap_applied := cap_applied\<rparr>
                    else base\<lparr>bc_allowed := True,
                      bc_sizing_reason := (if cap_applied then ''REQUEST_EXCEEDS_AVAILABLE_BALANCE_CAPPED''
                                           else ''REQUEST_WITHIN_AVAILABLE_BALANCE''),
                      bc_max_affordable := Some affordable, bc_actual := actual, bc_cap_applied := cap_applied\<rparr>))"

section \<open>The dynamic multiplier\<close>

definition dynamic_sizing_enabled :: "runtime \<Rightarrow> bool" where
  "dynamic_sizing_enabled rt = runtime_setting_bool rt ''SMART_DYNAMIC_SIZING_ENABLED'' False"

datatype sizing_mode = Shadow | Apply | Block

definition dynamic_sizing_mode :: "runtime \<Rightarrow> sizing_mode" where
  "dynamic_sizing_mode rt =
     (let m = py_lower (py_strip (runtime_setting_str rt ''SMART_DYNAMIC_SIZING_MODE'' ''shadow''))
      in if m = ''apply'' then Apply else if m = ''block'' then Block else Shadow)"

fun first_number :: "pyval list \<Rightarrow> rat" where
  "first_number [] = 0"
| "first_number (v # vs) = (case py_float v of Some x \<Rightarrow> x | None \<Rightarrow> first_number vs)"

definition expected_edge_pct :: "pydict \<Rightarrow> rat" where
  "expected_edge_pct edge = (case py_float (dict_get edge ''expected_edge_pct'') of Some x \<Rightarrow> x
     | None \<Rightarrow> py_sum (map (\<lambda>(k, w). fmul (to_float (dict_get edge k)) w)
         [(''adaptive_edge_score'', rnd (9 / 20)), (''avg_post_fill_return_5m'', 1 / 4),
          (''avg_post_fill_return_15m'', rnd (1 / 5)), (''avg_realized_return_pct'', rnd (1 / 10))]))"

record sizing_config =
  sc_enabled :: bool
  sc_mode :: sizing_mode
  sc_min_multiplier :: rat
  sc_max_multiplier :: rat
  sc_min_confidence :: rat
  sc_require_positive :: bool

definition sizing_config_of :: "runtime \<Rightarrow> sizing_config" where
  "sizing_config_of rt =
     (let lo0 = runtime_setting_float rt ''SMART_DYNAMIC_SIZING_MIN_MULTIPLIER'' (1 / 2);
          hi0 = runtime_setting_float rt ''SMART_DYNAMIC_SIZING_MAX_MULTIPLIER'' (3 / 2);
          lo = (if lo0 \<le> 0 then 1 / 2 else lo0);
          hi = (if hi0 < lo then lo else hi0)
      in \<lparr>sc_enabled = dynamic_sizing_enabled rt, sc_mode = dynamic_sizing_mode rt,
          sc_min_multiplier = lo, sc_max_multiplier = hi,
          sc_min_confidence = runtime_setting_float rt ''SMART_DYNAMIC_SIZING_MIN_CONFIDENCE'' 30,
          sc_require_positive = runtime_setting_bool rt ''SMART_DYNAMIC_SIZING_REQUIRE_POSITIVE_NET_EDGE'' True\<rparr>)"

record multiplier_choice =
  mc_multiplier :: rat
  mc_reason :: string
  mc_allowed :: bool
  mc_blocker :: "string option"

definition choose_multiplier :: "sizing_config \<Rightarrow> bool \<Rightarrow> rat \<Rightarrow> multiplier_choice" where
  "choose_multiplier c confidence_ok net =
     (let pick = (\<lambda>m r. \<lparr>mc_multiplier = m, mc_reason = r, mc_allowed = True, mc_blocker = None\<rparr>);
          lo = sc_min_multiplier c; hi = sc_max_multiplier c
      in if \<not> sc_enabled c then pick 1 ''DYNAMIC_SIZING_DISABLED''
         else if \<not> confidence_ok then pick 1 ''LOW_CONFIDENCE_DEFAULT_MULTIPLIER''
         else if sc_require_positive c \<and> net \<le> 0
         then (if sc_mode c = Block
               then (pick lo ''NEGATIVE_NET_EDGE_REDUCED'')\<lparr>mc_allowed := False,
                      mc_blocker := Some ''SMART_DYNAMIC_SIZING_NET_EDGE_NON_POSITIVE''\<rparr>
               else pick lo ''NEGATIVE_NET_EDGE_REDUCED'')
         else if net \<le> 0 then pick lo ''NEGATIVE_NET_EDGE_REDUCED''
         else if net < 1 / 4 then pick (max lo (3 / 4)) ''LOW_POSITIVE_EDGE_REDUCED''
         else if net < 3 / 4 then pick 1 ''MODERATE_EDGE_BASE_SIZE''
         else if net < 3 / 2 then pick (min hi (rnd (6 / 5))) ''POSITIVE_EDGE_INCREASED''
         else pick hi ''HIGH_POSITIVE_EDGE_MAX_INCREASE'')"

record sizing_preview =
  sz_enabled :: bool
  sz_mode :: sizing_mode
  sz_shadow_only :: bool
  sz_edge_score :: rat
  sz_confidence :: rat
  sz_expected_edge_pct :: rat
  sz_fee_pct :: rat
  sz_slippage_pct :: rat
  sz_adverse_pct :: rat
  sz_penalty_pct :: rat
  sz_net_edge_pct :: rat
  sz_confidence_ok :: bool
  sz_multiplier :: rat
  sz_original :: rat
  sz_adjusted :: rat
  sz_applied :: rat
  sz_dust_hold :: bool
  sz_allowed :: bool
  sz_blocker :: "string option"
  sz_reason :: string

text \<open>The arguments that are numbers or \<open>None\<close> come as Python values.\<close>

definition net_edge_of :: "rat \<Rightarrow> rat \<Rightarrow> rat \<Rightarrow> rat \<Rightarrow> rat \<Rightarrow> rat" where
  "net_edge_of expected fee slippage adverse penalty =
     fsub (fsub (fsub (fsub expected (max fee 0)) (max slippage 0)) (max adverse 0)) (max penalty 0)"

definition adjusted_amount_of :: "rat \<Rightarrow> rat \<Rightarrow> rat option \<Rightarrow> rat" where
  "adjusted_amount_of original multiplier cap =
     (let a = max (fmul original multiplier) 0
      in case cap of Some c \<Rightarrow> if c \<ge> 0 then min a c else a | None \<Rightarrow> a)"

definition applied_amount_of :: "sizing_config \<Rightarrow> bool \<Rightarrow> rat \<Rightarrow> rat \<Rightarrow> rat" where
  "applied_amount_of c allowed original adjusted =
     (if sc_enabled c \<and> sc_mode c \<noteq> Shadow \<and> allowed then adjusted else original)"

definition build_dynamic_sizing_preview ::
  "runtime \<Rightarrow> rat \<Rightarrow> pyval \<Rightarrow> rat \<Rightarrow> pyval \<Rightarrow> pyval \<Rightarrow> rat option \<Rightarrow> rat \<Rightarrow> rat \<Rightarrow> sizing_preview" where
  "build_dynamic_sizing_preview rt original adaptive_edge fee_pct slippage_arg adverse_arg cap min_order penalty =
     (let c = sizing_config_of rt;
          edge = (case adaptive_edge of VDict d \<Rightarrow> d | _ \<Rightarrow> []);
          confidence = to_float (dict_get edge ''edge_confidence'');
          expected = expected_edge_pct edge;
          slippage = first_number [slippage_arg, dict_get edge ''avg_slippage_pct'', VFloat 0];
          adverse = first_number [adverse_arg, dict_get edge ''avg_adverse_selection_pct'', VFloat 0];
          net = net_edge_of expected fee_pct slippage adverse penalty;
          confidence_ok = (confidence \<ge> sc_min_confidence c);
          ch = choose_multiplier c confidence_ok net;
          adjusted = adjusted_amount_of original (mc_multiplier ch) cap;
          dust_hold = (0 < adjusted \<and> adjusted < min_order);
          dust_block = (dust_hold \<and> sc_enabled c \<and> sc_mode c = Block);
          allowed = (mc_allowed ch \<and> \<not> dust_block);
          applied = applied_amount_of c allowed original adjusted
      in \<lparr>sz_enabled = sc_enabled c, sz_mode = sc_mode c,
          sz_shadow_only = (\<not> sc_enabled c \<or> sc_mode c = Shadow),
          sz_edge_score = to_float (dict_get edge ''adaptive_edge_score''), sz_confidence = confidence,
          sz_expected_edge_pct = float_round 6 expected, sz_fee_pct = float_round 6 (max fee_pct 0),
          sz_slippage_pct = float_round 6 (max slippage 0), sz_adverse_pct = float_round 6 (max adverse 0),
          sz_penalty_pct = float_round 6 (max penalty 0), sz_net_edge_pct = float_round 6 net,
          sz_confidence_ok = confidence_ok, sz_multiplier = float_round 6 (mc_multiplier ch),
          sz_original = float_round 6 (max original 0), sz_adjusted = float_round 6 adjusted,
          sz_applied = float_round 6 (max applied 0), sz_dust_hold = dust_hold, sz_allowed = allowed,
          sz_blocker = (if dust_block then (case mc_blocker ch of None \<Rightarrow> Some ''SMART_DYNAMIC_SIZING_ADJUSTED_BELOW_MIN''
                                            | b \<Rightarrow> b) else mc_blocker ch),
          sz_reason = mc_reason ch\<rparr>)"

section \<open>Lemmas\<close>

lemma float_round_mono: "x \<le> y \<Longrightarrow> float_round p x \<le> float_round p y"
  by (auto simp: float_round_def intro!: rnd_mono divide_right_mono round_half_even_mono mult_right_mono)

lemma float_round_0 [simp]: "float_round p 0 = 0"
  by (simp add: float_round_def round_half_even_of_int[of 0, simplified])

lemma float_round_nonneg: "0 \<le> x \<Longrightarrow> 0 \<le> float_round p x"
  using float_round_mono[of 0 x p] by simp

lemma is_flt_cap_tolerance [simp]: "is_flt cap_tolerance"
  by (simp add: cap_tolerance_def)

lemma multiplier_bounds: "0 < sc_min_multiplier (sizing_config_of rt)
    \<and> sc_min_multiplier (sizing_config_of rt) \<le> sc_max_multiplier (sizing_config_of rt)"
  by (simp add: sizing_config_of_def Let_def)

lemma adjusted_amount_cap: "0 \<le> c \<Longrightarrow> adjusted_amount_of x m (Some c) \<le> c"
  by (simp add: adjusted_amount_of_def Let_def)

lemma adjusted_amount_nonneg: "0 \<le> adjusted_amount_of x m c"
  by (auto simp: adjusted_amount_of_def Let_def split: option.split)

lemma one_le_6_5: "1 \<le> rnd (6 / 5)"
  using rnd_mono[of 1 "6/5"] by simp

lemma multiplier_choice_bounds:
  assumes "c = sizing_config_of rt"
  shows "min (sc_min_multiplier c) 1 \<le> mc_multiplier (choose_multiplier c ok net)
    \<and> mc_multiplier (choose_multiplier c ok net) \<le> max (sc_max_multiplier c) 1"
  using multiplier_bounds[of rt] one_le_6_5 assms
  by (auto simp: choose_multiplier_def Let_def min_def max_def)

lemma adjusted_amount_mono: "0 \<le> x \<Longrightarrow> m \<le> n \<Longrightarrow> 0 \<le> n \<Longrightarrow> adjusted_amount_of x m c \<le> fmul x n"
  using fmul_mono_right[of m n x] fmul_nonneg[of x n]
  by (auto simp: adjusted_amount_of_def Let_def min_def max_def split: option.split)

lemma sz_shadow_only_iff:
  "sz_shadow_only (build_dynamic_sizing_preview rt original edge fee slip adv cap min_order penalty)
   = (\<not> dynamic_sizing_enabled rt \<or> dynamic_sizing_mode rt = Shadow)"
  unfolding build_dynamic_sizing_preview_def Let_def sizing_preview.simps sizing_config_of_def
    sizing_config.simps by (rule refl)

section \<open>Properties\<close>

text \<open>
  C23. An order capped by the balance is affordable: an allowed order lies between the minimum and
  the requested amount, costs no more than the available balance and no more than the balance less
  the fee buffer, and a blocked order carries a code and the amount 0.
\<close>

theorem capped_order_is_affordable:
  fixes rt requested available minimum fee extra
  assumes "is_flt (nz available)"
  shows "let r = calculate_available_balance_capped_order rt requested available minimum fee extra in
    (bc_allowed r \<longrightarrow> 0 < bc_requested r \<and> minimum \<le> bc_actual r \<and> bc_actual r \<le> requested
       \<and> bc_actual r \<le> nz available
       \<and> bc_actual r \<le> fdiv (nz available) (fadd 1 (bc_fee_buffer_rate r)) \<and> bc_block_code r = None)
    \<and> (\<not> bc_allowed r \<longrightarrow> bc_actual r = 0 \<and> bc_block_code r \<noteq> None)"
proof -
  have "fdiv a (fadd 1 q) \<le> a" if "0 \<le> q" "0 < a" "is_flt a" for a q
    using that fadd_ge_left[of 1 q] by (intro fdiv_le_left) auto
  moreover have "min requested x \<le> a" if "x \<le> a" for x a :: rat using that by simp
  ultimately show ?thesis
    using assms unfolding calculate_available_balance_capped_order_def Let_def
    by (cases available) (auto simp: max_def min_le_iff_disj)
qed

theorem capped_order_is_affordable_witness:
  "let r = calculate_available_balance_capped_order sample_runtime 30000 (Some 20000) 5000 (1 / 2048) (Some 0)
   in bc_allowed r \<and> bc_actual r \<le> 20000"
proof -
  have "bc_allowed (calculate_available_balance_capped_order sample_runtime 30000 (Some 20000) 5000 (1 / 2048) (Some 0))"
    by code_simp
  then show ?thesis
    using capped_order_is_affordable[of "Some 20000" sample_runtime 30000 5000 "1 / 2048" "Some 0"] by (simp add: Let_def)
qed

text \<open>
  C38. Dynamic sizing is bounded: the applied amount is never negative and never more than the
  original amount scaled by the larger of 1 and the configured maximum multiplier, a resized amount
  respects the cap, and in shadow mode (or disabled) the original amount goes through unchanged.
\<close>

theorem dynamic_sizing_is_bounded:
  fixes rt original edge fee slip adv cap min_order penalty
  assumes "0 \<le> original" and "is_flt original" and "is_flt (sc_max_multiplier (sizing_config_of rt))"
  shows "let r = build_dynamic_sizing_preview rt original edge fee slip adv cap min_order penalty in
    0 \<le> sz_applied r
    \<and> sz_applied r \<le> float_round 6 (fmul original (max (sc_max_multiplier (sizing_config_of rt)) 1))
    \<and> (sz_shadow_only r \<longrightarrow> sz_applied r = float_round 6 original)
    \<and> (\<not> sz_shadow_only r \<and> sz_allowed r \<and> cap \<noteq> None \<and> 0 \<le> nz cap \<longrightarrow> sz_applied r \<le> float_round 6 (nz cap))"
proof -
  let ?r = "build_dynamic_sizing_preview rt original edge fee slip adv cap min_order penalty"
  let ?c = "sizing_config_of rt" and ?m = "max (sc_max_multiplier (sizing_config_of rt)) 1"
  let ?adj = "\<lambda>ok net. adjusted_amount_of original (mc_multiplier (choose_multiplier ?c ok net)) cap"
  have "\<exists>ok net. sz_applied ?r = float_round 6 (max (applied_amount_of ?c (sz_allowed ?r) original (?adj ok net)) 0)
      \<and> sz_shadow_only ?r = (\<not> sc_enabled ?c \<or> sc_mode ?c = Shadow)"
    unfolding build_dynamic_sizing_preview_def Let_def sizing_preview.simps by (intro exI conjI) (rule refl)+
  then obtain ok net where a: "sz_applied ?r = float_round 6 (max (applied_amount_of ?c (sz_allowed ?r) original (?adj ok net)) 0)"
    "sz_shadow_only ?r = (\<not> sc_enabled ?c \<or> sc_mode ?c = Shadow)"
    by blast
  define applied where "applied = applied_amount_of ?c (sz_allowed ?r) original (?adj ok net)"
  have "original \<le> fmul original ?m"
    using fmul_mono_right[of 1 ?m original] assms by simp
  moreover have "?adj ok net \<le> fmul original ?m"
    using multiplier_choice_bounds[OF refl, of rt ok net] assms by (intro adjusted_amount_mono) auto
  ultimately have le: "applied \<le> fmul original ?m" and ge: "0 \<le> applied"
    using assms adjusted_amount_nonneg by (auto simp: applied_def applied_amount_of_def)
  have r: "sz_applied ?r = float_round 6 applied"
    using a(1) ge by (simp add: applied_def max_absorb1)
  have shadow: "sz_shadow_only ?r \<longrightarrow> applied = original"
    using a(2) by (auto simp: applied_def applied_amount_of_def)
  have "\<not> sz_shadow_only ?r \<and> sz_allowed ?r \<and> cap \<noteq> None \<and> 0 \<le> nz cap \<longrightarrow> applied \<le> nz cap"
    using a(2) adjusted_amount_cap[of "nz cap" original] by (auto simp: applied_def applied_amount_of_def)
  then show ?thesis
    using r le ge shadow float_round_nonneg[of applied 6] float_round_mono[of applied "fmul original ?m" 6]
      float_round_mono[of applied "nz cap" 6] by (simp add: Let_def)
qed

theorem dynamic_sizing_is_bounded_witness:
  "sz_applied (build_dynamic_sizing_preview sample_runtime 10000 VNone 0 VNone VNone None 5000 0) = float_round 6 10000"
proof -
  have "is_flt (sc_max_multiplier (sizing_config_of sample_runtime))" "\<not> dynamic_sizing_enabled sample_runtime"
    by code_simp+
  then show ?thesis
    using dynamic_sizing_is_bounded[of 10000 sample_runtime VNone 0 VNone VNone None 5000 0]
    by (simp add: Let_def sz_shadow_only_iff)
qed

end
