(* ===== verification/Interfaces.thy ===== *)
theory Interfaces
  imports Prelude
begin

text \<open>
  The interfaces the components rely on, as locales. A component interprets them on its own
  definitions and takes its facts from the interpretation.
\<close>

section \<open>A store addressed by key\<close>

text \<open>
  \<open>INSERT ... ON CONFLICT(key) DO UPDATE\<close>, \<open>d[key] = value\<close>: what is read back after a write.
\<close>

locale keyed_store =
  fixes look :: "'s \<Rightarrow> 'k \<Rightarrow> 'v option"
    and put :: "'s \<Rightarrow> 'k \<Rightarrow> 'v \<Rightarrow> 's"
  assumes look_put: "look (put s k v) j = (if j = k then Some v else look s j)"
begin

lemma look_put_same: "look (put s k v) k = Some v"
  by (simp add: look_put)

lemma look_put_other: "j \<noteq> k \<Longrightarrow> look (put s k v) j = look s j"
  by (simp add: look_put)

lemma put_twice: "look (put (put s k v) k w) = look (put s k w)"
  by (rule ext) (simp add: look_put)

lemma put_commute: "j \<noteq> k \<Longrightarrow> look (put (put s j v) k w) = look (put (put s k w) j v)"
  by (rule ext) (simp add: look_put)

lemma put_same_value: "look s k = Some v \<Longrightarrow> look (put s k v) = look s"
  by (rule ext) (simp add: look_put)

text \<open>Writing a list of items: the last item of a key wins, items of no key are skipped.\<close>

lemma look_put_all:
  "look (foldl (\<lambda>s x. if ok x then put s (key x) (val x) else s) s xs) k
   = (case find (\<lambda>x. ok x \<and> key x = k) (rev xs) of None \<Rightarrow> look s k | Some x \<Rightarrow> Some (val x))"
proof (induction xs rule: rev_induct)
  case (snoc x xs)
  then show ?case by (auto simp: look_put)
qed simp

end

section \<open>A lock taken in two steps\<close>

text \<open>
  A request first reads the row of its lock and decides, then writes the row: between the two the
  steps of other processes may come. A system is the store with the requests that have decided to
  write but have not written yet, each with the row it read, and the requests that were granted.
\<close>

datatype ('q, 'e) lock_event = Ask 'q | Store nat | Other 'e

record ('s, 'q, 'r) lock_system =
  lk_store :: 's
  lk_pending :: "('q \<times> 'r option) list"
  lk_granted :: "'q list"

definition ask_step :: "('q \<Rightarrow> 's \<Rightarrow> 'r option) \<Rightarrow> ('q \<Rightarrow> 'r option \<Rightarrow> bool) \<Rightarrow> 'q
    \<Rightarrow> ('s, 'q, 'r) lock_system \<Rightarrow> ('s, 'q, 'r) lock_system" where
  "ask_step look refuses q w = (let r = look q (lk_store w) in
     if refuses q r then w else w\<lparr>lk_pending := lk_pending w @ [(q, r)]\<rparr>)"

definition store_step :: "('q \<Rightarrow> 'r option \<Rightarrow> 's \<Rightarrow> 's) \<Rightarrow> nat \<Rightarrow> ('s, 'q, 'r) lock_system \<Rightarrow> ('s, 'q, 'r) lock_system" where
  "store_step save i w = (if length (lk_pending w) \<le> i then w
     else case lk_pending w ! i of (q, r) \<Rightarrow>
       w\<lparr>lk_store := save q r (lk_store w), lk_pending := take i (lk_pending w) @ drop (Suc i) (lk_pending w),
         lk_granted := lk_granted w @ [q]\<rparr>)"

fun lock_step :: "('q \<Rightarrow> 's \<Rightarrow> 'r option) \<Rightarrow> ('q \<Rightarrow> 'r option \<Rightarrow> bool) \<Rightarrow> ('q \<Rightarrow> 'r option \<Rightarrow> 's \<Rightarrow> 's) \<Rightarrow> ('e \<Rightarrow> 's \<Rightarrow> 's)
    \<Rightarrow> ('q, 'e) lock_event \<Rightarrow> ('s, 'q, 'r) lock_system \<Rightarrow> ('s, 'q, 'r) lock_system" where
  "lock_step look refuses save act (Ask q) w = ask_step look refuses q w"
| "lock_step look refuses save act (Store i) w = store_step save i w"
| "lock_step look refuses save act (Other e) w = w\<lparr>lk_store := act e (lk_store w)\<rparr>"

definition lock_run :: "('q \<Rightarrow> 's \<Rightarrow> 'r option) \<Rightarrow> ('q \<Rightarrow> 'r option \<Rightarrow> bool) \<Rightarrow> ('q \<Rightarrow> 'r option \<Rightarrow> 's \<Rightarrow> 's) \<Rightarrow> ('e \<Rightarrow> 's \<Rightarrow> 's)
    \<Rightarrow> ('q, 'e) lock_event list \<Rightarrow> ('s, 'q, 'r) lock_system \<Rightarrow> ('s, 'q, 'r) lock_system" where
  "lock_run look refuses save act es w = foldl (\<lambda>w e. lock_step look refuses save act e w) w es"

text \<open>Two requests that read before either writes are both granted, whatever their writes do.\<close>

lemma interleaved_requests:
  assumes "\<not> refuses p (look p (lk_store w))" "\<not> refuses q (look q (lk_store w))" "lk_pending w = []"
  shows "lk_granted (lock_run look refuses save act [Ask p, Ask q, Store 0, Store 0] w) = lk_granted w @ [p, q]"
  using assms by (simp add: lock_run_def ask_step_def store_step_def Let_def)

text \<open>
  \<open>held_by g w\<close>: the row of the lock is the one \<open>g\<close> left, and no other request for it has decided to
  write. \<open>harmless g e\<close>: the event is not a request that \<open>g\<close> does not block, nor an act that takes the
  lock from \<open>g\<close>.
\<close>

definition held_by :: "('q \<Rightarrow> 's \<Rightarrow> 'r option) \<Rightarrow> ('q \<Rightarrow> 'q \<Rightarrow> bool) \<Rightarrow> ('q \<Rightarrow> 'r \<Rightarrow> bool) \<Rightarrow> 'q
    \<Rightarrow> ('s, 'q, 'r) lock_system \<Rightarrow> bool" where
  "held_by look same wrote g w \<longleftrightarrow> (\<exists>row. look g (lk_store w) = Some row \<and> wrote g row)
     \<and> (\<forall>(q, r) \<in> set (lk_pending w). \<not> same g q)"

definition harmless :: "('q \<Rightarrow> 'q \<Rightarrow> bool) \<Rightarrow> ('q \<Rightarrow> 'q \<Rightarrow> bool) \<Rightarrow> ('e \<Rightarrow> 'q \<Rightarrow> bool) \<Rightarrow> 'q \<Rightarrow> ('q, 'e) lock_event \<Rightarrow> bool" where
  "harmless same blocks spares g e \<longleftrightarrow>
     (case e of Ask q \<Rightarrow> same g q \<longrightarrow> blocks g q | Store i \<Rightarrow> True | Other a \<Rightarrow> spares a g)"

text \<open>
  What a lock promises: \<open>wrote g row\<close> says that the row is the one the granted request \<open>g\<close> left. Such a
  row refuses exactly the requests \<open>g\<close> blocks, the writes of other locks leave it alone, and
  the acts that spare \<open>g\<close> keep it.
\<close>

locale two_step_lock =
  fixes look :: "'q \<Rightarrow> 's \<Rightarrow> 'r option"
    and refuses :: "'q \<Rightarrow> 'r option \<Rightarrow> bool"
    and save :: "'q \<Rightarrow> 'r option \<Rightarrow> 's \<Rightarrow> 's"
    and act :: "'e \<Rightarrow> 's \<Rightarrow> 's"
    and same :: "'q \<Rightarrow> 'q \<Rightarrow> bool"
    and wrote :: "'q \<Rightarrow> 'r \<Rightarrow> bool"
    and blocks :: "'q \<Rightarrow> 'q \<Rightarrow> bool"
    and spares :: "'e \<Rightarrow> 'q \<Rightarrow> bool"
  assumes same_refl: "same g g"
    and same_look: "same g q \<Longrightarrow> look q s = look g s"
    and written: "\<exists>row. look q (save q r s) = Some row \<and> wrote q row"
    and elsewhere: "\<not> same g q \<Longrightarrow> look g (save q r s) = look g s"
    and blocked: "same g q \<Longrightarrow> wrote g row \<Longrightarrow> refuses q (Some row) \<longleftrightarrow> blocks g q"
    and spared: "spares e g \<Longrightarrow> look g s = Some row \<Longrightarrow> wrote g row \<Longrightarrow> \<exists>row'. look g (act e s) = Some row' \<and> wrote g row'"
begin

lemma held_after_store:
  assumes "i < length (lk_pending w)" "fst (lk_pending w ! i) = g"
    and "\<forall>(q, r) \<in> set (take i (lk_pending w) @ drop (Suc i) (lk_pending w)). \<not> same g q"
  shows "held_by look same wrote g (store_step save i w)"
  using assms written [of g "snd (lk_pending w ! i)" "lk_store w"]
  by (auto simp: held_by_def store_step_def split: prod.splits)

lemma held_step:
  assumes "held_by look same wrote g w" "harmless same blocks spares g e"
  shows "held_by look same wrote g (lock_step look refuses save act e w)
    \<and> filter (same g) (lk_granted (lock_step look refuses save act e w)) = filter (same g) (lk_granted w)"
proof (cases e)
  case (Ask q)
  then show ?thesis using assms blocked same_look
    by (auto simp: ask_step_def held_by_def harmless_def Let_def split: option.splits)
next
  case (Store i)
  show ?thesis
  proof (cases "length (lk_pending w) \<le> i")
    case False
    obtain q r where qr: "lk_pending w ! i = (q, r)" by (cases "lk_pending w ! i")
    then have "(q, r) \<in> set (lk_pending w)" using False by (metis nth_mem not_le)
    then have "\<not> same g q" using assms(1) by (auto simp: held_by_def)
    moreover have "set (take i (lk_pending w) @ drop (Suc i) (lk_pending w)) \<subseteq> set (lk_pending w)"
      by (auto dest: in_set_takeD in_set_dropD)
    ultimately show ?thesis using Store False assms(1) qr elsewhere by (fastforce simp: store_step_def held_by_def)
  qed (use Store assms(1) in \<open>simp add: store_step_def\<close>)
next
  case (Other a)
  then show ?thesis using assms spared by (auto simp: held_by_def harmless_def)
qed

text \<open>
  Mutual exclusion: as long as only blocked requests come in and the other acts spare the holder,
  nobody else is granted the lock, in whatever order the steps come.
\<close>

lemma exclusive:
  assumes "held_by look same wrote g w" "list_all (harmless same blocks spares g) es"
  shows "held_by look same wrote g (lock_run look refuses save act es w)
    \<and> filter (same g) (lk_granted (lock_run look refuses save act es w)) = filter (same g) (lk_granted w)"
  using assms
proof (induction es arbitrary: w)
  case (Cons e es)
  then show ?case using held_step [of g w e] by (simp add: lock_run_def)
qed (simp add: lock_run_def)

lemma next_request:
  assumes "held_by look same wrote g w" "same g q"
  shows "lk_pending (ask_step look refuses q w) = lk_pending w \<longleftrightarrow> blocks g q"
  using assms blocked same_look by (auto simp: ask_step_def held_by_def Let_def)

end

end
