(* ===== verification/Locks.thy ===== *)
theory Locks
  imports Interfaces
begin

text \<open>
  The two locks that keep the background loops from running twice (\<open>app/database.py\<close>): the lock of
  a scheduler task and the runtime lock of a trading process. Each is a row that names its owner
  and the time it is held until. A request reads the row and writes it in two steps, between which
  other processes may come; both locks are instances of the interface \<open>two_step_lock\<close>. Time stamps
  are whole seconds.
\<close>

section \<open>The lock of a scheduler task\<close>

record task_row =
  task_status :: string
  lock_owner :: string
  lock_until :: "int option"
  last_started_at :: "int option"
  last_finished_at :: "int option"
  next_run_at :: "int option"
  last_error :: string
  last_result :: pydict
  run_count :: int
  task_updated_at :: int

type_synonym task_table = "(string \<times> task_row) list"

definition stale_notes :: "int \<Rightarrow> task_row \<Rightarrow> pydict" where
  "stale_notes now r = dict_update (last_result r)
     [(''stale_lock_recovered'', VBool True),
      (''previous_lock_until'', (case lock_until r of None \<Rightarrow> VNone | Some t \<Rightarrow> VInt t)),
      (''recovered_at'', VInt now)]"

text \<open>The requester judges the age of the running task by its own \<open>ttl\<close>.\<close>

definition task_ttl_expired :: "int \<Rightarrow> int \<Rightarrow> task_row \<Rightarrow> bool" where
  "task_ttl_expired now ttl r = (case last_started_at r of None \<Rightarrow> False | Some t \<Rightarrow> t + max 1 ttl \<le> now)"

definition task_locked :: "int \<Rightarrow> int \<Rightarrow> task_row \<Rightarrow> bool" where
  "task_locked now ttl r \<longleftrightarrow> task_status r = ''RUNNING''
     \<and> (case lock_until r of None \<Rightarrow> False | Some u \<Rightarrow> now < u) \<and> \<not> task_ttl_expired now ttl r"

text \<open>
  A request reads the row (\<open>SELECT\<close>, outside of a transaction), is refused or goes on, and then writes
  the row in a transaction of its own (\<open>INSERT ... ON CONFLICT DO UPDATE\<close>). The result column is replaced
  only when the row that was read was \<open>RUNNING\<close>.
\<close>

record task_request =
  tq_task :: string
  tq_owner :: string
  tq_now :: int
  tq_ttl :: int

definition task_refuses :: "task_request \<Rightarrow> task_row option \<Rightarrow> bool" where
  "task_refuses q read = (case read of None \<Rightarrow> False | Some r \<Rightarrow> task_locked (tq_now q) (tq_ttl q) r)"

definition task_save :: "task_request \<Rightarrow> task_row option \<Rightarrow> task_table \<Rightarrow> task_table" where
  "task_save q read tbl =
     (let now = tq_now q; until = now + max 1 (tq_ttl q);
          recovered = (case read of None \<Rightarrow> False | Some r \<Rightarrow> task_status r = ''RUNNING'');
          result = (case read of None \<Rightarrow> [] | Some r \<Rightarrow> if recovered then stale_notes now r else last_result r)
      in dict_put tbl (tq_task q)
        (case map_of tbl (tq_task q) of
           Some r \<Rightarrow> r\<lparr>task_status := ''RUNNING'', lock_owner := tq_owner q, lock_until := Some until,
              last_started_at := Some now, last_error := [], last_result := (if recovered then result else last_result r),
              task_updated_at := now\<rparr>
         | None \<Rightarrow> \<lparr>task_status = ''RUNNING'', lock_owner = tq_owner q, lock_until = Some until,
              last_started_at = Some now, last_finished_at = None, next_run_at = None, last_error = [],
              last_result = result, run_count = 0, task_updated_at = now\<rparr>))"

text \<open>A request whose two steps are not interrupted.\<close>

definition acquire_scheduler_task_lock ::
  "int \<Rightarrow> string \<Rightarrow> string \<Rightarrow> int \<Rightarrow> task_table \<Rightarrow> (bool \<times> task_row option) \<times> task_table" where
  "acquire_scheduler_task_lock now name owner ttl tbl =
     (let q = \<lparr>tq_task = name, tq_owner = owner, tq_now = now, tq_ttl = ttl\<rparr>; read = map_of tbl name
      in if task_refuses q read then ((False, read), tbl)
         else (let tbl' = task_save q read tbl in ((True, map_of tbl' name), tbl')))"

definition finish_scheduler_task ::
  "int \<Rightarrow> string \<Rightarrow> string \<Rightarrow> pydict \<Rightarrow> string \<Rightarrow> int option \<Rightarrow> task_table \<Rightarrow> task_row \<times> task_table" where
  "finish_scheduler_task now name status result err next tbl =
     (let st = py_upper (if status = [] then ''IDLE'' else status);
          r' = (case map_of tbl name of
            Some r \<Rightarrow> r\<lparr>task_status := st, lock_owner := [], lock_until := None, last_finished_at := Some now,
              next_run_at := next, last_error := err, last_result := result, run_count := run_count r + 1,
              task_updated_at := now\<rparr>
          | None \<Rightarrow> \<lparr>task_status = st, lock_owner = [], lock_until = None, last_started_at = None,
              last_finished_at = Some now, next_run_at = next, last_error = err, last_result = result,
              run_count = 1, task_updated_at = now\<rparr>)
      in (r', dict_put tbl name r'))"

section \<open>The runtime lock of a trading process\<close>

record runtime_lock =
  rl_instance_id :: string
  rl_hostname :: string
  rl_app_env :: string
  rl_runtime_owner :: string
  rl_status :: string
  rl_acquired_at :: int
  rl_expires_at :: int
  rl_updated_at :: int

type_synonym lock_table = "(string \<times> runtime_lock) list"

definition runtime_locked :: "int \<Rightarrow> string \<Rightarrow> runtime_lock \<Rightarrow> bool" where
  "runtime_locked now instance_id r \<longleftrightarrow>
     rl_status r = ''RUNNING'' \<and> rl_instance_id r \<noteq> instance_id \<and> now < rl_expires_at r"

record run_request =
  rq_lock :: string
  rq_instance :: string
  rq_hostname :: string
  rq_app_env :: string
  rq_owner :: string
  rq_now :: int
  rq_ttl :: int

definition runtime_refuses :: "run_request \<Rightarrow> runtime_lock option \<Rightarrow> bool" where
  "runtime_refuses q read = (case read of None \<Rightarrow> False | Some r \<Rightarrow> runtime_locked (rq_now q) (rq_instance q) r)"

definition runtime_save :: "run_request \<Rightarrow> runtime_lock option \<Rightarrow> lock_table \<Rightarrow> lock_table" where
  "runtime_save q read tbl = dict_put tbl (rq_lock q)
     \<lparr>rl_instance_id = rq_instance q, rl_hostname = rq_hostname q, rl_app_env = rq_app_env q, rl_runtime_owner = rq_owner q,
      rl_status = ''RUNNING'', rl_acquired_at = rq_now q, rl_expires_at = rq_now q + rq_ttl q, rl_updated_at = rq_now q\<rparr>"

definition acquire_runtime_lock :: "run_request \<Rightarrow> lock_table \<Rightarrow> (bool \<times> runtime_lock option) \<times> lock_table" where
  "acquire_runtime_lock q tbl =
     (let read = map_of tbl (rq_lock q)
      in if runtime_refuses q read then ((False, read), tbl)
         else (let tbl' = runtime_save q read tbl in ((True, map_of tbl' (rq_lock q)), tbl')))"

definition release_runtime_lock :: "int \<Rightarrow> string \<Rightarrow> string \<Rightarrow> string \<Rightarrow> lock_table \<Rightarrow> lock_table" where
  "release_runtime_lock now lock_id instance_id status tbl =
     update_where (\<lambda>(k, r). k = lock_id \<and> rl_instance_id r = instance_id)
       (\<lambda>(k, r). (k, r\<lparr>rl_status := status, rl_expires_at := now, rl_updated_at := now\<rparr>)) tbl"

section \<open>The steps of several processes\<close>

text \<open>The other writer of a task row is the end of a run; of a lock row, a release.\<close>

type_synonym task_end = "int \<times> string \<times> string \<times> pydict \<times> string \<times> int option"

definition task_act :: "task_end \<Rightarrow> task_table \<Rightarrow> task_table" where
  "task_act e tbl = (case e of (now, task, status, result, err, next) \<Rightarrow> snd (finish_scheduler_task now task status result err next tbl))"

definition task_look :: "task_request \<Rightarrow> task_table \<Rightarrow> task_row option" where
  "task_look q tbl = map_of tbl (tq_task q)"

type_synonym task_system = "(task_table, task_request, task_row) lock_system"

definition task_run :: "(task_request, task_end) lock_event list \<Rightarrow> task_system \<Rightarrow> task_system" where
  "task_run = lock_run task_look task_refuses task_save task_act"

type_synonym release = "int \<times> string \<times> string \<times> string"

definition runtime_act :: "release \<Rightarrow> lock_table \<Rightarrow> lock_table" where
  "runtime_act e tbl = (case e of (now, lock, inst, status) \<Rightarrow> release_runtime_lock now lock inst status tbl)"

definition runtime_look :: "run_request \<Rightarrow> lock_table \<Rightarrow> runtime_lock option" where
  "runtime_look q tbl = map_of tbl (rq_lock q)"

type_synonym runtime_system = "(lock_table, run_request, runtime_lock) lock_system"

definition runtime_run :: "(run_request, release) lock_event list \<Rightarrow> runtime_system \<Rightarrow> runtime_system" where
  "runtime_run = lock_run runtime_look runtime_refuses runtime_save runtime_act"

text \<open>The uninterrupted request is its two steps in a row.\<close>

lemma acquire_task_steps:
  "lk_store (task_run [Ask q, Store 0] \<lparr>lk_store = tbl, lk_pending = [], lk_granted = []\<rparr>)
     = snd (acquire_scheduler_task_lock (tq_now q) (tq_task q) (tq_owner q) (tq_ttl q) tbl)"
  by (cases q) (simp add: task_run_def lock_run_def ask_step_def store_step_def acquire_scheduler_task_lock_def task_look_def task_refuses_def Let_def)

lemma acquire_runtime_steps:
  "lk_store (runtime_run [Ask q, Store 0] \<lparr>lk_store = tbl, lk_pending = [], lk_granted = []\<rparr>) = snd (acquire_runtime_lock q tbl)"
  by (simp add: runtime_run_def lock_run_def ask_step_def store_step_def acquire_runtime_lock_def runtime_look_def Let_def)

section \<open>Both are locks in two steps\<close>

definition same_task :: "task_request \<Rightarrow> task_request \<Rightarrow> bool" where
  "same_task g q \<longleftrightarrow> tq_task q = tq_task g"

definition task_wrote :: "task_request \<Rightarrow> task_row \<Rightarrow> bool" where
  "task_wrote g r \<longleftrightarrow> task_status r = ''RUNNING'' \<and> lock_until r = Some (tq_now g + max 1 (tq_ttl g)) \<and> last_started_at r = Some (tq_now g)"

text \<open>The holder blocks a request until its own time has passed or the shorter one the requester assumes.\<close>

definition task_blocks :: "task_request \<Rightarrow> task_request \<Rightarrow> bool" where
  "task_blocks g q \<longleftrightarrow> tq_now q < tq_now g + max 1 (min (tq_ttl g) (tq_ttl q))"

definition ends_other :: "task_end \<Rightarrow> task_request \<Rightarrow> bool" where
  "ends_other e g \<longleftrightarrow> fst (snd e) \<noteq> tq_task g"

interpretation task_lock: two_step_lock task_look task_refuses task_save task_act same_task task_wrote task_blocks ends_other
proof
  fix g q :: task_request and tbl :: task_table and row :: task_row and read :: "task_row option" and e :: task_end
  show "same_task g g" by (simp add: same_task_def)
  show "task_look q tbl = task_look g tbl" if "same_task g q" using that by (simp add: same_task_def task_look_def)
  show "\<exists>row. task_look q (task_save q read tbl) = Some row \<and> task_wrote q row"
    by (auto simp: task_look_def task_save_def task_wrote_def Let_def split: option.split)
  show "task_look g (task_save q read tbl) = task_look g tbl" if "\<not> same_task g q"
    using that by (auto simp: task_look_def task_save_def same_task_def Let_def)
  show "task_refuses q (Some row) \<longleftrightarrow> task_blocks g q" if "same_task g q" "task_wrote g row"
    using that by (auto simp: task_refuses_def task_locked_def task_ttl_expired_def task_wrote_def task_blocks_def)
  show "\<exists>row'. task_look g (task_act e tbl) = Some row' \<and> task_wrote g row'"
    if "ends_other e g" "task_look g tbl = Some row" "task_wrote g row"
    using that by (cases e) (auto simp: task_look_def task_act_def ends_other_def finish_scheduler_task_def Let_def)
qed

definition same_lock :: "run_request \<Rightarrow> run_request \<Rightarrow> bool" where
  "same_lock g q \<longleftrightarrow> rq_lock q = rq_lock g"

definition runtime_wrote :: "run_request \<Rightarrow> runtime_lock \<Rightarrow> bool" where
  "runtime_wrote g r \<longleftrightarrow> rl_status r = ''RUNNING'' \<and> rl_instance_id r = rq_instance g \<and> rl_expires_at r = rq_now g + rq_ttl g"

definition runtime_blocks :: "run_request \<Rightarrow> run_request \<Rightarrow> bool" where
  "runtime_blocks g q \<longleftrightarrow> rq_instance q \<noteq> rq_instance g \<and> rq_now q < rq_now g + rq_ttl g"

definition releases_other :: "release \<Rightarrow> run_request \<Rightarrow> bool" where
  "releases_other e g \<longleftrightarrow> fst (snd e) \<noteq> rq_lock g \<or> fst (snd (snd e)) \<noteq> rq_instance g"

lemma release_keeps_other:
  assumes "map_of tbl k = Some r" "l \<noteq> k \<or> inst \<noteq> rl_instance_id r"
  shows "map_of (release_runtime_lock now l inst st tbl) k = Some r"
  using assms by (induction tbl) (auto simp: release_runtime_lock_def split: if_splits)

interpretation run_lock: two_step_lock runtime_look runtime_refuses runtime_save runtime_act same_lock runtime_wrote runtime_blocks releases_other
proof
  fix g q :: run_request and tbl :: lock_table and row :: runtime_lock and read :: "runtime_lock option" and e :: release
  show "same_lock g g" by (simp add: same_lock_def)
  show "runtime_look q tbl = runtime_look g tbl" if "same_lock g q" using that by (simp add: same_lock_def runtime_look_def)
  show "\<exists>row. runtime_look q (runtime_save q read tbl) = Some row \<and> runtime_wrote q row"
    by (simp add: runtime_look_def runtime_save_def runtime_wrote_def)
  show "runtime_look g (runtime_save q read tbl) = runtime_look g tbl" if "\<not> same_lock g q"
    using that by (auto simp: runtime_look_def runtime_save_def same_lock_def)
  show "runtime_refuses q (Some row) \<longleftrightarrow> runtime_blocks g q" if "same_lock g q" "runtime_wrote g row"
    using that by (auto simp: runtime_refuses_def runtime_locked_def runtime_wrote_def runtime_blocks_def)
  show "\<exists>row'. runtime_look g (runtime_act e tbl) = Some row' \<and> runtime_wrote g row'"
    if "releases_other e g" "runtime_look g tbl = Some row" "runtime_wrote g row"
    using that release_keeps_other [of tbl "rq_lock g" row]
    by (cases e) (auto simp: runtime_look_def runtime_act_def releases_other_def runtime_wrote_def)
qed

text \<open>
  Nothing keeps the two steps of a request together: two requests that read a free lock before
  either writes are both granted, of a task as well as of the runtime lock.
\<close>

lemma task_requests_race:
  assumes "\<not> task_refuses p (task_look p (lk_store w))" "\<not> task_refuses q (task_look q (lk_store w))" "lk_pending w = []"
  shows "lk_granted (task_run [Ask p, Ask q, Store 0, Store 0] w) = lk_granted w @ [p, q]"
  unfolding task_run_def using assms by (rule interleaved_requests)

lemma runtime_requests_race:
  assumes "\<not> runtime_refuses p (runtime_look p (lk_store w))" "\<not> runtime_refuses q (runtime_look q (lk_store w))" "lk_pending w = []"
  shows "lk_granted (runtime_run [Ask p, Ask q, Store 0, Store 0] w) = lk_granted w @ [p, q]"
  unfolding runtime_run_def using assms by (rule interleaved_requests)

section \<open>Properties\<close>

text \<open>
  C11. A scheduler task runs once at a time, in every order of the steps of the processes: once a
  request g has written its row while no other request for the task stood between its two steps,
  no other request for the task is granted as long as those that come ask before both the time
  g asked for and the time they would ask for themselves have passed since, and the task is not
  finished. A next request is refused exactly until the shorter of the two times has passed: a
  requester with a smaller time to live gets the lock earlier.
\<close>

theorem scheduler_task_lock_is_exclusive:
  assumes "i < length (lk_pending w)" "fst (lk_pending w ! i) = g"
    and "\<forall>p \<in> set (take i (lk_pending w) @ drop (Suc i) (lk_pending w)). tq_task (fst p) \<noteq> tq_task g"
    and "list_all (harmless same_task task_blocks ends_other g) es" and "tq_task q = tq_task g"
  shows "let w' = task_run es (store_step task_save i w) in
    filter (same_task g) (lk_granted w') = filter (same_task g) (lk_granted w) @ [g]
    \<and> (lk_pending (ask_step task_look task_refuses q w') = lk_pending w'
        \<longleftrightarrow> tq_now q < tq_now g + max 1 (min (tq_ttl g) (tq_ttl q)))"
proof -
  have held: "held_by task_look same_task task_wrote g (store_step task_save i w)"
    using assms(3) by (intro task_lock.held_after_store [OF assms(1,2)]) (simp add: same_task_def split_def)
  have granted: "lk_granted (store_step task_save i w) = lk_granted w @ [g]"
    using assms(1,2) by (auto simp: store_step_def split: prod.split)
  show ?thesis
    using task_lock.exclusive [OF held assms(4)] task_lock.next_request [of g _ q] assms(5) granted
    by (simp add: task_run_def Let_def same_task_def task_blocks_def)
qed

definition sample_task_request :: "string \<Rightarrow> int \<Rightarrow> int \<Rightarrow> task_request" where
  "sample_task_request owner now ttl = \<lparr>tq_task = ''scan'', tq_owner = owner, tq_now = now, tq_ttl = ttl\<rparr>"

theorem scheduler_task_lock_is_exclusive_witness:
  "let w = \<lparr>lk_store = [], lk_pending = [(sample_task_request ''a'' 1000 60, None)], lk_granted = []\<rparr>;
       es = [Ask (sample_task_request ''b'' 1005 60), Store 0, Other (1006, ''report'', ''DONE'', [], [], None), Ask (sample_task_request ''c'' 1009 10)];
       w' = task_run es (store_step task_save 0 w)
   in lk_pending (ask_step task_look task_refuses (sample_task_request ''d'' 1010 10) w') \<noteq> lk_pending w'
     \<and> lk_pending (ask_step task_look task_refuses (sample_task_request ''e'' 1059 60) w') = lk_pending w'"
proof -
  let ?g = "sample_task_request ''a'' 1000 60"
  let ?w = "\<lparr>lk_store = [], lk_pending = [(?g, None)], lk_granted = []\<rparr> :: task_system"
  let ?es = "[Ask (sample_task_request ''b'' 1005 60), Store 0, Other (1006, ''report'', ''DONE'', [], [], None), Ask (sample_task_request ''c'' 1009 10)]"
  have a: "0 < length (lk_pending ?w)" "fst (lk_pending ?w ! 0) = ?g" by simp_all
  have b: "\<forall>p \<in> set (take 0 (lk_pending ?w) @ drop (Suc 0) (lk_pending ?w)). tq_task (fst p) \<noteq> tq_task ?g" by simp
  have c: "list_all (harmless same_task task_blocks ends_other ?g) ?es"
    by (simp add: harmless_def same_task_def task_blocks_def ends_other_def sample_task_request_def)
  have d: "tq_task (sample_task_request y t l) = tq_task ?g" for y t l by (simp add: sample_task_request_def)
  note next_one = scheduler_task_lock_is_exclusive [OF a b c d, unfolded Let_def, THEN conjunct2]
  show ?thesis unfolding Let_def next_one by (simp add: sample_task_request_def)
qed

text \<open>
  C14. One trading process, in every order of the steps of the processes: once a process has written
  the runtime lock while no other request stood between its two steps, no other process, of
  whatever host, environment and owner and with whatever time to live, is granted the lock until
  the time of the holder has passed, also when others release the lock under their own names. The
  next request of another process is refused exactly until then.
\<close>

theorem runtime_lock_is_exclusive:
  assumes "i < length (lk_pending w)" "fst (lk_pending w ! i) = g"
    and "\<forall>p \<in> set (take i (lk_pending w) @ drop (Suc i) (lk_pending w)). rq_lock (fst p) \<noteq> rq_lock g"
    and "list_all (harmless same_lock runtime_blocks releases_other g) es" and "rq_lock q = rq_lock g" "rq_instance q \<noteq> rq_instance g"
  shows "let w' = runtime_run es (store_step runtime_save i w) in
    filter (same_lock g) (lk_granted w') = filter (same_lock g) (lk_granted w) @ [g]
    \<and> (lk_pending (ask_step runtime_look runtime_refuses q w') = lk_pending w' \<longleftrightarrow> rq_now q < rq_now g + rq_ttl g)"
proof -
  have held: "held_by runtime_look same_lock runtime_wrote g (store_step runtime_save i w)"
    using assms(3) by (intro run_lock.held_after_store [OF assms(1,2)]) (simp add: same_lock_def split_def)
  have granted: "lk_granted (store_step runtime_save i w) = lk_granted w @ [g]"
    using assms(1,2) by (auto simp: store_step_def split: prod.split)
  show ?thesis
    using run_lock.exclusive [OF held assms(4)] run_lock.next_request [of g _ q] assms(5,6) granted
    by (simp add: runtime_run_def Let_def same_lock_def runtime_blocks_def)
qed

definition sample_run_request :: "string \<Rightarrow> string \<Rightarrow> int \<Rightarrow> int \<Rightarrow> run_request" where
  "sample_run_request inst host now ttl = \<lparr>rq_lock = ''auto'', rq_instance = inst, rq_hostname = host, rq_app_env = ''prod'',
     rq_owner = ''worker'', rq_now = now, rq_ttl = ttl\<rparr>"

theorem runtime_lock_is_exclusive_witness:
  "let w = \<lparr>lk_store = [], lk_pending = [(sample_run_request ''a'' ''h1'' 1000 60, None)], lk_granted = []\<rparr>;
       es = [Ask (sample_run_request ''b'' ''h2'' 1005 600), Other (1006, ''auto'', ''b'', ''STOPPED''), Store 0];
       w' = runtime_run es (store_step runtime_save 0 w)
   in lk_pending (ask_step runtime_look runtime_refuses (sample_run_request ''b'' ''h2'' 1010 5) w') = lk_pending w'
     \<and> lk_pending (ask_step runtime_look runtime_refuses (sample_run_request ''b'' ''h2'' 1060 5) w') \<noteq> lk_pending w'"
proof -
  let ?g = "sample_run_request ''a'' ''h1'' 1000 60"
  let ?w = "\<lparr>lk_store = [], lk_pending = [(?g, None)], lk_granted = []\<rparr> :: runtime_system"
  let ?es = "[Ask (sample_run_request ''b'' ''h2'' 1005 600), Other (1006, ''auto'', ''b'', ''STOPPED''), Store 0]"
  have a: "0 < length (lk_pending ?w)" "fst (lk_pending ?w ! 0) = ?g" by simp_all
  have b: "\<forall>p \<in> set (take 0 (lk_pending ?w) @ drop (Suc 0) (lk_pending ?w)). rq_lock (fst p) \<noteq> rq_lock ?g" by simp
  have c: "list_all (harmless same_lock runtime_blocks releases_other ?g) ?es"
    by (simp add: harmless_def same_lock_def runtime_blocks_def releases_other_def sample_run_request_def)
  have d: "rq_lock (sample_run_request ''b'' ''h2'' t l) = rq_lock ?g" "rq_instance (sample_run_request ''b'' ''h2'' t l) \<noteq> rq_instance ?g" for t l
    by (simp_all add: sample_run_request_def)
  note next_one = runtime_lock_is_exclusive [OF a b c d, unfolded Let_def, THEN conjunct2]
  show ?thesis unfolding Let_def next_one by (simp add: sample_run_request_def)
qed

text \<open>
  Finishing a task frees its lock for whoever asks next, without looking at the holder: a
  run that outlived its own lock and finishes late also frees the lock of the run that replaced it.
\<close>

lemma finish_frees_any_holder:
  "fst (fst (acquire_scheduler_task_lock now task y ttl (snd (finish_scheduler_task t task st res err next tbl))))
   \<longleftrightarrow> True"
  by (simp add: acquire_scheduler_task_lock_def task_refuses_def task_locked_def finish_scheduler_task_def Let_def split: option.split)

end
