(* ===== verification/OrderLog.thy ===== *)
theory OrderLog
  imports Interfaces
begin

text \<open>
  The log of live orders (\<open>live_order_logs\<close> and \<open>live_order_idempotency\<close> in \<open>app/database.py\<close>):
  inserting an order with its duplicate tests and its idempotency claim, updating it, and the
  queries by exchange order uuid. A transaction that raises is rolled back, so an error leaves the
  store as it was. Time stamps are whole seconds; the code keeps them as canonical UTC texts, whose
  text order is the order of the instants.
\<close>

section \<open>Tables\<close>

record order_log =
  log_id :: int
  request_id :: string
  log_session_id :: "int option"
  log_candidate_id :: "int option"
  log_exchange :: string
  log_market :: string
  log_side :: string
  log_order_type :: string
  log_price :: "rat option"
  log_volume :: "rat option"
  log_amount_krw :: "rat option"
  fee_estimate :: rat
  risk_result :: string
  order_preview_payload :: pydict
  exchange_response_payload :: pydict
  log_status :: string
  error_message :: "string option"
  log_order_uuid :: "string option"
  executed_volume :: rat
  remaining_volume :: rat
  filled_amount_krw :: rat
  paid_fee :: rat
  log_position_id :: "int option"
  exit_candidate_id :: "int option"
  order_purpose :: string
  exit_reason :: "string option"
  expected_pnl :: rat
  actual_pnl :: "rat option"
  is_auto_exit :: bool
  manual_confirmed :: bool
  log_strategy_name :: "string option"
  signal_reason :: "string option"
  signal_type :: "string option"
  candle_time_utc :: "int option"
  client_order_id :: "string option"
  idempotency_key :: "string option"
  candle_close_at_utc :: "int option"
  signal_generated_at_utc :: "int option"
  order_requested_at_utc :: "int option"
  order_executed_at_utc :: "int option"
  log_created_at :: int
  log_updated_at :: int

record idem_row =
  ik_key :: string
  ik_request_id :: string
  ik_client_order_id :: string
  ik_order_uuid :: "string option"
  ik_exchange :: string
  ik_market :: string
  ik_session_id :: "int option"
  ik_strategy_name :: string
  ik_signal_type :: string
  ik_candle_close :: int
  ik_status :: string

record order_store =
  order_logs :: "order_log list"
  idem_rows :: "idem_row list"
  log_seq :: int

section \<open>Status events and canonical rows\<close>

text \<open>
  Rows whose request id carries one of these marks record a status change of an order that has
  another, canonical row. Python tests for \<open>-submitted-\<close>, the queries for \<open>LIKE '%-submitted%'\<close>,
  which ignores case.
\<close>

definition py_event_marks :: "string list" where
  "py_event_marks = [''-submitted-'', ''-waiting-'', ''-partial'', ''-canceled-'', ''-filled-'', ''-failed-'']"

definition sql_event_marks :: "string list" where
  "sql_event_marks = [''-submitted'', ''-waiting-'', ''-partial'', ''-canceled-'', ''-filled-'', ''-failed-'']"

definition is_live_order_status_event_request :: "string \<Rightarrow> bool" where
  "is_live_order_status_event_request rid = list_ex (\<lambda>m. py_contains m rid) py_event_marks"

definition sql_status_event :: "string \<Rightarrow> bool" where
  "sql_status_event rid = list_ex (\<lambda>m. py_contains m (py_lower rid)) sql_event_marks"

definition canonical_for :: "string \<Rightarrow> order_log \<Rightarrow> bool" where
  "canonical_for uuid r \<longleftrightarrow> log_order_uuid r = Some uuid \<and> \<not> sql_status_event (request_id r)"

definition find_canonical_live_order_by_uuid :: "order_log list \<Rightarrow> string \<Rightarrow> string option \<Rightarrow> order_log option" where
  "find_canonical_live_order_by_uuid logs uuid exclude =
     (if uuid = [] then None
      else first_row (\<lambda>r. canonical_for uuid r
             \<and> (case exclude of None \<Rightarrow> True | Some x \<Rightarrow> x = [] \<or> request_id r \<noteq> x)) (sort_key log_id logs))"

text \<open>\<open>ORDER BY\<close> canonical rows first, then rows with a position, then by time and id.\<close>

definition uuid_order_key :: "order_log \<Rightarrow> int \<times> int \<times> int \<times> int" where
  "uuid_order_key r = (if sql_status_event (request_id r) then 1 else 0,
     if log_position_id r = None then 1 else 0, log_updated_at r, log_id r)"

definition normalize_live_order_log :: "order_log \<Rightarrow> order_log" where
  "normalize_live_order_log r = r\<lparr>
     log_exchange := (if log_exchange r = [] then ''upbit'' else log_exchange r),
     client_order_id := or_text (client_order_id r) (Some (request_id r)),
     candle_close_at_utc := or_int (candle_close_at_utc r) (candle_time_utc r)\<rparr>"

definition get_live_order_log :: "'a order_store_scheme \<Rightarrow> string \<Rightarrow> order_log option" where
  "get_live_order_log s rid = map_option normalize_live_order_log (first_row (\<lambda>r. request_id r = rid) (order_logs s))"

definition load_live_order_logs_by_uuid :: "'a order_store_scheme \<Rightarrow> string \<Rightarrow> order_log list" where
  "load_live_order_logs_by_uuid s uuid = map normalize_live_order_log
     (sort_key uuid_order_key (filter (\<lambda>r. log_order_uuid r = Some uuid) (order_logs s)))"

definition load_filled_entry_order_logs_without_position ::
  "'a order_store_scheme \<Rightarrow> string \<Rightarrow> string \<Rightarrow> order_log list" where
  "load_filled_entry_order_logs_without_position s exchange market = map normalize_live_order_log
     (sort_key (\<lambda>r. (log_updated_at r, log_id r))
       (filter (\<lambda>r. log_exchange r = exchange \<and> log_market r = market \<and> log_side r = ''BUY''
          \<and> order_purpose r = ''ENTRY'' \<and> log_status r = ''FILLED'' \<and> log_position_id r = None
          \<and> log_session_id r \<noteq> None \<and> log_candidate_id r \<noteq> None \<and> log_order_uuid r \<noteq> None
          \<and> executed_volume r > 0 \<and> \<not> sql_status_event (request_id r)) (order_logs s)))"

section \<open>Inserting an order\<close>

datatype insert_error = DuplicateClientOrderId | DuplicateExchangeOrderUuid | DuplicateIdempotencyKey
  | RequestIdNotUnique

definition should_claim_idempotency :: "order_log \<Rightarrow> bool" where
  "should_claim_idempotency r \<longleftrightarrow> os (idempotency_key r) \<noteq> []
     \<and> \<not> is_live_order_status_event_request (request_id r)
     \<and> py_upper (log_status r) \<notin> {''BLOCKED'', ''FAILED'', ''ERROR''}"

definition normalize_new_log :: "int \<Rightarrow> order_log \<Rightarrow> order_log" where
  "normalize_new_log now r = r\<lparr>
     client_order_id := Some (str_or (client_order_id r) (take 36 (request_id r))),
     candle_close_at_utc := or_int (candle_close_at_utc r) (candle_time_utc r),
     signal_generated_at_utc := (case signal_generated_at_utc r of None \<Rightarrow> Some now | t \<Rightarrow> t),
     order_requested_at_utc := (case order_requested_at_utc r of None \<Rightarrow> Some now | t \<Rightarrow> t),
     log_created_at := now, log_updated_at := now\<rparr>"

definition idem_row_of :: "int \<Rightarrow> order_log \<Rightarrow> idem_row" where
  "idem_row_of now r = \<lparr>ik_key = os (idempotency_key r), ik_request_id = request_id r,
     ik_client_order_id = os (client_order_id r),
     ik_order_uuid = (if os (log_order_uuid r) = [] then None else log_order_uuid r),
     ik_exchange = log_exchange r, ik_market = log_market r, ik_session_id = log_session_id r,
     ik_strategy_name = os (log_strategy_name r), ik_signal_type = str_or (signal_type r) (log_side r),
     ik_candle_close = (case or_int (candle_close_at_utc r) None of Some t \<Rightarrow> t | None \<Rightarrow> now), ik_status = ''CLAIMED''\<rparr>"

definition insert_check :: "order_log \<Rightarrow> 'a order_store_scheme \<Rightarrow> insert_error option" where
  "insert_check r s =
     (let event = is_live_order_status_event_request (request_id r);
          uuid = os (log_order_uuid r);
          claim = should_claim_idempotency r
      in if list_ex (\<lambda>x. client_order_id x = client_order_id r \<and> request_id x \<noteq> request_id r) (order_logs s) \<and> \<not> event
         then Some DuplicateClientOrderId
         else if uuid \<noteq> [] \<and> \<not> event \<and> find_canonical_live_order_by_uuid (order_logs s) uuid None \<noteq> None
         then Some DuplicateExchangeOrderUuid
         else if claim \<and> list_ex (\<lambda>k. ik_key k = os (idempotency_key r) \<or> ik_request_id k = request_id r) (idem_rows s)
         then Some DuplicateIdempotencyKey
         else if list_ex (\<lambda>x. request_id x = request_id r) (order_logs s) then Some RequestIdNotUnique
         else None)"

definition inserted_log :: "int \<Rightarrow> order_log \<Rightarrow> 'a order_store_scheme \<Rightarrow> 'a order_store_scheme" where
  "inserted_log now r s = s\<lparr>order_logs := order_logs s @ [r\<lparr>log_id := log_seq s + 1\<rparr>],
     idem_rows := idem_rows s @ (if should_claim_idempotency r then [idem_row_of now r] else []),
     log_seq := log_seq s + 1\<rparr>"

definition insert_live_order_log ::
  "int \<Rightarrow> order_log \<Rightarrow> 'a order_store_scheme \<Rightarrow> insert_error + int \<times> 'a order_store_scheme" where
  "insert_live_order_log now new s =
     (let r = normalize_new_log now new
      in case insert_check r s of Some e \<Rightarrow> Inl e | None \<Rightarrow> Inr (log_seq s + 1, inserted_log now r s))"

section \<open>Updating an order\<close>

text \<open>
  \<open>merged = {**current, **updates}\<close>: the updates are a function on the row. Only these columns are
  written back; request id, exchange, market, side, order type, price, volume, amount and the
  preview stay as stored.
\<close>

definition write_columns :: "int \<Rightarrow> order_log \<Rightarrow> order_log \<Rightarrow> order_log" where
  "write_columns now m r = r\<lparr>risk_result := risk_result m, exchange_response_payload := exchange_response_payload m,
     log_status := log_status m, error_message := error_message m, log_session_id := log_session_id m,
     log_candidate_id := log_candidate_id m, log_order_uuid := log_order_uuid m,
     executed_volume := executed_volume m, remaining_volume := remaining_volume m,
     filled_amount_krw := filled_amount_krw m, paid_fee := paid_fee m, log_position_id := log_position_id m,
     exit_candidate_id := exit_candidate_id m, order_purpose := order_purpose m, exit_reason := exit_reason m,
     expected_pnl := expected_pnl m, actual_pnl := actual_pnl m, is_auto_exit := is_auto_exit m,
     manual_confirmed := manual_confirmed m, log_strategy_name := log_strategy_name m,
     signal_reason := signal_reason m, signal_type := signal_type m, candle_time_utc := candle_time_utc m,
     client_order_id := client_order_id m, idempotency_key := idempotency_key m,
     candle_close_at_utc := or_int (candle_close_at_utc m) (candle_time_utc m),
     signal_generated_at_utc := signal_generated_at_utc m, order_requested_at_utc := order_requested_at_utc m,
     order_executed_at_utc := order_executed_at_utc m, log_updated_at := now\<rparr>"

definition merge_log :: "order_log list \<Rightarrow> order_log \<Rightarrow> (order_log \<Rightarrow> order_log) \<Rightarrow> order_log" where
  "merge_log logs current updates =
     (let m = updates current; rid = request_id current; uuid = os (log_order_uuid m)
      in if uuid \<noteq> [] \<and> \<not> is_live_order_status_event_request rid
            \<and> find_canonical_live_order_by_uuid logs uuid (Some rid) \<noteq> None
         then m\<lparr>log_status := ''FAILED'', risk_result := ''DUPLICATE_EXCHANGE_ORDER_UUID'',
                error_message := Some ''Duplicate exchange order uuid already recorded'',
                log_order_uuid := log_order_uuid current\<rparr>
         else m)"

definition touch_idempotency :: "order_log \<Rightarrow> idem_row list \<Rightarrow> idem_row list" where
  "touch_idempotency m ks =
     (if os (idempotency_key m) = [] then ks
      else update_where (\<lambda>k. ik_key k = os (idempotency_key m))
             (\<lambda>k. k\<lparr>ik_order_uuid := (case log_order_uuid m of None \<Rightarrow> ik_order_uuid k | u \<Rightarrow> u),
                    ik_status := (if log_status m = [] then ''CLAIMED'' else log_status m)\<rparr>) ks)"

definition update_live_order_log ::
  "int \<Rightarrow> string \<Rightarrow> (order_log \<Rightarrow> order_log) \<Rightarrow> 'a order_store_scheme \<Rightarrow> 'a order_store_scheme" where
  "update_live_order_log now rid updates s =
     (case get_live_order_log s rid of
        None \<Rightarrow> s
      | Some current \<Rightarrow>
          (let m = merge_log (order_logs s) current updates
           in s\<lparr>order_logs := update_where (\<lambda>r. request_id r = rid) (write_columns now m) (order_logs s),
                idem_rows := touch_idempotency m (idem_rows s)\<rparr>))"

section \<open>Runs of the store\<close>

text \<open>Every store the program can reach: from the empty tables by inserts and updates.\<close>

inductive order_reach :: "order_store \<Rightarrow> bool" where
  reach_empty: "order_reach \<lparr>order_logs = [], idem_rows = [], log_seq = 0\<rparr>"
| reach_insert: "order_reach s \<Longrightarrow> insert_live_order_log now r s = Inr (i, s') \<Longrightarrow> order_reach s'"
| reach_update: "order_reach s \<Longrightarrow> order_reach (update_live_order_log now rid u s)"

section \<open>Lemmas\<close>

lemma py_prefix_append: "py_prefix (a @ b) s \<Longrightarrow> py_prefix a s"
  by (induction a s rule: py_prefix.induct) auto

lemma py_contains_append: "py_contains (a @ b) s \<Longrightarrow> py_contains a s"
  by (induction s) (auto dest: py_prefix_append)

lemma py_prefix_lower: "py_prefix a s \<Longrightarrow> py_prefix (py_lower a) (py_lower s)"
  by (induction a s rule: py_prefix.induct) (auto simp: py_lower_def)

lemma py_contains_lower: "py_contains a s \<Longrightarrow> py_contains (py_lower a) (py_lower s)"
proof (induction s)
  case (Cons c s)
  obtain d where d: "py_lower (c # s) = d # py_lower s" using py_lower_Cons[of c s] by blast
  show ?case
    using Cons py_prefix_lower[of a "c # s"] unfolding d by auto
qed simp

lemma event_marks_lower: "\<forall>m \<in> set py_event_marks. py_lower m = m"
  by code_simp

text \<open>A row Python takes for a status event is one for the queries too.\<close>

lemma py_event_sql_event:
  assumes "is_live_order_status_event_request rid"
  shows "sql_status_event rid"
proof -
  obtain m where m: "m \<in> set py_event_marks" "py_contains m rid"
    using assms by (auto simp: is_live_order_status_event_request_def list_ex_iff)
  then have "py_contains m (py_lower rid)"
    using py_contains_lower[of m rid] event_marks_lower by simp
  then show ?thesis
    using m(1) py_contains_append[of "''-submitted''" "''-''" "py_lower rid"]
    by (auto simp: sql_status_event_def py_event_marks_def sql_event_marks_def)
qed

definition canonical_unique :: "order_log list \<Rightarrow> bool" where
  "canonical_unique logs \<longleftrightarrow> (\<forall>u r r'. u \<noteq> [] \<longrightarrow> r \<in> set logs \<longrightarrow> r' \<in> set logs
     \<longrightarrow> canonical_for u r \<longrightarrow> canonical_for u r' \<longrightarrow> request_id r = request_id r')"

definition store_inv :: "'a order_store_scheme \<Rightarrow> bool" where
  "store_inv s \<longleftrightarrow> canonical_unique (order_logs s) \<and> distinct (map request_id (order_logs s))
     \<and> distinct (map log_id (order_logs s)) \<and> (\<forall>r \<in> set (order_logs s). log_id r \<le> log_seq s)
     \<and> distinct (map ik_key (idem_rows s)) \<and> distinct (map ik_request_id (idem_rows s))"

lemma canonical_uniqueD:
  "canonical_unique logs \<Longrightarrow> u \<noteq> [] \<Longrightarrow> r \<in> set logs \<Longrightarrow> r' \<in> set logs
    \<Longrightarrow> canonical_for u r \<Longrightarrow> canonical_for u r' \<Longrightarrow> request_id r = request_id r'"
  unfolding canonical_unique_def by blast

lemma length_le_1I:
  assumes "distinct (map f xs)" "\<And>x y. x \<in> set xs \<Longrightarrow> y \<in> set xs \<Longrightarrow> f x = f y"
  shows "length xs \<le> 1"
proof (cases xs)
  case (Cons x ys)
  show ?thesis
  proof (cases ys)
    case (Cons y zs)
    then have "f x = f y" "f x \<noteq> f y"
      using assms(1) assms(2)[of x y] \<open>xs = x # ys\<close> by simp_all
    then show ?thesis by simp
  qed (simp add: \<open>xs = x # ys\<close>)
qed simp

lemma find_canonical_None:
  "find_canonical_live_order_by_uuid logs u x = None \<longleftrightarrow> u = [] \<or>
     (\<forall>r \<in> set logs. canonical_for u r \<longrightarrow> (\<exists>y. x = Some y \<and> y \<noteq> [] \<and> request_id r = y))"
  unfolding find_canonical_live_order_by_uuid_def
  by (cases x) (auto simp: first_row_None_iff)

lemma normalize_log_simps [simp]:
  "request_id (normalize_live_order_log r) = request_id r" "log_order_uuid (normalize_live_order_log r) = log_order_uuid r"
  "log_id (normalize_live_order_log r) = log_id r"
  "request_id (normalize_new_log now r) = request_id r" "log_order_uuid (normalize_new_log now r) = log_order_uuid r"
  "log_status (normalize_new_log now r) = log_status r" "idempotency_key (normalize_new_log now r) = idempotency_key r"
  by (simp_all add: normalize_live_order_log_def normalize_new_log_def)

lemma write_columns_simps [simp]:
  "request_id (write_columns now m r) = request_id r" "log_id (write_columns now m r) = log_id r"
  "log_order_uuid (write_columns now m r) = log_order_uuid m"
  by (simp_all add: write_columns_def)

text \<open>What a successful insert did.\<close>

lemma insert_InrD:
  assumes "insert_live_order_log now r s = Inr (i, s')"
  shows "order_logs s' = order_logs s @ [(normalize_new_log now r)\<lparr>log_id := log_seq s + 1\<rparr>]"
    and "log_seq s' = log_seq s + 1"
    and "idem_rows s' = idem_rows s @
      (if should_claim_idempotency (normalize_new_log now r) then [idem_row_of now (normalize_new_log now r)] else [])"
    and "\<forall>x \<in> set (order_logs s). request_id x \<noteq> request_id r"
    and "os (log_order_uuid r) \<noteq> [] \<and> \<not> is_live_order_status_event_request (request_id r) \<longrightarrow>
      find_canonical_live_order_by_uuid (order_logs s) (os (log_order_uuid r)) None = None"
    and "should_claim_idempotency (normalize_new_log now r) \<longrightarrow>
      (\<forall>k \<in> set (idem_rows s). ik_key k \<noteq> os (idempotency_key r) \<and> ik_request_id k \<noteq> request_id r)"
proof -
  have c: "insert_check (normalize_new_log now r) s = None" "s' = inserted_log now (normalize_new_log now r) s"
    using assms by (auto simp: insert_live_order_log_def Let_def split: option.splits)
  show "order_logs s' = order_logs s @ [(normalize_new_log now r)\<lparr>log_id := log_seq s + 1\<rparr>]"
    "log_seq s' = log_seq s + 1" "idem_rows s' = idem_rows s @
      (if should_claim_idempotency (normalize_new_log now r) then [idem_row_of now (normalize_new_log now r)] else [])"
    using c(2) by (simp_all add: inserted_log_def)
  show "\<forall>x \<in> set (order_logs s). request_id x \<noteq> request_id r"
    "os (log_order_uuid r) \<noteq> [] \<and> \<not> is_live_order_status_event_request (request_id r) \<longrightarrow>
      find_canonical_live_order_by_uuid (order_logs s) (os (log_order_uuid r)) None = None"
    "should_claim_idempotency (normalize_new_log now r) \<longrightarrow>
      (\<forall>k \<in> set (idem_rows s). ik_key k \<noteq> os (idempotency_key r) \<and> ik_request_id k \<noteq> request_id r)"
    using c(1) by (simp_all add: insert_check_def Let_def list_ex_iff split: if_splits) blast
qed

lemma canonical_unique_snoc:
  assumes "canonical_unique logs"
    and "\<And>u x. u \<noteq> [] \<Longrightarrow> canonical_for u n \<Longrightarrow> x \<in> set logs \<Longrightarrow> \<not> canonical_for u x"
  shows "canonical_unique (logs @ [n])"
  unfolding canonical_unique_def
proof (intro allI impI)
  fix u r r'
  assume a: "u \<noteq> []" "r \<in> set (logs @ [n])" "r' \<in> set (logs @ [n])" "canonical_for u r" "canonical_for u r'"
  then consider "r = n" "r' = n" | "r = n" "r' \<in> set logs" | "r \<in> set logs" "r' = n"
    | "r \<in> set logs" "r' \<in> set logs" by auto
  then show "request_id r = request_id r'"
    using a assms(2) canonical_uniqueD[OF assms(1)] by cases blast+
qed

lemma idem_row_of_simps [simp]: "ik_key (idem_row_of now r) = os (idempotency_key r)"
  "ik_request_id (idem_row_of now r) = request_id r"
  by (simp_all add: idem_row_of_def)

lemma insert_store_inv:
  assumes ins: "insert_live_order_log now r s = Inr (i, s')" and inv: "store_inv s"
  shows "store_inv s'"
proof -
  note d = insert_InrD[OF ins]
  let ?n = "(normalize_new_log now r)\<lparr>log_id := log_seq s + 1\<rparr>"
  have "\<not> canonical_for u x" if "u \<noteq> []" "canonical_for u ?n" "x \<in> set (order_logs s)" for u x
  proof -
    have "log_order_uuid r = Some u" "\<not> is_live_order_status_event_request (request_id r)"
      using that py_event_sql_event[of "request_id r"] by (auto simp: canonical_for_def)
    then show ?thesis using d(5) that by (simp add: find_canonical_None)
  qed
  then have "canonical_unique (order_logs s')"
    using inv unfolding d(1) store_inv_def by (intro canonical_unique_snoc) blast+
  moreover have "distinct (map ik_key (idem_rows s'))" "distinct (map ik_request_id (idem_rows s'))"
    using d(6) inv unfolding d(3) store_inv_def by auto
  moreover have "distinct (map request_id (order_logs s'))" "distinct (map log_id (order_logs s'))"
    "\<forall>r \<in> set (order_logs s'). log_id r \<le> log_seq s'"
    using d(4) inv unfolding d(1,2) store_inv_def by fastforce+
  ultimately show ?thesis by (simp add: store_inv_def)
qed

lemma merge_log_uuid:
  assumes "log_order_uuid (merge_log logs cur u) = Some v" "v \<noteq> []" "\<not> sql_status_event (request_id cur)"
  shows "log_order_uuid cur = Some v \<or> (\<forall>r \<in> set logs. canonical_for v r \<longrightarrow> request_id r = request_id cur)"
  using assms py_event_sql_event[of "request_id cur"]
  by (auto simp: merge_log_def Let_def find_canonical_None split: if_splits)

lemma update_canonical_unique:
  assumes inv: "canonical_unique logs" "distinct (map request_id logs)"
    and cur: "first_row (\<lambda>r. request_id r = rid) logs = Some cur"
    and m: "\<And>v. log_order_uuid m = Some v \<Longrightarrow> v \<noteq> [] \<Longrightarrow> \<not> sql_status_event rid \<Longrightarrow>
      log_order_uuid cur = Some v \<or> (\<forall>r \<in> set logs. canonical_for v r \<longrightarrow> request_id r = rid)"
  shows "canonical_unique (update_where (\<lambda>r. request_id r = rid) (write_columns now m) logs)"
  unfolding canonical_unique_def set_update_where
proof (intro allI impI)
  let ?f = "\<lambda>r. if request_id r = rid then write_columns now m r else r"
  fix u x y
  assume a: "u \<noteq> []" "x \<in> ?f ` set logs" "y \<in> ?f ` set logs" "canonical_for u x" "canonical_for u y"
  obtain r r' where r: "r \<in> set logs" "x = ?f r" "r' \<in> set logs" "y = ?f r'" using a by blast
  have old: "request_id z = rid" if "z \<in> set logs" "canonical_for u z"
    "canonical_for u (write_columns now m w)" "request_id w = rid" for z w
    using m[of u] that a(1) canonical_uniqueD[OF inv(1) a(1), of cur z] first_row_SomeD[OF cur]
    by (auto simp: canonical_for_def)
  show "request_id x = request_id y"
    using r a old canonical_uniqueD[OF inv(1) a(1) r(1) r(3)] by (simp split: if_splits)
qed

lemma update_store_inv:
  assumes inv: "store_inv s"
  shows "store_inv (update_live_order_log now rid u s)"
proof (cases "first_row (\<lambda>r. request_id r = rid) (order_logs s)")
  case None
  then show ?thesis using inv by (simp add: update_live_order_log_def get_live_order_log_def)
next
  case (Some cur)
  let ?c = "normalize_live_order_log cur" and ?m = "merge_log (order_logs s) (normalize_live_order_log cur) u"
  have rid: "request_id cur = rid" using first_row_SomeD[OF Some] by simp
  have "canonical_unique (update_where (\<lambda>r. request_id r = rid) (write_columns now ?m) (order_logs s))"
    using inv Some merge_log_uuid[of "order_logs s" ?c u] rid by (intro update_canonical_unique) (auto simp: store_inv_def)
  moreover have "map ik_key (touch_idempotency ?m ks) = map ik_key ks"
    "map ik_request_id (touch_idempotency ?m ks) = map ik_request_id ks" for ks
    by (simp_all add: touch_idempotency_def map_update_where)
  ultimately show ?thesis
    using inv Some
    by (simp add: update_live_order_log_def get_live_order_log_def store_inv_def Let_def map_update_where)
      (auto simp: set_update_where)
qed

lemma order_reach_inv: "order_reach s \<Longrightarrow> store_inv s"
proof (induction rule: order_reach.induct)
  case reach_empty
  show ?case by (simp add: store_inv_def canonical_unique_def)
qed (auto intro: insert_store_inv update_store_inv)

definition sample_log :: "string \<Rightarrow> string \<Rightarrow> order_log" where
  "sample_log rid uuid = \<lparr>log_id = 0, request_id = rid, log_session_id = Some 1, log_candidate_id = Some 7,
     log_exchange = ''bithumb'', log_market = ''KRW-BTC'', log_side = ''BUY'', log_order_type = ''LIMIT'',
     log_price = Some 50000, log_volume = Some 2, log_amount_krw = Some 100000, fee_estimate = 0,
     risk_result = ''ALLOWED'', order_preview_payload = [], exchange_response_payload = [],
     log_status = ''FILLED'', error_message = None, log_order_uuid = Some uuid, executed_volume = 2,
     remaining_volume = 0, filled_amount_krw = 100000, paid_fee = 50, log_position_id = None,
     exit_candidate_id = None, order_purpose = ''ENTRY'', exit_reason = None, expected_pnl = 0,
     actual_pnl = None, is_auto_exit = False, manual_confirmed = False, log_strategy_name = Some ''trend'',
     signal_reason = None, signal_type = None, candle_time_utc = Some 1000, client_order_id = None,
     idempotency_key = Some rid, candle_close_at_utc = None, signal_generated_at_utc = None,
     order_requested_at_utc = None, order_executed_at_utc = None, log_created_at = 0, log_updated_at = 0\<rparr>"

section \<open>Properties\<close>

text \<open>
  C6. One exchange order, one canonical row: in every reachable store no two rows share a request id,
  an exchange order uuid belongs to at most one row that is not a status event, and no
  idempotency key has been claimed twice.
\<close>

theorem one_canonical_order_per_uuid:
  assumes "order_reach s" and "u \<noteq> []"
  shows "length (filter (canonical_for u) (order_logs s)) \<le> 1
    \<and> distinct (map request_id (order_logs s)) \<and> distinct (map ik_key (idem_rows s))"
proof -
  have inv: "store_inv s" using order_reach_inv assms(1) .
  let ?f = "filter (canonical_for u) (order_logs s)"
  have d: "distinct (map request_id ?f)" using inv by (simp add: store_inv_def distinct_map_filter)
  have "request_id r = request_id r'" if "r \<in> set ?f" "r' \<in> set ?f" for r r'
    using inv that assms(2) by (auto simp: store_inv_def dest: canonical_uniqueD)
  then have "length ?f \<le> 1" by (rule length_le_1I[OF d])
  then show ?thesis using inv by (simp add: store_inv_def)
qed

theorem one_canonical_order_per_uuid_witness:
  "\<exists>i s. insert_live_order_log 5 (sample_log ''r1'' ''u1'') \<lparr>order_logs = [], idem_rows = [], log_seq = 0\<rparr> = Inr (i, s)
     \<and> length (filter (canonical_for ''u1'') (order_logs s)) \<le> 1"
proof -
  have "\<exists>i s. insert_live_order_log 5 (sample_log ''r1'' ''u1'') \<lparr>order_logs = [], idem_rows = [], log_seq = 0\<rparr> = Inr (i, s)"
    by (simp add: insert_live_order_log_def insert_check_def find_canonical_live_order_by_uuid_def Let_def)
  then obtain i s where ins: "insert_live_order_log 5 (sample_log ''r1'' ''u1'') \<lparr>order_logs = [], idem_rows = [], log_seq = 0\<rparr> = Inr (i, s)"
    by blast
  have "order_reach s" using reach_insert[OF reach_empty ins] .
  from one_canonical_order_per_uuid[OF this, of "''u1''"] ins show ?thesis by blast
qed

text \<open>
  C8. A second order with an idempotency key that is already claimed is refused, and the first
  insert with a key claims it: replaying an order signal never creates a second live order.
\<close>

theorem idempotency_key_is_claimed_once:
  assumes "insert_live_order_log now r s = Inr (i, s')" and "should_claim_idempotency r"
    and "should_claim_idempotency r'" and "idempotency_key r' = idempotency_key r"
  shows "\<exists>e. insert_live_order_log later r' s' = Inl e"
proof -
  have claim: "should_claim_idempotency (normalize_new_log later r')" "should_claim_idempotency (normalize_new_log now r)"
    using assms(2,3) by (simp_all add: should_claim_idempotency_def)
  have "\<exists>k \<in> set (idem_rows s'). ik_key k = os (idempotency_key r')"
    using insert_InrD(3)[OF assms(1)] claim(2) assms(4) by simp
  then have "insert_check (normalize_new_log later r') s' \<noteq> None"
    using claim(1) by (auto simp: insert_check_def Let_def list_ex_iff)
  then show ?thesis by (auto simp: insert_live_order_log_def Let_def)
qed

theorem idempotency_key_is_claimed_once_witness:
  "\<exists>i s e. insert_live_order_log 5 (sample_log ''r1'' ''u1'') \<lparr>order_logs = [], idem_rows = [], log_seq = 0\<rparr> = Inr (i, s)
     \<and> insert_live_order_log 6 ((sample_log ''r2'' ''u2'')\<lparr>idempotency_key := Some ''r1''\<rparr>) s = Inl e"
proof -
  have "\<exists>i s. insert_live_order_log 5 (sample_log ''r1'' ''u1'') \<lparr>order_logs = [], idem_rows = [], log_seq = 0\<rparr> = Inr (i, s)"
    by (simp add: insert_live_order_log_def insert_check_def find_canonical_live_order_by_uuid_def Let_def)
  then obtain i s where ins: "insert_live_order_log 5 (sample_log ''r1'' ''u1'') \<lparr>order_logs = [], idem_rows = [], log_seq = 0\<rparr> = Inr (i, s)"
    by blast
  have "should_claim_idempotency (sample_log ''r1'' ''u1'')"
    "should_claim_idempotency ((sample_log ''r2'' ''u2'')\<lparr>idempotency_key := Some ''r1''\<rparr>)"
    by code_simp+
  from idempotency_key_is_claimed_once[OF ins this, of 6] ins show ?thesis by (auto simp: sample_log_def)
qed

text \<open>
  C39. An update cannot steal an exchange order uuid: if another canonical row holds it, the updated
  row keeps its own uuid and becomes FAILED with DUPLICATE_EXCHANGE_ORDER_UUID; every other row
  stays as it was.
\<close>

theorem update_cannot_steal_uuid:
  assumes "store_inv s" and cur: "get_live_order_log s rid = Some cur" and "log_order_uuid (upd cur) = Some v"
    and "v \<noteq> []" and "\<not> is_live_order_status_event_request rid"
    and other: "other \<in> set (order_logs s)" "canonical_for v other" "request_id other \<noteq> rid"
  shows "\<exists>r. first_row (\<lambda>r. request_id r = rid) (order_logs (update_live_order_log now rid upd s)) = Some r
      \<and> log_status r = ''FAILED'' \<and> risk_result r = ''DUPLICATE_EXCHANGE_ORDER_UUID'' \<and> log_order_uuid r = log_order_uuid cur
      \<and> other \<in> set (order_logs (update_live_order_log now rid upd s))"
proof -
  obtain r where r: "first_row (\<lambda>r. request_id r = rid) (order_logs s) = Some r" "cur = normalize_live_order_log r"
    using cur by (auto simp: get_live_order_log_def)
  have rid: "request_id cur = rid" using first_row_SomeD[OF r(1)] r(2) by simp
  have "find_canonical_live_order_by_uuid (order_logs s) v (Some rid) \<noteq> None"
    using other assms(4) by (auto simp: find_canonical_None)
  then have m: "log_status (merge_log (order_logs s) cur upd) = ''FAILED''"
    "risk_result (merge_log (order_logs s) cur upd) = ''DUPLICATE_EXCHANGE_ORDER_UUID''"
    "log_order_uuid (merge_log (order_logs s) cur upd) = log_order_uuid cur"
    using assms(3,4,5) rid by (simp_all add: merge_log_def)
  show ?thesis
    using r m cur other
    by (auto simp: update_live_order_log_def Let_def first_row_update_key set_update_where write_columns_def)
qed

theorem update_cannot_steal_uuid_witness:
  "\<exists>r. first_row (\<lambda>r. request_id r = ''r2'') (order_logs (update_live_order_log 9 ''r2'' (\<lambda>r. r\<lparr>log_order_uuid := Some ''u1''\<rparr>)
       \<lparr>order_logs = [(sample_log ''r1'' ''u1'')\<lparr>log_id := 1\<rparr>, (sample_log ''r2'' ''u2'')\<lparr>log_id := 2\<rparr>], idem_rows = [], log_seq = 2\<rparr>)) = Some r
    \<and> log_order_uuid r = Some ''u2''"
proof -
  let ?s = "\<lparr>order_logs = [(sample_log ''r1'' ''u1'')\<lparr>log_id := 1\<rparr>, (sample_log ''r2'' ''u2'')\<lparr>log_id := 2\<rparr>], idem_rows = [], log_seq = 2\<rparr>"
  let ?cur = "normalize_live_order_log ((sample_log ''r2'' ''u2'')\<lparr>log_id := 2\<rparr>)"
  have e: "\<not> is_live_order_status_event_request ''r2''" "\<not> sql_status_event ''r1''" by code_simp+
  have "store_inv ?s"
    by (auto simp: store_inv_def canonical_unique_def canonical_for_def sample_log_def)
  moreover have "get_live_order_log ?s ''r2'' = Some ?cur"
    by (simp add: get_live_order_log_def sample_log_def)
  moreover have "canonical_for ''u1'' ((sample_log ''r1'' ''u1'')\<lparr>log_id := 1\<rparr>)"
    using e by (simp add: canonical_for_def sample_log_def)
  ultimately show ?thesis
    using update_cannot_steal_uuid[of ?s "''r2''" ?cur "\<lambda>r. r\<lparr>log_order_uuid := Some ''u1''\<rparr>" "''u1''"
        "(sample_log ''r1'' ''u1'')\<lparr>log_id := 1\<rparr>" 9] e
    by (auto simp: sample_log_def)
qed

end
