(* ===== verification/LiveStore.thy ===== *)
theory LiveStore
  imports OrderLog
begin

text \<open>
  The tables of live trading and their operations (\<open>app/database.py\<close>): live positions, strategy
  sessions, position slots, order reservations, the queue of next entries, fill events, the ledger
  of applied orders and recovery events. Rows that the code never deletes are never deleted here.
  Time stamps are whole seconds; a handler reads the clock once, as \<open>now\<close>.
\<close>

section \<open>Tables\<close>

record position =
  pos_id :: int
  pos_session_id :: int
  pos_exchange :: string
  pos_market :: string
  pos_candidate_id :: int
  pos_strategy_name :: string
  pos_status :: string
  entry_order_uuid :: "string option"
  exit_order_uuid :: "string option"
  entry_price :: rat
  entry_volume :: rat
  entry_amount_krw :: rat
  current_price :: rat
  unrealized_pnl :: rat
  realized_pnl :: rat
  stop_loss_price :: rat
  take_profit_price :: rat
  highest_price_since_entry :: "rat option"
  trailing_stop_price :: "rat option"
  trailing_stop_pct :: "rat option"
  last_trailing_update_at :: "int option"
  scale_in_count :: int
  last_scale_in_at :: "int option"
  opened_at :: "int option"
  closed_at :: "int option"
  pos_created_at :: int
  pos_updated_at :: int

record session =
  ses_id :: int
  ses_exchange :: string
  ses_market :: string
  ses_candidate_id :: int
  ses_strategy_name :: string
  ses_parameters :: pydict
  ses_status :: string
  auto_enabled :: bool
  ses_initial_balance :: rat
  ses_max_order_krw :: rat
  ses_max_orders_per_day :: int
  ses_orders_today :: int
  current_open_order_uuid :: "string option"
  current_position_id :: "int option"
  last_signal :: string
  last_signal_time :: "int option"
  last_risk_result :: "string option"
  last_order_status :: "string option"
  last_order_time :: "int option"
  last_processed_candle :: "int option"
  stopped_at :: "int option"
  ses_created_at :: int
  ses_updated_at :: int

record slot =
  slot_id :: int
  slot_number :: int
  slot_status :: string
  slot_exchange :: string
  slot_market :: "string option"
  slot_candidate_id :: "int option"
  slot_position_id :: "int option"
  slot_session_id :: "int option"
  slot_entry_uuid :: "string option"
  slot_exit_uuid :: "string option"
  allocated_krw :: rat
  reserved_krw :: rat
  current_value_krw :: rat
  slot_unrealized :: rat
  slot_realized :: rat
  entry_reason :: "string option"
  slot_exit_reason :: "string option"
  slot_opened_at :: "int option"
  slot_closed_at :: "int option"
  slot_updated_at :: int

record reservation =
  rv_id :: int
  rv_request_id :: string
  rv_exchange :: string
  rv_market :: string
  rv_candidate_id :: int
  rv_slot_id :: "int option"
  rv_amount_krw :: rat
  rv_status :: string
  rv_expires_at :: "int option"
  rv_created_at :: int
  rv_updated_at :: int

record queued_entry =
  nq_id :: int
  nq_candidate_id :: int
  nq_market :: string
  nq_strategy :: string
  nq_unit :: int
  nq_score :: rat
  nq_allocation_score :: rat
  nq_status :: string
  nq_blocked_reason :: "string option"
  nq_queued_at :: int
  nq_expires_at :: "int option"
  nq_updated_at :: int

record fill_event =
  fe_id :: int
  fe_order_uuid :: string
  fe_position_id :: int
  fe_fill_type :: string
  fe_source :: string
  fe_order_log_id :: "int option"
  fe_request_id :: "string option"
  fe_volume :: rat
  fe_amount :: rat
  fe_fee :: rat
  fe_created_at :: int

record applied_order =
  ao_position_id :: int
  ao_fill_type :: string
  ao_side :: string
  ao_purpose :: string
  ao_volume :: rat
  ao_amount :: rat
  ao_fee :: rat
  ao_last_volume :: rat
  ao_last_amount :: rat
  ao_last_fee :: rat
  ao_source :: string
  ao_order_log_id :: "int option"
  ao_request_id :: "string option"

record recovery_event =
  ev_type :: string
  ev_severity :: string
  ev_exchange :: string
  ev_market :: string
  ev_session_id :: "int option"
  ev_request_id :: "string option"
  ev_order_uuid :: "string option"
  ev_payload :: pydict
  ev_created_at :: int

record exit_candidate =
  xc_id :: int
  xc_position_id :: int
  xc_session_id :: int
  xc_exchange :: string
  xc_market :: string
  xc_candidate_id :: int
  xc_strategy_name :: string
  xc_reason :: string
  xc_status :: string
  xc_entry_price :: rat
  xc_current_price :: rat
  xc_target_price :: rat
  xc_volume :: rat
  xc_expected_amount :: rat
  xc_expected_fee :: rat
  xc_expected_pnl :: rat
  xc_risk_result :: string
  xc_signal_time :: "int option"
  xc_candle_time :: "int option"
  xc_created_at :: int
  xc_updated_at :: int

record pilot_session =
  ps_id :: int
  ps_exchange :: string
  ps_market :: string
  ps_candidate_id :: "int option"
  ps_strategy_name :: string
  ps_status :: string
  ps_auto_enabled :: bool
  ps_order_amount :: rat
  ps_max_orders :: int
  ps_orders_today :: int
  ps_last_signal :: string
  ps_last_signal_time :: "int option"
  ps_last_order_time :: "int option"
  ps_last_order_uuid :: "string option"
  ps_last_order_status :: "string option"
  ps_last_candle :: "int option"
  ps_created_at :: int
  ps_updated_at :: int
  ps_stopped_at :: "int option"

record db = order_store +
  positions :: "position list"
  pos_seq :: int
  sessions :: "session list"
  ses_seq :: int
  pilot_sessions :: "pilot_session list"
  exit_candidates :: "exit_candidate list"
  exit_seq :: int
  slots :: "slot list"
  slot_seq :: int
  reservations :: "reservation list"
  resv_seq :: int
  next_entries :: "queued_entry list"
  queue_seq :: int
  fill_events :: "fill_event list"
  fill_seq :: int
  app_ledger :: "(string \<times> applied_order) list"
  recovery_events :: "recovery_event list"

section \<open>Positions and sessions\<close>

definition active_statuses :: "string set" where
  "active_statuses = {''OPEN'', ''EXIT_CANDIDATE'', ''EXIT_PENDING'', ''CLOSING'', ''MANUAL_REVIEW_REQUIRED''}"

definition create_live_position :: "int \<Rightarrow> position \<Rightarrow> db \<Rightarrow> int \<times> db" where
  "create_live_position now p s =
     (pos_seq s + 1,
      s\<lparr>positions := positions s @ [p\<lparr>pos_id := pos_seq s + 1, pos_created_at := now, pos_updated_at := now\<rparr>],
        pos_seq := pos_seq s + 1\<rparr>)"

definition load_live_position :: "db \<Rightarrow> int \<Rightarrow> position option" where
  "load_live_position s i = first_row (\<lambda>p. pos_id p = i) (positions s)"

definition newest_position :: "(position \<Rightarrow> bool) \<Rightarrow> db \<Rightarrow> position option" where
  "newest_position q s = head_row (order_desc (\<lambda>p. (pos_created_at p, pos_id p))
     (filter (\<lambda>p. q p \<and> pos_status p \<in> active_statuses) (positions s)))"

definition load_open_live_position :: "db \<Rightarrow> int option \<Rightarrow> string \<Rightarrow> string \<Rightarrow> position option" where
  "load_open_live_position s session exchange market =
     newest_position (\<lambda>p. pos_exchange p = exchange \<and> pos_market p = market
       \<and> (case session of None \<Rightarrow> True | Some i \<Rightarrow> pos_session_id p = i)) s"

definition load_live_position_by_entry_order_uuid :: "db \<Rightarrow> string \<Rightarrow> string \<Rightarrow> string \<Rightarrow> position option" where
  "load_live_position_by_entry_order_uuid s exchange market uuid =
     newest_position (\<lambda>p. pos_exchange p = exchange \<and> pos_market p = market \<and> entry_order_uuid p = Some uuid) s"

definition load_open_live_position_for_strategy :: "db \<Rightarrow> string \<Rightarrow> string \<Rightarrow> int \<Rightarrow> position option" where
  "load_open_live_position_for_strategy s exchange market candidate =
     newest_position (\<lambda>p. pos_exchange p = exchange \<and> pos_market p = market \<and> pos_candidate_id p = candidate) s"

definition update_live_position :: "int \<Rightarrow> int \<Rightarrow> (position \<Rightarrow> position) \<Rightarrow> db \<Rightarrow> db" where
  "update_live_position now i f s =
     s\<lparr>positions := update_where (\<lambda>p. pos_id p = i) (\<lambda>p. (f p)\<lparr>pos_updated_at := now\<rparr>) (positions s)\<rparr>"

definition update_live_strategy_session :: "int \<Rightarrow> int \<Rightarrow> (session \<Rightarrow> session) \<Rightarrow> db \<Rightarrow> db" where
  "update_live_strategy_session now i f s =
     s\<lparr>sessions := update_where (\<lambda>r. ses_id r = i) (\<lambda>r. (f r)\<lparr>ses_updated_at := now\<rparr>) (sessions s)\<rparr>"

text \<open>A new session stops the ones of its strategy that are not over.\<close>

definition create_live_strategy_session :: "int \<Rightarrow> session \<Rightarrow> db \<Rightarrow> int \<times> db" where
  "create_live_strategy_session now ses s =
     (let stopped = update_where (\<lambda>r. ses_status r \<in> {''READY'', ''RUNNING'', ''PAUSED''} \<and> ses_exchange r = ses_exchange ses
            \<and> ses_market r = ses_market ses \<and> ses_candidate_id r = ses_candidate_id ses)
          (\<lambda>r. r\<lparr>ses_status := ''STOPPED'', auto_enabled := False, stopped_at := Some now, ses_updated_at := now\<rparr>) (sessions s)
      in (ses_seq s + 1, s\<lparr>sessions := stopped @ [ses\<lparr>ses_id := ses_seq s + 1, current_open_order_uuid := None,
            current_position_id := None, last_signal := ''NONE'', last_signal_time := None, last_risk_result := None,
            last_order_status := None, last_order_time := None, last_processed_candle := None, stopped_at := None,
            ses_created_at := now, ses_updated_at := now\<rparr>], ses_seq := ses_seq s + 1\<rparr>))"

definition load_live_strategy_session :: "db \<Rightarrow> int \<Rightarrow> session option" where
  "load_live_strategy_session s i = first_row (\<lambda>r. ses_id r = i) (sessions s)"

definition load_latest_live_strategy_session :: "db \<Rightarrow> session option" where
  "load_latest_live_strategy_session s = head_row (order_desc (\<lambda>r. (ses_created_at r, ses_id r)) (sessions s))"

definition pause_running_live_strategy_sessions_on_startup :: "int \<Rightarrow> db \<Rightarrow> db" where
  "pause_running_live_strategy_sessions_on_startup now s =
     s\<lparr>sessions := update_where (\<lambda>r. ses_status r \<in> {''READY'', ''RUNNING''})
        (\<lambda>r. r\<lparr>ses_status := ''LIVE_PAUSED'', auto_enabled := False,
                last_risk_result := Some ''SERVER_RESTART_LIVE_PAUSED'', ses_updated_at := now\<rparr>) (sessions s)\<rparr>"

definition pause_running_auto_live_pilot_sessions_on_startup :: "int \<Rightarrow> db \<Rightarrow> db" where
  "pause_running_auto_live_pilot_sessions_on_startup now s =
     s\<lparr>pilot_sessions := update_where (\<lambda>r. ps_status r \<in> {''READY'', ''RUNNING''})
        (\<lambda>r. r\<lparr>ps_status := ''LIVE_PAUSED'', ps_auto_enabled := False,
                ps_last_order_status := (case ps_last_order_status r of None \<Rightarrow> Some ''SERVER_RESTART_LIVE_PAUSED'' | x \<Rightarrow> x),
                ps_updated_at := now\<rparr>) (pilot_sessions s)\<rparr>"

section \<open>Fill events and the ledger of applied orders\<close>

definition load_position_fill_event :: "db \<Rightarrow> string \<Rightarrow> string \<Rightarrow> fill_event option" where
  "load_position_fill_event s uuid ft = first_row (\<lambda>e. fe_order_uuid e = uuid \<and> fe_fill_type e = ft) (fill_events s)"

definition load_position_fill_events_by_order_uuid :: "db \<Rightarrow> string \<Rightarrow> fill_event list" where
  "load_position_fill_events_by_order_uuid s uuid =
     sort_key (\<lambda>e. (fe_created_at e, fe_id e)) (filter (\<lambda>e. fe_order_uuid e = uuid) (fill_events s))"

definition update_position_fill_event :: "int \<Rightarrow> (fill_event \<Rightarrow> fill_event) \<Rightarrow> db \<Rightarrow> db" where
  "update_position_fill_event i f s = s\<lparr>fill_events := update_where (\<lambda>e. fe_id e = i) f (fill_events s)\<rparr>"

text \<open>\<open>INSERT OR IGNORE\<close> under \<open>UNIQUE(order_uuid, fill_type)\<close>.\<close>

definition insert_position_fill_event :: "int \<Rightarrow> fill_event \<Rightarrow> db \<Rightarrow> bool \<times> db" where
  "insert_position_fill_event now e s =
     (if load_position_fill_event s (fe_order_uuid e) (fe_fill_type e) \<noteq> None then (False, s)
      else (True, s\<lparr>fill_events := fill_events s @ [e\<lparr>fe_id := fill_seq s + 1, fe_created_at := now\<rparr>],
                    fill_seq := fill_seq s + 1\<rparr>))"

definition load_order_application_ledger :: "db \<Rightarrow> string \<Rightarrow> applied_order option" where
  "load_order_application_ledger s uuid = map_of (app_ledger s) uuid"

text \<open>On conflict the fill type of the stored row is kept, and ids are only overwritten by ids.\<close>

definition merge_applied :: "applied_order option \<Rightarrow> applied_order \<Rightarrow> applied_order" where
  "merge_applied old e = (let new = e\<lparr>ao_last_volume := num_or (ao_last_volume e) (ao_volume e),
       ao_last_amount := num_or (ao_last_amount e) (ao_amount e), ao_last_fee := num_or (ao_last_fee e) (ao_fee e)\<rparr>
     in case old of None \<Rightarrow> new
        | Some r \<Rightarrow> new\<lparr>ao_fill_type := ao_fill_type r,
            ao_order_log_id := (case ao_order_log_id new of None \<Rightarrow> ao_order_log_id r | x \<Rightarrow> x),
            ao_request_id := (case ao_request_id new of None \<Rightarrow> ao_request_id r | x \<Rightarrow> x)\<rparr>)"

definition upsert_order_application_ledger :: "string \<Rightarrow> applied_order \<Rightarrow> db \<Rightarrow> db" where
  "upsert_order_application_ledger uuid e s =
     s\<lparr>app_ledger := dict_put (app_ledger s) uuid (merge_applied (map_of (app_ledger s) uuid) e)\<rparr>"

definition insert_live_recovery_event :: "int \<Rightarrow> recovery_event \<Rightarrow> db \<Rightarrow> db" where
  "insert_live_recovery_event now e s = s\<lparr>recovery_events := recovery_events s @ [e\<lparr>ev_created_at := now\<rparr>]\<rparr>"

definition load_live_recovery_events :: "nat \<Rightarrow> db \<Rightarrow> recovery_event list" where
  "load_live_recovery_events limit s = take limit (order_desc ev_created_at (recovery_events s))"

section \<open>Reservations and the queue of next entries\<close>

definition reservation_live :: "int \<Rightarrow> reservation \<Rightarrow> bool" where
  "reservation_live now r \<longleftrightarrow> (case rv_expires_at r of None \<Rightarrow> True | Some t \<Rightarrow> now < t)"

definition create_order_reservation :: "int \<Rightarrow> reservation \<Rightarrow> db \<Rightarrow> (int \<times> db) option" where
  "create_order_reservation now r s =
     (if list_ex (\<lambda>x. rv_request_id x = rv_request_id r) (reservations s) then None
      else Some (resv_seq s + 1,
        s\<lparr>reservations := reservations s @ [r\<lparr>rv_id := resv_seq s + 1, rv_created_at := now, rv_updated_at := now\<rparr>],
          resv_seq := resv_seq s + 1\<rparr>))"

definition load_active_order_reservations :: "int \<Rightarrow> string \<Rightarrow> db \<Rightarrow> reservation list" where
  "load_active_order_reservations now exchange s = sort_key (\<lambda>r. (rv_created_at r, rv_id r))
     (filter (\<lambda>r. rv_exchange r = exchange \<and> rv_status r \<in> {''PENDING'', ''RESERVED'', ''ORDER_SUBMITTED''}
        \<and> reservation_live now r) (reservations s))"

definition update_order_reservation_status ::
  "int \<Rightarrow> int option \<Rightarrow> string option \<Rightarrow> string \<Rightarrow> string list \<Rightarrow> db \<Rightarrow> db" where
  "update_order_reservation_status now candidate market status previous s =
     (let prev = (if previous = [] then [''PENDING'', ''RESERVED'', ''ORDER_SUBMITTED''] else previous) in
      s\<lparr>reservations := update_where (\<lambda>r. rv_status r \<in> set prev
           \<and> (case candidate of None \<Rightarrow> True | Some c \<Rightarrow> rv_candidate_id r = c)
           \<and> (case market of None \<Rightarrow> True | Some m \<Rightarrow> rv_market r = m))
         (\<lambda>r. r\<lparr>rv_status := status, rv_updated_at := now\<rparr>) (reservations s)\<rparr>)"

definition load_pending_order_reservation :: "string \<Rightarrow> string \<Rightarrow> int \<Rightarrow> db \<Rightarrow> reservation option" where
  "load_pending_order_reservation exchange market candidate s =
     head_row (order_desc (\<lambda>r. (rv_created_at r, rv_id r))
       (filter (\<lambda>r. rv_exchange r = exchange \<and> rv_market r = market \<and> rv_candidate_id r = candidate
          \<and> rv_status r \<in> {''PENDING'', ''RESERVED''}) (reservations s)))"

definition enqueue_next_entry :: "int \<Rightarrow> queued_entry \<Rightarrow> int \<Rightarrow> db \<Rightarrow> int option \<times> db" where
  "enqueue_next_entry now c ttl_minutes s =
     (let until = Some (now + 60 * ttl_minutes);
          same = (\<lambda>q. nq_candidate_id q = nq_candidate_id c \<and> nq_status q = ''QUEUED'')
      in case first_row same (next_entries s) of
           Some q \<Rightarrow> (Some (nq_id q), s\<lparr>next_entries := update_where same
             (\<lambda>q. q\<lparr>nq_market := nq_market c, nq_strategy := nq_strategy c, nq_unit := nq_unit c, nq_score := nq_score c,
                nq_allocation_score := nq_allocation_score c, nq_blocked_reason := nq_blocked_reason c,
                nq_expires_at := until, nq_updated_at := now\<rparr>) (next_entries s)\<rparr>)
         | None \<Rightarrow> (Some (queue_seq s + 1), s\<lparr>next_entries := next_entries s @
             [c\<lparr>nq_id := queue_seq s + 1, nq_status := ''QUEUED'', nq_queued_at := now, nq_expires_at := until,
                nq_updated_at := now\<rparr>], queue_seq := queue_seq s + 1\<rparr>))"

definition load_next_entry_queue :: "int \<Rightarrow> nat \<Rightarrow> string list \<Rightarrow> db \<Rightarrow> queued_entry list" where
  "load_next_entry_queue now limit statuses s = take limit
     (sort_key (\<lambda>q. (- nq_allocation_score q, nq_queued_at q))
       (filter (\<lambda>q. nq_status q \<in> set (if statuses = [] then [''QUEUED'', ''BLOCKED''] else statuses)
          \<and> (case nq_expires_at q of None \<Rightarrow> True | Some t \<Rightarrow> now < t)) (next_entries s)))"

definition newest_entry :: "(queued_entry \<Rightarrow> bool) \<Rightarrow> db \<Rightarrow> queued_entry option" where
  "newest_entry q s = head_row (order_desc (\<lambda>e. (nq_updated_at e, nq_id e)) (filter q (next_entries s)))"

definition update_next_entry_status :: "int \<Rightarrow> int \<Rightarrow> string \<Rightarrow> string option \<Rightarrow> db \<Rightarrow> db" where
  "update_next_entry_status now candidate status blocked s =
     (case newest_entry (\<lambda>q. nq_candidate_id q = candidate \<and> nq_status q = ''QUEUED'') s of
        None \<Rightarrow> s
      | Some queued \<Rightarrow>
          (case newest_entry (\<lambda>q. nq_candidate_id q = candidate \<and> nq_status q = status \<and> nq_id q \<noteq> nq_id queued) s of
             Some target \<Rightarrow>
               s\<lparr>next_entries := filter (\<lambda>q. nq_id q \<noteq> nq_id queued) (update_where (\<lambda>q. nq_id q = nq_id target)
                  (\<lambda>q. q\<lparr>nq_market := nq_market queued, nq_strategy := nq_strategy queued, nq_unit := nq_unit queued,
                     nq_score := nq_score queued, nq_allocation_score := nq_allocation_score queued,
                     nq_blocked_reason := (case blocked of None \<Rightarrow> nq_blocked_reason queued | b \<Rightarrow> b),
                     nq_expires_at := nq_expires_at queued, nq_updated_at := now\<rparr>) (next_entries s))\<rparr>
           | None \<Rightarrow>
               s\<lparr>next_entries := update_where (\<lambda>q. nq_candidate_id q = candidate \<and> nq_status q = ''QUEUED'')
                  (\<lambda>q. q\<lparr>nq_status := status, nq_blocked_reason := (case blocked of None \<Rightarrow> nq_blocked_reason q | b \<Rightarrow> b),
                     nq_updated_at := now\<rparr>) (next_entries s)\<rparr>))"

section \<open>Slots\<close>

definition blank_slot :: "int \<Rightarrow> slot \<Rightarrow> slot" where
  "blank_slot now r = r\<lparr>slot_status := ''EMPTY'', slot_market := None, slot_candidate_id := None,
     slot_position_id := None, slot_session_id := None, slot_entry_uuid := None, slot_exit_uuid := None,
     allocated_krw := 0, reserved_krw := 0, current_value_krw := 0, slot_unrealized := 0, slot_realized := 0,
     entry_reason := None, slot_exit_reason := None, slot_opened_at := None, slot_closed_at := Some now,
     slot_updated_at := now\<rparr>"

definition new_slot :: "int \<Rightarrow> int \<Rightarrow> int \<Rightarrow> string \<Rightarrow> slot" where
  "new_slot now i n exchange = \<lparr>slot_id = i, slot_number = n, slot_status = ''EMPTY'', slot_exchange = exchange,
     slot_market = None, slot_candidate_id = None, slot_position_id = None, slot_session_id = None,
     slot_entry_uuid = None, slot_exit_uuid = None, allocated_krw = 0, reserved_krw = 0, current_value_krw = 0,
     slot_unrealized = 0, slot_realized = 0, entry_reason = None, slot_exit_reason = None,
     slot_opened_at = None, slot_closed_at = None, slot_updated_at = now\<rparr>"

fun ensure_slots :: "int \<Rightarrow> string \<Rightarrow> int list \<Rightarrow> db \<Rightarrow> db" where
  "ensure_slots now exchange [] s = s"
| "ensure_slots now exchange (n # ns) s = ensure_slots now exchange ns
     (if list_ex (\<lambda>r. slot_number r = n) (slots s) then s
      else s\<lparr>slots := slots s @ [new_slot now (slot_seq s + 1) n exchange], slot_seq := slot_seq s + 1\<rparr>)"

definition ensure_position_slots :: "int \<Rightarrow> int \<Rightarrow> string \<Rightarrow> db \<Rightarrow> db" where
  "ensure_position_slots now max_slots exchange s = ensure_slots now exchange [1..max 1 max_slots] s"

definition reservation_open :: "int \<Rightarrow> int \<Rightarrow> reservation \<Rightarrow> bool" where
  "reservation_open now i r \<longleftrightarrow> rv_slot_id r = Some i \<and> rv_status r \<in> {''RESERVED'', ''ORDER_SUBMITTED''} \<and> reservation_live now r"

definition expire_reservations :: "int \<Rightarrow> string \<Rightarrow> db \<Rightarrow> db" where
  "expire_reservations now exchange s = s\<lparr>reservations := update_where
     (\<lambda>r. rv_exchange r = exchange \<and> rv_status r \<in> {''PENDING'', ''RESERVED'', ''ORDER_SUBMITTED''}
        \<and> (case rv_expires_at r of None \<Rightarrow> False | Some t \<Rightarrow> t \<le> now))
     (\<lambda>r. r\<lparr>rv_status := ''EXPIRED'', rv_updated_at := now\<rparr>) (reservations s)\<rparr>"

definition release_unreserved_slots :: "int \<Rightarrow> string \<Rightarrow> db \<Rightarrow> db" where
  "release_unreserved_slots now exchange s = s\<lparr>slots := update_where
     (\<lambda>r. slot_exchange r = exchange \<and> slot_status r = ''RESERVED''
        \<and> \<not> list_ex (reservation_open now (slot_id r)) (reservations s))
     (blank_slot now) (slots s)\<rparr>"

definition active_positions :: "string \<Rightarrow> db \<Rightarrow> position list" where
  "active_positions exchange s = sort_key (\<lambda>p. (case opened_at p of None \<Rightarrow> (0, 0) | Some t \<Rightarrow> (1 :: int, t), pos_id p))
     (filter (\<lambda>p. pos_exchange p = exchange \<and> pos_status p \<in> active_statuses) (positions s))"

definition release_unbacked_slots :: "int \<Rightarrow> string \<Rightarrow> db \<Rightarrow> db" where
  "release_unbacked_slots now exchange s = s\<lparr>slots := update_where
     (\<lambda>r. slot_status r \<notin> {''RESERVED'', ''ENTERING''} \<and> (slot_position_id r \<noteq> None \<or> slot_status r \<noteq> ''EMPTY'')
        \<and> (case slot_position_id r of None \<Rightarrow> True
           | Some i \<Rightarrow> i \<notin> pos_id ` set (active_positions exchange s)))
     (blank_slot now) (slots s)\<rparr>"

definition fill_slot :: "int \<Rightarrow> position \<Rightarrow> slot \<Rightarrow> slot" where
  "fill_slot now p r = (let value = fmul (current_price p) (entry_volume p) in
     r\<lparr>slot_status := pos_status p, slot_exchange := pos_exchange p, slot_market := Some (pos_market p),
       slot_candidate_id := Some (pos_candidate_id p), slot_position_id := Some (pos_id p),
       slot_session_id := Some (pos_session_id p), slot_entry_uuid := entry_order_uuid p,
       slot_exit_uuid := exit_order_uuid p, allocated_krw := num_or (entry_amount_krw p) value,
       reserved_krw := 0, current_value_krw := value, slot_unrealized := unrealized_pnl p,
       slot_realized := realized_pnl p, slot_opened_at := opened_at p, slot_closed_at := None,
       slot_updated_at := now\<rparr>)"

definition slot_for_position :: "int \<Rightarrow> position \<Rightarrow> slot list \<Rightarrow> slot option" where
  "slot_for_position max_slots p t =
     (case first_row (\<lambda>r. slot_position_id r = Some (pos_id p)) t of
        Some r \<Rightarrow> Some r
      | None \<Rightarrow> first_row (\<lambda>r. slot_number r \<le> max_slots \<and> slot_status r = ''EMPTY'') (sort_key slot_number t))"

definition place_position :: "int \<Rightarrow> int \<Rightarrow> position \<Rightarrow> slot list \<Rightarrow> slot list" where
  "place_position now max_slots p t = (case slot_for_position max_slots p t of
     None \<Rightarrow> t | Some r \<Rightarrow> update_where (\<lambda>x. slot_id x = slot_id r) (fill_slot now p) t)"

definition reconcile_position_slots :: "int \<Rightarrow> int \<Rightarrow> string \<Rightarrow> db \<Rightarrow> slot list \<times> db" where
  "reconcile_position_slots now max_slots exchange s0 =
     (let s1 = ensure_position_slots now max_slots exchange s0;
          s2 = release_unreserved_slots now exchange (expire_reservations now exchange s1);
          s3 = release_unbacked_slots now exchange s2;
          s4 = s3\<lparr>slots := foldl (\<lambda>t p. place_position now max_slots p t) (slots s3) (active_positions exchange s2)\<rparr>
      in (sort_key slot_number (filter (\<lambda>r. slot_number r \<le> max_slots) (slots s4)), s4))"

definition reserve_position_slot ::
  "int \<Rightarrow> int \<Rightarrow> string \<Rightarrow> string \<Rightarrow> int \<Rightarrow> int option \<Rightarrow> rat \<Rightarrow> string \<Rightarrow> db \<Rightarrow> slot option \<times> db" where
  "reserve_position_slot now i exchange market candidate session amount reason s =
     (let t = update_where (\<lambda>r. slot_id r = i) (\<lambda>r. r\<lparr>slot_status := ''RESERVED'', slot_exchange := exchange,
            slot_market := Some market, slot_candidate_id := Some candidate, slot_session_id := session,
            allocated_krw := amount, reserved_krw := amount, entry_reason := Some reason,
            slot_opened_at := Some now, slot_closed_at := None, slot_updated_at := now\<rparr>) (slots s)
      in (first_row (\<lambda>r. slot_id r = i) t, s\<lparr>slots := t\<rparr>))"

section \<open>Finalising an entry\<close>

definition finalize_rank :: "slot \<Rightarrow> int \<times> int \<times> int" where
  "finalize_rank r = ((if slot_status r = ''RESERVED'' then 0 else if slot_status r = ''ENTERING'' then 1 else 2),
     - slot_updated_at r, - slot_id r)"

definition entering_slot :: "position \<Rightarrow> slot \<Rightarrow> bool" where
  "entering_slot p r \<longleftrightarrow> slot_exchange r = (if pos_exchange p = [] then ''bithumb'' else pos_exchange p)
     \<and> slot_market r = Some (pos_market p) \<and> slot_candidate_id r = Some (pos_candidate_id p)
     \<and> slot_status r \<in> {''RESERVED'', ''ENTERING'', ''OPEN''}"

definition finalize_slot :: "position \<Rightarrow> slot list \<Rightarrow> slot option" where
  "finalize_slot p t =
     (let best = (\<lambda>q. head_row (sort_key finalize_rank (filter q t)));
          by_session = (if pos_session_id p \<noteq> 0
            then best (\<lambda>r. entering_slot p r \<and> slot_session_id r = Some (pos_session_id p)) else None);
          by_strategy = best (\<lambda>r. entering_slot p r \<and> (slot_position_id r = None \<or> slot_position_id r = Some (pos_id p)))
      in case by_session of Some r \<Rightarrow> Some r
         | None \<Rightarrow> (case by_strategy of Some r \<Rightarrow> Some r
                    | None \<Rightarrow> first_row (\<lambda>r. slot_position_id r = Some (pos_id p)) t))"

definition occupy_slot :: "int \<Rightarrow> string \<Rightarrow> position \<Rightarrow> slot \<Rightarrow> slot" where
  "occupy_slot now reason p r =
     (let price = num_or (current_price p) (entry_price p); value = fmul price (entry_volume p) in
      r\<lparr>slot_status := pos_status p, slot_exchange := (if pos_exchange p = [] then ''bithumb'' else pos_exchange p),
        slot_market := Some (pos_market p), slot_candidate_id := Some (pos_candidate_id p),
        slot_position_id := Some (pos_id p),
        slot_session_id := (if pos_session_id p = 0 then None else Some (pos_session_id p)),
        slot_entry_uuid := entry_order_uuid p, slot_exit_uuid := exit_order_uuid p,
        allocated_krw := num_or (entry_amount_krw p) value, reserved_krw := 0, current_value_krw := value,
        slot_unrealized := unrealized_pnl p, slot_realized := realized_pnl p,
        entry_reason := (case entry_reason r of None \<Rightarrow> Some reason | x \<Rightarrow> x),
        slot_opened_at := (case slot_opened_at r of
           None \<Rightarrow> (case opened_at p of None \<Rightarrow> Some now | x \<Rightarrow> x) | x \<Rightarrow> x),
        slot_closed_at := None, slot_updated_at := now\<rparr>)"

definition consume_reservations :: "int \<Rightarrow> string \<Rightarrow> position \<Rightarrow> int option \<Rightarrow> reservation list \<Rightarrow> reservation list" where
  "consume_reservations now status p sid t = update_where
     (\<lambda>r. rv_exchange r = (if pos_exchange p = [] then ''bithumb'' else pos_exchange p)
        \<and> rv_market r = pos_market p \<and> rv_candidate_id r = pos_candidate_id p
        \<and> rv_status r \<in> {''RESERVED'', ''ORDER_SUBMITTED''}
        \<and> (case sid of None \<Rightarrow> True | Some i \<Rightarrow> rv_slot_id r = Some i \<or> rv_slot_id r = None))
     (\<lambda>r. r\<lparr>rv_status := status, rv_updated_at := now\<rparr>) t"

definition finalize_entry_lifecycle_for_position :: "int \<Rightarrow> int \<Rightarrow> db \<Rightarrow> db" where
  "finalize_entry_lifecycle_for_position now i s =
     (case load_live_position s i of
        None \<Rightarrow> s
      | Some p \<Rightarrow>
          if py_upper (pos_status p) \<notin> active_statuses then s
          else (let reason = ''ENTRY_FILL_LIFECYCLE_FINALIZED'';
                    sid = map_option slot_id (finalize_slot p (slots s));
                    t = (case sid of None \<Rightarrow> slots s
                         | Some k \<Rightarrow> update_where (\<lambda>r. slot_id r = k) (occupy_slot now reason p) (slots s))
                in update_next_entry_status now (pos_candidate_id p) ''PROMOTED_TO_SLOT'' (Some reason)
                     (s\<lparr>slots := t, reservations := consume_reservations now ''CONSUMED'' p sid (reservations s)\<rparr>)))"

section \<open>Lemmas\<close>

text \<open>A slot that is not idle is backed by a live reservation, an order being entered or an active position.\<close>

definition slot_backed :: "int \<Rightarrow> string \<Rightarrow> db \<Rightarrow> slot \<Rightarrow> bool" where
  "slot_backed now exchange s r \<longleftrightarrow> slot_status r \<in> {''EMPTY'', ''ENTERING''}
     \<or> slot_status r = ''RESERVED'' \<and> (slot_exchange r \<noteq> exchange \<or> list_ex (reservation_open now (slot_id r)) (reservations s))
     \<or> (\<exists>p \<in> set (active_positions exchange s). slot_position_id r = Some (pos_id p))"

lemma set_active_positions:
  "p \<in> set (active_positions exchange s) \<longleftrightarrow> p \<in> set (positions s) \<and> pos_exchange p = exchange \<and> pos_status p \<in> active_statuses"
  unfolding active_positions_def by simp

lemma place_position_cases:
  "r \<in> set (place_position now n p t) \<Longrightarrow> r \<in> set t \<or> (\<exists>r' \<in> set t. r = fill_slot now p r')"
  by (auto simp: place_position_def set_update_where split: option.splits if_splits)

lemma place_all_cases:
  "r \<in> set (foldl (\<lambda>t p. place_position now n p t) t ps) \<Longrightarrow>
     r \<in> set t \<or> (\<exists>p \<in> set ps. \<exists>r'. r = fill_slot now p r')"
proof (induction ps arbitrary: t)
  case (Cons p ps)
  have "r \<in> set (place_position now n p t) \<or> (\<exists>p \<in> set ps. \<exists>r'. r = fill_slot now p r')"
    using Cons.IH[of "place_position now n p t"] Cons.prems by simp
  then show ?case using place_position_cases[of r now n p t] by (meson list.set_intros)
qed simp

lemma fill_slot_position [simp]: "slot_position_id (fill_slot now p r) = Some (pos_id p)"
  by (simp add: fill_slot_def Let_def)

lemma blank_slot_status [simp]: "slot_status (blank_slot now r) = ''EMPTY''"
  by (simp add: blank_slot_def)

lemma occupy_slot_simps:
  "slot_position_id (occupy_slot now reason p r) = Some (pos_id p)" "slot_status (occupy_slot now reason p r) = pos_status p"
  "reserved_krw (occupy_slot now reason p r) = 0"
  by (simp_all add: occupy_slot_def Let_def)

lemma released_slots:
  assumes "r \<in> set (slots (release_unreserved_slots now exchange s))"
  shows "slot_status r = ''EMPTY'' \<or> \<not> (slot_exchange r = exchange \<and> slot_status r = ''RESERVED''
    \<and> \<not> list_ex (reservation_open now (slot_id r)) (reservations s))"
proof -
  have "r \<in> set (update_where (\<lambda>r. slot_exchange r = exchange \<and> slot_status r = ''RESERVED''
        \<and> \<not> list_ex (reservation_open now (slot_id r)) (reservations s)) (blank_slot now) (slots s))"
    using assms by (simp add: release_unreserved_slots_def)
  then show ?thesis by (rule in_update_whereE) simp_all
qed

lemma unbacked_slots:
  assumes "r \<in> set (slots (release_unbacked_slots now exchange s))"
  shows "slot_status r = ''EMPTY'' \<or> r \<in> set (slots s) \<and> (slot_status r \<in> {''RESERVED'', ''ENTERING''} \<or>
     (\<exists>i. slot_position_id r = Some i \<and> i \<in> pos_id ` set (active_positions exchange s)))"
proof -
  have "r \<in> set (update_where (\<lambda>r. slot_status r \<notin> {''RESERVED'', ''ENTERING''}
        \<and> (slot_position_id r \<noteq> None \<or> slot_status r \<noteq> ''EMPTY'')
        \<and> (case slot_position_id r of None \<Rightarrow> True | Some i \<Rightarrow> i \<notin> pos_id ` set (active_positions exchange s)))
      (blank_slot now) (slots s))"
    using assms by (simp add: release_unbacked_slots_def)
  then show ?thesis by (rule in_update_whereE) (simp_all split: option.splits, blast+)
qed

lemma reconcile_backed:
  assumes "r \<in> set (slots (snd (reconcile_position_slots now n exchange s)))"
  shows "slot_backed now exchange (snd (reconcile_position_slots now n exchange s)) r"
proof -
  let ?s2 = "release_unreserved_slots now exchange (expire_reservations now exchange (ensure_position_slots now n exchange s))"
  let ?s3 = "release_unbacked_slots now exchange ?s2" and ?s4 = "snd (reconcile_position_slots now n exchange s)"
  have same: "reservations ?s4 = reservations ?s2" "active_positions exchange ?s4 = active_positions exchange ?s2"
    "slots ?s4 = foldl (\<lambda>t p. place_position now n p t) (slots ?s3) (active_positions exchange ?s2)"
    by (simp_all add: reconcile_position_slots_def Let_def release_unbacked_slots_def active_positions_def)
  consider "r \<in> set (slots ?s3)" | p r' where "p \<in> set (active_positions exchange ?s2)" "r = fill_slot now p r'"
    using assms place_all_cases[of r now n "slots ?s3" "active_positions exchange ?s2"] unfolding same by blast
  then show ?thesis
  proof cases
    case 1
    have res: "reservations ?s2 = reservations (expire_reservations now exchange (ensure_position_slots now n exchange s))"
      by (simp add: release_unreserved_slots_def)
    show ?thesis
      using unbacked_slots[OF 1] released_slots[of r now exchange] unfolding slot_backed_def same res
      by (elim disjE) blast+
  next
    case 2
    then show ?thesis unfolding slot_backed_def same by auto
  qed
qed

definition sample_position :: position where
  "sample_position = \<lparr>pos_id = 1, pos_session_id = 1, pos_exchange = ''bithumb'', pos_market = ''KRW-BTC'',
     pos_candidate_id = 7, pos_strategy_name = ''trend'', pos_status = ''OPEN'', entry_order_uuid = Some ''u1'',
     exit_order_uuid = None, entry_price = 50000, entry_volume = 2, entry_amount_krw = 100000,
     current_price = 50000, unrealized_pnl = 0, realized_pnl = 0, stop_loss_price = 49000,
     take_profit_price = 52000, highest_price_since_entry = Some 50000, trailing_stop_price = None,
     trailing_stop_pct = None, last_trailing_update_at = None, scale_in_count = 0, last_scale_in_at = None,
     opened_at = Some 1000, closed_at = None, pos_created_at = 1000, pos_updated_at = 1000\<rparr>"

definition empty_db :: db where
  "empty_db = \<lparr>order_logs = [], idem_rows = [], log_seq = 0, positions = [], pos_seq = 0, sessions = [], ses_seq = 0, pilot_sessions = [],
     exit_candidates = [],
     exit_seq = 0, slots = [],
     slot_seq = 0, reservations = [], resv_seq = 0, next_entries = [], queue_seq = 0, fill_events = [],
     fill_seq = 0, app_ledger = [], recovery_events = []\<rparr>"

definition slot_in :: "string \<Rightarrow> int \<Rightarrow> int option \<Rightarrow> slot" where
  "slot_in st i p = (new_slot 0 i i ''bithumb'')\<lparr>slot_status := st, slot_market := Some ''KRW-BTC'',
     slot_candidate_id := Some 7, slot_session_id := Some 1, slot_position_id := p\<rparr>"

section \<open>Properties\<close>

text \<open>
  C15. No slot leaks: after reconciliation every slot is empty, being entered, reserved with a
  reservation that is still alive (for the slots of this exchange), or attached to an active
  position of the exchange.
\<close>

theorem reconciled_slots_are_backed:
  "list_all (\<lambda>r. slot_status r \<in> {''EMPTY'', ''ENTERING''}
      \<or> slot_status r = ''RESERVED'' \<and> (slot_exchange r \<noteq> exchange
          \<or> list_ex (reservation_open now (slot_id r)) (reservations (snd (reconcile_position_slots now n exchange s))))
      \<or> list_ex (\<lambda>p. slot_position_id r = Some (pos_id p) \<and> pos_status p \<in> active_statuses) (positions s))
    (slots (snd (reconcile_position_slots now n exchange s)))"
proof -
  have ens: "positions (ensure_slots now ex ns d) = positions d" for ex ns d
    by (induction ns arbitrary: d) auto
  then have pos: "positions (snd (reconcile_position_slots now n exchange s)) = positions s"
    by (simp add: reconcile_position_slots_def Let_def release_unbacked_slots_def release_unreserved_slots_def
        expire_reservations_def ensure_position_slots_def)
  show ?thesis
    using reconcile_backed[of _ now n exchange s]
    unfolding slot_backed_def list_all_iff list_ex_iff Bex_def set_active_positions pos by blast
qed

theorem reconciled_slots_are_backed_witness:
  "list_all (\<lambda>r. slot_status r \<in> {''EMPTY'', ''ENTERING'', ''RESERVED''}
      \<or> list_ex (\<lambda>p. slot_position_id r = Some (pos_id p)) [sample_position])
    (slots (snd (reconcile_position_slots 2000 2 ''bithumb''
      (empty_db\<lparr>positions := [sample_position], slots := [slot_in ''OPEN'' 1 (Some 9)]\<rparr>))))"
  using reconciled_slots_are_backed[of "''bithumb''" 2000 2
      "empty_db\<lparr>positions := [sample_position], slots := [slot_in ''OPEN'' 1 (Some 9)]\<rparr>"]
  by (auto simp: list_all_iff)

text \<open>
  C40. Finalising an entry settles it: the slot it picks carries the position with its status and
  reserves nothing any more, and no reservation of the strategy for this slot (or for no slot) is
  left RESERVED or ORDER_SUBMITTED.
\<close>

theorem finalized_entry_is_settled:
  assumes "load_live_position s i = Some p" and "py_upper (pos_status p) \<in> active_statuses" and "pos_exchange p \<noteq> []"
    and "finalize_slot p (slots s) = Some r0"
  shows "list_all (\<lambda>r. slot_id r = slot_id r0 \<longrightarrow> slot_position_id r = Some i \<and> slot_status r = pos_status p \<and> reserved_krw r = 0)
      (slots (finalize_entry_lifecycle_for_position now i s))
    \<and> list_all (\<lambda>v. \<not> (rv_exchange v = pos_exchange p \<and> rv_market v = pos_market p \<and> rv_candidate_id v = pos_candidate_id p
          \<and> rv_status v \<in> {''RESERVED'', ''ORDER_SUBMITTED''} \<and> (rv_slot_id v = Some (slot_id r0) \<or> rv_slot_id v = None)))
      (reservations (finalize_entry_lifecycle_for_position now i s))"
proof -
  have i: "pos_id p = i" using assms(1) first_row_SomeD[of "\<lambda>p. pos_id p = i" "positions s" p] by (simp add: load_live_position_def)
  have q: "slots (update_next_entry_status now c st b d) = slots d"
    "reservations (update_next_entry_status now c st b d) = reservations d" for c st b d
    by (simp_all add: update_next_entry_status_def split: option.split)
  have l: "slots (finalize_entry_lifecycle_for_position now i s)
      = update_where (\<lambda>r. slot_id r = slot_id r0) (occupy_slot now ''ENTRY_FILL_LIFECYCLE_FINALIZED'' p) (slots s)"
    "reservations (finalize_entry_lifecycle_for_position now i s)
      = consume_reservations now ''CONSUMED'' p (Some (slot_id r0)) (reservations s)"
    using assms(2) by (simp_all add: finalize_entry_lifecycle_for_position_def assms(1,4) Let_def q)
  show ?thesis
    unfolding l consume_reservations_def list_all_update_where
    by (auto simp: list_all_iff occupy_slot_simps assms(3) i)
qed

theorem finalized_entry_is_settled_witness:
  "list_ex (\<lambda>r. slot_id r = 1 \<and> slot_position_id r = Some 1)
    (slots (finalize_entry_lifecycle_for_position 2000 1
      (empty_db\<lparr>positions := [sample_position], slots := [slot_in ''RESERVED'' 1 None]\<rparr>)))"
proof -
  let ?s = "empty_db\<lparr>positions := [sample_position], slots := [slot_in ''RESERVED'' 1 None]\<rparr>"
  have h: "load_live_position ?s 1 = Some sample_position" "py_upper (pos_status sample_position) \<in> active_statuses"
    "pos_exchange sample_position \<noteq> []" "finalize_slot sample_position (slots ?s) = Some (slot_in ''RESERVED'' 1 None)"
    by code_simp+
  have "length (slots (finalize_entry_lifecycle_for_position 2000 1 ?s)) = 1"
    "list_all (\<lambda>r. slot_id r = 1) (slots (finalize_entry_lifecycle_for_position 2000 1 ?s))"
    by code_simp+
  moreover have "slot_id (slot_in ''RESERVED'' 1 None) = 1" by code_simp
  ultimately show ?thesis
    using finalized_entry_is_settled[OF h, of 2000]
    by (cases "slots (finalize_entry_lifecycle_for_position 2000 1 ?s)") auto
qed

text \<open>
  Finalising can give a position a second slot: when the position already occupies an open slot
  and the same strategy and session hold another, reserved one, the reserved slot is preferred and
  both slots then carry the position.
\<close>

lemma finalize_can_occupy_two_slots:
  "map slot_position_id (slots (finalize_entry_lifecycle_for_position 2000 1
      (empty_db\<lparr>positions := [sample_position], slots := [slot_in ''OPEN'' 1 (Some 1), slot_in ''RESERVED'' 2 None]\<rparr>)))
   = [Some 1, Some 1]"
  by code_simp

end
