(* ===== verification/PositionSync.thy ===== *)
theory PositionSync
  imports LiveStore Settings
begin

text \<open>
  Applying a filled entry order to a live position (\<open>app/live_position_sync.py\<close>): resolving the
  order's canonical log row, its price, volume, amount and fee, the target of a scale-in, the delta
  of an order that was applied before, and the creation of a new position, each with its fill event,
  ledger row, session update and finalisation. The trade outcome statistics that the handler also
  feeds are kept in tables of their own and are left out.
\<close>

section \<open>The context of a call\<close>

text \<open>
  The clock, the settings, and the stop-loss and take-profit percentages of the session's \<open>config\<close>
  object (0 when the session has none).
\<close>

record sync_ctx =
  cx_now :: int
  cx_runtime :: runtime
  cx_stop_loss :: rat
  cx_take_profit :: rat

datatype sync_result =
    Skipped string
  | Attached int string bool
  | Merged int string
  | Created int string

text \<open>The position a result refers to.\<close>

fun result_position :: "sync_result \<Rightarrow> int option" where
  "result_position (Skipped _) = None"
| "result_position (Attached i _ _) = Some i"
| "result_position (Merged i _) = Some i"
| "result_position (Created i _) = Some i"

section \<open>Reading the order\<close>

definition raw_text :: "pydict \<Rightarrow> string \<Rightarrow> string option" where
  "raw_text raw k = (let v = dict_get raw k in if truthy v then Some (py_str v) else None)"

definition order_uuid_of :: "order_log option \<Rightarrow> pydict \<Rightarrow> session \<Rightarrow> string" where
  "order_uuid_of log' raw ses =
     os (or_text (Option.bind log' log_order_uuid)
       (or_text (raw_text raw ''uuid'') (or_text (raw_text raw ''order_id'')
         (or_text (raw_text raw ''id'') (current_open_order_uuid ses)))))"

definition scale_preview :: "order_log option \<Rightarrow> pydict" where
  "scale_preview log' = (case log' of None \<Rightarrow> []
     | Some r \<Rightarrow> as_dict (dict_get (as_dict (dict_get (order_preview_payload r) ''policy_preview'')) ''scale_in''))"

definition raw_num :: "pydict \<Rightarrow> string \<Rightarrow> rat" where
  "raw_num raw k = to_float (dict_get raw k)"

definition log_num :: "(order_log \<Rightarrow> rat) \<Rightarrow> order_log option \<Rightarrow> rat" where
  "log_num f log' = (case log' of None \<Rightarrow> 0 | Some r \<Rightarrow> f r)"

definition filled_price :: "order_log option \<Rightarrow> pydict \<Rightarrow> rat" where
  "filled_price log' raw = num_or (raw_num raw ''price'') (log_num (\<lambda>r. nz (log_price r)) log')"

definition filled_volume :: "order_log option \<Rightarrow> pydict \<Rightarrow> rat" where
  "filled_volume log' raw = num_or (raw_num raw ''executed_volume'') (num_or (raw_num raw ''volume'')
     (num_or (log_num executed_volume log') (log_num (\<lambda>r. nz (log_volume r)) log')))"

definition filled_amount :: "order_log option \<Rightarrow> pydict \<Rightarrow> rat \<Rightarrow> rat \<Rightarrow> rat" where
  "filled_amount log' raw price volume = num_or (raw_num raw ''executed_funds'')
     (num_or (raw_num raw ''filled_amount_krw'') (num_or (log_num filled_amount_krw log') (fmul price volume)))"

definition paid_fee_of :: "order_log option \<Rightarrow> pydict \<Rightarrow> rat" where
  "paid_fee_of log' raw = num_or (raw_num raw ''paid_fee'') (log_num paid_fee log')"

text \<open>\<open>max(logs, key=...)\<close>: the first row with the greatest key.\<close>

fun max_by :: "('r \<Rightarrow> 'k::linorder) \<Rightarrow> 'r \<Rightarrow> 'r list \<Rightarrow> 'r" where
  "max_by k best [] = best"
| "max_by k best (r # rs) = max_by k (if k best < k r then r else best) rs"

definition best_key :: "order_log \<Rightarrow> rat \<times> int \<times> int" where
  "best_key r = (filled_volume (Some r) [], log_updated_at r, log_id r)"

definition best_log :: "order_log list \<Rightarrow> order_log option" where
  "best_log rs = (case rs of [] \<Rightarrow> None | r # rs' \<Rightarrow> Some (max_by best_key r rs'))"

definition canonical_log :: "db \<Rightarrow> order_log option \<Rightarrow> string \<Rightarrow> order_log option \<times> order_log list" where
  "canonical_log s log' uuid =
     (let logs = (if uuid = [] then [] else load_live_order_logs_by_uuid s uuid)
      in if logs = [] then (log', case log' of None \<Rightarrow> [] | Some r \<Rightarrow> [r])
         else (let with_scale = filter (\<lambda>r. truthy (dict_get (scale_preview (Some r)) ''scale_in'')) logs
               in (best_log (if with_scale \<noteq> [] then with_scale else logs), logs)))"

section \<open>Writing the side tables\<close>

fun attach_logs :: "int \<Rightarrow> order_log list \<Rightarrow> int \<Rightarrow> string list \<Rightarrow> db \<Rightarrow> db" where
  "attach_logs now [] i seen s = s"
| "attach_logs now (r # rs) i seen s =
     (if request_id r = [] \<or> request_id r \<in> set seen then attach_logs now rs i seen s
      else attach_logs now rs i (request_id r # seen)
        (update_live_order_log now (request_id r) (\<lambda>x. x\<lparr>log_position_id := Some i\<rparr>) s))"

text \<open>The message texts of the events are left out; the payload starts with the position's id.\<close>

definition log_event ::
  "int \<Rightarrow> string \<Rightarrow> string \<Rightarrow> order_log option \<Rightarrow> string \<Rightarrow> int \<Rightarrow> pydict \<Rightarrow> db \<Rightarrow> db" where
  "log_event now ty severity log' uuid i payload = insert_live_recovery_event now
     \<lparr>ev_type = ty, ev_severity = severity,
      ev_exchange = (case log' of None \<Rightarrow> ''bithumb'' | Some r \<Rightarrow> log_exchange r),
      ev_market = (case log' of None \<Rightarrow> ''KRW-BTC'' | Some r \<Rightarrow> log_market r),
      ev_session_id = Option.bind log' log_session_id, ev_request_id = map_option request_id log',
      ev_order_uuid = Some uuid, ev_payload = (''position_id'', VInt i) # payload, ev_created_at = now\<rparr>"

text \<open>The payload of a fill that was applied whole.\<close>

definition applied_payload :: "string \<Rightarrow> rat \<Rightarrow> rat \<Rightarrow> pydict" where
  "applied_payload source volume amount = [(''source'', VStr source), (''applied_volume'', VFloat volume),
     (''applied_amount_krw'', VFloat amount)]"

definition ledger_from_fill_events :: "db \<Rightarrow> string \<Rightarrow> applied_order option" where
  "ledger_from_fill_events s uuid = (case load_position_fill_events_by_order_uuid s uuid of
     [] \<Rightarrow> None
   | e # _ \<Rightarrow> Some \<lparr>ao_position_id = fe_position_id e,
       ao_fill_type = (if fe_fill_type e = [] then ''ENTRY'' else fe_fill_type e), ao_side = [], ao_purpose = [],
       ao_volume = fe_volume e, ao_amount = fe_amount e, ao_fee = fe_fee e,
       ao_last_volume = fe_volume e, ao_last_amount = fe_amount e, ao_last_fee = fe_fee e,
       ao_source = fe_source e, ao_order_log_id = fe_order_log_id e, ao_request_id = fe_request_id e\<rparr>)"

text \<open>What is known to be applied of an order: its ledger row, else its first fill event.\<close>

definition effective_ledger :: "db \<Rightarrow> string \<Rightarrow> applied_order option" where
  "effective_ledger s uuid = (case load_order_application_ledger s uuid of
     Some l \<Rightarrow> Some l | None \<Rightarrow> ledger_from_fill_events s uuid)"

definition record_ledger ::
  "string \<Rightarrow> int \<Rightarrow> string \<Rightarrow> string \<Rightarrow> order_log option \<Rightarrow> rat \<Rightarrow> rat \<Rightarrow> rat \<Rightarrow> db \<Rightarrow> db" where
  "record_ledger uuid i ft source log' volume amount fee = upsert_order_application_ledger uuid
     \<lparr>ao_position_id = i, ao_fill_type = ft,
      ao_side = py_upper (str_or (map_option log_side log') ''BUY''),
      ao_purpose = py_upper (str_or (map_option order_purpose log') ''ENTRY''),
      ao_volume = volume, ao_amount = amount, ao_fee = fee, ao_last_volume = volume, ao_last_amount = amount,
      ao_last_fee = fee, ao_source = source, ao_order_log_id = map_option log_id log',
      ao_request_id = map_option request_id log'\<rparr>"

definition new_fill_event ::
  "string \<Rightarrow> int \<Rightarrow> string \<Rightarrow> string \<Rightarrow> order_log option \<Rightarrow> rat \<Rightarrow> rat \<Rightarrow> rat \<Rightarrow> fill_event" where
  "new_fill_event uuid i ft source log' volume amount fee =
     \<lparr>fe_id = 0, fe_order_uuid = uuid, fe_position_id = i, fe_fill_type = ft, fe_source = source,
      fe_order_log_id = map_option log_id log', fe_request_id = map_option request_id log',
      fe_volume = volume, fe_amount = amount, fe_fee = fee, fe_created_at = 0\<rparr>"

definition settle_session :: "int \<Rightarrow> session \<Rightarrow> int \<Rightarrow> string \<Rightarrow> db \<Rightarrow> db" where
  "settle_session now ses i result = update_live_strategy_session now (ses_id ses)
     (\<lambda>r. r\<lparr>current_open_order_uuid := None, current_position_id := Some i,
            last_order_status := Some ''FILLED'', last_risk_result := Some result\<rparr>)"

section \<open>An order that was applied before\<close>

definition fill_eps :: rat where
  "fill_eps = rnd (1 / 10 ^ 12)"

definition ledger_fill_type :: "applied_order \<Rightarrow> string" where
  "ledger_fill_type l = (if ao_fill_type l = [] then ''ENTRY'' else ao_fill_type l)"

definition delta_of :: "rat \<Rightarrow> rat \<Rightarrow> rat \<Rightarrow> rat" where
  "delta_of incoming seen applied = max (fsub incoming (num_or seen applied)) 0"

definition finalize_if_entry :: "int \<Rightarrow> applied_order \<Rightarrow> int \<Rightarrow> db \<Rightarrow> db" where
  "finalize_if_entry now l i s =
     (if py_upper (ledger_fill_type l) = ''ENTRY'' then finalize_entry_lifecycle_for_position now i s else s)"

text \<open>
  A fill added to a position: the new totals are computed from the row \<open>p\<close> read before, the average
  entry price follows from them, and they are written to the row \<open>q\<close>.
\<close>

definition add_fill :: "position \<Rightarrow> rat \<Rightarrow> rat \<Rightarrow> rat \<Rightarrow> position \<Rightarrow> position" where
  "add_fill p price volume amount q =
     (let v = fadd (entry_volume p) volume; a = fadd (entry_amount_krw p) amount
      in q\<lparr>pos_status := ''OPEN'', entry_price := (if v > 0 then fdiv a v else price), entry_volume := v,
           entry_amount_krw := a, current_price := price, unrealized_pnl := fsub (fmul price v) a\<rparr>)"

definition apply_order_uuid_delta ::
  "sync_ctx \<Rightarrow> applied_order \<Rightarrow> string \<Rightarrow> order_log option \<Rightarrow> order_log list \<Rightarrow> string \<Rightarrow> session
   \<Rightarrow> rat \<Rightarrow> rat \<Rightarrow> rat \<Rightarrow> db \<Rightarrow> sync_result \<times> db" where
  "apply_order_uuid_delta cx l uuid log' logs source ses volume amount fee s0 =
     (let now = cx_now cx; i = ao_position_id l in
      case load_live_position s0 i of
        None \<Rightarrow> (Skipped ''LEDGER_POSITION_MISSING'', s0)
      | Some p \<Rightarrow>
          (let dv = delta_of volume (ao_last_volume l) (ao_volume l);
               da = delta_of amount (ao_last_amount l) (ao_amount l);
               df = delta_of fee (ao_last_fee l) (ao_fee l);
               ft = ledger_fill_type l;
               s1 = attach_logs now logs i [] s0
           in if dv \<le> fill_eps
              then (Attached i ft True,
                    finalize_if_entry now l i (settle_session now ses i ''DUPLICATE_ORDER_UUID_ALREADY_APPLIED''
                      (log_event now ''DUPLICATE_ORDER_UUID_ALREADY_APPLIED'' ''WARNING'' log' uuid i
                        [(''source'', VStr source), (''existing_fill_type'', VStr (ao_fill_type l)),
                         (''incoming_executed_volume'', VFloat volume),
                         (''last_exchange_executed_volume'', VFloat (num_or (ao_last_volume l) (ao_volume l)))] s1)))
              else (let price = (if volume > 0 then fdiv amount volume else num_or (current_price p) (entry_price p));
                        s2 = update_live_position now i (add_fill p price dv da) s1;
                        s3 = (case load_position_fill_event s2 uuid ft of
                                None \<Rightarrow> s2
                              | Some e \<Rightarrow> update_position_fill_event (fe_id e)
                                  (\<lambda>e. e\<lparr>fe_volume := fadd (fe_volume e) dv, fe_amount := fadd (fe_amount e) da,
                                         fe_fee := fadd (fe_fee e) df, fe_source := source\<rparr>) s2);
                        s4 = settle_session now ses i ''ORDER_UUID_DELTA_APPLIED''
                               (record_ledger uuid i ft source log' volume amount fee s3)
                    in (Merged i ft, log_event now ''ORDER_UUID_DELTA_APPLIED'' ''INFO'' log' uuid i
                         [(''source'', VStr source), (''delta_volume'', VFloat dv), (''delta_amount_krw'', VFloat da),
                          (''previous_exchange_executed_volume'', VFloat (num_or (ao_last_volume l) (ao_volume l))),
                          (''incoming_executed_volume'', VFloat volume)]
                         (finalize_if_entry now l i s4)))))"

section \<open>The handler\<close>

definition env_pct :: "sync_ctx \<Rightarrow> string \<Rightarrow> string \<Rightarrow> rat" where
  "env_pct cx k dflt = to_float (getenv (cx_runtime cx) k (VStr dflt))"

definition below :: "rat \<Rightarrow> rat \<Rightarrow> rat" where
  "below price pct = fmul price (fsub 1 (fdiv pct 100))"

definition above :: "rat \<Rightarrow> rat \<Rightarrow> rat" where
  "above price pct = fmul price (fadd 1 (fdiv pct 100))"

definition new_position_payload ::
  "sync_ctx \<Rightarrow> session \<Rightarrow> order_log option \<Rightarrow> string \<Rightarrow> rat \<Rightarrow> rat \<Rightarrow> rat \<Rightarrow> position" where
  "new_position_payload cx ses log' uuid price volume amount =
     (let stop = num_or (cx_stop_loss cx) (env_pct cx ''AUTO_STOP_LOSS_PERCENT'' ''0.7'');
          take' = num_or (cx_take_profit cx) (env_pct cx ''AUTO_TAKE_PROFIT_PERCENT'' ''1.0'');
          trail = env_pct cx ''AUTO_TRAILING_STOP_PERCENT'' ''0.7''
      in \<lparr>pos_id = 0, pos_session_id = ses_id ses, pos_exchange = ses_exchange ses, pos_market = ses_market ses,
          pos_candidate_id = ses_candidate_id ses,
          pos_strategy_name = str_or (or_text (Some (ses_strategy_name ses)) (Option.bind log' log_strategy_name)) ''live_strategy'',
          pos_status = ''OPEN'', entry_order_uuid = Some uuid, exit_order_uuid = None, entry_price = price,
          entry_volume = volume, entry_amount_krw = amount, current_price = price, unrealized_pnl = 0,
          realized_pnl = 0, stop_loss_price = (if price > 0 then below price stop else 0),
          take_profit_price = (if price > 0 then above price take' else 0),
          highest_price_since_entry = Some price,
          trailing_stop_price = Some (if price > 0 \<and> trail > 0 then below price trail else 0),
          trailing_stop_pct = Some trail, last_trailing_update_at = Some (cx_now cx), scale_in_count = 0,
          last_scale_in_at = None,
          opened_at = Some (case log' of None \<Rightarrow> cx_now cx | Some r \<Rightarrow> log_updated_at r),
          closed_at = None, pos_created_at = 0, pos_updated_at = 0\<rparr>)"

definition resolve_scale_in_target :: "db \<Rightarrow> session \<Rightarrow> order_log option \<Rightarrow> pydict \<Rightarrow> int option" where
  "resolve_scale_in_target s ses log' sp =
     (let from_log = (case Option.bind log' log_position_id of None \<Rightarrow> VNone | Some i \<Rightarrow> VInt i);
          pid = py_or (dict_get sp ''position_id'') from_log;
          direct = (if truthy pid then
              (case load_live_position s (int_or 0 pid) of
                 Some p \<Rightarrow> if py_upper (pos_status p) = ''OPEN'' then Some (pos_id p) else None
               | None \<Rightarrow> None) else None)
      in case direct of Some i \<Rightarrow> Some i
         | None \<Rightarrow> if truthy (dict_get sp ''scale_in'')
             then map_option pos_id (load_open_live_position_for_strategy s
               (str_or (or_text (Some (ses_exchange ses)) (map_option log_exchange log')) ''bithumb'')
               (str_or (or_text (Some (ses_market ses)) (map_option log_market log')) ''KRW-BTC'')
               (if ses_candidate_id ses \<noteq> 0 then ses_candidate_id ses
                else case Option.bind log' log_candidate_id of None \<Rightarrow> 0 | Some c \<Rightarrow> c))
             else None)"

definition sync_scale_in ::
  "sync_ctx \<Rightarrow> session \<Rightarrow> position \<Rightarrow> order_log option \<Rightarrow> order_log list \<Rightarrow> string \<Rightarrow> string \<Rightarrow> rat \<Rightarrow> rat \<Rightarrow> rat \<Rightarrow> rat
   \<Rightarrow> db \<Rightarrow> sync_result \<times> db" where
  "sync_scale_in cx ses p log' logs uuid source price volume amount fee s =
     (let now = cx_now cx; i = pos_id p;
          s1 = record_ledger uuid i ''SCALE_IN'' source log' volume amount fee s;
          s2 = update_live_position now i (\<lambda>q. (add_fill p price volume amount q)\<lparr>
                 scale_in_count := scale_in_count p + 1, last_scale_in_at := Some now\<rparr>) s1;
          s3 = attach_logs now logs i [] s2
      in (Merged i ''SCALE_IN'', log_event now ''SCALE_IN_POSITION_SYNCED'' ''INFO'' log' uuid i (applied_payload source volume amount)
            (settle_session now ses i ''SCALE_IN_POSITION_SYNCED'' s3)))"

definition sync_existing ::
  "sync_ctx \<Rightarrow> session \<Rightarrow> position \<Rightarrow> order_log option \<Rightarrow> order_log list \<Rightarrow> string \<Rightarrow> string \<Rightarrow> rat
   \<Rightarrow> db \<Rightarrow> sync_result \<times> db" where
  "sync_existing cx ses p log' logs uuid source fee s =
     (let now = cx_now cx; i = pos_id p; src = source @ ''_ADOPT_EXISTING'';
          s1 = attach_logs now logs i [] s;
          s2 = (if load_position_fill_event s1 uuid ''ENTRY'' = None
                then snd (insert_position_fill_event now
                  (new_fill_event uuid i ''ENTRY'' src log' (entry_volume p) (entry_amount_krw p) fee) s1) else s1);
          s3 = record_ledger uuid i ''ENTRY'' src log' (entry_volume p) (entry_amount_krw p) fee s2
      in (Attached i ''ENTRY'' False,
          finalize_entry_lifecycle_for_position now i (settle_session now ses i ''POSITION_OPEN_SYNCED'' s3)))"

definition sync_new ::
  "sync_ctx \<Rightarrow> session \<Rightarrow> order_log option \<Rightarrow> order_log list \<Rightarrow> string \<Rightarrow> string \<Rightarrow> rat \<Rightarrow> rat \<Rightarrow> rat \<Rightarrow> rat
   \<Rightarrow> db \<Rightarrow> sync_result \<times> db" where
  "sync_new cx ses log' logs uuid source price volume amount fee s =
     (let now = cx_now cx;
          (i, s1) = create_live_position now (new_position_payload cx ses log' uuid price volume amount) s;
          s2 = snd (insert_position_fill_event now (new_fill_event uuid i ''ENTRY'' source log' volume amount fee) s1);
          s3 = attach_logs now logs i [] (record_ledger uuid i ''ENTRY'' source log' volume amount fee s2)
      in (Created i ''ENTRY'', log_event now ''POSITION_OPEN_SYNCED'' ''INFO'' log' uuid i (applied_payload source volume amount)
            (finalize_entry_lifecycle_for_position now i (settle_session now ses i ''POSITION_OPEN_SYNCED'' s3))))"

text \<open>The early returns before anything is written.\<close>

definition skip_reason :: "string \<Rightarrow> order_log option \<Rightarrow> rat \<Rightarrow> rat \<Rightarrow> rat \<Rightarrow> string option" where
  "skip_reason uuid log' price volume amount =
     (if uuid = [] then Some ''MISSING_ORDER_UUID''
      else if log' \<noteq> None \<and> py_upper (os (map_option log_side log')) \<noteq> ''BUY'' then Some ''NOT_BUY''
      else if log' \<noteq> None \<and> py_upper (str_or (map_option order_purpose log') ''ENTRY'') \<noteq> ''ENTRY'' then Some ''NOT_ENTRY''
      else if price \<le> 0 \<or> volume \<le> 0 \<or> amount \<le> 0 then Some ''EMPTY_FILL''
      else None)"

definition sync_event_known ::
  "sync_ctx \<Rightarrow> session \<Rightarrow> order_log list \<Rightarrow> string \<Rightarrow> fill_event \<Rightarrow> db \<Rightarrow> sync_result \<times> db" where
  "sync_event_known cx ses logs ft e s =
     (let i = fe_position_id e; now = cx_now cx;
          s1 = settle_session now ses i ''POSITION_FILL_ALREADY_SYNCED'' (attach_logs now logs i [] s)
      in (Attached i ft False, if ft = ''ENTRY'' then finalize_entry_lifecycle_for_position now i s1 else s1))"

text \<open>
  The handler calls itself when the insertion of a scale-in event is ignored; \<open>n\<close> bounds these
  calls. The event can only be ignored when another writer came in between.
\<close>

fun sync_filled_entry_order_to_position ::
  "nat \<Rightarrow> sync_ctx \<Rightarrow> session \<Rightarrow> string \<Rightarrow> order_log option \<Rightarrow> pydict \<Rightarrow> db \<Rightarrow> sync_result \<times> db" where
  "sync_filled_entry_order_to_position 0 cx ses source log0 raw s = (Skipped ''RETRY_LIMIT'', s)"
| "sync_filled_entry_order_to_position (Suc n) cx ses source log0 raw s =
     (let uuid = order_uuid_of log0 raw ses;
          log' = fst (canonical_log s log0 uuid);
          logs = snd (canonical_log s log0 uuid);
          price = filled_price log' raw;
          volume = filled_volume log' raw;
          amount = filled_amount log' raw price volume;
          fee = paid_fee_of log' raw
      in case skip_reason uuid log' price volume amount of
           Some why \<Rightarrow> (Skipped why, s)
         | None \<Rightarrow>
           (case effective_ledger s uuid of
              Some l \<Rightarrow> apply_order_uuid_delta cx l uuid log' logs source ses volume amount fee s
            | None \<Rightarrow>
              (let target = resolve_scale_in_target s ses log' (scale_preview log');
                   ft = (if target \<noteq> None then ''SCALE_IN'' else ''ENTRY'')
               in case load_position_fill_event s uuid ft of
                    Some e \<Rightarrow> sync_event_known cx ses logs ft e s
                  | None \<Rightarrow>
                    (case target of
                       Some i \<Rightarrow>
                         (case load_live_position s i of
                            None \<Rightarrow> (Skipped ''SCALE_TARGET_NOT_OPEN'', s)
                          | Some p \<Rightarrow>
                              if py_upper (pos_status p) \<noteq> ''OPEN'' then (Skipped ''SCALE_TARGET_NOT_OPEN'', s)
                              else (let ins = insert_position_fill_event (cx_now cx)
                                          (new_fill_event uuid i ''SCALE_IN'' source log' volume amount fee) s
                                    in if \<not> fst ins then sync_filled_entry_order_to_position n cx ses source log0 raw (snd ins)
                                       else sync_scale_in cx ses p log' logs uuid source price volume amount fee (snd ins)))
                     | None \<Rightarrow>
                         (case load_live_position_by_entry_order_uuid s (ses_exchange ses) (ses_market ses) uuid of
                            Some p \<Rightarrow> sync_existing cx ses p log' logs uuid source fee s
                          | None \<Rightarrow> sync_new cx ses log' logs uuid source price volume amount fee s)))))"

declare sync_filled_entry_order_to_position.simps [simp del]

section \<open>Lemmas\<close>

interpretation ledger_store: keyed_store map_of dict_put
  by unfold_locales simp

text \<open>Which operations touch the positions and the ledger of applied orders.\<close>

lemma update_live_order_log_frame [table_simps]:
  "positions (update_live_order_log now rid f (s :: db)) = positions s"
  "app_ledger (update_live_order_log now rid f s) = app_ledger s"
  "fill_events (update_live_order_log now rid f s) = fill_events s"
  by (simp_all add: update_live_order_log_def Let_def split: option.split)

lemma attach_logs_frame [table_simps]:
  "positions (attach_logs now rs i seen s) = positions s"
  "app_ledger (attach_logs now rs i seen s) = app_ledger s"
  "fill_events (attach_logs now rs i seen s) = fill_events s"
  by (induction now rs i seen s rule: attach_logs.induct) (simp_all add: table_simps)

lemma update_next_entry_status_frame [table_simps]:
  "positions (update_next_entry_status now c st b s) = positions s"
  "app_ledger (update_next_entry_status now c st b s) = app_ledger s"
  "fill_events (update_next_entry_status now c st b s) = fill_events s"
  by (simp_all add: update_next_entry_status_def split: option.split)

lemma finalize_frame [table_simps]:
  "positions (finalize_entry_lifecycle_for_position now i s) = positions s"
  "app_ledger (finalize_entry_lifecycle_for_position now i s) = app_ledger s"
  "positions (finalize_if_entry now l i s) = positions s"
  "app_ledger (finalize_if_entry now l i s) = app_ledger s"
  "fill_events (finalize_entry_lifecycle_for_position now i s) = fill_events s"
  "fill_events (finalize_if_entry now l i s) = fill_events s"
  by (simp_all add: finalize_entry_lifecycle_for_position_def finalize_if_entry_def Let_def table_simps split: option.split)

lemma small_frames [table_simps]:
  "positions (settle_session now ses i res s) = positions s"
  "app_ledger (settle_session now ses i res s) = app_ledger s"
  "fill_events (settle_session now ses i res s) = fill_events s"
  "positions (log_event now ty sev log' uuid i d s) = positions s"
  "app_ledger (log_event now ty sev log' uuid i d s) = app_ledger s"
  "fill_events (log_event now ty sev log' uuid i d s) = fill_events s"
  "fill_events (update_live_position now i h s) = fill_events s"
  "positions (record_ledger uuid i ft source log' v a f s) = positions s"
  "positions (update_position_fill_event j g s) = positions s"
  "app_ledger (update_position_fill_event j g s) = app_ledger s"
  "positions (snd (insert_position_fill_event now e s)) = positions s"
  "app_ledger (snd (insert_position_fill_event now e s)) = app_ledger s"
  "app_ledger (update_live_position now i h s) = app_ledger s"
  by (simp_all add: settle_session_def update_live_strategy_session_def log_event_def insert_live_recovery_event_def
      record_ledger_def upsert_order_application_ledger_def update_position_fill_event_def
      insert_position_fill_event_def update_live_position_def)

lemma positions_update [table_simps]:
  "positions (update_live_position now i h s)
    = update_where (\<lambda>p. pos_id p = i) (\<lambda>p. (h p)\<lparr>pos_updated_at := now\<rparr>) (positions s)"
  by (simp add: update_live_position_def)

text \<open>What the ledger says after a fill was recorded.\<close>

lemma record_ledger_read:
  assumes "v \<noteq> 0"
  shows "\<exists>l. load_order_application_ledger (record_ledger uuid i ft source log' v a f s) uuid = Some l
    \<and> ao_last_volume l = v \<and> ao_volume l = v \<and> ao_position_id l = i"
  using assms
  by (simp add: load_order_application_ledger_def record_ledger_def upsert_order_application_ledger_def
      ledger_store.look_put merge_applied_def Let_def num_or_def split: option.split)

text \<open>An order whose volume is covered by the ledger changes no position.\<close>

definition covered :: "db \<Rightarrow> string \<Rightarrow> rat \<Rightarrow> bool" where
  "covered s uuid v \<longleftrightarrow> (\<exists>l. effective_ledger s uuid = Some l
     \<and> delta_of v (ao_last_volume l) (ao_volume l) \<le> fill_eps)"

lemma delta_of_mono: "v \<le> w \<Longrightarrow> delta_of v a b \<le> delta_of w a b"
  unfolding delta_of_def by (rule max.mono) (auto intro: fsub_mono)

lemma fill_eps_pos: "0 < fill_eps"
  by code_simp

lemma covered_mono: "covered s uuid w \<Longrightarrow> v \<le> w \<Longrightarrow> covered s uuid v"
  unfolding covered_def using delta_of_mono order_trans by blast

lemma effective_ledger_same:
  "app_ledger s' = app_ledger s \<Longrightarrow> fill_events s' = fill_events s \<Longrightarrow> effective_ledger s' uuid = effective_ledger s uuid"
  by (simp add: effective_ledger_def load_order_application_ledger_def ledger_from_fill_events_def
      load_position_fill_events_by_order_uuid_def split: option.split)

lemma covered_same:
  "app_ledger s' = app_ledger s \<Longrightarrow> fill_events s' = fill_events s \<Longrightarrow> covered s' uuid v = covered s uuid v"
  using effective_ledger_same[of s' s uuid] by (simp add: covered_def)

lemma covered_recorded: "v \<noteq> 0 \<Longrightarrow> covered (record_ledger uuid i ft source log' v a f s) uuid v"
  using record_ledger_read[of v uuid i ft source log' a f s] fill_eps_pos
  unfolding covered_def effective_ledger_def by (fastforce simp: delta_of_def num_or_def)

lemma apply_delta_covered:
  "delta_of v (ao_last_volume l) (ao_volume l) \<le> fill_eps \<Longrightarrow>
     positions (snd (apply_order_uuid_delta cx l uuid log' logs source ses v a f s)) = positions s"
  by (simp add: apply_order_uuid_delta_def Let_def table_simps split: option.split)

lemma sync_covered:
  assumes "covered s uuid v" and "uuid = order_uuid_of log0 raw ses"
    and "v = filled_volume (fst (canonical_log s log0 uuid)) raw"
  shows "positions (snd (sync_filled_entry_order_to_position (Suc n) cx ses source log0 raw s)) = positions s"
proof -
  obtain l where l: "effective_ledger s uuid = Some l" "delta_of v (ao_last_volume l) (ao_volume l) \<le> fill_eps"
    using assms(1) by (auto simp: covered_def)
  show ?thesis
    unfolding sync_filled_entry_order_to_position.simps Let_def
    using apply_delta_covered[OF l(2)] l(1) assms(2,3) by (simp split: option.split)
qed

text \<open>Each way of applying a fill records it.\<close>

lemma frames_covered:
  "covered (finalize_entry_lifecycle_for_position now i s) uuid v = covered s uuid v"
  "covered (finalize_if_entry now l i s) uuid v = covered s uuid v"
  "covered (settle_session now ses i res s) uuid v = covered s uuid v"
  "covered (log_event now ty sev log' uuid' i d s) uuid v = covered s uuid v"
  "covered (attach_logs now rs i seen s) uuid v = covered s uuid v"
  "covered (update_live_position now i h s) uuid v = covered s uuid v"
  by (rule covered_same; simp add: table_simps)+

lemma sync_new_covered:
  "v \<noteq> 0 \<Longrightarrow> covered (snd (sync_new cx ses log' logs uuid source price v a f s)) uuid v"
  by (simp add: sync_new_def Let_def frames_covered covered_recorded split: prod.split)

lemma sync_scale_in_covered:
  "v \<noteq> 0 \<Longrightarrow> covered (snd (sync_scale_in cx ses p log' logs uuid source price v a f s)) uuid v"
  by (simp add: sync_scale_in_def Let_def frames_covered covered_recorded)

lemma apply_delta_covers:
  assumes "effective_ledger s uuid = Some l"
    and "v \<noteq> 0" and "load_live_position s (ao_position_id l) \<noteq> None"
  shows "covered (snd (apply_order_uuid_delta cx l uuid log' logs source ses v a f s)) uuid v"
proof (cases "delta_of v (ao_last_volume l) (ao_volume l) \<le> fill_eps")
  case True
  then show ?thesis
    using assms by (auto simp: apply_order_uuid_delta_def Let_def frames_covered covered_def[of s])
next
  case False
  then show ?thesis
    using assms by (auto simp: apply_order_uuid_delta_def Let_def frames_covered covered_recorded)
qed

lemma insert_fill_event_fresh:
  "load_position_fill_event s (fe_order_uuid e) (fe_fill_type e) = None \<Longrightarrow> fst (insert_position_fill_event now e s)"
  by (simp add: insert_position_fill_event_def)

lemma no_event:
  assumes "effective_ledger s uuid = None"
  shows "load_position_fill_event s uuid ft = None"
proof -
  have "load_position_fill_events_by_order_uuid s uuid = []"
    using assms by (simp add: effective_ledger_def ledger_from_fill_events_def split: list.splits option.splits)
  then have "filter (\<lambda>e. fe_order_uuid e = uuid) (fill_events s) = []"
    unfolding load_position_fill_events_by_order_uuid_def by (metis length_0_conv length_sort)
  then show ?thesis by (simp add: load_position_fill_event_def first_row_None_iff filter_empty_conv)
qed

text \<open>No ledger and no fill event of the order: the insertion cannot be ignored, so no call retries.\<close>

lemma sync_cases:
  fixes n cx ses source log0 raw and s :: db
  defines "res \<equiv> sync_filled_entry_order_to_position (Suc n) cx ses source log0 raw s"
    and "uuid \<equiv> order_uuid_of log0 raw ses"
  defines "log' \<equiv> fst (canonical_log s log0 uuid)" and "logs \<equiv> snd (canonical_log s log0 uuid)"
  defines "price \<equiv> filled_price log' raw" and "v \<equiv> filled_volume log' raw"
  defines "a \<equiv> filled_amount log' raw price v" and "f \<equiv> paid_fee_of log' raw"
  shows "(\<exists>why. why \<noteq> ''RETRY_LIMIT'' \<and> res = (Skipped why, s))
    \<or> (\<exists>l. 0 < v \<and> effective_ledger s uuid = Some l \<and> res = apply_order_uuid_delta cx l uuid log' logs source ses v a f s)
    \<or> (\<exists>p. 0 < v \<and> load_live_position s (pos_id p) = Some p
          \<and> res = sync_scale_in cx ses p log' logs uuid source price v a f
               (snd (insert_position_fill_event (cx_now cx) (new_fill_event uuid (pos_id p) ''SCALE_IN'' source log' v a f) s)))
    \<or> (\<exists>p. res = sync_existing cx ses p log' logs uuid source f s)
    \<or> 0 < v \<and> res = sync_new cx ses log' logs uuid source price v a f s"
proof (cases "skip_reason uuid log' price v a")
  case (Some why)
  then have "res = (Skipped why, s)"
    unfolding res_def sync_filled_entry_order_to_position.simps Let_def
    by (simp add: price_def v_def a_def log'_def flip: uuid_def)
  moreover have "why \<noteq> ''RETRY_LIMIT''" using Some by (auto simp: skip_reason_def split: if_splits)
  ultimately show ?thesis by blast
next
  case go: None
  then have v: "0 < v" by (simp add: skip_reason_def split: if_splits)
  show ?thesis
  proof (cases "effective_ledger s uuid")
    case (Some l)
    then have "res = apply_order_uuid_delta cx l uuid log' logs source ses v a f s"
      unfolding res_def sync_filled_entry_order_to_position.simps Let_def
      using go by (simp add: price_def v_def a_def f_def log'_def logs_def flip: uuid_def)
    then show ?thesis using Some v by blast
  next
    case None
    note ev = no_event[OF None]
    define target where "target = resolve_scale_in_target s ses log' (scale_preview log')"
    have res: "res = (case target of
        Some i \<Rightarrow> (case load_live_position s i of
            None \<Rightarrow> (Skipped ''SCALE_TARGET_NOT_OPEN'', s)
          | Some p \<Rightarrow> if py_upper (pos_status p) \<noteq> ''OPEN'' then (Skipped ''SCALE_TARGET_NOT_OPEN'', s)
              else sync_scale_in cx ses p log' logs uuid source price v a f
                (snd (insert_position_fill_event (cx_now cx) (new_fill_event uuid i ''SCALE_IN'' source log' v a f) s)))
      | None \<Rightarrow> (case load_live_position_by_entry_order_uuid s (ses_exchange ses) (ses_market ses) uuid of
            Some p \<Rightarrow> sync_existing cx ses p log' logs uuid source f s
          | None \<Rightarrow> sync_new cx ses log' logs uuid source price v a f s))"
      unfolding res_def sync_filled_entry_order_to_position.simps Let_def
      using go None ev insert_fill_event_fresh[of s "new_fill_event uuid _ ''SCALE_IN'' source log' v a f" "cx_now cx"]
      by (simp add: price_def v_def a_def f_def log'_def logs_def target_def new_fill_event_def split: option.split flip: uuid_def)
    have pid: "load_live_position s i = Some p \<Longrightarrow> pos_id p = i" for i p
      using first_row_SomeD[of "\<lambda>p. pos_id p = i" "positions s" p] by (simp add: load_live_position_def)
    show ?thesis
      using v pid unfolding res by (simp split: option.split) blast
  qed
qed

text \<open>The results that say the fill is in the books.\<close>

fun fill_applied :: "sync_result \<Rightarrow> bool" where
  "fill_applied (Skipped _) = False"
| "fill_applied (Attached _ _ dup) = dup"
| "fill_applied (Merged _ _) = True"
| "fill_applied (Created _ _) = True"

lemma sync_applied_covered:
  assumes "sync_filled_entry_order_to_position (Suc n) cx ses source log0 raw s = (r, s')" and "fill_applied r"
    and "uuid = order_uuid_of log0 raw ses"
  shows "covered s' uuid (filled_volume (fst (canonical_log s log0 uuid)) raw)"
proof -
  let ?log' = "fst (canonical_log s log0 uuid)" and ?logs = "snd (canonical_log s log0 uuid)"
  let ?v = "filled_volume ?log' raw" and ?price = "filled_price ?log' raw"
  let ?a = "filled_amount ?log' raw ?price ?v" and ?f = "paid_fee_of ?log' raw"
  note cases = sync_cases[of n cx ses source log0 raw s]
  from cases[folded assms(3), unfolded assms(1)] consider
      (skip) why where "r = Skipped why"
    | (delta) l where "0 < ?v" "effective_ledger s uuid = Some l"
        "(r, s') = apply_order_uuid_delta cx l uuid ?log' ?logs source ses ?v ?a ?f s"
    | (scale) p d where "0 < ?v" "(r, s') = sync_scale_in cx ses p ?log' ?logs uuid source ?price ?v ?a ?f d"
    | (existing) p where "(r, s') = sync_existing cx ses p ?log' ?logs uuid source ?f s"
    | (new) "0 < ?v" "(r, s') = sync_new cx ses ?log' ?logs uuid source ?price ?v ?a ?f s"
    by auto
  then show ?thesis
  proof cases
    case skip
    then show ?thesis using assms(2) by simp
  next
    case delta
    have "load_live_position s (ao_position_id l) \<noteq> None"
    proof
      assume none: "load_live_position s (ao_position_id l) = None"
      show False using delta(3) assms(2) by (simp add: apply_order_uuid_delta_def none)
    qed
    then show ?thesis
      using apply_delta_covers[OF delta(2), of ?v cx ?log' ?logs source ses ?a ?f] delta(1) unfolding delta(3)[symmetric] by simp
  next
    case scale
    then show ?thesis
      using sync_scale_in_covered[of ?v cx ses p ?log' ?logs uuid source ?price ?a ?f d] unfolding scale(2)[symmetric] by simp
  next
    case existing
    then show ?thesis using assms(2) by (simp add: sync_existing_def Let_def)
  next
    case new
    then show ?thesis
      using sync_new_covered[of ?v cx ses ?log' ?logs uuid source ?price ?a ?f s] unfolding new(2)[symmetric] by simp
  qed
qed

lemma add_fill_simps [simp]:
  "entry_volume (add_fill p price v a q) = fadd (entry_volume p) v" "pos_id (add_fill p price v a q) = pos_id q"
  "pos_status (add_fill p price v a q) = ''OPEN''"
  by (simp_all add: add_fill_def Let_def)

lemma load_live_position_unique:
  assumes "distinct (map pos_id (positions s))" "p \<in> set (positions s)" "load_live_position s (pos_id p) = Some q"
  shows "q = p"
  using assms first_row_SomeD[of "\<lambda>r. pos_id r = pos_id p" "positions s" q]
  unfolding load_live_position_def by (metis distinct_map inj_onD)

text \<open>No way of applying a fill removes a position or takes volume from it.\<close>

definition keeps_volume :: "db \<Rightarrow> db \<Rightarrow> position \<Rightarrow> bool" where
  "keeps_volume s s' p \<longleftrightarrow> (\<exists>p' \<in> set (positions s'). pos_id p' = pos_id p \<and> entry_volume p \<le> entry_volume p')"

lemma keeps_same: "positions s' = positions s \<Longrightarrow> p \<in> set (positions s) \<Longrightarrow> keeps_volume s s' p"
  by (auto simp: keeps_volume_def)

lemma keeps_add_fill:
  assumes "distinct (map pos_id (positions s))" "p \<in> set (positions s)" "is_flt (entry_volume p)" "0 \<le> v"
    and "load_live_position s i = Some q"
    and "\<And>x. entry_volume (h x) = fadd (entry_volume q) v \<and> pos_id (h x) = pos_id x"
    and "positions s' = update_where (\<lambda>p. pos_id p = i) (\<lambda>p. (h p)\<lparr>pos_updated_at := now\<rparr>) (positions s)"
  shows "keeps_volume s s' p"
proof (cases "pos_id p = i")
  case True
  then have "q = p" using load_live_position_unique[OF assms(1,2)] assms(5) by simp
  then show ?thesis
    using True assms(2,3,4,6,7) fadd_ge_left[of "entry_volume p" v] unfolding keeps_volume_def
    by (intro bexI[of _ "(h p)\<lparr>pos_updated_at := now\<rparr>"]) (auto simp: set_update_where)
next
  case False
  then show ?thesis using assms(2,7) by (auto simp: keeps_volume_def set_update_where)
qed

lemma delta_of_nonneg [simp]: "0 \<le> delta_of v a b"
  by (simp add: delta_of_def)

lemma apply_delta_keeps:
  assumes "distinct (map pos_id (positions s))" "p \<in> set (positions s)" "is_flt (entry_volume p)"
  shows "keeps_volume s (snd (apply_order_uuid_delta cx l uuid log' logs source ses v a f s)) p"
proof (cases "load_live_position s (ao_position_id l)")
  case None
  then show ?thesis using assms by (simp add: apply_order_uuid_delta_def keeps_same)
next
  case (Some q)
  show ?thesis
  proof (cases "delta_of v (ao_last_volume l) (ao_volume l) \<le> fill_eps")
    case True
    then show ?thesis using apply_delta_covered[OF True] assms by (intro keeps_same)
  next
    case False
    let ?price = "if v > 0 then fdiv a v else num_or (current_price q) (entry_price q)"
    let ?h = "add_fill q ?price (delta_of v (ao_last_volume l) (ao_volume l)) (delta_of a (ao_last_amount l) (ao_amount l))"
    have "positions (snd (apply_order_uuid_delta cx l uuid log' logs source ses v a f s))
        = update_where (\<lambda>p. pos_id p = ao_position_id l) (\<lambda>p. (?h p)\<lparr>pos_updated_at := cx_now cx\<rparr>) (positions s)"
      using False Some by (simp add: apply_order_uuid_delta_def Let_def table_simps split: option.split)
    then show ?thesis
      by (intro keeps_add_fill[OF assms delta_of_nonneg Some, where h = ?h]) simp_all
  qed
qed

lemma sync_keeps_volume:
  assumes "distinct (map pos_id (positions s))" "p \<in> set (positions s)" "is_flt (entry_volume p)"
  shows "keeps_volume s (snd (sync_filled_entry_order_to_position (Suc n) cx ses source log0 raw s)) p"
  using sync_cases[of n cx ses source log0 raw s]
proof (elim disjE exE conjE)
  fix q :: position
  let ?u = "order_uuid_of log0 raw ses"
  let ?log' = "fst (canonical_log s log0 ?u)" and ?logs = "snd (canonical_log s log0 ?u)"
  let ?v = "filled_volume ?log' raw" and ?price = "filled_price ?log' raw"
  let ?a = "filled_amount ?log' raw ?price ?v" and ?f = "paid_fee_of ?log' raw"
  let ?ins = "snd (insert_position_fill_event (cx_now cx) (new_fill_event ?u (pos_id q) ''SCALE_IN'' source ?log' ?v ?a ?f) s)"
  assume v: "0 < ?v" and q: "load_live_position s (pos_id q) = Some q"
    and res: "sync_filled_entry_order_to_position (Suc n) cx ses source log0 raw s
      = sync_scale_in cx ses q ?log' ?logs ?u source ?price ?v ?a ?f ?ins"
  show ?thesis
    unfolding res
    by (rule keeps_add_fill[OF assms less_imp_le[OF v] q,
          where h = "\<lambda>x. (add_fill q ?price ?v ?a x)\<lparr>scale_in_count := scale_in_count q + 1, last_scale_in_at := Some (cx_now cx)\<rparr>"])
      (simp_all add: sync_scale_in_def Let_def table_simps)
next
  fix q
  assume res: "sync_filled_entry_order_to_position (Suc n) cx ses source log0 raw s
    = sync_existing cx ses q (fst (canonical_log s log0 (order_uuid_of log0 raw ses)))
       (snd (canonical_log s log0 (order_uuid_of log0 raw ses))) (order_uuid_of log0 raw ses) source
       (paid_fee_of (fst (canonical_log s log0 (order_uuid_of log0 raw ses))) raw) s"
  show ?thesis unfolding res by (rule keeps_same[OF _ assms(2)]) (simp add: sync_existing_def Let_def table_simps)
next
  assume res: "sync_filled_entry_order_to_position (Suc n) cx ses source log0 raw s
    = sync_new cx ses (fst (canonical_log s log0 (order_uuid_of log0 raw ses)))
       (snd (canonical_log s log0 (order_uuid_of log0 raw ses))) (order_uuid_of log0 raw ses) source
       (filled_price (fst (canonical_log s log0 (order_uuid_of log0 raw ses))) raw)
       (filled_volume (fst (canonical_log s log0 (order_uuid_of log0 raw ses))) raw)
       (filled_amount (fst (canonical_log s log0 (order_uuid_of log0 raw ses))) raw
         (filled_price (fst (canonical_log s log0 (order_uuid_of log0 raw ses))) raw)
         (filled_volume (fst (canonical_log s log0 (order_uuid_of log0 raw ses))) raw))
       (paid_fee_of (fst (canonical_log s log0 (order_uuid_of log0 raw ses))) raw) s"
  show ?thesis unfolding res
    using assms(2) by (auto simp: sync_new_def create_live_position_def Let_def table_simps keeps_volume_def split: prod.split)
qed (use assms apply_delta_keeps keeps_same in auto)

definition sample_ctx :: sync_ctx where
  "sample_ctx = \<lparr>cx_now = 2000, cx_runtime = sample_runtime, cx_stop_loss = 1, cx_take_profit = 2\<rparr>"

definition sample_session :: session where
  "sample_session = \<lparr>ses_id = 1, ses_exchange = ''bithumb'', ses_market = ''KRW-BTC'', ses_candidate_id = 7,
     ses_strategy_name = ''trend'', ses_parameters = [], ses_status = ''RUNNING'', auto_enabled = True,
     ses_initial_balance = 0, ses_max_order_krw = 30000, ses_max_orders_per_day = 3, ses_orders_today = 0,
     current_open_order_uuid = Some ''u1'', current_position_id = None, last_signal = ''NONE'', last_signal_time = None,
     last_risk_result = None, last_order_status = None, last_order_time = None, last_processed_candle = None,
     stopped_at = None, ses_created_at = 0, ses_updated_at = 0\<rparr>"

text \<open>The exchange's view of a filled order of \<open>v\<close> units at 50000.\<close>

definition sample_raw :: "int \<Rightarrow> pydict" where
  "sample_raw v = [(''uuid'', VStr ''u1''), (''price'', VInt 50000), (''executed_volume'', VInt v)]"

definition sample_db :: db where
  "sample_db = empty_db\<lparr>sessions := [sample_session], slots := [slot_in ''RESERVED'' 1 None]\<rparr>"

section \<open>Properties\<close>

text \<open>
  C4. Replaying a fill changes nothing: once a fill of an exchange order has been applied, every
  later report of the same order with no larger executed volume leaves all positions as they are,
  whatever session, log row or source it comes with and whatever else happened to the store in
  between, as long as the ledger and the fill events were not touched.
\<close>

theorem replayed_fill_changes_nothing:
  assumes first: "sync_filled_entry_order_to_position (Suc n) cx ses source log0 raw s = (r, s1)" and "fill_applied r"
    and "app_ledger s2 = app_ledger s1" and "fill_events s2 = fill_events s1"
    and same: "order_uuid_of log1 raw1 ses1 = order_uuid_of log0 raw ses"
    and "filled_volume (fst (canonical_log s2 log1 (order_uuid_of log1 raw1 ses1))) raw1
       \<le> filled_volume (fst (canonical_log s log0 (order_uuid_of log0 raw ses))) raw"
  shows "positions (snd (sync_filled_entry_order_to_position (Suc m) cx1 ses1 source1 log1 raw1 s2)) = positions s2"
proof (rule sync_covered[OF _ refl refl])
  have "covered s1 (order_uuid_of log0 raw ses) (filled_volume (fst (canonical_log s log0 (order_uuid_of log0 raw ses))) raw)"
    using sync_applied_covered[OF first assms(2) refl] .
  then show "covered s2 (order_uuid_of log1 raw1 ses1)
      (filled_volume (fst (canonical_log s2 log1 (order_uuid_of log1 raw1 ses1))) raw1)"
    using covered_same[OF assms(3,4)] covered_mono assms(6) unfolding same by blast
qed

theorem replayed_fill_changes_nothing_witness:
  "\<exists>s1. sync_filled_entry_order_to_position 1 sample_ctx sample_session ''POLL'' None (sample_raw 2) sample_db = (Created 1 ''ENTRY'', s1)
     \<and> positions (snd (sync_filled_entry_order_to_position 1 sample_ctx sample_session ''RETRY'' None (sample_raw 2) s1)) = positions s1"
proof -
  let ?sync = "\<lambda>src. sync_filled_entry_order_to_position (Suc 0) sample_ctx sample_session src None (sample_raw 2)"
  have c: "fst (?sync ''POLL'' sample_db) = Created 1 ''ENTRY''" by code_simp
  then obtain s1 where s1: "?sync ''POLL'' sample_db = (Created 1 ''ENTRY'', s1)" by (metis prod.collapse)
  have v: "filled_volume x (sample_raw 2) = 2" for x
    by (simp add: filled_volume_def raw_num_def sample_raw_def num_or_def float_or_def)
  have "positions (snd (?sync ''RETRY'' s1)) = positions s1"
    by (rule replayed_fill_changes_nothing[OF s1]) (simp_all add: v)
  then show ?thesis using s1 by simp
qed

text \<open>
  C25. A sync never takes anything away: every position is still there afterwards with at least
  its volume.
\<close>

theorem sync_never_shrinks_a_position:
  assumes "distinct (map pos_id (positions s))" and "p \<in> set (positions s)" and "is_flt (entry_volume p)"
  shows "list_ex (\<lambda>p'. pos_id p' = pos_id p \<and> entry_volume p \<le> entry_volume p')
    (positions (snd (sync_filled_entry_order_to_position (Suc n) cx ses source log0 raw s)))"
  using sync_keeps_volume[OF assms, of n cx ses source log0 raw] by (auto simp: keeps_volume_def list_ex_iff)

theorem sync_never_shrinks_a_position_witness:
  "list_ex (\<lambda>p'. pos_id p' = 1 \<and> 2 \<le> entry_volume p')
    (positions (snd (sync_filled_entry_order_to_position 1 sample_ctx sample_session ''POLL'' None (sample_raw 3)
      (sample_db\<lparr>positions := [sample_position]\<rparr>))))"
proof -
  have p: "distinct (map pos_id (positions (sample_db\<lparr>positions := [sample_position]\<rparr>)))"
    "sample_position \<in> set (positions (sample_db\<lparr>positions := [sample_position]\<rparr>))" "is_flt (entry_volume sample_position)"
    by (simp_all add: sample_position_def)
  show ?thesis
    using sync_never_shrinks_a_position[OF p, of 0 sample_ctx sample_session "''POLL''" None "sample_raw 3"]
    by (simp add: sample_position_def)
qed

text \<open>
  C16. Only the difference is applied: when an order that is already in the ledger reports more
  executed volume, its position grows by exactly the difference to the volume last seen, is OPEN,
  no other position changes, and the ledger then records the reported volume.
\<close>

theorem order_delta_is_exact:
  assumes "effective_ledger s uuid = Some l" and "load_live_position s (ao_position_id l) = Some p"
    and "0 < v" and "fill_eps < delta_of v (ao_last_volume l) (ao_volume l)"
  shows "let s' = snd (apply_order_uuid_delta cx l uuid log' logs source ses v a f s) in
    (\<exists>h. positions s' = update_where (\<lambda>q. pos_id q = ao_position_id l) h (positions s)
       \<and> (\<forall>q. entry_volume (h q) = fadd (entry_volume p) (fsub v (num_or (ao_last_volume l) (ao_volume l)))
              \<and> pos_status (h q) = ''OPEN''))
    \<and> (\<exists>l'. effective_ledger s' uuid = Some l' \<and> ao_last_volume l' = v \<and> ao_position_id l' = ao_position_id l)"
proof -
  let ?d = "delta_of v (ao_last_volume l) (ao_volume l)"
  let ?h = "\<lambda>q. (add_fill p (fdiv a v) ?d (delta_of a (ao_last_amount l) (ao_amount l)) q)\<lparr>pos_updated_at := cx_now cx\<rparr>"
  have d: "?d = fsub v (num_or (ao_last_volume l) (ao_volume l))"
    using assms(4) fill_eps_pos by (simp add: delta_of_def max_def split: if_splits)
  let ?s' = "snd (apply_order_uuid_delta cx l uuid log' logs source ses v a f s)"
  have "positions ?s' = update_where (\<lambda>q. pos_id q = ao_position_id l) ?h (positions s)"
    using assms by (simp add: apply_order_uuid_delta_def Let_def table_simps split: option.split)
  moreover have "entry_volume (?h q) = fadd (entry_volume p) (fsub v (num_or (ao_last_volume l) (ao_volume l)))
      \<and> pos_status (?h q) = ''OPEN''" for q
    by (simp add: d)
  ultimately have grown: "\<exists>h. positions ?s' = update_where (\<lambda>q. pos_id q = ao_position_id l) h (positions s)
      \<and> (\<forall>q. entry_volume (h q) = fadd (entry_volume p) (fsub v (num_or (ao_last_volume l) (ao_volume l)))
             \<and> pos_status (h q) = ''OPEN'')" by blast
  obtain i ft src log'' d' where
    "app_ledger ?s' = app_ledger (record_ledger uuid (ao_position_id l) ft src log'' v a f d')"
    using assms by (simp add: apply_order_uuid_delta_def Let_def table_simps)
  then have "\<exists>l'. effective_ledger ?s' uuid = Some l' \<and> ao_last_volume l' = v \<and> ao_position_id l' = ao_position_id l"
    using record_ledger_read[of v uuid "ao_position_id l" ft src log'' a f d'] assms(3)
    by (auto simp: load_order_application_ledger_def effective_ledger_def)
  with grown show ?thesis unfolding Let_def by blast
qed

theorem order_delta_is_exact_witness:
  "\<exists>s1 l. sync_filled_entry_order_to_position 1 sample_ctx sample_session ''POLL'' None (sample_raw 2) sample_db = (Created 1 ''ENTRY'', s1)
     \<and> effective_ledger s1 ''u1'' = Some l
     \<and> (\<exists>l'. effective_ledger (snd (apply_order_uuid_delta sample_ctx l ''u1'' None [] ''POLL'' sample_session 5 250000 0 s1)) ''u1'' = Some l'
          \<and> ao_last_volume l' = 5)"
proof -
  let ?res = "sync_filled_entry_order_to_position (Suc 0) sample_ctx sample_session ''POLL'' None (sample_raw 2) sample_db"
  define s1 where "s1 = snd ?res"
  have c: "fst ?res = Created 1 ''ENTRY''" by code_simp
  then have r: "?res = (Created 1 ''ENTRY'', s1)" by (simp add: s1_def prod_eq_iff)
  have "map_option (\<lambda>l. (ao_position_id l, ao_last_volume l)) (effective_ledger (snd ?res) ''u1'') = Some (1, 2)"
    "map_option pos_id (load_live_position (snd ?res) 1) = Some 1"
    by code_simp+
  then obtain l p where l: "effective_ledger s1 ''u1'' = Some l" "ao_position_id l = 1" "ao_last_volume l = 2"
    and p: "load_live_position s1 (ao_position_id l) = Some p" unfolding s1_def by auto
  have "delta_of 5 2 x = 3" "fill_eps < 3" for x
    by (simp add: delta_of_def num_or_def f_defs, code_simp?)
  then have d: "fill_eps < delta_of 5 (ao_last_volume l) (ao_volume l)" unfolding l(3) by simp
  show ?thesis
    using order_delta_is_exact[OF l(1) p _ d, of sample_ctx None "[]" "''POLL''" sample_session 250000 0] r l(1)
    by (auto simp: Let_def)
qed

text \<open>
  C29. The handler ends after one pass: the insertion of the fill event that would make it call itself
  cannot be ignored, because the order then has no fill event, so a larger bound on the calls
  changes nothing and the bound is never the result.
\<close>

theorem sync_never_calls_itself:
  "sync_filled_entry_order_to_position (Suc n) cx ses source log0 raw s = sync_filled_entry_order_to_position (Suc 0) cx ses source log0 raw s
   \<and> fst (sync_filled_entry_order_to_position (Suc n) cx ses source log0 raw s) \<noteq> Skipped ''RETRY_LIMIT''"
proof
  let ?uuid = "order_uuid_of log0 raw ses"
  have fresh: "fst (insert_position_fill_event now (new_fill_event ?uuid i ft source log' v a f) s)"
    if "effective_ledger s ?uuid = None" for now i ft log' v a f
    using no_event [OF that] by (intro insert_fill_event_fresh) (simp add: new_fill_event_def)
  show "sync_filled_entry_order_to_position (Suc n) cx ses source log0 raw s = sync_filled_entry_order_to_position (Suc 0) cx ses source log0 raw s"
    unfolding sync_filled_entry_order_to_position.simps Let_def
    by (cases "effective_ledger s ?uuid") (simp_all add: fresh no_event split: option.split)
  show "fst (sync_filled_entry_order_to_position (Suc n) cx ses source log0 raw s) \<noteq> Skipped ''RETRY_LIMIT''"
    using sync_cases [of n cx ses source log0 raw s]
    by (elim disjE exE conjE) (simp_all add: apply_order_uuid_delta_def sync_scale_in_def sync_existing_def sync_new_def Let_def
        split: option.split prod.split)
qed

text \<open>
  A position that was attached to its entry order without a ledger row is filled twice: the log
  row's position id is taken for a scale-in target before the position is looked up by its entry
  order, so the same two units are added again.
\<close>

lemma attached_position_without_ledger_is_doubled:
  "let s = sample_db\<lparr>order_logs := [(sample_log ''r1'' ''u1'')\<lparr>log_id := 1, log_position_id := Some 1\<rparr>],
                     positions := [sample_position]\<rparr>;
       (r, s') = sync_filled_entry_order_to_position 1 sample_ctx sample_session ''POLL'' None (sample_raw 2) s
   in r = Merged 1 ''SCALE_IN'' \<and> map entry_volume (positions s) = [2] \<and> map entry_volume (positions s') = [4]"
  by code_simp

end
