(* ===== verification/LiveBroker.thy ===== *)
theory LiveBroker
  imports Settings Interfaces
begin

text \<open>
  The live broker (\<open>app/live_broker.py\<close>): its configuration, the state machine of the live mode
  with the emergency stop, the risk check of a single live order, the normalisation of the account
  list and the payloads sent to the two exchanges. HTTP and the JWT signature are not modelled: a
  payload is what is handed to the request.
\<close>

section \<open>Configuration\<close>

record live_config =
  lc_exchange :: string
  access_key_loaded :: bool
  secret_key_loaded :: bool
  live_trading_enabled :: bool
  lc_base_url :: string
  max_live_order_krw :: rat
  max_daily_live_loss_percent :: rat
  lc_min_order_krw :: rat
  max_position_ratio :: rat
  duplicate_window_seconds :: int
  lc_fee_rate :: rat
  volatility_block_rate :: rat
  min_volume :: rat

definition env_text :: "runtime \<Rightarrow> string \<Rightarrow> string \<Rightarrow> string" where
  "env_text rt k dflt = (case environ rt k of Some s \<Rightarrow> s | None \<Rightarrow> dflt)"

definition env_flag :: "runtime \<Rightarrow> string \<Rightarrow> bool" where
  "env_flag rt k = (py_lower (env_text rt k ''false'') = ''true'')"

definition rstrip_slash :: "string \<Rightarrow> string" where
  "rstrip_slash s = rev (dropWhile (\<lambda>c. c = CHR ''/'') (rev s))"

text \<open>\<open>None\<close> is the \<open>ValueError\<close> of a number in the environment that does not parse.\<close>

definition for_exchange :: "runtime \<Rightarrow> string \<Rightarrow> live_config option" where
  "for_exchange rt name =
     (let n = py_lower (py_strip name);
          exchange = (if n \<in> {''upbit'', ''bithumb''} then n else ''upbit'');
          keys = (if exchange = ''bithumb''
            then (env_text rt ''BITHUMB_ACCESS_KEY'' '''', env_text rt ''BITHUMB_SECRET_KEY'' '''',
                  env_text rt ''BITHUMB_BASE_URL'' ''https://api.bithumb.com'')
            else (env_text rt ''UPBIT_ACCESS_KEY'' '''', env_text rt ''UPBIT_SECRET_KEY'' '''',
                  env_text rt ''UPBIT_BASE_URL'' ''https://api.upbit.com''));
          live_feature_allowed = (py_lower (env_text rt ''APP_ENV'' ''development'') = ''production''
            \<or> env_flag rt ''ALLOW_DEV_LIVE_TRADING'')
      in case (parse_float (env_text rt ''MAX_DAILY_LIVE_LOSS_PERCENT'' ''1''),
               parse_float (env_text rt ''MIN_LIVE_ORDER_KRW'' ''5000''),
               parse_int (env_text rt ''LIVE_DUPLICATE_WINDOW_SECONDS'' ''30''),
               parse_float (env_text rt ''LIVE_FEE_RATE'' ''0.0005''),
               parse_float (env_text rt ''LIVE_VOLATILITY_BLOCK_RATE'' ''0.03''),
               parse_float (env_text rt ''LIVE_MIN_CANDLE_VOLUME'' ''0'')) of
           (Some loss, Some min_krw, Some window, Some fee, Some vol, Some min_vol) \<Rightarrow>
             Some \<lparr>lc_exchange = exchange, access_key_loaded = (fst keys \<noteq> []),
               secret_key_loaded = (fst (snd keys) \<noteq> []),
               live_trading_enabled = (live_feature_allowed \<and> env_flag rt ''LIVE_TRADING_ENABLED''),
               lc_base_url = rstrip_slash (snd (snd keys)),
               max_live_order_krw = runtime_setting_float rt ''MAX_LIVE_ORDER_KRW'' 30000,
               max_daily_live_loss_percent = loss, lc_min_order_krw = min_krw,
               max_position_ratio = runtime_setting_float rt ''MAX_LIVE_POSITION_RATIO'' (1 / 2),
               duplicate_window_seconds = window, lc_fee_rate = fee,
               volatility_block_rate = vol, min_volume = min_vol\<rparr>
         | _ \<Rightarrow> None)"

definition from_env :: "runtime \<Rightarrow> live_config option" where
  "from_env rt = for_exchange rt (env_text rt ''EXCHANGE'' ''upbit'')"

definition api_key_loaded :: "live_config \<Rightarrow> bool" where
  "api_key_loaded c \<longleftrightarrow> access_key_loaded c \<and> secret_key_loaded c"

section \<open>The live mode\<close>

datatype live_mode = Paper | LiveLocked | LiveManualOnly | EmergencyStopped | AutoStrategyRunning

record mode_state =
  the_mode :: live_mode
  emergency_stop :: bool

definition locked_mode :: "live_config \<Rightarrow> live_mode" where
  "locked_mode c = (if live_trading_enabled c then LiveLocked else Paper)"

definition reset_live_runtime_state :: "live_config \<Rightarrow> mode_state \<Rightarrow> mode_state" where
  "reset_live_runtime_state c s = s\<lparr>the_mode := locked_mode c, emergency_stop := False\<rparr>"

definition current_live_mode :: "mode_state \<Rightarrow> live_mode" where
  "current_live_mode s = (if emergency_stop s then EmergencyStopped else the_mode s)"

text \<open>The boolean and the mode are what the operation returns; its message is not modelled.\<close>

definition arm_live_manual_mode ::
  "live_config \<Rightarrow> string \<Rightarrow> bool \<Rightarrow> mode_state \<Rightarrow> (bool \<times> live_mode) \<times> mode_state" where
  "arm_live_manual_mode c confirmation acknowledged s =
     (if \<not> live_trading_enabled c then ((False, Paper), s\<lparr>the_mode := Paper\<rparr>)
      else if emergency_stop s then ((False, EmergencyStopped), s)
      else if \<not> api_key_loaded c then ((False, LiveLocked), s\<lparr>the_mode := LiveLocked\<rparr>)
      else if \<not> acknowledged \<or> confirmation \<noteq> ''LIVE ENABLE''
      then ((False, LiveLocked), s\<lparr>the_mode := LiveLocked\<rparr>)
      else ((True, LiveManualOnly), s\<lparr>the_mode := LiveManualOnly\<rparr>))"

definition lock_live_trading :: "live_config \<Rightarrow> mode_state \<Rightarrow> live_mode \<times> mode_state" where
  "lock_live_trading c s = (locked_mode c, s\<lparr>the_mode := locked_mode c\<rparr>)"

definition trigger_emergency_stop :: "mode_state \<Rightarrow> live_mode \<times> mode_state" where
  "trigger_emergency_stop s = (EmergencyStopped, s\<lparr>emergency_stop := True, the_mode := EmergencyStopped\<rparr>)"

definition reset_emergency_stop ::
  "live_config \<Rightarrow> string \<Rightarrow> mode_state \<Rightarrow> (bool \<times> live_mode) \<times> mode_state" where
  "reset_emergency_stop c confirmation s =
     (if confirmation \<noteq> ''RESET EMERGENCY'' then ((False, current_live_mode s), s)
      else (let (m, s') = lock_live_trading c (s\<lparr>emergency_stop := False\<rparr>) in ((True, m), s')))"

text \<open>
  The process as a transition system: each API call is an event; the configuration is read from
  the environment anew by every call, so it is part of the event.
\<close>

datatype mode_event =
    Startup live_config
  | Arm live_config string bool
  | Lock live_config
  | Emergency
  | Reset live_config string

inductive mode_step :: "mode_state \<Rightarrow> mode_event \<Rightarrow> mode_state \<Rightarrow> bool" where
  startup: "mode_step s (Startup c) (reset_live_runtime_state c s)"
| arm: "mode_step s (Arm c conf ack) (snd (arm_live_manual_mode c conf ack s))"
| lock: "mode_step s (Lock c) (snd (lock_live_trading c s))"
| emergency: "mode_step s Emergency (snd (trigger_emergency_stop s))"
| reset: "mode_step s (Reset c conf) (snd (reset_emergency_stop c conf s))"

inductive mode_run :: "mode_state \<Rightarrow> mode_event list \<Rightarrow> mode_state \<Rightarrow> bool" where
  run_nil: "mode_run s [] s"
| run_cons: "mode_step s e s' \<Longrightarrow> mode_run s' es s'' \<Longrightarrow> mode_run s (e # es) s''"

inductive_cases mode_stepE: "mode_step s e s'"
inductive_cases mode_run_NilE: "mode_run s [] s'"
inductive_cases mode_run_ConsE: "mode_run s (e # es) s'"

section \<open>Accounts\<close>

record account =
  ac_currency :: string
  ac_balance :: rat
  ac_locked :: rat
  ac_avg_buy_price :: rat
  ac_unit_currency :: pyval

type_synonym accounts = "(string \<times> account) list"

definition account_currency :: "pydict \<Rightarrow> string" where
  "account_currency a = py_upper (py_str (dict_get_or a ''currency'' (VStr [])))"

definition account_of :: "pydict \<Rightarrow> account" where
  "account_of a = \<lparr>ac_currency = account_currency a, ac_balance = to_float (dict_get a ''balance''),
     ac_locked = to_float (dict_get a ''locked''), ac_avg_buy_price = to_float (dict_get a ''avg_buy_price''),
     ac_unit_currency = dict_get a ''unit_currency''\<rparr>"

definition add_account :: "pydict \<Rightarrow> accounts \<Rightarrow> accounts" where
  "add_account a t = (if account_currency a = [] then t else dict_put t (account_currency a) (account_of a))"

definition normalize_accounts :: "pydict list \<Rightarrow> accounts" where
  "normalize_accounts = foldl (\<lambda>t a. add_account a t) []"

definition available_balance :: "accounts \<Rightarrow> string \<Rightarrow> rat" where
  "available_balance t currency = (case map_of t currency of None \<Rightarrow> 0 | Some a \<Rightarrow> ac_balance a)"

definition balance_amount :: "accounts \<Rightarrow> string \<Rightarrow> rat" where
  "balance_amount t currency =
     (case map_of t currency of None \<Rightarrow> fadd 0 0 | Some a \<Rightarrow> fadd (ac_balance a) (ac_locked a))"

section \<open>Order payloads\<close>

datatype broker_error = MissingKey string | UnsupportedOrderType | BithumbLimitOnly | UnknownExchange string

definition item :: "pydict \<Rightarrow> string \<Rightarrow> broker_error + pyval" where
  "item d k = (case map_of d k of None \<Rightarrow> Inl (MissingKey k) | Some v \<Rightarrow> Inr v)"

fun and_then :: "'e + 'a \<Rightarrow> ('a \<Rightarrow> 'e + 'b) \<Rightarrow> 'e + 'b" where
  "and_then (Inl e) f = Inl e"
| "and_then (Inr x) f = f x"

definition order_side :: "pydict \<Rightarrow> string" where
  "order_side order = py_upper (py_str (dict_get_or order ''side'' (VStr [])))"

definition to_upbit_order_payload :: "pydict \<Rightarrow> broker_error + pydict" where
  "to_upbit_order_payload order =
     (let side = order_side order;
          order_type = py_upper (py_str (dict_get_or order ''order_type'' (VStr ''LIMIT'')))
      in and_then (item order ''market'') (\<lambda>market. and_then (item order ''request_id'') (\<lambda>rid.
           let payload = [(''market'', market), (''side'', VStr (if side = ''BUY'' then ''bid'' else ''ask'')), (''identifier'', rid)]
           in if order_type = ''LIMIT'' then
                and_then (item order ''price'') (\<lambda>p. and_then (item order ''volume'') (\<lambda>v.
                  Inr (payload @ [(''ord_type'', VStr ''limit''), (''price'', VStr (py_str p)), (''volume'', VStr (py_str v))])))
              else if order_type = ''MARKET'' \<and> side = ''BUY'' then
                and_then (item order ''amount_krw'') (\<lambda>a.
                  Inr (payload @ [(''ord_type'', VStr ''price''), (''price'', VStr (py_str a))]))
              else if order_type = ''MARKET'' \<and> side = ''SELL'' then
                and_then (item order ''volume'') (\<lambda>v.
                  Inr (payload @ [(''ord_type'', VStr ''market''), (''volume'', VStr (py_str v))]))
              else Inl UnsupportedOrderType)))"

definition bithumb_side :: "pydict \<Rightarrow> string" where
  "bithumb_side order = (let side = py_lower (py_str (dict_get_or order ''side'' (VStr [])))
     in if side \<in> {''bid'', ''ask''} then side else if order_side order = ''BUY'' then ''bid'' else ''ask'')"

definition bithumb_ord_type :: "pydict \<Rightarrow> string" where
  "bithumb_ord_type order =
     (let t = py_lower (py_str (dict_get_or order ''ord_type'' (dict_get_or order ''order_type'' (VStr []))))
      in if t = ''limit'' \<or> py_upper (py_str (dict_get_or order ''order_type'' (VStr []))) = ''LIMIT''
         then ''limit'' else t)"

text \<open>What \<open>BithumbBroker.place_order\<close> posts.\<close>

definition bithumb_order_payload :: "pydict \<Rightarrow> broker_error + pydict" where
  "bithumb_order_payload order =
     and_then (item order ''market'') (\<lambda>market. and_then (item order ''volume'') (\<lambda>v. and_then (item order ''price'') (\<lambda>p.
       let side = bithumb_side order; ord_type = bithumb_ord_type order;
           cid = py_or (dict_get order ''client_order_id'') (dict_get order ''request_id'');
           payload = [(''market'', market), (''side'', VStr side), (''volume'', VStr (py_str v)),
             (''price'', VStr (py_str p)), (''ord_type'', VStr ord_type)] @
             (if truthy cid then [(''client_order_id'', VStr (take 36 (py_str cid)))] else [])
       in if side \<notin> {''bid'', ''ask''} \<or> ord_type \<noteq> ''limit'' then Inl BithumbLimitOnly else Inr payload)))"

definition masked_exchange_request :: "pydict \<Rightarrow> broker_error + pydict" where
  "masked_exchange_request order =
     (if py_lower (py_str (dict_get_or order ''exchange'' (VStr ''upbit''))) = ''bithumb''
      then and_then (item order ''market'') (\<lambda>market. Inr
        [(''market'', market), (''side'', VStr (if order_side order = ''BUY'' then ''bid'' else ''ask'')),
         (''order_type'', VStr (py_lower (py_str (dict_get_or order ''order_type'' (VStr ''LIMIT''))))),
         (''price'', VStr (py_str (dict_get order ''price''))), (''volume'', VStr (py_str (dict_get order ''volume''))),
         (''authorization'', VStr ''MASKED'')])
      else and_then (to_upbit_order_payload order) (\<lambda>p. Inr (p @ [(''authorization'', VStr ''MASKED'')])))"

datatype broker = Upbit | Bithumb

definition get_live_broker :: "string option \<Rightarrow> live_config \<Rightarrow> broker_error + broker" where
  "get_live_broker exchange c =
     (let selected = py_lower (py_strip (str_or exchange (lc_exchange c)))
      in if selected \<notin> {''upbit'', ''bithumb''} then Inl (UnknownExchange selected)
         else if selected = ''bithumb'' then Inr Bithumb else Inr Upbit)"

section \<open>The risk check of one live order\<close>

text \<open>A snapshot of the market; \<open>None\<close> fields are missing keys.\<close>

record market_snapshot =
  ms_price :: "rat option"
  ms_range_rate :: "rat option"
  ms_volume :: "rat option"

datatype order_risk = Allowed | BlockedEmergencyStop | BlockedLiveDisabled | BlockedLiveLocked
  | BlockedDuplicateOrder | BlockedInsufficientPosition | BlockedMaxOrderAmount | BlockedMinOrderAmount
  | BlockedInsufficientBalance | BlockedMaxPositionRatio | BlockedVolatilityFilter | BlockedLowVolume

record order_quote =
  oq_side :: string
  oq_asset :: string
  oq_price :: rat
  oq_volume :: rat
  oq_amount_krw :: rat
  oq_fee :: rat
  oq_ratio_after :: rat

definition quote_order :: "pydict \<Rightarrow> live_config \<Rightarrow> accounts \<Rightarrow> market_snapshot option \<Rightarrow> order_quote" where
  "quote_order order c balances snap =
     (let side = order_side order;
          asset = after_last_dash (py_str (dict_get_or order ''market'' (VStr ''KRW-BTC'')));
          price = num_or (to_float (dict_get order ''price'')) (case snap of None \<Rightarrow> 0 | Some m \<Rightarrow> nz (ms_price m));
          volume0 = to_float (dict_get order ''volume'');
          amount0 = to_float (dict_get order ''amount_krw'');
          amount1 = (if side = ''BUY'' \<and> amount0 \<le> 0 \<and> price > 0 \<and> volume0 > 0 then fmul price volume0 else amount0);
          amount = (if side = ''SELL'' \<and> amount1 \<le> 0 \<and> price > 0 \<and> volume0 > 0 then fmul price volume0 else amount1);
          volume = (if side = ''BUY'' \<and> volume0 \<le> 0 \<and> price > 0 \<and> amount > 0 then fdiv amount price else volume0);
          asset_before = balance_amount balances asset;
          equity = fadd (balance_amount balances ''KRW'') (fmul asset_before price);
          post_value = fmul (fadd asset_before (if side = ''BUY'' then volume else - volume)) price
      in \<lparr>oq_side = side, oq_asset = asset, oq_price = price, oq_volume = volume, oq_amount_krw = amount,
          oq_fee = fmul amount (lc_fee_rate c), oq_ratio_after = (if equity > 0 then fdiv post_value equity else 0)\<rparr>)"

definition order_risk_of ::
  "order_quote \<Rightarrow> live_config \<Rightarrow> live_mode \<Rightarrow> accounts \<Rightarrow> bool \<Rightarrow> bool \<Rightarrow> market_snapshot option \<Rightarrow> bool \<Rightarrow> order_risk" where
  "order_risk_of q c mode balances request_exists recent_duplicate snap is_auto =
     (let krw = available_balance balances ''KRW''; held = available_balance balances (oq_asset q) in
      if mode = EmergencyStopped then BlockedEmergencyStop
      else if \<not> live_trading_enabled c then BlockedLiveDisabled
      else if mode \<noteq> LiveManualOnly \<and> \<not> (mode = AutoStrategyRunning \<and> is_auto)
      then (if mode = EmergencyStopped then BlockedEmergencyStop else BlockedLiveLocked)
      else if request_exists \<or> recent_duplicate then BlockedDuplicateOrder
      else if oq_side q = ''SELL'' \<and> held < oq_volume q then BlockedInsufficientPosition
      else if oq_amount_krw q > max_live_order_krw c then BlockedMaxOrderAmount
      else if oq_amount_krw q < lc_min_order_krw c then BlockedMinOrderAmount
      else if oq_side q = ''BUY'' \<and> krw < fadd (oq_amount_krw q) (oq_fee q) then BlockedInsufficientBalance
      else if oq_side q = ''BUY'' \<and> oq_ratio_after q > max_position_ratio c then BlockedMaxPositionRatio
      else (case snap of
          Some m \<Rightarrow>
            if nz (ms_range_rate m) \<ge> volatility_block_rate c then BlockedVolatilityFilter
            else if min_volume c > 0 \<and> nz (ms_volume m) < min_volume c then BlockedLowVolume
            else Allowed
        | None \<Rightarrow> Allowed))"

record order_risk_report =
  or_allowed :: bool
  or_risk_result :: order_risk
  or_quote :: order_quote
  or_order_type :: string
  or_post_krw :: rat
  or_post_asset :: rat
  or_max_live_order_krw :: rat
  or_min_order_krw :: rat

definition evaluate_live_order_risk ::
  "pydict \<Rightarrow> live_config \<Rightarrow> live_mode \<Rightarrow> accounts \<Rightarrow> bool \<Rightarrow> bool \<Rightarrow> market_snapshot option \<Rightarrow> bool \<Rightarrow> order_risk_report" where
  "evaluate_live_order_risk order c mode balances request_exists recent_duplicate snap is_auto =
     (let q = quote_order order c balances snap;
          risk = order_risk_of q c mode balances request_exists recent_duplicate snap is_auto;
          allowed = (risk = Allowed);
          krw = available_balance balances ''KRW'';
          held = available_balance balances (oq_asset q);
          post = (if allowed \<and> oq_side q = ''BUY''
                  then (max (fsub (fsub krw (oq_amount_krw q)) (oq_fee q)) 0, fadd held (oq_volume q))
                  else if allowed \<and> oq_side q = ''SELL''
                  then (fadd krw (max (fsub (oq_amount_krw q) (oq_fee q)) 0), max (fsub held (oq_volume q)) 0)
                  else (krw, held))
      in \<lparr>or_allowed = allowed, or_risk_result = risk, or_quote = q,
          or_order_type = py_upper (py_str (dict_get_or order ''order_type'' (VStr ''LIMIT''))),
          or_post_krw = fst post, or_post_asset = snd post,
          or_max_live_order_krw = max_live_order_krw c, or_min_order_krw = lc_min_order_krw c\<rparr>)"

section \<open>Lemmas\<close>

interpretation account_book: keyed_store map_of dict_put
  by unfold_locales simp

lemma add_account_alt:
  "add_account a t = (if account_currency a \<noteq> [] then dict_put t (account_currency a) (account_of a) else t)"
  by (simp add: add_account_def)

lemma normalize_accounts_look:
  "map_of (normalize_accounts accs) k =
     (case find (\<lambda>a. account_currency a \<noteq> [] \<and> account_currency a = k) (rev accs) of
        None \<Rightarrow> None | Some a \<Rightarrow> Some (account_of a))"
  unfolding normalize_accounts_def add_account_alt account_book.look_put_all by (simp split: option.split)

lemma order_risk_Allowed_iff:
  "order_risk_of q c mode balances dup recent snap is_auto = Allowed \<longleftrightarrow>
     live_trading_enabled c \<and> (mode = LiveManualOnly \<or> mode = AutoStrategyRunning \<and> is_auto)
     \<and> \<not> dup \<and> \<not> recent
     \<and> (oq_side q = ''SELL'' \<longrightarrow> oq_volume q \<le> available_balance balances (oq_asset q))
     \<and> lc_min_order_krw c \<le> oq_amount_krw q \<and> oq_amount_krw q \<le> max_live_order_krw c
     \<and> (oq_side q = ''BUY'' \<longrightarrow> fadd (oq_amount_krw q) (oq_fee q) \<le> available_balance balances ''KRW''
          \<and> oq_ratio_after q \<le> max_position_ratio c)
     \<and> (case snap of None \<Rightarrow> True
        | Some m \<Rightarrow> nz (ms_range_rate m) < volatility_block_rate c \<and> (min_volume c > 0 \<longrightarrow> min_volume c \<le> nz (ms_volume m)))"
  by (auto simp: order_risk_of_def Let_def split: option.splits)

lemma evaluate_simps:
  "or_allowed (evaluate_live_order_risk order c mode balances dup recent snap is_auto)
     = (order_risk_of (quote_order order c balances snap) c mode balances dup recent snap is_auto = Allowed)"
  "or_risk_result (evaluate_live_order_risk order c mode balances dup recent snap is_auto)
     = order_risk_of (quote_order order c balances snap) c mode balances dup recent snap is_auto"
  "or_quote (evaluate_live_order_risk order c mode balances dup recent snap is_auto) = quote_order order c balances snap"
  by (simp_all add: evaluate_live_order_risk_def Let_def)

lemma order_risk_emergency: "order_risk_of q c EmergencyStopped b d r snap a = BlockedEmergencyStop"
  by (simp add: order_risk_of_def)

text \<open>The mode machine: what a single step can do.\<close>

definition mode_inv :: "mode_state \<Rightarrow> bool" where
  "mode_inv s \<longleftrightarrow> the_mode s \<noteq> AutoStrategyRunning \<and> (the_mode s = EmergencyStopped \<longrightarrow> emergency_stop s)"

lemmas mode_ops = reset_live_runtime_state_def arm_live_manual_mode_def lock_live_trading_def
  trigger_emergency_stop_def reset_emergency_stop_def locked_mode_def current_live_mode_def Let_def

lemma mode_step_inv: "mode_step s e s' \<Longrightarrow> mode_inv s \<Longrightarrow> mode_inv s'"
  by (erule mode_stepE) (auto simp: mode_ops mode_inv_def)

lemma mode_run_inv: "mode_run s es s' \<Longrightarrow> mode_inv s \<Longrightarrow> mode_inv s'"
  by (induction rule: mode_run.induct) (auto intro: mode_step_inv)

definition clears_emergency :: "mode_event \<Rightarrow> bool" where
  "clears_emergency e = (case e of Startup _ \<Rightarrow> True | Reset _ conf \<Rightarrow> conf = ''RESET EMERGENCY'' | _ \<Rightarrow> False)"

definition arms :: "mode_event \<Rightarrow> bool" where
  "arms e = (case e of Arm c conf ack \<Rightarrow> live_trading_enabled c \<and> api_key_loaded c \<and> ack \<and> conf = ''LIVE ENABLE'' | _ \<Rightarrow> False)"

lemma mode_step_emergency:
  "mode_step s e s' \<Longrightarrow> emergency_stop s \<Longrightarrow> \<not> clears_emergency e \<Longrightarrow> emergency_stop s'"
  by (erule mode_stepE) (auto simp: mode_ops clears_emergency_def)

lemma mode_step_manual:
  "mode_step s e s' \<Longrightarrow> current_live_mode s' = LiveManualOnly
    \<Longrightarrow> arms e \<or> current_live_mode s = LiveManualOnly \<or> emergency_stop s \<and> clears_emergency e"
  by (erule mode_stepE) (auto simp: mode_ops clears_emergency_def arms_def split: if_splits)

lemma mode_step_cleared:
  "mode_step s e s' \<Longrightarrow> clears_emergency e \<Longrightarrow> current_live_mode s' \<in> {Paper, LiveLocked}"
  by (erule mode_stepE) (auto simp: mode_ops clears_emergency_def)

lemma mode_run_emergency:
  "mode_run s es s' \<Longrightarrow> emergency_stop s \<Longrightarrow> list_all (\<lambda>e. \<not> clears_emergency e) es \<Longrightarrow> emergency_stop s'"
  by (induction rule: mode_run.induct) (auto dest: mode_step_emergency)

lemma mode_run_manual:
  "mode_run s es s' \<Longrightarrow> current_live_mode s' = LiveManualOnly \<Longrightarrow> list_all (\<lambda>e. \<not> arms e) es
    \<Longrightarrow> current_live_mode s = LiveManualOnly"
proof (induction rule: mode_run.induct)
  case (run_cons s e s' es s'')
  then have m: "current_live_mode s' = LiveManualOnly" "\<not> arms e" by auto
  then show ?case using mode_step_manual[OF run_cons.hyps(1)] mode_step_cleared[OF run_cons.hyps(1)] by auto
qed

lemma mode_run_append: "mode_run s (es @ fs) s'' \<longleftrightarrow> (\<exists>s'. mode_run s es s' \<and> mode_run s' fs s'')"
proof (induction es arbitrary: s)
  case Nil
  then show ?case by (auto intro: mode_run.intros elim: mode_run_NilE)
next
  case (Cons e es)
  then show ?case by (auto intro: mode_run.intros elim!: mode_run_ConsE) (metis run_cons)
qed

definition sample_config :: live_config where
  "sample_config = \<lparr>lc_exchange = ''upbit'', access_key_loaded = True, secret_key_loaded = True,
     live_trading_enabled = True, lc_base_url = [], max_live_order_krw = 30000,
     max_daily_live_loss_percent = 1, lc_min_order_krw = 5000, max_position_ratio = 1 / 2,
     duplicate_window_seconds = 30, lc_fee_rate = 1 / 2048, volatility_block_rate = 1 / 32, min_volume = 0\<rparr>"

definition sample_order :: pydict where
  "sample_order = [(''side'', VStr ''buy''), (''market'', VStr ''KRW-BTC''), (''amount_krw'', VInt 10000),
     (''price'', VInt 50000)]"

definition sample_accounts :: accounts where
  "sample_accounts = normalize_accounts [[(''currency'', VStr ''KRW''), (''balance'', VStr ''100000'')]]"

section \<open>Properties\<close>

text \<open>
  C1. An allowed live order respects every limit: the mode permits it, the amount lies between the
  configured minimum and maximum, a buy with its fee is covered by the available KRW and stays
  within the position ratio, a sell is covered by the free asset, it is no duplicate, and
  the balances estimated after it are non-negative.
\<close>

theorem allowed_live_order_within_limits:
  assumes "or_allowed (evaluate_live_order_risk order c mode balances dup recent snap is_auto)"
  shows "let q = quote_order order c balances snap;
             r = evaluate_live_order_risk order c mode balances dup recent snap is_auto;
             krw = available_balance balances ''KRW''; held = available_balance balances (oq_asset q)
    in live_trading_enabled c \<and> (mode = LiveManualOnly \<or> mode = AutoStrategyRunning \<and> is_auto) \<and> \<not> dup \<and> \<not> recent
      \<and> lc_min_order_krw c \<le> oq_amount_krw q \<and> oq_amount_krw q \<le> max_live_order_krw c
      \<and> (oq_side q = ''BUY'' \<longrightarrow> fadd (oq_amount_krw q) (oq_fee q) \<le> krw \<and> oq_ratio_after q \<le> max_position_ratio c
           \<and> 0 \<le> or_post_krw r \<and> or_post_asset r = fadd held (oq_volume q))
      \<and> (oq_side q = ''SELL'' \<longrightarrow> oq_volume q \<le> held \<and> or_post_asset r = fsub held (oq_volume q) \<and> 0 \<le> or_post_asset r)"
  using assms fsub_nonneg[of "oq_volume (quote_order order c balances snap)"
      "available_balance balances (oq_asset (quote_order order c balances snap))"]
  unfolding evaluate_simps order_risk_Allowed_iff Let_def
  by (auto simp: evaluate_live_order_risk_def Let_def order_risk_Allowed_iff max_def)

theorem allowed_live_order_within_limits_witness:
  "or_allowed (evaluate_live_order_risk sample_order sample_config LiveManualOnly sample_accounts False False None False)
   \<and> oq_amount_krw (quote_order sample_order sample_config sample_accounts None) \<le> max_live_order_krw sample_config"
proof -
  have ok: "or_allowed (evaluate_live_order_risk sample_order sample_config LiveManualOnly sample_accounts False False None False)"
    by code_simp
  show ?thesis using allowed_live_order_within_limits[OF ok] ok by (simp add: Let_def)
qed

text \<open>
  C3. An emergency stop holds: after it, whatever API calls follow, the mode stays
  EMERGENCY_STOPPED and every live order judged by that mode is blocked, until the process restarts
  or a reset gives the exact confirmation text.
\<close>

theorem emergency_stop_holds:
  assumes "mode_run s (Emergency # es) s'" and "list_all (\<lambda>e. \<not> clears_emergency e) es"
  shows "current_live_mode s' = EmergencyStopped
    \<and> or_risk_result (evaluate_live_order_risk order c (current_live_mode s') balances dup recent snap is_auto) = BlockedEmergencyStop"
proof -
  obtain s1 where "mode_step s Emergency s1" "mode_run s1 es s'"
    using assms(1) by (auto elim: mode_run_ConsE)
  then have "emergency_stop s'"
    using mode_run_emergency[OF _ _ assms(2)] by (auto elim: mode_stepE simp: mode_ops)
  then show ?thesis by (simp add: current_live_mode_def evaluate_simps order_risk_emergency)
qed

theorem emergency_stop_holds_witness:
  "\<exists>s'. mode_run \<lparr>the_mode = Paper, emergency_stop = False\<rparr> [Emergency, Arm sample_config ''LIVE ENABLE'' True] s'
    \<and> current_live_mode s' = EmergencyStopped"
proof -
  have "\<exists>s'. mode_run \<lparr>the_mode = Paper, emergency_stop = False\<rparr> [Emergency, Arm sample_config ''LIVE ENABLE'' True] s'"
    by (meson mode_run.intros mode_step.intros)
  then obtain s' where r: "mode_run \<lparr>the_mode = Paper, emergency_stop = False\<rparr> [Emergency, Arm sample_config ''LIVE ENABLE'' True] s'"
    by blast
  show ?thesis using emergency_stop_holds[OF r, of sample_order sample_config] r by (auto simp: clears_emergency_def)
qed

text \<open>
  C24. Manual live trading is only reached by arming: starting from a locked process, a run that ends
  in LIVE_MANUAL_ONLY contains an arm call with live trading enabled, both API keys loaded, the
  acknowledgement and the exact text LIVE ENABLE. Without a later arm no lock, reset or
  emergency brings it back.
\<close>

theorem manual_mode_needs_arming:
  assumes "mode_run s es s'" and "current_live_mode s \<noteq> LiveManualOnly" and "current_live_mode s' = LiveManualOnly"
  shows "\<exists>c. Arm c ''LIVE ENABLE'' True \<in> set es \<and> live_trading_enabled c \<and> api_key_loaded c"
proof -
  obtain e where "e \<in> set es" "arms e"
    using mode_run_manual[OF assms(1,3)] assms(2) by (auto simp: list_all_iff)
  then show ?thesis by (auto simp: arms_def split: mode_event.splits)
qed

theorem manual_mode_needs_arming_witness:
  "\<exists>s'. mode_run \<lparr>the_mode = LiveLocked, emergency_stop = False\<rparr> [Arm sample_config ''LIVE ENABLE'' True] s'
    \<and> (\<exists>c. Arm c ''LIVE ENABLE'' True \<in> set [Arm sample_config ''LIVE ENABLE'' True] \<and> live_trading_enabled c)"
proof -
  let ?s = "\<lparr>the_mode = LiveLocked, emergency_stop = False\<rparr>" and ?e = "Arm sample_config ''LIVE ENABLE'' True"
  have r: "mode_run ?s [?e] (snd (arm_live_manual_mode sample_config ''LIVE ENABLE'' True ?s))"
    by (rule run_cons[OF mode_step.arm run_nil])
  have m: "current_live_mode ?s \<noteq> LiveManualOnly"
    "current_live_mode (snd (arm_live_manual_mode sample_config ''LIVE ENABLE'' True ?s)) = LiveManualOnly"
    by (simp_all add: mode_ops sample_config_def api_key_loaded_def)
  from manual_mode_needs_arming[OF r m] r show ?thesis by blast
qed

text \<open>
  The normalised accounts report, for each currency, the balances of the last account the
  exchange listed for it (whatever the case of its code), and nothing for a currency it did not list.
\<close>

lemma normalized_balance_is_last_reported:
  "available_balance (normalize_accounts accs) k
   = (case find (\<lambda>a. account_currency a \<noteq> [] \<and> account_currency a = k) (rev accs) of
        None \<Rightarrow> 0 | Some a \<Rightarrow> to_float (dict_get a ''balance''))"
  by (simp add: available_balance_def normalize_accounts_look account_of_def split: option.split)

text \<open>
  Every payload accepted for Bithumb is a limit order with side bid or ask, and any side other
  than BUY or bid is sent as ask: the side test of place_order never rejects anything.
\<close>

lemma bithumb_payload_side:
  "case bithumb_order_payload order of
     Inl e \<Rightarrow> e \<in> MissingKey ` {''market'', ''volume'', ''price''} \<or> (e = BithumbLimitOnly \<and> bithumb_ord_type order \<noteq> ''limit'')
   | Inr p \<Rightarrow> dict_get p ''ord_type'' = VStr ''limit'' \<and> dict_get p ''side'' =
       VStr (if order_side order = ''BUY'' \<or> py_lower (py_str (dict_get_or order ''side'' (VStr []))) = ''bid''
             then ''bid'' else ''ask'')"
proof -
  have upper: "order_side order \<noteq> ''BUY''" if "py_lower (py_str (dict_get_or order ''side'' (VStr []))) = ''ask''"
  proof
    assume "order_side order = ''BUY''"
    then have "py_lower (py_upper (py_str (dict_get_or order ''side'' (VStr [])))) = py_lower ''BUY''"
      by (simp add: order_side_def)
    moreover have "py_lower ''BUY'' = ''buy''" by code_simp
    ultimately show False using that by (simp add: py_lower_upper)
  qed
  show ?thesis
    using upper by (auto simp: bithumb_order_payload_def item_def bithumb_side_def Let_def split: option.splits)
qed

end
