(* ===== verification/RiskManager.thy ===== *)
theory RiskManager
  imports LiveStore LiveBroker
begin

text \<open>
  The risk manager (\<open>app/risk_manager.py\<close>) with the tables it owns (\<open>risk_states\<close>, \<open>risk_logs\<close>,
  \<open>bot_operation_policy\<close>) and the two it only reads (\<open>market_universe\<close>, \<open>candidate_strategies\<close>):
  the configuration, the state of the day, and the gate every live order passes. The gate is the
  code's sequence of checks; each check is a verdict, and the verdicts are entered one after the
  other into the result and its dict of checks. \<open>SUM\<close> of SQLite is the parameter \<open>sqlsum\<close>. A
  \<open>None\<close> is an exception that leaves the function.
\<close>

section \<open>Configuration\<close>

record risk_config =
  max_daily_loss_percent :: rat
  max_daily_loss_krw :: rat
  account_equity_krw :: rat
  max_orders_per_day :: int
  max_entry_orders_per_day :: int
  max_exit_orders_per_day :: int
  max_open_positions :: int
  max_consecutive_losses :: int
  stop_after_consecutive_losses :: int
  consecutive_loss_min_krw :: rat
  min_cooldown_seconds :: int
  loss_cooldown_seconds :: int
  block_on_balance_mismatch :: bool
  block_on_partial_fill :: bool
  block_on_open_order :: bool
  block_on_open_position :: bool
  max_position_ratio_percent :: rat
  max_order_krw :: rat
  volatility_window :: int
  volatility_block_percent :: rat
  min_volume_krw :: rat
  min_current_1m_volume_krw :: rat
  min_avg_5m_volume_krw :: rat
  require_completed_candle :: bool
  require_order_chance_success :: bool

definition loss_rate_env :: "runtime \<Rightarrow> string \<Rightarrow> string \<Rightarrow> rat" where
  "loss_rate_env rt key fallback = (let raw = float_or (float_or 20 (VStr fallback)) (getenv rt key VNone)
     in if raw > 1 then fdiv raw 100 else raw)"

definition symbol_allocation_percent :: "runtime \<Rightarrow> rat" where
  "symbol_allocation_percent rt = (if environ rt ''MAX_SYMBOL_ALLOCATION_RATE'' \<noteq> None
     then fmul (float_or (rnd (1 / 5)) (getenv rt ''MAX_SYMBOL_ALLOCATION_RATE'' VNone)) 100
     else runtime_setting_float rt ''RISK_MAX_POSITION_RATIO_PERCENT'' 20)"

definition env_true :: "runtime \<Rightarrow> string \<Rightarrow> bool" where
  "env_true rt k = (py_lower (env_text rt k ''true'') = ''true'')"

definition env_float :: "runtime \<Rightarrow> string \<Rightarrow> string \<Rightarrow> rat option" where
  "env_float rt k dflt = parse_float (env_text rt k dflt)"

text \<open>\<open>int(_float(os.getenv(k), dflt))\<close>.\<close>

definition env_count :: "runtime \<Rightarrow> string \<Rightarrow> rat \<Rightarrow> int" where
  "env_count rt k dflt = trunc (float_or dflt (getenv rt k VNone))"

definition risk_config_from_env :: "runtime \<Rightarrow> risk_config option" where
  "risk_config_from_env rt =
     (case (parse_int (env_text rt ''RISK_MAX_CONSECUTIVE_LOSSES'' ''4''),
            env_float rt ''DAILY_MAX_LOSS_KRW'' (env_text rt ''RISK_MAX_DAILY_LOSS_KRW'' ''10000''),
            env_float rt ''RISK_ACCOUNT_EQUITY_KRW'' ''300000'',
            env_float rt ''RISK_CONSECUTIVE_LOSS_MIN_KRW'' ''500'',
            parse_int (env_text rt ''RISK_VOLATILITY_WINDOW'' ''5''),
            env_float rt ''RISK_VOLATILITY_BLOCK_PERCENT'' ''2'',
            env_float rt ''RISK_MIN_VOLUME_KRW'' ''0'',
            env_float rt ''RISK_MIN_CURRENT_1M_VOLUME_KRW'' ''30000000'',
            env_float rt ''RISK_MIN_AVG_5M_VOLUME_KRW'' ''50000000'') of
        (Some losses, Some loss_krw, Some equity, Some loss_min, Some window, Some vol, Some min_vol, Some cur1, Some avg5) \<Rightarrow>
          Some \<lparr>max_daily_loss_percent =
                 fmul (loss_rate_env rt ''DAILY_MAX_LOSS_RATE'' (env_text rt ''RISK_MAX_DAILY_LOSS_PERCENT'' ''20'')) 100,
            max_daily_loss_krw = loss_krw, account_equity_krw = equity,
            max_orders_per_day = env_count rt ''MAX_TRADE_COUNT_PER_DAY''
              (of_int (runtime_setting_int rt ''RISK_MAX_ORDERS_PER_DAY'' 3)),
            max_entry_orders_per_day = runtime_setting_int rt ''RISK_MAX_ENTRY_ORDERS_PER_DAY'' 2,
            max_exit_orders_per_day = runtime_setting_int rt ''RISK_MAX_EXIT_ORDERS_PER_DAY'' 3,
            max_open_positions = env_count rt ''MAX_OPEN_POSITIONS''
              (float_or 5 (getenv rt ''AUTO_MAX_OPEN_POSITION_COUNT'' VNone)),
            max_consecutive_losses = losses,
            stop_after_consecutive_losses = env_count rt ''STOP_AFTER_CONSECUTIVE_LOSSES'' (of_int losses),
            consecutive_loss_min_krw = loss_min,
            min_cooldown_seconds = runtime_setting_int rt ''RISK_MIN_COOLDOWN_SECONDS'' 1800,
            loss_cooldown_seconds =
              max (trunc (fmul (to_float (getenv rt ''COOLDOWN_AFTER_LOSS_MINUTES'' VNone)) 60)) 0,
            block_on_balance_mismatch = runtime_setting_bool rt ''RISK_BLOCK_ON_BALANCE_MISMATCH'' True,
            block_on_partial_fill = runtime_setting_bool rt ''RISK_BLOCK_ON_PARTIAL_FILL'' True,
            block_on_open_order = runtime_setting_bool rt ''RISK_BLOCK_ON_OPEN_ORDER'' True,
            block_on_open_position = env_true rt ''RISK_BLOCK_ON_OPEN_POSITION'',
            max_position_ratio_percent = symbol_allocation_percent rt,
            max_order_krw = runtime_setting_float rt ''RISK_MAX_ORDER_KRW'' 30000,
            volatility_window = window, volatility_block_percent = vol, min_volume_krw = min_vol,
            min_current_1m_volume_krw = cur1, min_avg_5m_volume_krw = avg5,
            require_completed_candle = env_true rt ''RISK_REQUIRE_COMPLETED_CANDLE'',
            require_order_chance_success = runtime_setting_bool rt ''RISK_REQUIRE_ORDER_CHANCE_SUCCESS'' True\<rparr>
      | _ \<Rightarrow> None)"

section \<open>Tables\<close>

record risk_state =
  rk_exchange :: string
  rk_market :: string
  rk_date :: int
  rk_status :: string
  rk_realized :: rat
  rk_unrealized :: rat
  rk_total :: rat
  rk_loss_percent :: rat
  rk_orders :: int
  rk_entries :: int
  rk_exits :: int
  rk_streak :: int
  rk_open_orders :: int
  rk_open_positions :: int
  rk_last_order :: "int option"
  rk_last_loss :: "int option"
  rk_emergency :: bool
  rk_mismatch :: bool
  rk_partial :: bool
  rk_volatility_block :: bool
  rk_low_volume_block :: bool

record risk_row =
  rr_id :: int
  rr_state :: risk_state
  rr_created_at :: int
  rr_updated_at :: int

record risk_log =
  rl_exchange :: string
  rl_market :: string
  rl_session_id :: "int option"
  rl_position_id :: "int option"
  rl_candidate :: pyval
  rl_level :: pyval
  rl_allowed :: bool
  rl_code :: pyval
  rl_reason :: pyval
  rl_checks :: pydict
  rl_created_at :: int

record policy =
  pol_market :: string
  pol_enabled :: bool
  pol_max_exposure :: rat
  pol_loss_pct :: rat
  pol_created_at :: int
  pol_updated_at :: int

record universe_item =
  un_exchange :: string
  un_market :: string
  un_enabled :: bool
  un_live_allowed :: bool
  un_auto_selectable :: bool
  un_volatility :: rat
  un_liquidity :: rat
  un_risk :: rat
  un_updated_at :: int

record candidate =
  cd_id :: int
  cd_market :: string
  cd_status :: "string option"
  cd_strategy :: string
  cd_parameters :: pydict
  cd_unit :: int
  cd_score :: rat
  cd_total_return :: rat
  cd_mdd :: rat
  cd_trade_count :: int
  cd_updated_at :: int

record risk_tables =
  risk_states :: "risk_row list"
  risk_seq :: int
  risk_logs :: "risk_log list"
  policies :: "policy list"
  universe :: "universe_item list"
  candidates :: "candidate list"

definition risk_key :: "risk_state \<Rightarrow> string \<times> string \<times> int" where
  "risk_key st = (rk_exchange st, rk_market st, rk_date st)"

definition upsert_risk_state :: "int \<Rightarrow> risk_state \<Rightarrow> risk_tables \<Rightarrow> risk_tables" where
  "upsert_risk_state now st t =
     (case first_row (\<lambda>r. risk_key (rr_state r) = risk_key st) (risk_states t) of
        Some row \<Rightarrow> t\<lparr>risk_states := update_where (\<lambda>r. rr_id r = rr_id row)
          (\<lambda>r. r\<lparr>rr_state := st\<lparr>rk_exchange := rk_exchange (rr_state r), rk_market := rk_market (rr_state r),
                   rk_date := rk_date (rr_state r)\<rparr>, rr_updated_at := now\<rparr>) (risk_states t)\<rparr>
      | None \<Rightarrow> t\<lparr>risk_states := risk_states t @
          [\<lparr>rr_id = risk_seq t + 1, rr_state = st, rr_created_at = now, rr_updated_at = now\<rparr>],
          risk_seq := risk_seq t + 1\<rparr>)"

definition load_latest_risk_state :: "risk_tables \<Rightarrow> string \<Rightarrow> string \<Rightarrow> risk_state option" where
  "load_latest_risk_state t exchange market =
     map_option rr_state (head_row (order_desc (\<lambda>r. (rk_date (rr_state r), rr_updated_at r, rr_id r))
       (filter (\<lambda>r. rk_exchange (rr_state r) = exchange \<and> rk_market (rr_state r) = market) (risk_states t))))"

definition insert_risk_log :: "risk_log \<Rightarrow> risk_tables \<Rightarrow> risk_tables" where
  "insert_risk_log e t = t\<lparr>risk_logs := risk_logs t @ [e]\<rparr>"

text \<open>The newest logs of a market; rows of one second are in the order of their ids.\<close>

definition load_risk_logs :: "nat \<Rightarrow> string \<Rightarrow> string \<Rightarrow> risk_tables \<Rightarrow> risk_log list" where
  "load_risk_logs limit exchange market t = take limit (order_desc rl_created_at
     (filter (\<lambda>e. rl_exchange e = exchange \<and> rl_market e = market) (risk_logs t)))"

definition load_bot_operation_policy :: "int \<Rightarrow> string \<Rightarrow> risk_tables \<Rightarrow> policy \<times> risk_tables" where
  "load_bot_operation_policy now market t =
     (case first_row (\<lambda>p. pol_market p = market) (policies t) of
        Some p \<Rightarrow> (p, t)
      | None \<Rightarrow> (let p = \<lparr>pol_market = market, pol_enabled = False, pol_max_exposure = 500000, pol_loss_pct = 3,
                       pol_created_at = now, pol_updated_at = now\<rparr>
                 in (p, t\<lparr>policies := policies t @ [p]\<rparr>)))"

definition daily_loss_limit_krw :: "policy \<Rightarrow> rat" where
  "daily_loss_limit_krw p = fdiv (fmul (pol_max_exposure p) (pol_loss_pct p)) 100"

definition load_global_bot_operation_policy :: "int \<Rightarrow> risk_tables \<Rightarrow> policy \<times> risk_tables" where
  "load_global_bot_operation_policy now t = load_bot_operation_policy now ''KRW-BTC'' t"

datatype policy_error = ExposureNotPositive | LossLimitOutOfRange

text \<open>The three columns an update may set; a missing one keeps its value.\<close>

record policy_update =
  up_enabled :: "bool option"
  up_max_exposure :: "rat option"
  up_loss_pct :: "rat option"

definition update_bot_operation_policy ::
  "int \<Rightarrow> string \<Rightarrow> policy_update \<Rightarrow> risk_tables \<Rightarrow> policy_error + policy \<times> risk_tables" where
  "update_bot_operation_policy now market u t =
     (if (case up_max_exposure u of None \<Rightarrow> False | Some x \<Rightarrow> x \<le> 0) then Inl ExposureNotPositive
      else if (case up_loss_pct u of None \<Rightarrow> False | Some x \<Rightarrow> x \<le> 0 \<or> x > 100) then Inl LossLimitOutOfRange
      else (let (_, t1) = load_bot_operation_policy now market t;
                t2 = (if up_enabled u = None \<and> up_max_exposure u = None \<and> up_loss_pct u = None then t1
                      else t1\<lparr>policies := update_where (\<lambda>p. pol_market p = market)
                        (\<lambda>p. p\<lparr>pol_enabled := case_option (pol_enabled p) id (up_enabled u),
                               pol_max_exposure := case_option (pol_max_exposure p) id (up_max_exposure u),
                               pol_loss_pct := case_option (pol_loss_pct p) id (up_loss_pct u),
                               pol_updated_at := now\<rparr>) (policies t1)\<rparr>)
            in Inr (load_bot_operation_policy now market t2)))"

definition market_is_live_allowed :: "risk_tables \<Rightarrow> string \<Rightarrow> string \<Rightarrow> bool" where
  "market_is_live_allowed t exchange market =
     (case first_row (\<lambda>u. un_exchange u = exchange \<and> un_market u = market) (universe t) of
        None \<Rightarrow> market = ''KRW-BTC''
      | Some u \<Rightarrow> un_enabled u \<and> un_live_allowed u)"

definition load_candidate_strategy :: "risk_tables \<Rightarrow> int \<Rightarrow> candidate option" where
  "load_candidate_strategy t i = first_row (\<lambda>c. cd_id c = i) (candidates t)"

section \<open>What the checks read\<close>

definition load_open_live_positions :: "db \<Rightarrow> string \<Rightarrow> string \<Rightarrow> position list" where
  "load_open_live_positions s exchange market = order_desc (\<lambda>p. (pos_created_at p, pos_id p))
     (filter (\<lambda>p. pos_exchange p = exchange \<and> pos_market p = market \<and> pos_status p \<in> active_statuses) (positions s))"

definition load_open_live_positions_for_exchange :: "db \<Rightarrow> string \<Rightarrow> position list" where
  "load_open_live_positions_for_exchange s exchange = order_desc (\<lambda>p. (pos_created_at p, pos_id p))
     (filter (\<lambda>p. pos_exchange p = exchange \<and> pos_status p \<in> active_statuses) (positions s))"

definition has_open_live_position_for_strategy :: "db \<Rightarrow> string \<Rightarrow> string \<Rightarrow> int \<Rightarrow> bool" where
  "has_open_live_position_for_strategy s exchange market candidate =
     (load_open_live_position_for_strategy s exchange market candidate \<noteq> None)"

definition load_reconcilable_live_order_logs :: "db \<Rightarrow> string \<Rightarrow> string \<Rightarrow> order_log list" where
  "load_reconcilable_live_order_logs s exchange market = map normalize_live_order_log
     (sort_key (\<lambda>r. (log_updated_at r, log_id r))
       (filter (\<lambda>r. log_exchange r = exchange \<and> log_market r = market
          \<and> log_status r \<in> {''SUBMITTED'', ''WAITING'', ''PARTIALLY_FILLED''}
          \<and> \<not> sql_status_event (request_id r)) (order_logs s)))"

text \<open>The day in Korea, as a day number, and its bounds in UTC.\<close>

definition kst_date :: "int \<Rightarrow> int" where
  "kst_date now = (now + 32400) div 86400"

definition kst_day_bounds_utc :: "int \<Rightarrow> int \<times> int" where
  "kst_day_bounds_utc day = (day * 86400 - 32400, day * 86400 - 32400 + 86400)"

definition newest_time :: "int option list \<Rightarrow> int option" where
  "newest_time ts = (case filter (\<lambda>t. t \<noteq> None) ts of [] \<Rightarrow> None | xs \<Rightarrow> Some (Max (set (map the xs))))"

definition day_orders :: "db \<Rightarrow> string \<Rightarrow> string \<Rightarrow> int \<Rightarrow> order_log list" where
  "day_orders s exchange market day = filter (\<lambda>r. log_exchange r = exchange \<and> log_market r = market
     \<and> log_status r \<in> {''SUBMITTED'', ''WAITING'', ''PARTIALLY_FILLED'', ''FILLED'', ''CANCELED'', ''FAILED''}
     \<and> \<not> sql_status_event (request_id r)
     \<and> fst (kst_day_bounds_utc day) \<le> log_created_at r \<and> log_created_at r < snd (kst_day_bounds_utc day)) (order_logs s)"

definition day_positions :: "db \<Rightarrow> string \<Rightarrow> string \<Rightarrow> int \<Rightarrow> position list" where
  "day_positions s exchange market day = filter (\<lambda>p. pos_exchange p = exchange \<and> pos_market p = market
     \<and> pos_created_at p < snd (kst_day_bounds_utc day)) (positions s)"

definition losing :: "rat \<Rightarrow> rat \<Rightarrow> bool" where
  "losing threshold pnl \<longleftrightarrow> pnl < 0 \<and> threshold \<le> 0 \<or> threshold > 0 \<and> pnl \<le> - threshold"

definition closed_key :: "position \<Rightarrow> (int \<times> int) \<times> int \<times> int" where
  "closed_key p = ((case closed_at p of None \<Rightarrow> (0, 0) | Some t \<Rightarrow> (1, t)), pos_updated_at p, pos_id p)"

definition consecutive_loss_count :: "db \<Rightarrow> string \<Rightarrow> string \<Rightarrow> rat \<Rightarrow> int" where
  "consecutive_loss_count s exchange market min_loss_krw =
     int (length (takeWhile (\<lambda>p. losing \<bar>min_loss_krw\<bar> (realized_pnl p))
       (take 20 (order_desc closed_key (filter (\<lambda>p. pos_exchange p = exchange \<and> pos_market p = market
          \<and> pos_status p = ''CLOSED'') (positions s))))))"

definition daily_loss_basis_krw :: "rat option \<Rightarrow> risk_config \<Rightarrow> rat" where
  "daily_loss_basis_krw equity c = (let e = (if nz equity \<le> 0 then account_equity_krw c else nz equity) in max e 1)"

definition cooldown_remaining_seconds :: "int \<Rightarrow> int option \<Rightarrow> int \<Rightarrow> int" where
  "cooldown_remaining_seconds now since cooldown =
     (case since of None \<Rightarrow> 0 | Some t \<Rightarrow> max (cooldown - (now - t)) 0)"

text \<open>The balances of the exchange as a dict; its lists hold dicts.\<close>

definition account_items :: "pydict \<Rightarrow> pydict list" where
  "account_items b = map as_dict (as_list (dict_get b ''balances''))"

definition account_item :: "pydict \<Rightarrow> string \<Rightarrow> pydict option" where
  "account_item b currency = find (\<lambda>d. py_upper (py_str (dict_get_or d ''currency'' (VStr []))) = py_upper currency) (account_items b)"

definition currency_entry :: "pydict \<Rightarrow> string \<Rightarrow> pyval" where
  "currency_entry b currency = (let by = as_dict (dict_get b ''by_currency''); target = py_upper currency
     in py_or (dict_get by target) (dict_get by (py_lower target)))"

definition whole_balance :: "pydict \<Rightarrow> rat" where
  "whole_balance d = fadd (to_float (dict_get d ''balance'')) (to_float (dict_get d ''locked''))"

definition balance_total :: "pydict option \<Rightarrow> string \<Rightarrow> rat" where
  "balance_total balances currency = (case balances of None \<Rightarrow> 0 | Some b \<Rightarrow>
     (case account_item b currency of Some d \<Rightarrow> whole_balance d
      | None \<Rightarrow> (case currency_entry b currency of VDict d \<Rightarrow> whole_balance d | _ \<Rightarrow> 0)))"

definition available_balance_total :: "pydict option \<Rightarrow> string \<Rightarrow> rat" where
  "available_balance_total balances currency = (case balances of None \<Rightarrow> 0 | Some b \<Rightarrow>
     (case account_item b currency of Some d \<Rightarrow> to_float (dict_get d ''balance'')
      | None \<Rightarrow> (case currency_entry b currency of VDict d \<Rightarrow> to_float (dict_get d ''balance'')
         | _ \<Rightarrow> (case py_or (dict_get b (py_lower (py_upper currency))) (dict_get b (py_upper currency)) of
              VDict d \<Rightarrow> to_float (dict_get d ''balance'') | _ \<Rightarrow> 0))))"

definition snapshot_price :: "pydict option \<Rightarrow> rat" where
  "snapshot_price snap = (let d = case_option [] id snap in num_or (to_float (dict_get d ''price'')) (to_float (dict_get d ''trade_price'')))"

definition estimate_account_equity_krw :: "pydict option \<Rightarrow> pydict option \<Rightarrow> string \<Rightarrow> rat" where
  "estimate_account_equity_krw balances snap market =
     (if balances = None \<or> balances = Some [] then 0
      else let krw = balance_total balances ''KRW'';
               base = (if CHR ''-'' \<in> set market then after_last_dash market else ''BTC'');
               price = snapshot_price snap
           in if price > 0 then fadd krw (fmul (balance_total balances base) price) else krw)"

definition position_value :: "rat \<Rightarrow> position \<Rightarrow> rat" where
  "position_value fallback p = fmul (entry_volume p) (num_or (current_price p) (num_or fallback (entry_price p)))"

definition current_bot_position_value_krw :: "db \<Rightarrow> string \<Rightarrow> string \<Rightarrow> pydict option \<Rightarrow> rat" where
  "current_bot_position_value_krw s exchange market snap =
     foldl (\<lambda>v p. fadd v (position_value (snapshot_price snap) p)) 0 (load_open_live_positions s exchange market)"

definition duplicate_order_exists ::
  "db \<Rightarrow> string \<Rightarrow> string \<Rightarrow> string \<Rightarrow> string \<Rightarrow> int option \<Rightarrow> int option \<Rightarrow> int option \<Rightarrow> string option" where
  "duplicate_order_exists s exchange market side rid session candidate candle =
     (if rid \<noteq> [] \<and> (case first_row (\<lambda>r. request_id r = rid) (order_logs s) of
           None \<Rightarrow> False | Some r \<Rightarrow> log_status r \<noteq> ''PREVIEWED'')
      then Some ''BLOCKED_DUPLICATE_REQUEST''
      else if candle \<noteq> None \<and> list_ex (\<lambda>r. log_exchange r = exchange \<and> log_market r = market \<and> log_side r = side
           \<and> request_id r \<noteq> rid \<and> candle_time_utc r = candle
           \<and> (session = None \<or> log_session_id r = session) \<and> (candidate = None \<or> log_candidate_id r = candidate)
           \<and> log_status r \<in> {''PREVIEWED'', ''SUBMITTED'', ''WAITING'', ''PARTIALLY_FILLED'', ''FILLED'', ''CANCELED'', ''FAILED''})
           (order_logs s)
      then Some ''BLOCKED_DUPLICATE_CANDLE'' else None)"

definition candle_incomplete :: "risk_config \<Rightarrow> pydict \<Rightarrow> bool" where
  "candle_incomplete c snap \<longleftrightarrow> require_completed_candle c \<and> dict_get snap ''complete'' = VBool False"

definition liquidity_block :: "risk_config \<Rightarrow> pydict \<Rightarrow> string option" where
  "liquidity_block c snap =
     (let current_1m = to_float (dict_get snap ''current_1m_trade_price_volume'');
          avg_5m = to_float (dict_get snap ''recent_5m_avg_trade_price_volume'');
          avg_count = trunc (to_float (dict_get snap ''recent_5m_volume_count''))
      in if min_current_1m_volume_krw c > 0 \<and> current_1m \<le> 0 then Some ''BLOCKED_VOLUME_DATA_UNAVAILABLE''
         else if min_avg_5m_volume_krw c > 0 \<and> (avg_5m \<le> 0 \<or> avg_count < 5) then Some ''BLOCKED_VOLUME_DATA_UNAVAILABLE''
         else if min_current_1m_volume_krw c > 0 \<and> current_1m < min_current_1m_volume_krw c then Some ''BLOCKED_LOW_1M_VOLUME''
         else if min_avg_5m_volume_krw c > 0 \<and> avg_5m < min_avg_5m_volume_krw c then Some ''BLOCKED_LOW_5M_AVG_VOLUME''
         else if candle_incomplete c snap then Some ''BLOCKED_INCOMPLETE_CANDLE'' else None)"

definition market_condition_block :: "pydict option \<Rightarrow> risk_config \<Rightarrow> string option" where
  "market_condition_block snapshot c = (case snapshot of None \<Rightarrow> None | Some snap \<Rightarrow>
     if snap = [] then None
     else if fmul (to_float (dict_get snap ''range_rate'')) 100 \<ge> volatility_block_percent c then Some ''BLOCKED_VOLATILITY_FILTER''
     else if truthy (dict_get snap ''liquidity_check_required'') \<or> has_key snap ''current_1m_trade_price_volume''
             \<or> has_key snap ''recent_5m_avg_trade_price_volume''
     then liquidity_block c snap
     else (let v0 = num_or (to_float (dict_get snap ''trade_price_volume'')) (to_float (dict_get snap ''volume_krw''));
               v = (if v0 \<le> 0 then fmul (to_float (dict_get snap ''price'')) (to_float (dict_get snap ''volume'')) else v0)
           in if v < min_volume_krw c then Some ''BLOCKED_LOW_VOLUME''
              else if candle_incomplete c snap then Some ''BLOCKED_INCOMPLETE_CANDLE'' else None))"

section \<open>The state of the day\<close>

text \<open>
  \<open>day_state\<close> is the state \<open>compute_risk_state\<close> stores; \<open>mismatch\<close> is the flag it was given or
  the one of the latest stored state.
\<close>

definition day_status :: "risk_config \<Rightarrow> bool \<Rightarrow> bool \<Rightarrow> int \<Rightarrow> int \<Rightarrow> int \<Rightarrow> rat \<Rightarrow> rat \<Rightarrow> int \<Rightarrow> int \<Rightarrow> string" where
  "day_status c emergency review orders entries exits loss_krw loss_pct open_orders open_positions =
     (if emergency then ''EMERGENCY_STOPPED''
      else if review then ''MANUAL_REVIEW_REQUIRED''
      else if max_orders_per_day c > 0 \<and> orders \<ge> max_orders_per_day c
           \<or> max_entry_orders_per_day c > 0 \<and> entries \<ge> max_entry_orders_per_day c
           \<or> max_exit_orders_per_day c > 0 \<and> exits \<ge> max_exit_orders_per_day c
           \<or> loss_krw \<ge> max_daily_loss_krw c \<or> loss_pct \<ge> max_daily_loss_percent c then ''BLOCKED''
      else if open_orders \<noteq> 0 \<or> open_positions \<noteq> 0 then ''WARNING'' else ''OK'')"

definition day_state ::
  "(rat list \<Rightarrow> rat) \<Rightarrow> int \<Rightarrow> risk_config \<Rightarrow> bool \<Rightarrow> db \<Rightarrow> string \<Rightarrow> string \<Rightarrow> bool \<Rightarrow> rat option \<Rightarrow> risk_state" where
  "day_state sqlsum now c emergency s exchange market mismatch equity =
     (let day = kst_date now;
          logs = day_orders s exchange market day;
          rows = day_positions s exchange market day;
          purpose_count = (\<lambda>x. int (length (filter (\<lambda>r. order_purpose r = x) logs)));
          partial = list_ex (\<lambda>r. log_exchange r = exchange \<and> log_market r = market
            \<and> log_status r = ''PARTIALLY_FILLED'' \<and> \<not> py_contains ''-partial'' (py_lower (request_id r))) (order_logs s);
          orders = int (length logs);
          entries = purpose_count ''ENTRY'';
          exits = purpose_count ''EXIT'';
          realized = sqlsum (map (\<lambda>p. if pos_status p = ''CLOSED'' then realized_pnl p else 0) rows);
          unrealized = sqlsum (map (\<lambda>p. if pos_status p \<in> active_statuses then unrealized_pnl p else 0) rows);
          total_pnl = fadd realized unrealized;
          loss_krw = \<bar>min total_pnl 0\<bar>;
          loss_pct = fmul (fdiv loss_krw (daily_loss_basis_krw equity c)) 100;
          open_orders = int (length (load_reconcilable_live_order_logs s exchange market));
          open_positions = int (length (load_open_live_positions s exchange market))
      in \<lparr>rk_exchange = exchange, rk_market = market, rk_date = day,
          rk_status = day_status c emergency (mismatch \<or> partial) orders entries exits loss_krw loss_pct open_orders open_positions,
          rk_realized = realized, rk_unrealized = unrealized, rk_total = total_pnl, rk_loss_percent = loss_pct,
          rk_orders = orders, rk_entries = entries, rk_exits = exits,
          rk_streak = consecutive_loss_count s exchange market (consecutive_loss_min_krw c),
          rk_open_orders = open_orders, rk_open_positions = open_positions,
          rk_last_order = newest_time (map (\<lambda>r. Some (log_updated_at r)) logs),
          rk_last_loss = newest_time (map (\<lambda>p. if realized_pnl p < 0 then closed_at p else None) rows),
          rk_emergency = emergency, rk_mismatch = mismatch, rk_partial = partial,
          rk_volatility_block = (volatility_block_percent c > 0),
          rk_low_volume_block = (min_volume_krw c > 0 \<or> min_current_1m_volume_krw c > 0 \<or> min_avg_5m_volume_krw c > 0)\<rparr>)"

definition compute_risk_state ::
  "(rat list \<Rightarrow> rat) \<Rightarrow> int \<Rightarrow> risk_config \<Rightarrow> mode_state \<Rightarrow> db \<Rightarrow> string \<Rightarrow> string \<Rightarrow> bool option \<Rightarrow> rat option
   \<Rightarrow> risk_tables \<Rightarrow> risk_state \<times> risk_tables" where
  "compute_risk_state sqlsum now c live s exchange market mismatch equity t =
     (let flag = (case mismatch of Some b \<Rightarrow> b
            | None \<Rightarrow> (case load_latest_risk_state t exchange market of None \<Rightarrow> False | Some st \<Rightarrow> rk_mismatch st));
          st = day_state sqlsum now c (emergency_stop live) s exchange market flag equity
      in (st, upsert_risk_state now st t))"

section \<open>The checks of an order\<close>

record risk_input =
  ri_order :: pydict
  ri_purpose :: string
  ri_base :: "pydict option"
  ri_mode :: string
  ri_session :: "int option"
  ri_position :: "int option"
  ri_candidate :: "int option"
  ri_candle :: "int option"
  ri_snapshot :: "pydict option"
  ri_balances :: "pydict option"
  ri_equity :: "rat option"
  ri_mismatch :: "bool option"
  ri_is_auto :: bool
  ri_profit_engine :: bool

text \<open>What the checks look at: the order's fields, the state of the day, the policy and the tables.\<close>

record risk_facts =
  rf_config :: risk_config
  rf_state :: risk_state
  rf_emergency :: bool
  rf_exchange :: string
  rf_market :: string
  rf_side :: string
  rf_amount :: rat
  rf_policy :: policy
  rf_value :: rat
  rf_available :: rat
  rf_tables :: risk_tables
  rf_db :: db
  rf_now :: int

text \<open>\<open>block(code, reason, detail)\<close>, \<open>ok(detail)\<close>, or no call at all.\<close>

datatype verdict = Pass pyval | Block string string "pyval option" | NoVerdict

definition blocked_with :: "verdict \<Rightarrow> bool" where
  "blocked_with v = (case v of Block _ _ _ \<Rightarrow> True | _ \<Rightarrow> False)"

definition plain_block :: "string \<Rightarrow> verdict" where "plain_block code = Block code code None"

definition pass :: verdict where "pass = Pass (VBool True)"

definition entry_buy :: "risk_input \<Rightarrow> risk_facts \<Rightarrow> bool" where
  "entry_buy i f \<longleftrightarrow> ri_purpose i = ''ENTRY'' \<and> rf_side f \<in> {''BUY'', ''BID''}"

definition mode_verdict :: "risk_input \<Rightarrow> risk_facts \<Rightarrow> verdict" where
  "mode_verdict i f =
     (if rf_emergency f then plain_block ''BLOCKED_EMERGENCY_STOP''
      else if ri_mode i \<notin> {''LIVE_MANUAL_ONLY'', ''AUTO_STRATEGY_RUNNING''} \<and> \<not> ri_is_auto i
      then plain_block ''BLOCKED_INVALID_MODE'' else Pass (VStr (ri_mode i)))"

definition candidate_allows_market :: "risk_input \<Rightarrow> risk_facts \<Rightarrow> bool" where
  "candidate_allows_market i f \<longleftrightarrow> rf_market f = ''KRW-BTC''
     \<or> (case Option.bind (ri_candidate i) (load_candidate_strategy (rf_tables f)) of None \<Rightarrow> False
        | Some c \<Rightarrow> os (cd_status c) \<in> {''LIVE_ELIGIBLE'', ''LIVE_ACTIVE''} \<and> cd_market c = rf_market f
            \<and> market_is_live_allowed (rf_tables f) (rf_exchange f) (rf_market f))"

definition text_or_none :: "string \<Rightarrow> pyval" where "text_or_none s = (if s = [] then VNone else VStr s)"

definition int_or_none :: "int option \<Rightarrow> pyval" where
  "int_or_none v = (case v of None \<Rightarrow> VNone | Some i \<Rightarrow> VInt i)"

definition exchange_verdict :: "risk_input \<Rightarrow> risk_facts \<Rightarrow> verdict" where
  "exchange_verdict i f =
     (if rf_exchange f \<noteq> ''bithumb'' then plain_block ''BLOCKED_EXCHANGE_NOT_ALLOWED''
      else if \<not> candidate_allows_market i f
      then Block ''BLOCKED_MARKET_NOT_ALLOWED'' [] (Some (VDict [(''market'', VStr (rf_market f)),
        (''candidate_strategy_id'', int_or_none (ri_candidate i)),
        (''candidate_status'', text_or_none (case Option.bind (ri_candidate i) (load_candidate_strategy (rf_tables f)) of
            None \<Rightarrow> [] | Some c \<Rightarrow> os (cd_status c))),
        (''requires_status'', VList [VStr ''LIVE_ELIGIBLE'', VStr ''LIVE_ACTIVE'']),
        (''live_allowed_market'', VBool (market_is_live_allowed (rf_tables f) (rf_exchange f) (rf_market f)))]))
      else pass)"

definition order_type_verdict :: "risk_input \<Rightarrow> verdict" where
  "order_type_verdict i = (let order = ri_order i;
       order_type = py_upper (py_str (dict_get_or order ''order_type'' (dict_get_or order ''ord_type'' (VStr ''LIMIT''))))
     in if order_type \<noteq> ''LIMIT'' \<and> py_lower (py_str (dict_get_or order ''ord_type'' (VStr []))) \<noteq> ''limit''
        then plain_block ''BLOCKED_ORDER_TYPE_NOT_ALLOWED''
        else if order_type = ''MARKET'' then plain_block ''BLOCKED_MARKET_ORDER_DISABLED'' else pass)"

definition amount_verdict :: "risk_input \<Rightarrow> risk_facts \<Rightarrow> verdict" where
  "amount_verdict i f =
     (if rf_amount f > max_order_krw (rf_config f) \<and> \<not> (ri_profit_engine i \<and> entry_buy i f)
      then plain_block ''BLOCKED_MAX_ORDER_AMOUNT'' else Pass (VFloat (rf_amount f)))"

text \<open>The day's loss, the policy's loss limit, and the exposure the policy still leaves.\<close>

definition day_loss :: "risk_facts \<Rightarrow> rat" where
  "day_loss f = \<bar>min (rk_total (rf_state f)) 0\<bar>"

definition policy_room :: "risk_facts \<Rightarrow> rat" where
  "policy_room f = (if pol_max_exposure (rf_policy f) > 0
     then max (fsub (pol_max_exposure (rf_policy f)) (rf_value f)) 0 else 0)"

definition has_balances :: "risk_input \<Rightarrow> bool" where
  "has_balances i \<longleftrightarrow> ri_balances i \<noteq> None \<and> ri_balances i \<noteq> Some []"

definition max_allowed_entry :: "risk_input \<Rightarrow> risk_facts \<Rightarrow> rat" where
  "max_allowed_entry i f = (if has_balances i then min (policy_room f) (rf_available f) else policy_room f)"

definition policy_detail :: "risk_input \<Rightarrow> risk_facts \<Rightarrow> pydict" where
  "policy_detail i f = (let p = rf_policy f; amount = rf_amount f; limit = pol_max_exposure p; projected = fadd (rf_value f) amount in
     [(''auto_trading_enabled'', VBool (pol_enabled p)), (''max_total_exposure_krw'', VFloat limit),
      (''daily_loss_limit_pct'', VFloat (pol_loss_pct p)), (''daily_loss_limit_krw'', VFloat (daily_loss_limit_krw p)),
      (''daily_loss_krw'', VFloat (day_loss f)), (''current_bot_position_value_krw'', VFloat (rf_value f)),
      (''requested_order_krw'', VFloat amount), (''projected_bot_position_value_krw'', VFloat projected),
      (''remaining_exposure_krw'', VFloat (policy_room f)),
      (''available_krw_balance'', if has_balances i then VFloat (rf_available f) else VNone),
      (''max_allowed_entry_krw'', VFloat (max_allowed_entry i f)),
      (''exposure_overage_krw'', VFloat (if limit > 0 then max (fsub projected limit) 0 else 0)),
      (''krw_shortfall_krw'', VFloat (if ri_balances i \<noteq> None then max (fsub amount (rf_available f)) 0 else 0))])"

definition policy_verdict :: "risk_input \<Rightarrow> risk_facts \<Rightarrow> verdict" where
  "policy_verdict i f =
     (let detail = policy_detail i f; limit = pol_max_exposure (rf_policy f);
          stop = (\<lambda>code. Block code [] (Some (VDict detail)))
      in if entry_buy i f \<and> ri_is_auto i then
           (if \<not> pol_enabled (rf_policy f) then stop ''BLOCKED_POLICY_AUTO_TRADING_DISABLED''
            else if limit \<le> 0 then stop ''BLOCKED_POLICY_MAX_EXPOSURE_INVALID''
            else if rf_value f \<ge> limit \<and> \<not> ri_profit_engine i then stop ''BLOCKED_POLICY_MAX_TOTAL_EXPOSURE''
            else if fadd (rf_value f) (rf_amount f) > limit \<and> \<not> ri_profit_engine i
            then stop ''BLOCKED_POLICY_MAX_TOTAL_EXPOSURE''
            else if ri_balances i \<noteq> None \<and> rf_available f < rf_amount f
            then stop ''BLOCKED_POLICY_KRW_BALANCE_INSUFFICIENT''
            else if daily_loss_limit_krw (rf_policy f) > 0 \<and> day_loss f \<ge> daily_loss_limit_krw (rf_policy f)
            then stop ''BLOCKED_POLICY_DAILY_LOSS_LIMIT'' else Pass (VDict detail))
         else Pass (VDict (detail @ [(''scope'', VStr ''not_auto_entry'')])))"

definition scale_in_order :: "risk_input \<Rightarrow> bool" where
  "scale_in_order i = truthy (dict_get (ri_order i) ''scale_in'')"

definition position_verdict :: "risk_input \<Rightarrow> risk_facts \<Rightarrow> verdict" where
  "position_verdict i f =
     (let same = (ri_purpose i = ''ENTRY'' \<and> (case ri_candidate i of None \<Rightarrow> False
            | Some c \<Rightarrow> has_open_live_position_for_strategy (rf_db f) (rf_exchange f) (rf_market f) c))
      in if ri_purpose i \<noteq> ''ENTRY'' then NoVerdict
         else if block_on_open_position (rf_config f) \<and> same \<and> \<not> scale_in_order i
         then plain_block ''BLOCKED_OPEN_POSITION_EXISTS''
         else Pass (VDict [(''scale_in'', VBool (scale_in_order i)), (''same_strategy_position_open'', VBool same)]))"

definition max_open_verdict :: "risk_input \<Rightarrow> risk_facts \<Rightarrow> verdict" where
  "max_open_verdict i f =
     (let n = int (length (load_open_live_positions_for_exchange (rf_db f) (rf_exchange f)));
          m = max_open_positions (rf_config f);
          detail = VDict [(''open_position_count'', VInt n), (''max_open_positions'', VInt m)]
      in if \<not> entry_buy i f then NoVerdict
         else if m > 0 \<and> n \<ge> m \<and> \<not> scale_in_order i then Block ''BLOCKED_MAX_OPEN_POSITIONS'' [] (Some detail)
         else Pass detail)"

definition symbol_cap_krw :: "risk_facts \<Rightarrow> rat" where
  "symbol_cap_krw f = (if pol_max_exposure (rf_policy f) > 0
     then fmul (pol_max_exposure (rf_policy f)) (fdiv (max_position_ratio_percent (rf_config f)) 100) else 0)"

definition symbol_verdict :: "risk_input \<Rightarrow> risk_facts \<Rightarrow> verdict" where
  "symbol_verdict i f =
     (let cap = symbol_cap_krw f; projected = fadd (rf_value f) (rf_amount f);
          detail = [(''market'', VStr (rf_market f)), (''projected_symbol_value_krw'', VFloat projected),
                    (''max_symbol_allocation_krw'', VFloat cap)]
      in if \<not> entry_buy i f then NoVerdict
         else if cap > 0 \<and> projected > cap \<and> \<not> ri_profit_engine i
         then Block ''BLOCKED_MAX_SYMBOL_ALLOCATION'' [] (Some (VDict (detail @
                [(''max_symbol_allocation_rate'', VFloat (fdiv (max_position_ratio_percent (rf_config f)) 100))])))
         else Pass (VDict detail))"

definition flag_verdict :: "bool \<Rightarrow> string \<Rightarrow> verdict" where
  "flag_verdict bad code = (if bad then plain_block code else pass)"

definition daily_limit_verdict :: "risk_input \<Rightarrow> risk_facts \<Rightarrow> verdict" where
  "daily_limit_verdict i f =
     (let c = rf_config f; st = rf_state f in
      if max_orders_per_day c > 0 \<and> rk_orders st \<ge> max_orders_per_day c then plain_block ''BLOCKED_MAX_ORDERS_PER_DAY''
      else if ri_purpose i = ''ENTRY'' \<and> max_entry_orders_per_day c > 0 \<and> rk_entries st \<ge> max_entry_orders_per_day c
      then plain_block ''BLOCKED_MAX_ENTRY_ORDERS_PER_DAY''
      else if ri_purpose i = ''EXIT'' \<and> max_exit_orders_per_day c > 0 \<and> rk_exits st \<ge> max_exit_orders_per_day c
      then plain_block ''BLOCKED_MAX_EXIT_ORDERS_PER_DAY''
      else if ri_purpose i = ''ENTRY'' \<and> (day_loss f \<ge> max_daily_loss_krw c \<or> rk_loss_percent st \<ge> max_daily_loss_percent c)
      then plain_block ''BLOCKED_DAILY_LOSS_LIMIT'' else pass)"

definition loss_streak_verdict :: "risk_input \<Rightarrow> risk_facts \<Rightarrow> verdict" where
  "loss_streak_verdict i f = flag_verdict (ri_purpose i = ''ENTRY''
     \<and> stop_after_consecutive_losses (rf_config f) > 0
     \<and> rk_streak (rf_state f) \<ge> stop_after_consecutive_losses (rf_config f)) ''BLOCKED_CONSECUTIVE_LOSS_LIMIT''"

definition order_cooldown :: "risk_facts \<Rightarrow> int" where
  "order_cooldown f = cooldown_remaining_seconds (rf_now f) (rk_last_order (rf_state f)) (min_cooldown_seconds (rf_config f))"

definition loss_cooldown :: "risk_facts \<Rightarrow> int" where
  "loss_cooldown f = cooldown_remaining_seconds (rf_now f) (rk_last_loss (rf_state f)) (loss_cooldown_seconds (rf_config f))"

definition cooldown_verdict :: "risk_facts \<Rightarrow> verdict" where
  "cooldown_verdict f = (if order_cooldown f > 0
     then Block ''BLOCKED_COOLDOWN'' (int_str (order_cooldown f) @ ''s cooldown remaining.'') None else pass)"

definition loss_cooldown_verdict :: "risk_input \<Rightarrow> risk_facts \<Rightarrow> verdict" where
  "loss_cooldown_verdict i f = (if ri_purpose i = ''ENTRY'' \<and> loss_cooldown f > 0
     then Block ''BLOCKED_COOLDOWN_AFTER_LOSS'' (int_str (loss_cooldown f) @ ''s loss cooldown remaining.'') None else pass)"

definition option_verdict :: "string option \<Rightarrow> verdict" where
  "option_verdict r = (case r of None \<Rightarrow> pass | Some code \<Rightarrow> plain_block code)"

definition order_verdicts :: "risk_input \<Rightarrow> risk_facts \<Rightarrow> (string \<times> verdict) list" where
  "order_verdicts i f =
     (let c = rf_config f; st = rf_state f in
     [(''mode_check'', mode_verdict i f), (''exchange_check'', exchange_verdict i f),
      (''order_type_check'', order_type_verdict i), (''amount_check'', amount_verdict i f),
      (''operation_policy_check'', policy_verdict i f), (''position_check'', position_verdict i f),
      (''max_open_positions_check'', max_open_verdict i f), (''symbol_allocation_check'', symbol_verdict i f),
      (''open_order_check'', flag_verdict (block_on_open_order c \<and> rk_open_orders st > 0) ''BLOCKED_OPEN_ORDER_EXISTS''),
      (''partial_fill_check'', flag_verdict (block_on_partial_fill c \<and> rk_partial st) ''BLOCKED_PARTIAL_FILL_UNSUPPORTED''),
      (''balance_reconciliation_check'', flag_verdict (block_on_balance_mismatch c \<and> rk_mismatch st) ''BLOCKED_BALANCE_MISMATCH''),
      (''daily_limit_check'', daily_limit_verdict i f), (''loss_streak_check'', loss_streak_verdict i f),
      (''cooldown_check'', cooldown_verdict f), (''loss_cooldown_check'', loss_cooldown_verdict i f),
      (''duplicate_check'', option_verdict (duplicate_order_exists (rf_db f) (rf_exchange f) (rf_market f) (rf_side f)
         (let rid = dict_get (ri_order i) ''request_id'' in if truthy rid then py_str rid else [])
         (ri_session i) (ri_candidate i) (ri_candle i))),
      (''market_condition_check'', if ri_purpose i = ''ENTRY''
         then option_verdict (market_condition_block (ri_snapshot i) c) else NoVerdict)])"

section \<open>The gate\<close>

definition standard_result :: "int \<Rightarrow> pydict option \<Rightarrow> risk_config \<Rightarrow> pydict" where
  "standard_result now base c =
     (let source = case_option [] id base;
          allowed = truthy (dict_get_or source ''allowed'' (VBool True));
          code = py_or (dict_get source ''block_code'') (if allowed then VNone
             else py_or (py_or (dict_get source ''risk_result'') (dict_get source ''blocked_reason'')) (VStr ''BLOCKED''));
          reason = py_or (py_or (dict_get source ''block_reason'') (dict_get source ''blocked_reason'')) code
      in dict_update source
        [(''allowed'', VBool allowed),
         (''risk_level'', py_or (dict_get source ''risk_level'') (VStr (if allowed then ''LOW'' else ''BLOCKED''))),
         (''block_code'', code), (''block_reason'', if allowed then VStr [] else reason),
         (''warnings'', dict_get_or source ''warnings'' (VList [])),
         (''max_allowed_order_krw'', dict_get_or source ''max_allowed_order_krw'' (VFloat (max_order_krw c))),
         (''checked_at'', dict_get_or source ''checked_at'' (VInt now)),
         (''checks'', dict_get_or source ''checks'' (VDict []))])"

abbreviation res_allowed :: "pydict \<Rightarrow> bool" where
  "res_allowed r \<equiv> truthy (dict_get r ''allowed'')"

type_synonym guard = "pydict \<times> pydict"

definition block_result :: "string \<Rightarrow> string \<Rightarrow> pydict \<Rightarrow> pydict" where
  "block_result code reason r = (if res_allowed r
     then dict_put (dict_put (dict_put (dict_put r ''allowed'' (VBool False)) ''risk_level'' (VStr ''BLOCKED''))
            ''block_code'' (VStr code)) ''block_reason'' (VStr (if reason = [] then code else reason))
     else r)"

fun enter_verdict :: "guard \<Rightarrow> string \<times> verdict \<Rightarrow> guard" where
  "enter_verdict (r, checks) (name, NoVerdict) = (r, checks)"
| "enter_verdict (r, checks) (name, Pass detail) =
     (r, if has_key checks name then checks
         else dict_put checks name (VDict [(''allowed'', VBool True), (''detail'', detail)]))"
| "enter_verdict (r, checks) (name, Block code reason detail) =
     (block_result code reason r,
      dict_put checks name (VDict ([(''allowed'', VBool False), (''code'', VStr code),
        (''reason'', VStr (if reason = [] then code else reason))] @ (case detail of None \<Rightarrow> [] | Some d \<Rightarrow> [(''detail'', d)]))))"

definition base_checks :: "pydict \<Rightarrow> pydict" where
  "base_checks r = [(''base_check'', VDict (if res_allowed r then [(''allowed'', VBool True), (''detail'', VBool True)]
     else [(''allowed'', VBool False), (''code'', dict_get r ''block_code''), (''reason'', dict_get r ''block_reason'')]))]"

definition run_checks :: "(string \<times> verdict) list \<Rightarrow> pydict \<Rightarrow> guard" where
  "run_checks vs r = foldl enter_verdict (r, base_checks r) vs"

text \<open>\<open>min(v, x)\<close>; comparing anything but a number raises \<open>TypeError\<close>.\<close>

definition py_min :: "pyval \<Rightarrow> rat \<Rightarrow> pyval option" where
  "py_min v x = (case py_number v of None \<Rightarrow> None | Some y \<Rightarrow> Some (if x < y then VFloat x else v))"

definition allowed_order_krw :: "risk_input \<Rightarrow> risk_facts \<Rightarrow> pydict \<Rightarrow> pyval option" where
  "allowed_order_krw i f r =
     (let given = dict_get_or r ''max_allowed_order_krw''; c = rf_config f in
      if ri_profit_engine i \<and> entry_buy i f then Some (py_or (given (VFloat (rf_amount f))) (VFloat (rf_amount f)))
      else (case py_min (given (VFloat (max_order_krw c))) (max_order_krw c) of None \<Rightarrow> None
        | Some v \<Rightarrow> if entry_buy i f then py_min v (max_allowed_entry i f) else Some v))"

definition final_level :: "risk_state \<Rightarrow> pydict \<Rightarrow> pydict" where
  "final_level st r = (if res_allowed r \<and> dict_get r ''risk_level'' = VStr ''LOW''
       \<and> rk_status st \<in> {''WARNING'', ''MANUAL_REVIEW_REQUIRED''} then dict_put r ''risk_level'' (VStr ''MEDIUM'') else r)"

definition order_amount :: "pydict \<Rightarrow> rat" where
  "order_amount d = num_or (to_float (dict_get d ''amount_krw''))
     (fmul (to_float (dict_get d ''price'')) (to_float (dict_get d ''volume'')))"

definition effective_equity :: "risk_input \<Rightarrow> rat" where
  "effective_equity i = (case ri_equity i of Some e \<Rightarrow> e
     | None \<Rightarrow> estimate_account_equity_krw (ri_balances i) (ri_snapshot i)
         (py_str (dict_get_or (ri_order i) ''market'' (VStr ''KRW-BTC''))))"

definition risk_facts_of ::
  "(rat list \<Rightarrow> rat) \<Rightarrow> int \<Rightarrow> risk_config \<Rightarrow> mode_state \<Rightarrow> db \<Rightarrow> risk_input \<Rightarrow> risk_tables \<Rightarrow> risk_facts" where
  "risk_facts_of sqlsum now c live s i t =
     (let order = ri_order i;
          exchange = py_lower (py_str (dict_get_or order ''exchange'' (VStr ''bithumb'')));
          market = py_str (dict_get_or order ''market'' (VStr ''KRW-BTC''));
          (st, t1) = compute_risk_state sqlsum now c live s exchange market (ri_mismatch i) (Some (effective_equity i)) t;
          (p, t2) = load_global_bot_operation_policy now t1
      in \<lparr>rf_config = c, rf_state = st, rf_emergency = emergency_stop live, rf_exchange = exchange, rf_market = market,
          rf_side = py_upper (py_str (dict_get_or order ''side'' (VStr []))), rf_amount = order_amount order,
          rf_policy = p, rf_value = current_bot_position_value_krw s exchange market (ri_snapshot i),
          rf_available = available_balance_total (ri_balances i) ''KRW'', rf_tables = t2, rf_db = s, rf_now = now\<rparr>)"

definition finish_result :: "risk_input \<Rightarrow> risk_facts \<Rightarrow> pyval \<Rightarrow> guard \<Rightarrow> pydict" where
  "finish_result i f most g = (case g of (r, checks) \<Rightarrow>
     dict_update (final_level (rf_state f) (dict_update r [(''cooldown_remaining_seconds'', VInt (order_cooldown f)),
         (''loss_cooldown_remaining_seconds'', VInt (loss_cooldown f))]))
       [(''checks'', VDict checks),
        (''risk_result'', if res_allowed r then VStr ''ALLOWED'' else dict_get r ''block_code''),
        (''blocked_reason'', if res_allowed r then VStr [] else dict_get r ''block_reason''),
        (''max_allowed_order_krw'', most), (''operation_policy'', VDict (policy_detail i f)), (''checked_at'', VInt (rf_now f))])"

definition risk_log_of :: "risk_input \<Rightarrow> risk_facts \<Rightarrow> pydict \<Rightarrow> risk_log" where
  "risk_log_of i f r = \<lparr>rl_exchange = rf_exchange f, rl_market = rf_market f, rl_session_id = ri_session i,
     rl_position_id = ri_position i, rl_candidate = dict_get (ri_order i) ''request_id'',
     rl_level = dict_get r ''risk_level'', rl_allowed = res_allowed r, rl_code = dict_get r ''block_code'',
     rl_reason = dict_get r ''block_reason'', rl_checks = as_dict (dict_get r ''checks''), rl_created_at = rf_now f\<rparr>"

definition check_order_risk ::
  "(rat list \<Rightarrow> rat) \<Rightarrow> int \<Rightarrow> runtime \<Rightarrow> mode_state \<Rightarrow> db \<Rightarrow> risk_input \<Rightarrow> risk_tables \<Rightarrow> pydict option \<times> risk_tables" where
  "check_order_risk sqlsum now rt live s i t =
     (case risk_config_from_env rt of None \<Rightarrow> (None, t)
      | Some c \<Rightarrow>
         (let f = risk_facts_of sqlsum now c live s i t;
              g = run_checks (order_verdicts i f) (standard_result now (ri_base i) c)
          in case allowed_order_krw i f (fst g) of None \<Rightarrow> (None, rf_tables f)
             | Some most \<Rightarrow>
                 (let r = finish_result i f most g;
                      t1 = insert_risk_log (risk_log_of i f r) (rf_tables f)
                  in (Some r, if res_allowed r then t1
                      else snd (compute_risk_state sqlsum now c live s (rf_exchange f) (rf_market f)
                        (Some (rk_mismatch (rf_state f))) (Some (effective_equity i)) t1)))))"

section \<open>The dashboard\<close>

text \<open>The Korean texts \<open>summary\<close> and \<open>next_action\<close> of a policy block are left out.\<close>

definition policy_block_codes :: "string list" where
  "policy_block_codes = [''BLOCKED_POLICY_AUTO_TRADING_DISABLED'', ''BLOCKED_POLICY_MAX_EXPOSURE_INVALID'',
     ''BLOCKED_POLICY_MAX_TOTAL_EXPOSURE'', ''BLOCKED_POLICY_KRW_BALANCE_INSUFFICIENT'', ''BLOCKED_POLICY_DAILY_LOSS_LIMIT'']"

definition is_policy_block_code :: "pyval \<Rightarrow> bool" where
  "is_policy_block_code v \<longleftrightarrow> py_upper (if truthy v then py_str v else []) \<in> set policy_block_codes"

definition policy_block_detail_from_log :: "risk_log \<Rightarrow> pydict option" where
  "policy_block_detail_from_log e =
     (if \<not> is_policy_block_code (rl_code e) then None
      else let code = py_upper (py_str (rl_code e));
               detail = as_dict (dict_get (as_dict (dict_get (rl_checks e) ''operation_policy_check'')) ''detail'');
               num = (\<lambda>k. to_float (dict_get detail k));
               max_total = num ''max_total_exposure_krw'';
               current_value = num ''current_bot_position_value_krw'';
               requested = num ''requested_order_krw'';
               projected = num_or (num ''projected_bot_position_value_krw'') (fadd current_value requested);
               daily_loss = num ''daily_loss_krw'';
               daily_loss_limit = num ''daily_loss_limit_krw''
           in Some [(''code'', VStr code), (''reason'', py_or (rl_reason e) (VStr code)),
             (''auto_trading_enabled'', VBool (truthy (dict_get detail ''auto_trading_enabled''))),
             (''requested_order_krw'', VFloat requested), (''max_total_exposure_krw'', VFloat max_total),
             (''current_bot_position_value_krw'', VFloat current_value),
             (''projected_bot_position_value_krw'', VFloat projected),
             (''remaining_exposure_krw'', VFloat (num ''remaining_exposure_krw'')),
             (''available_krw_balance'', dict_get detail ''available_krw_balance''),
             (''daily_loss_krw'', VFloat daily_loss), (''daily_loss_limit_pct'', VFloat (num ''daily_loss_limit_pct'')),
             (''daily_loss_limit_krw'', VFloat daily_loss_limit),
             (''daily_loss_usage_pct'', VFloat (if daily_loss_limit > 0 then fmul (fdiv daily_loss daily_loss_limit) 100 else 0)),
             (''exceeded_by_krw'', VFloat (if max_total > 0 then max (fsub projected max_total) 0 else 0)),
             (''krw_shortfall_krw'', VFloat (num ''krw_shortfall_krw''))])"

record risk_dashboard =
  rd_state :: risk_state
  rd_logs :: "(risk_log \<times> pydict option) list"
  rd_latest_policy_block :: "(risk_log \<times> pydict option) option"
  rd_policy_blocks :: "(risk_log \<times> pydict option) list"
  rd_config :: risk_config

definition get_risk_dashboard ::
  "(rat list \<Rightarrow> rat) \<Rightarrow> int \<Rightarrow> risk_config \<Rightarrow> mode_state \<Rightarrow> db \<Rightarrow> string \<Rightarrow> string \<Rightarrow> risk_tables \<Rightarrow> risk_dashboard \<times> risk_tables" where
  "get_risk_dashboard sqlsum now c live s exchange market t =
     (let (st, t1) = compute_risk_state sqlsum now c live s exchange market None None t;
          logs = map (\<lambda>e. (e, policy_block_detail_from_log e)) (load_risk_logs 50 exchange market t1);
          blocks = filter (\<lambda>(_, d). d \<noteq> None) logs
      in (\<lparr>rd_state = st, rd_logs = logs, rd_latest_policy_block = head_row blocks, rd_policy_blocks = blocks, rd_config = c\<rparr>, t1))"

section \<open>Entering verdicts\<close>

lemma dict_get_dict_update:
  "dict_get (dict_update d e) k = (case map_of (rev e) k of None \<Rightarrow> dict_get d k | Some v \<Rightarrow> v)"
  by (simp add: dict_get_def map_of_dict_update split: option.split)

lemma block_result_allowed [simp]: "res_allowed (block_result code reason r) = False"
  by (simp add: block_result_def)

lemma enter_allowed:
  "res_allowed (fst (enter_verdict g (n, v))) \<longleftrightarrow> res_allowed (fst g) \<and> \<not> blocked_with v"
  by (cases g; cases v) (simp_all add: blocked_with_def)

lemma run_checks_snoc [simp]: "run_checks (vs @ [v]) r = enter_verdict (run_checks vs r) v"
  by (simp add: run_checks_def)

lemma run_checks_allowed:
  "res_allowed (fst (run_checks vs r)) \<longleftrightarrow> res_allowed r \<and> list_all (\<lambda>(_, v). \<not> blocked_with v) vs"
proof (induction vs rule: rev_induct)
  case Nil
  show ?case by (simp add: run_checks_def)
next
  case (snoc x vs)
  then show ?case by (cases x) (auto simp: enter_allowed)
qed

fun verdict_code :: "verdict \<Rightarrow> string" where
  "verdict_code (Block code _ _) = code"
| "verdict_code _ = []"

definition first_block :: "(string \<times> verdict) list \<Rightarrow> (string \<times> verdict) option" where
  "first_block vs = find (\<lambda>(_, v). blocked_with v) vs"

lemma first_block_None: "first_block vs = None \<longleftrightarrow> list_all (\<lambda>(_, v). \<not> blocked_with v) vs"
  by (induction vs) (auto simp: first_block_def)

lemma first_block_in: "first_block vs = Some x \<Longrightarrow> snd x \<in> snd ` set vs \<and> blocked_with (snd x)"
  by (induction vs) (auto simp: first_block_def split: if_splits)

lemma first_block_snoc:
  "first_block (vs @ [x]) = (case first_block vs of Some y \<Rightarrow> Some y
     | None \<Rightarrow> if blocked_with (snd x) then Some x else None)"
  by (induction vs) (auto simp: first_block_def split: prod.splits)

lemma run_checks_code:
  assumes "res_allowed r"
  shows "dict_get (fst (run_checks vs r)) ''block_code''
    = (case first_block vs of None \<Rightarrow> dict_get r ''block_code'' | Some (_, v) \<Rightarrow> VStr (verdict_code v))"
proof (induction vs rule: rev_induct)
  case Nil
  show ?case by (simp add: run_checks_def first_block_def)
next
  case (snoc x vs)
  obtain n v where x: "x = (n, v)" by (cases x)
  obtain a b where g: "run_checks vs r = (a, b)" by (cases "run_checks vs r")
  have al: "res_allowed a \<longleftrightarrow> first_block vs = None"
    using run_checks_allowed [of vs r] assms by (simp add: g first_block_None)
  show ?case
    using snoc by (cases v) (auto simp: x g al first_block_snoc blocked_with_def block_result_def split: option.splits)
qed

lemma finish_allowed:
  "res_allowed (finish_result i f most g) = res_allowed (fst g)"
  by (cases g) (simp add: finish_result_def final_level_def dict_get_dict_update)

lemma finish_code:
  "dict_get (finish_result i f most g) ''block_code'' = dict_get (fst g) ''block_code''"
  by (cases g) (simp add: finish_result_def final_level_def dict_get_dict_update)

lemma finish_most: "dict_get (finish_result i f most g) ''max_allowed_order_krw'' = most"
  by (cases g) (simp add: finish_result_def dict_get_dict_update)

text \<open>A result that is returned comes from a readable configuration and the checks of the order.\<close>

lemma check_order_riskE:
  assumes "check_order_risk sqlsum now rt live s i t = (Some r, t')"
  obtains c f most g where "risk_config_from_env rt = Some c" "f = risk_facts_of sqlsum now c live s i t"
    "g = run_checks (order_verdicts i f) (standard_result now (ri_base i) c)"
    "allowed_order_krw i f (fst g) = Some most" "r = finish_result i f most g"
  using assms by (auto simp: check_order_risk_def Let_def split: option.splits)

lemma facts_simps [simp]:
  "rf_config (risk_facts_of sqlsum now c live s i t) = c"
  "rf_emergency (risk_facts_of sqlsum now c live s i t) = emergency_stop live"
  "rf_db (risk_facts_of sqlsum now c live s i t) = s"
  "rf_amount (risk_facts_of sqlsum now c live s i t) = order_amount (ri_order i)"
  "rf_now (risk_facts_of sqlsum now c live s i t) = now"
  by (simp_all add: risk_facts_of_def Let_def split: prod.split)

lemma standard_allowed: "res_allowed (standard_result now base c)
   = truthy (dict_get_or (case_option [] id base) ''allowed'' (VBool True))"
  by (simp add: standard_result_def Let_def dict_get_dict_update)

definition base_allows :: "risk_input \<Rightarrow> bool" where
  "base_allows i = truthy (dict_get_or (case_option [] id (ri_base i)) ''allowed'' (VBool True))"

lemma checked_allowed:
  assumes "check_order_risk sqlsum now rt live s i t = (Some r, t')" "risk_config_from_env rt = Some c"
  shows "res_allowed r \<longleftrightarrow> base_allows i
    \<and> list_all (\<lambda>(_, v). \<not> blocked_with v) (order_verdicts i (risk_facts_of sqlsum now c live s i t))"
  using assms(1) by (rule check_order_riskE)
    (use assms(2) in \<open>simp add: finish_allowed run_checks_allowed standard_allowed base_allows_def\<close>)

lemma order_verdicts_pass:
  assumes "list_all (\<lambda>(_, v). \<not> blocked_with v) (order_verdicts i f)"
  shows "\<not> blocked_with (mode_verdict i f)" "\<not> blocked_with (exchange_verdict i f)" "\<not> blocked_with (order_type_verdict i)"
    "\<not> blocked_with (amount_verdict i f)" "\<not> blocked_with (policy_verdict i f)" "\<not> blocked_with (position_verdict i f)"
    "\<not> blocked_with (max_open_verdict i f)" "\<not> blocked_with (symbol_verdict i f)"
    "\<not> blocked_with (daily_limit_verdict i f)" "\<not> blocked_with (loss_streak_verdict i f)"
    "\<not> blocked_with (cooldown_verdict f)" "\<not> blocked_with (loss_cooldown_verdict i f)"
  using assms by (simp_all add: order_verdicts_def Let_def)

lemmas verdict_defs = blocked_with_def plain_block_def pass_def

lemma amount_passes: "\<not> blocked_with (amount_verdict i f) \<Longrightarrow> \<not> ri_profit_engine i \<Longrightarrow> rf_amount f \<le> max_order_krw (rf_config f)"
  by (auto simp: amount_verdict_def verdict_defs split: if_splits)

lemma policy_passes:
  assumes "\<not> blocked_with (policy_verdict i f)" "entry_buy i f" "ri_is_auto i"
  shows "pol_enabled (rf_policy f)" "pol_max_exposure (rf_policy f) > 0"
    "\<not> ri_profit_engine i \<Longrightarrow> fadd (rf_value f) (rf_amount f) \<le> pol_max_exposure (rf_policy f)"
    "ri_balances i \<noteq> None \<Longrightarrow> rf_amount f \<le> rf_available f"
    "daily_loss_limit_krw (rf_policy f) > 0 \<Longrightarrow> day_loss f < daily_loss_limit_krw (rf_policy f)"
  using assms by (auto simp: policy_verdict_def verdict_defs Let_def split: if_splits)

lemma daily_passes:
  assumes "\<not> blocked_with (daily_limit_verdict i f)" "ri_purpose i = ''ENTRY''"
  shows "max_orders_per_day (rf_config f) > 0 \<Longrightarrow> rk_orders (rf_state f) < max_orders_per_day (rf_config f)"
    "max_entry_orders_per_day (rf_config f) > 0 \<Longrightarrow> rk_entries (rf_state f) < max_entry_orders_per_day (rf_config f)"
    "day_loss f < max_daily_loss_krw (rf_config f)" "rk_loss_percent (rf_state f) < max_daily_loss_percent (rf_config f)"
  using assms by (auto simp: daily_limit_verdict_def verdict_defs Let_def split: if_splits)

lemma mode_passes: "\<not> blocked_with (mode_verdict i f) \<Longrightarrow> \<not> rf_emergency f"
  by (auto simp: mode_verdict_def verdict_defs split: if_splits)

lemma block_result_keeps: "k \<notin> {''allowed'', ''risk_level'', ''block_code'', ''block_reason''}
    \<Longrightarrow> map_of (block_result code reason r) k = map_of r k"
  by (auto simp: block_result_def)

lemma run_checks_keeps:
  "dict_get_or (fst (run_checks vs r)) ''max_allowed_order_krw'' d = dict_get_or r ''max_allowed_order_krw'' d"
proof (induction vs rule: rev_induct)
  case Nil
  show ?case by (simp add: run_checks_def)
next
  case (snoc x vs)
  obtain n v where x: "x = (n, v)" by (cases x)
  obtain a b where g: "run_checks vs r = (a, b)" by (cases "run_checks vs r")
  show ?case using snoc by (cases v) (simp_all add: x g dict_get_or_def block_result_keeps)
qed

lemma standard_most: "dict_get_or (standard_result now base c) ''max_allowed_order_krw'' d
   = dict_get_or (case_option [] id base) ''max_allowed_order_krw'' (VFloat (max_order_krw c))"
  by (simp add: standard_result_def Let_def dict_get_or_def map_of_dict_update)

lemma duplicate_codes:
  "duplicate_order_exists s x m side rid a c q \<in> {None, Some ''BLOCKED_DUPLICATE_REQUEST'', Some ''BLOCKED_DUPLICATE_CANDLE''}"
  unfolding duplicate_order_exists_def by (simp split del: option.split)

text \<open>The block codes an exit order can get.\<close>

definition exit_codes :: "string list" where
  "exit_codes = [''BLOCKED_EMERGENCY_STOP'', ''BLOCKED_INVALID_MODE'',
     ''BLOCKED_EXCHANGE_NOT_ALLOWED'', ''BLOCKED_MARKET_NOT_ALLOWED'', ''BLOCKED_ORDER_TYPE_NOT_ALLOWED'',
     ''BLOCKED_MARKET_ORDER_DISABLED'', ''BLOCKED_MAX_ORDER_AMOUNT'', ''BLOCKED_OPEN_ORDER_EXISTS'',
     ''BLOCKED_PARTIAL_FILL_UNSUPPORTED'', ''BLOCKED_BALANCE_MISMATCH'', ''BLOCKED_MAX_ORDERS_PER_DAY'',
     ''BLOCKED_MAX_EXIT_ORDERS_PER_DAY'', ''BLOCKED_COOLDOWN'', ''BLOCKED_DUPLICATE_REQUEST'', ''BLOCKED_DUPLICATE_CANDLE'']"

definition exit_verdict :: "verdict \<Rightarrow> bool" where
  "exit_verdict v \<longleftrightarrow> (case v of Block code _ _ \<Rightarrow> code \<in> set exit_codes | _ \<Rightarrow> True)"

lemma exit_verdict_simps [simp]:
  "exit_verdict NoVerdict" "exit_verdict (Pass e)" "exit_verdict pass"
  "exit_verdict (Block code r d) \<longleftrightarrow> code \<in> set exit_codes"
  "exit_verdict (plain_block code) \<longleftrightarrow> code \<in> set exit_codes"
  by (simp_all add: exit_verdict_def pass_def plain_block_def)

lemma flag_exit [simp]: "code \<in> set exit_codes \<Longrightarrow> exit_verdict (flag_verdict b code)"
  by (simp add: flag_verdict_def)

lemma single_exit_verdicts:
  "exit_verdict (mode_verdict i f)" "exit_verdict (exchange_verdict i f)" "exit_verdict (order_type_verdict i)"
  "exit_verdict (amount_verdict i f)" "exit_verdict (cooldown_verdict f)"
  "exit_verdict (option_verdict (duplicate_order_exists s x m side rid a c q))"
  using duplicate_codes [of s x m side rid a c q]
  by (auto simp: mode_verdict_def exchange_verdict_def order_type_verdict_def amount_verdict_def cooldown_verdict_def
      option_verdict_def exit_codes_def Let_def)

lemma exit_only_verdicts:
  assumes "ri_purpose i = ''EXIT''"
  shows "exit_verdict (policy_verdict i f)" "exit_verdict (position_verdict i f)" "exit_verdict (max_open_verdict i f)"
    "exit_verdict (symbol_verdict i f)" "exit_verdict (daily_limit_verdict i f)" "exit_verdict (loss_streak_verdict i f)"
    "exit_verdict (loss_cooldown_verdict i f)"
  using assms
  by (simp_all add: policy_verdict_def position_verdict_def max_open_verdict_def symbol_verdict_def entry_buy_def
      daily_limit_verdict_def loss_streak_verdict_def loss_cooldown_verdict_def flag_verdict_def Let_def exit_codes_def)

lemma exit_verdict_codes:
  assumes "ri_purpose i = ''EXIT''" and "v \<in> snd ` set (order_verdicts i f)" "blocked_with v"
  shows "verdict_code v \<in> set exit_codes"
proof -
  have "list_all (\<lambda>x. exit_verdict (snd x)) (order_verdicts i f)"
    using assms(1) by (simp add: order_verdicts_def Let_def single_exit_verdicts exit_only_verdicts)
      (simp add: exit_codes_def)
  then have "exit_verdict v" using assms(2) by (auto simp: list_all_iff)
  then show ?thesis using assms(3) by (cases v) (simp_all add: blocked_with_def)
qed

section \<open>The table of risk states\<close>

definition risk_rows_ok :: "risk_tables \<Rightarrow> bool" where
  "risk_rows_ok t \<longleftrightarrow> distinct (map (risk_key \<circ> rr_state) (risk_states t)) \<and> distinct (map rr_id (risk_states t))
     \<and> list_all (\<lambda>r. rr_id r \<le> risk_seq t) (risk_states t)"

lemma upsert_risk_state_ok:
  assumes "risk_rows_ok t"
  shows "risk_rows_ok (upsert_risk_state now st t)"
proof (cases "first_row (\<lambda>r. risk_key (rr_state r) = risk_key st) (risk_states t)")
  case None
  then have "risk_key st \<notin> set (map (risk_key \<circ> rr_state) (risk_states t))"
    by (auto simp: first_row_None_iff)
  moreover have "risk_seq t + 1 \<notin> set (map rr_id (risk_states t))"
    using assms by (fastforce simp: risk_rows_ok_def list_all_iff)
  ultimately show ?thesis
    using assms None by (auto simp: risk_rows_ok_def upsert_risk_state_def list_all_iff)
next
  case (Some row)
  show ?thesis
    using assms Some by (simp add: risk_rows_ok_def upsert_risk_state_def map_update_where list_all_update_where
        risk_key_def comp_def) (auto simp: list_all_iff)
qed

lemma upsert_risk_state_row:
  assumes "risk_rows_ok t"
  shows "list_ex (\<lambda>r. rr_state r = st) (risk_states (upsert_risk_state now st t))"
proof (cases "first_row (\<lambda>r. risk_key (rr_state r) = risk_key st) (risk_states t)")
  case None
  then show ?thesis by (simp add: upsert_risk_state_def)
next
  case (Some row)
  have row: "row \<in> set (risk_states t)" "risk_key (rr_state row) = risk_key st"
    using first_row_SomeD [OF Some] by auto
  have "st\<lparr>rk_exchange := rk_exchange (rr_state row), rk_market := rk_market (rr_state row),
      rk_date := rk_date (rr_state row)\<rparr> = st"
    using row(2) by (simp add: risk_key_def)
  then show ?thesis
    using Some row(1) by (simp add: upsert_risk_state_def list_ex_iff set_update_where bex_Un) blast
qed

lemma policy_keeps_rows [simp]:
  "risk_states (snd (load_global_bot_operation_policy now t)) = risk_states t"
  "risk_seq (snd (load_global_bot_operation_policy now t)) = risk_seq t"
  by (simp_all add: load_global_bot_operation_policy_def load_bot_operation_policy_def Let_def split: option.split)

lemma compute_keeps_rows_ok: "risk_rows_ok t \<Longrightarrow> risk_rows_ok (snd (compute_risk_state sqlsum now c live s exchange market m e t))"
  by (simp add: compute_risk_state_def Let_def upsert_risk_state_ok)

lemma risk_rows_ok_cong: "risk_states t' = risk_states t \<Longrightarrow> risk_seq t' = risk_seq t \<Longrightarrow> risk_rows_ok t' = risk_rows_ok t"
  by (simp add: risk_rows_ok_def)

lemma compute_row:
  "risk_rows_ok t \<Longrightarrow> list_ex (\<lambda>r. rr_state r = fst (compute_risk_state sqlsum now c live s x m q e t))
     (risk_states (snd (compute_risk_state sqlsum now c live s x m q e t)))"
  by (simp add: compute_risk_state_def Let_def upsert_risk_state_row)

definition first_compute where
  "first_compute sqlsum now c live s i t = compute_risk_state sqlsum now c live s
     (py_lower (py_str (dict_get_or (ri_order i) ''exchange'' (VStr ''bithumb''))))
     (py_str (dict_get_or (ri_order i) ''market'' (VStr ''KRW-BTC''))) (ri_mismatch i) (Some (effective_equity i)) t"

lemma facts_compute:
  "rf_state (risk_facts_of sqlsum now c live s i t) = fst (first_compute sqlsum now c live s i t)"
  "rf_tables (risk_facts_of sqlsum now c live s i t)
     = snd (load_global_bot_operation_policy now (snd (first_compute sqlsum now c live s i t)))"
  by (simp_all add: risk_facts_of_def first_compute_def Let_def case_prod_beta)

lemma facts_tables_ok:
  assumes "risk_rows_ok t"
  shows "risk_rows_ok (rf_tables (risk_facts_of sqlsum now c live s i t))"
    "list_ex (\<lambda>r. rr_state r = rf_state (risk_facts_of sqlsum now c live s i t)) (risk_states (rf_tables (risk_facts_of sqlsum now c live s i t)))"
  using compute_keeps_rows_ok [OF assms] compute_row [OF assms]
  by (simp_all add: facts_compute first_compute_def risk_rows_ok_def)

text \<open>Computing the state again with the flag it found gives the same state.\<close>

lemma recompute_same:
  "fst (compute_risk_state sqlsum now c live s (rf_exchange (risk_facts_of sqlsum now c live s i t))
      (rf_market (risk_facts_of sqlsum now c live s i t)) (Some (rk_mismatch (rf_state (risk_facts_of sqlsum now c live s i t))))
      (Some (effective_equity i)) t1) = rf_state (risk_facts_of sqlsum now c live s i t)"
proof -
  have "rk_mismatch (day_state sqlsum now c e s x m flag q) = flag" for e x m flag q by (simp add: day_state_def Let_def)
  then show ?thesis by (simp add: risk_facts_of_def compute_risk_state_def Let_def case_prod_beta)
qed

lemma insert_log_ok [simp]: "risk_rows_ok (insert_risk_log e t) = risk_rows_ok t"
  by (simp add: risk_rows_ok_def insert_risk_log_def)

section \<open>Samples\<close>

definition plain_runtime :: runtime where
  "plain_runtime = \<lparr>environ = (\<lambda>_. None), app_settings = []\<rparr>"

definition plain_sum :: "rat list \<Rightarrow> rat" where "plain_sum xs = foldl fadd 0 xs"

definition armed_mode :: mode_state where
  "armed_mode = \<lparr>the_mode = LiveManualOnly, emergency_stop = False\<rparr>"

definition sample_tables :: risk_tables where
  "sample_tables = \<lparr>risk_states = [], risk_seq = 0, risk_logs = [],
     policies = [\<lparr>pol_market = ''KRW-BTC'', pol_enabled = True, pol_max_exposure = 500000, pol_loss_pct = 3,
       pol_created_at = 0, pol_updated_at = 0\<rparr>], universe = [], candidates = []\<rparr>"

definition sample_input :: "string \<Rightarrow> int \<Rightarrow> risk_input" where
  "sample_input purpose amount = \<lparr>ri_order = [(''exchange'', VStr ''bithumb''), (''market'', VStr ''KRW-BTC''),
       (''side'', VStr (if purpose = ''ENTRY'' then ''BUY'' else ''SELL'')),
       (''order_type'', VStr ''LIMIT''), (''amount_krw'', VInt amount), (''request_id'', VStr ''r-1'')],
     ri_purpose = purpose, ri_base = None, ri_mode = ''AUTO_STRATEGY_RUNNING'', ri_session = Some 1, ri_position = None,
     ri_candidate = Some 7, ri_candle = Some 900, ri_snapshot = None,
     ri_balances = Some [(''balances'', VList [VDict [(''currency'', VStr ''KRW''), (''balance'', VStr ''300000''), (''locked'', VStr ''0'')]])],
     ri_equity = None, ri_mismatch = Some False, ri_is_auto = True, ri_profit_engine = False\<rparr>"

section \<open>Properties\<close>

text \<open>
  C2. What the gate lets through is within the limits. For an automatic buy an allowed result means:
  the emergency stop is off, automatic trading is on, the policy's exposure is positive, the order
  is within the available balance when balances are known, the day's order counts are below
  their limits and the day's loss is below the policy's and the configuration's limits. Unless the
  order is an entry of the profit engine, which the gate exempts from these two, the value of the
  open positions plus the order is within the policy's exposure and the order is within the
  maximum order.
\<close>

theorem allowed_entry_is_within_limits:
  assumes "map_option (\<lambda>r. res_allowed r) (fst (check_order_risk sqlsum now rt live s i t)) = Some True"
    and "risk_config_from_env rt = Some c" and "f = risk_facts_of sqlsum now c live s i t"
    and "entry_buy i f" "ri_is_auto i"
  shows "\<not> emergency_stop live \<and> pol_enabled (rf_policy f) \<and> pol_max_exposure (rf_policy f) > 0
    \<and> (ri_profit_engine i \<or> fadd (rf_value f) (rf_amount f) \<le> pol_max_exposure (rf_policy f) \<and> rf_amount f \<le> max_order_krw c)
    \<and> (ri_balances i \<noteq> None \<longrightarrow> rf_amount f \<le> rf_available f)
    \<and> (max_orders_per_day c > 0 \<longrightarrow> rk_orders (rf_state f) < max_orders_per_day c)
    \<and> (max_entry_orders_per_day c > 0 \<longrightarrow> rk_entries (rf_state f) < max_entry_orders_per_day c)
    \<and> day_loss f < max_daily_loss_krw c \<and> rk_loss_percent (rf_state f) < max_daily_loss_percent c
    \<and> (daily_loss_limit_krw (rf_policy f) > 0 \<longrightarrow> day_loss f < daily_loss_limit_krw (rf_policy f))"
proof -
  obtain r t' where "check_order_risk sqlsum now rt live s i t = (Some r, t')" "res_allowed r"
    using assms(1) by (cases "check_order_risk sqlsum now rt live s i t") auto
  then have passed: "list_all (\<lambda>(_, v). \<not> blocked_with v) (order_verdicts i f)"
    using checked_allowed assms(2,3) by blast
  note v = order_verdicts_pass [OF passed]
  have entry: "ri_purpose i = ''ENTRY''" using assms(4) by (simp add: entry_buy_def)
  have c: "rf_config f = c" "rf_emergency f = emergency_stop live" by (simp_all add: assms(3))
  show ?thesis
    using policy_passes [OF v(5) assms(4,5)] amount_passes [OF v(4)] daily_passes [OF v(9) entry] mode_passes [OF v(1)]
    unfolding c by blast
qed

theorem allowed_entry_is_within_limits_witness:
  "pol_enabled (rf_policy (risk_facts_of plain_sum 1000
      (case risk_config_from_env plain_runtime of Some c \<Rightarrow> c) armed_mode empty_db (sample_input ''ENTRY'' 20000) sample_tables))"
proof -
  have a: "map_option (\<lambda>r. res_allowed r) (fst (check_order_risk plain_sum 1000 plain_runtime armed_mode empty_db
      (sample_input ''ENTRY'' 20000) sample_tables)) = Some True"
    by code_simp
  have b: "risk_config_from_env plain_runtime = Some (case risk_config_from_env plain_runtime of Some c \<Rightarrow> c)"
    by code_simp
  have e: "entry_buy (sample_input ''ENTRY'' 20000) (risk_facts_of plain_sum 1000
      (case risk_config_from_env plain_runtime of Some c \<Rightarrow> c) armed_mode empty_db (sample_input ''ENTRY'' 20000) sample_tables)"
    by code_simp
  show ?thesis
    using allowed_entry_is_within_limits [OF a b refl e] by (simp add: sample_input_def)
qed

text \<open>
  C12. The gate decides by its checks, in their order. When the caller's own check allowed the
  order, the result is allowed exactly when no check blocks; otherwise the reported block code is
  the code of the first blocking check, and the newest row of the risk log carries it.
\<close>

theorem first_blocking_check_is_reported:
  assumes "fst (check_order_risk sqlsum now rt live s i t) = Some r" "risk_config_from_env rt = Some c" "base_allows i"
  shows "case first_block (order_verdicts i (risk_facts_of sqlsum now c live s i t)) of
      None \<Rightarrow> res_allowed r
    | Some (_, v) \<Rightarrow> \<not> res_allowed r \<and> dict_get r ''block_code'' = VStr (verdict_code v)
        \<and> map_option (\<lambda>e. (rl_code e, rl_allowed e)) (head_row (rev (risk_logs (snd (check_order_risk sqlsum now rt live s i t)))))
          = Some (VStr (verdict_code v), False)"
proof -
  let ?f = "risk_facts_of sqlsum now c live s i t"
  let ?g = "run_checks (order_verdicts i ?f) (standard_result now (ri_base i) c)"
  have std: "res_allowed (standard_result now (ri_base i) c)" using assms(3) by (simp add: standard_allowed base_allows_def)
  obtain most where most: "allowed_order_krw i ?f (fst ?g) = Some most" and r: "r = finish_result i ?f most ?g"
    using assms(1,2) by (auto simp: check_order_risk_def Let_def split: option.splits)
  have al: "res_allowed r \<longleftrightarrow> first_block (order_verdicts i ?f) = None"
    by (simp add: r finish_allowed run_checks_allowed std first_block_None)
  have code: "dict_get r ''block_code'' = (case first_block (order_verdicts i ?f) of
      None \<Rightarrow> dict_get (standard_result now (ri_base i) c) ''block_code'' | Some (_, v) \<Rightarrow> VStr (verdict_code v))"
    by (simp add: r finish_code run_checks_code [OF std])
  have logs: "risk_logs (snd (check_order_risk sqlsum now rt live s i t)) = risk_logs (rf_tables ?f) @ [risk_log_of i ?f r]"
    using most assms(2) by (auto simp: check_order_risk_def Let_def r insert_risk_log_def compute_risk_state_def
        upsert_risk_state_def split: option.splits)
  show ?thesis using al code by (auto simp: logs risk_log_of_def split: option.splits prod.splits)
qed

theorem first_blocking_check_is_reported_witness:
  "dict_get (case fst (check_order_risk plain_sum 1000 plain_runtime armed_mode empty_db (sample_input ''ENTRY'' 40000) sample_tables)
     of Some r \<Rightarrow> r) ''block_code'' = VStr ''BLOCKED_MAX_ORDER_AMOUNT''"
proof -
  let ?i = "sample_input ''ENTRY'' 40000"
  let ?q = "check_order_risk plain_sum 1000 plain_runtime armed_mode empty_db ?i sample_tables"
  let ?c = "case risk_config_from_env plain_runtime of Some c \<Rightarrow> c"
  have a: "fst ?q = Some (case fst ?q of Some r \<Rightarrow> r)" by code_simp
  have b: "risk_config_from_env plain_runtime = Some ?c" by code_simp
  have e: "base_allows ?i" by code_simp
  have v: "map_option (\<lambda>(n, v). verdict_code v) (first_block (order_verdicts ?i
     (risk_facts_of plain_sum 1000 ?c armed_mode empty_db ?i sample_tables))) = Some ''BLOCKED_MAX_ORDER_AMOUNT''"
    by code_simp
  show ?thesis using first_blocking_check_is_reported [OF a b e] v by (auto split: option.splits)
qed

text \<open>
  C9. Losses never stop an exit. When an exit order passes the caller's check and the gate blocks
  it, the code is one of the emergency stop, the mode, the exchange, market and type of the order,
  its amount, an open order, a partial fill, a balance mismatch, the day's order counts, the
  cooldown after an order and the duplicate tests: the loss limits, the loss streak, the loss
  cooldown, the policy, the open positions and the state of the market are never the reason.
\<close>

theorem losses_never_block_an_exit:
  assumes "fst (check_order_risk sqlsum now rt live s i t) = Some r" "base_allows i" "ri_purpose i = ''EXIT''"
  shows "res_allowed r \<or> dict_get r ''block_code'' \<in> VStr ` set exit_codes"
proof -
  obtain c f most g where c: "risk_config_from_env rt = Some c" and f: "f = risk_facts_of sqlsum now c live s i t"
    and g: "g = run_checks (order_verdicts i f) (standard_result now (ri_base i) c)" and r: "r = finish_result i f most g"
    using assms(1) check_order_riskE [of sqlsum now rt live s i t r "snd (check_order_risk sqlsum now rt live s i t)"]
    by (metis prod.collapse)
  have std: "res_allowed (standard_result now (ri_base i) c)" using assms(2) by (simp add: standard_allowed base_allows_def)
  show ?thesis
  proof (cases "first_block (order_verdicts i f)")
    case None
    then show ?thesis by (simp add: r g finish_allowed run_checks_allowed std first_block_None)
  next
    case (Some x)
    obtain n v where x: "x = (n, v)" by (cases x)
    have code: "dict_get r ''block_code'' = VStr (verdict_code v)"
      by (simp add: r g finish_code run_checks_code [OF std] Some x)
    have "v \<in> snd ` set (order_verdicts i f)" "blocked_with v"
      using first_block_in [OF Some] by (simp_all add: x)
    then show ?thesis using exit_verdict_codes [OF assms(3)] code by blast
  qed
qed

theorem losses_never_block_an_exit_witness:
  "res_allowed (case fst (check_order_risk plain_sum 1000 plain_runtime armed_mode empty_db (sample_input ''EXIT'' 40000) sample_tables)
     of Some r \<Rightarrow> r) = False"
proof -
  let ?i = "sample_input ''EXIT'' 40000"
  let ?q = "check_order_risk plain_sum 1000 plain_runtime armed_mode empty_db ?i sample_tables"
  have a: "fst ?q = Some (case fst ?q of Some r \<Rightarrow> r)" by code_simp
  have e: "base_allows ?i" "ri_purpose ?i = ''EXIT''" by code_simp+
  have "res_allowed (case fst ?q of Some r \<Rightarrow> r) = False" by code_simp
  then show ?thesis using losses_never_block_an_exit [OF a e] by blast
qed

text \<open>
  C18. The day's profit and loss never resets. Let every position have been opened by the end of
  a day; the realised, unrealised and total figures of any later day are then those of
  that day, however long ago the positions were closed. The daily loss limits act on the profit
  and loss of all time.
\<close>

theorem daily_pnl_never_resets:
  assumes "list_all (\<lambda>p. pos_created_at p < snd (kst_day_bounds_utc (kst_date now))) (positions s)" "now \<le> later"
  shows "rk_realized (day_state sqlsum later c e s exchange market m q) = rk_realized (day_state sqlsum now c e s exchange market m q)
    \<and> rk_unrealized (day_state sqlsum later c e s exchange market m q) = rk_unrealized (day_state sqlsum now c e s exchange market m q)
    \<and> rk_total (day_state sqlsum later c e s exchange market m q) = rk_total (day_state sqlsum now c e s exchange market m q)"
proof -
  have "kst_date now \<le> kst_date later" using assms(2) by (simp add: kst_date_def zdiv_mono1)
  then have "list_all (\<lambda>p. pos_created_at p < snd (kst_day_bounds_utc (kst_date later))) (positions s)"
    using assms(1) by (auto simp: list_all_iff kst_day_bounds_utc_def)
  then have "day_positions s exchange market (kst_date later) = day_positions s exchange market (kst_date now)"
    using assms(1) unfolding day_positions_def by (intro filter_cong) (auto simp: list_all_iff)
  then show ?thesis by (simp add: day_state_def Let_def)
qed

definition old_loss :: db where
  "old_loss = empty_db\<lparr>positions := [sample_position\<lparr>pos_status := ''CLOSED'', realized_pnl := - 12000,
     pos_created_at := 0, closed_at := Some 600\<rparr>]\<rparr>"

theorem daily_pnl_never_resets_witness:
  "rk_total (day_state plain_sum (100 * 86400) (case risk_config_from_env plain_runtime of Some c \<Rightarrow> c) False old_loss
     ''bithumb'' ''KRW-BTC'' False None) = - 12000
   \<and> rk_status (day_state plain_sum (100 * 86400) (case risk_config_from_env plain_runtime of Some c \<Rightarrow> c) False old_loss
     ''bithumb'' ''KRW-BTC'' False None) = ''BLOCKED''"
proof -
  let ?c = "case risk_config_from_env plain_runtime of Some c \<Rightarrow> c"
  have h: "list_all (\<lambda>p. pos_created_at p < snd (kst_day_bounds_utc (kst_date 600))) (positions old_loss)" by code_simp
  have "rk_total (day_state plain_sum 600 ?c False old_loss ''bithumb'' ''KRW-BTC'' False None) = - 12000" by code_simp
  moreover have "rk_status (day_state plain_sum (100 * 86400) ?c False old_loss ''bithumb'' ''KRW-BTC'' False None) = ''BLOCKED''"
    by code_simp
  ultimately show ?thesis
    using daily_pnl_never_resets [OF h, of "100 * 86400" plain_sum ?c False "''bithumb''" "''KRW-BTC''" False None] by simp
qed

text \<open>
  C33. One row per day. The table of risk states keeps at most one row for an exchange, market and
  Korean day, with ids that the counter has passed, through every check of an order, whatever its
  result, exceptions included; and the state the check decided on is one of its rows afterwards.
\<close>

theorem one_risk_row_per_day:
  assumes "risk_rows_ok t"
  shows "risk_rows_ok (snd (check_order_risk sqlsum now rt live s i t))
    \<and> (case risk_config_from_env rt of None \<Rightarrow> True
       | Some c \<Rightarrow> list_ex (\<lambda>r. rr_state r = rf_state (risk_facts_of sqlsum now c live s i t))
           (risk_states (snd (check_order_risk sqlsum now rt live s i t))))"
proof (cases "risk_config_from_env rt")
  case None
  then show ?thesis using assms by (simp add: check_order_risk_def)
next
  case (Some c)
  let ?f = "risk_facts_of sqlsum now c live s i t"
  note f = facts_tables_ok [OF assms, of sqlsum now c live s i]
  have again: "list_ex (\<lambda>r. rr_state r = rf_state ?f) (risk_states (snd (compute_risk_state sqlsum now c live s
     (rf_exchange ?f) (rf_market ?f) (Some (rk_mismatch (rf_state ?f))) (Some (effective_equity i)) (insert_risk_log e (rf_tables ?f)))))" for e
    using compute_row [of "insert_risk_log e (rf_tables ?f)"] f(1) by (metis recompute_same insert_log_ok)
  have logs: "risk_states (insert_risk_log e u) = risk_states u" for e u by (simp add: insert_risk_log_def)
  show ?thesis
    by (simp add: check_order_risk_def Some Let_def f compute_keeps_rows_ok again logs split: option.split)
qed

theorem one_risk_row_per_day_witness:
  "risk_rows_ok (snd (check_order_risk plain_sum 1000 plain_runtime armed_mode empty_db (sample_input ''ENTRY'' 20000) sample_tables))"
proof -
  have "risk_rows_ok sample_tables" by (simp add: risk_rows_ok_def sample_tables_def)
  then show ?thesis by (rule one_risk_row_per_day [THEN conjunct1])
qed



end
