(* ===== verification/LiveRecovery.thy ===== *)
theory LiveRecovery
  imports PositionSync RiskManager
begin

text \<open>
  Recovery and reconciliation of live orders (\<open>app/live_recovery.py\<close>): reading an exchange order,
  booking its fill on the order's log row and on the position it closes, recovering positions of
  filled entries, comparing balances with positions, the synchronisation of all open orders and the
  restart. The answers of the exchange are arguments; a failed request is an error value with its
  message. The trade outcome statistics and the message texts of the events are left out.
\<close>

section \<open>Recovery events\<close>

text \<open>Equal events within the window are written once.\<close>

definition recovery_event_dedupe_seconds :: "runtime \<Rightarrow> int" where
  "recovery_event_dedupe_seconds rt =
     (case parse_int (env_text rt ''LIVE_RECOVERY_EVENT_DEDUPE_SECONDS'' ''300'') of None \<Rightarrow> 300 | Some n \<Rightarrow> max n 0)"

definition rounded :: "nat \<Rightarrow> pydict \<Rightarrow> string \<Rightarrow> rat" where
  "rounded p d k = float_round p (to_float (dict_get d k))"

definition balance_mismatch_signature :: "pydict \<Rightarrow> rat \<times> rat \<times> rat \<times> int" where
  "balance_mismatch_signature d = (rounded 12 d ''internal_btc_position'', rounded 12 d ''exchange_btc_total'',
     rounded 12 d ''difference_btc'', int_or 0 (dict_get d ''open_position_count''))"

definition order_sync_signature ::
  "string option \<Rightarrow> string option \<Rightarrow> pydict \<Rightarrow> string \<times> string \<times> string \<times> rat \<times> rat \<times> rat" where
  "order_sync_signature rid uuid d = (os rid, os uuid, (let v = dict_get d ''status'' in if truthy v then py_str v else []),
     rounded 12 d ''executed_volume'', rounded 12 d ''remaining_volume'', rounded 8 d ''filled_amount_krw'')"

definition order_sync_types :: "string list" where
  "order_sync_types = [''OPEN_ORDER_SYNC'', ''OPEN_ORDER_DETAIL_RECONCILED'', ''OPEN_ORDER_SYNC_MISSING'']"

definition recent_event :: "int \<Rightarrow> int \<Rightarrow> recovery_event \<Rightarrow> recovery_event \<Rightarrow> bool" where
  "recent_event now window e old \<longleftrightarrow> ev_exchange old = ev_exchange e \<and> ev_market old = ev_market e
     \<and> now - ev_created_at old \<le> window"

definition should_suppress_recovery_event :: "int \<Rightarrow> int \<Rightarrow> recovery_event \<Rightarrow> db \<Rightarrow> bool" where
  "should_suppress_recovery_event now window e s \<longleftrightarrow> ev_type e = ''BALANCE_MISMATCH'' \<and> window > 0
     \<and> list_ex (\<lambda>old. ev_type old = ev_type e \<and> recent_event now window e old
          \<and> balance_mismatch_signature (ev_payload old) = balance_mismatch_signature (ev_payload e))
         (load_live_recovery_events 10 s)"

definition should_suppress_order_sync_event :: "int \<Rightarrow> int \<Rightarrow> recovery_event \<Rightarrow> db \<Rightarrow> bool" where
  "should_suppress_order_sync_event now window e s \<longleftrightarrow> ev_type e \<in> set order_sync_types \<and> window > 0
     \<and> list_ex (\<lambda>old. ev_type old \<in> set order_sync_types \<and> recent_event now window e old
          \<and> order_sync_signature (ev_request_id old) (ev_order_uuid old) (ev_payload old)
            = order_sync_signature (ev_request_id e) (ev_order_uuid e) (ev_payload e))
         (load_live_recovery_events 20 s)"

definition recovery_event_of ::
  "string \<Rightarrow> string \<Rightarrow> string \<Rightarrow> string \<Rightarrow> int option \<Rightarrow> string option \<Rightarrow> string option \<Rightarrow> pydict \<Rightarrow> recovery_event" where
  "recovery_event_of ty severity exchange market session rid uuid payload =
     \<lparr>ev_type = ty, ev_severity = severity, ev_exchange = exchange, ev_market = market, ev_session_id = session,
      ev_request_id = rid, ev_order_uuid = uuid, ev_payload = payload, ev_created_at = 0\<rparr>"

definition log_recovery_event :: "int \<Rightarrow> runtime \<Rightarrow> recovery_event \<Rightarrow> db \<Rightarrow> db" where
  "log_recovery_event now rt e s =
     (let window = recovery_event_dedupe_seconds rt in
      if should_suppress_recovery_event now window e s \<or> should_suppress_order_sync_event now window e s then s
      else insert_live_recovery_event now e s)"

section \<open>Reading an exchange order\<close>

record reconciled =
  rc_status :: string
  rc_executed :: rat
  rc_remaining :: rat
  rc_amount :: rat
  rc_fee :: rat
  rc_raw :: pydict

definition raw_order_uuid :: "pydict \<Rightarrow> string" where
  "raw_order_uuid d = os (or_text (raw_text d ''uuid'') (or_text (raw_text d ''order_id'') (raw_text d ''id'')))"

definition raw_client_order_id :: "pydict \<Rightarrow> string" where
  "raw_client_order_id d = os (or_text (raw_text d ''client_order_id'') (raw_text d ''identifier''))"

definition raw_state :: "pydict \<Rightarrow> string" where
  "raw_state d = py_lower (os (or_text (raw_text d ''state'') (raw_text d ''status'')))"

fun trades_value :: "rat \<Rightarrow> pyval list \<Rightarrow> rat" where
  "trades_value total' [] = total'"
| "trades_value total' (VDict t # ts) = trades_value (fadd total' (fmul (raw_num t ''price'') (raw_num t ''volume''))) ts"
| "trades_value total' (v # ts) = trades_value total' ts"

definition filled_amount_krw_of :: "pydict \<Rightarrow> rat \<Rightarrow> rat \<Rightarrow> rat" where
  "filled_amount_krw_of d executed price =
     (let explicit = num_or (raw_num d ''paid_amount'') (raw_num d ''executed_funds'');
          traded = trades_value 0 (as_list (dict_get d ''trades''))
      in if explicit > 0 then explicit else if traded > 0 then traded else fmul executed price)"

definition order_state :: "string \<Rightarrow> rat \<Rightarrow> rat \<Rightarrow> string" where
  "order_state state executed remaining =
     (if executed > 0 \<and> remaining > 0 then ''PARTIALLY_FILLED''
      else if state \<in> {''done'', ''filled'', ''completed''} \<or> executed > 0 \<and> remaining \<le> 0 then ''FILLED''
      else if state \<in> {''cancel'', ''canceled'', ''cancelled''} then ''CANCELED''
      else if state \<in> {''wait'', ''waiting'', ''watch''} \<or> remaining > 0 then ''WAITING''
      else ''SUBMITTED'')"

definition normalize_exchange_order :: "pydict \<Rightarrow> reconciled" where
  "normalize_exchange_order d =
     (let executed = raw_num d ''executed_volume'';
          remaining0 = raw_num d ''remaining_volume'';
          requested = raw_num d ''volume'';
          remaining = (if remaining0 \<le> 0 \<and> requested > 0 \<and> executed > 0 then max (fsub requested executed) 0 else remaining0)
      in \<lparr>rc_status = order_state (raw_state d) executed remaining, rc_executed = executed, rc_remaining = remaining,
          rc_amount = filled_amount_krw_of d executed (raw_num d ''price''),
          rc_fee = num_or (raw_num d ''paid_fee'') (raw_num d ''reserved_fee''), rc_raw = d\<rparr>)"

definition risk_result_for_status :: "string \<Rightarrow> string \<Rightarrow> string" where
  "risk_result_for_status status fallback =
     (if status = ''PARTIALLY_FILLED'' then ''PARTIAL_FILL_REQUIRES_RECOVERY''
      else if status = ''FILLED'' then ''EXCHANGE_FILLED_SYNCED''
      else if status = ''CANCELED'' then ''EXCHANGE_CANCELED_SYNCED''
      else if status = ''WAITING'' then ''ALLOWED'' else fallback)"

section \<open>Booking an exit order\<close>

definition volume_tolerance :: rat where
  "volume_tolerance = rnd (1 / 1000000)"

text \<open>\<open>str(log.get(k) or dflt)\<close> on the two columns that locate an order.\<close>

definition log_exchange_or :: "order_log \<Rightarrow> string" where
  "log_exchange_or r = (if log_exchange r = [] then ''bithumb'' else log_exchange r)"

definition log_market_or :: "order_log \<Rightarrow> string" where
  "log_market_or r = (if log_market r = [] then ''KRW-BTC'' else log_market r)"

definition position_for_exit_order :: "order_log \<Rightarrow> db \<Rightarrow> position option" where
  "position_for_exit_order r s =
     (let direct = (case or_int (log_position_id r) None of None \<Rightarrow> None
            | Some i \<Rightarrow> if i = 0 then None else load_live_position s i);
          uuid = os (log_order_uuid r)
      in case direct of Some p \<Rightarrow> Some p
         | None \<Rightarrow> if uuid = [] then None
             else find (\<lambda>p. os (exit_order_uuid p) = uuid) (load_open_live_positions s (log_exchange_or r) (log_market_or r)))"

definition is_exit_order :: "order_log \<Rightarrow> bool" where
  "is_exit_order r \<longleftrightarrow> py_upper (order_purpose r) = ''EXIT'' \<or> py_upper (log_side r) \<in> {''SELL'', ''ASK''}"

fun distinct_ints :: "int list \<Rightarrow> pyval list \<Rightarrow> int list" where
  "distinct_ints seen [] = seen"
| "distinct_ints seen (v # vs) = (case py_int v of None \<Rightarrow> distinct_ints seen vs
     | Some i \<Rightarrow> distinct_ints (if i \<in> set seen then seen else seen @ [i]) vs)"

definition aggregate_exit_position_ids :: "order_log \<Rightarrow> int list" where
  "aggregate_exit_position_ids r =
     (let ids = distinct_ints [] (as_list (dict_get (order_preview_payload r) ''aggregate_exit_position_ids''))
      in if length ids > 1 then ids else [])"

definition repair_closed_position_session_pointer :: "int \<Rightarrow> position \<Rightarrow> db \<Rightarrow> db" where
  "repair_closed_position_session_pointer now p s =
     (if pos_session_id p = 0 then s
      else (let open_positions = load_open_live_positions s (if pos_exchange p = [] then ''bithumb'' else pos_exchange p)
                  (if pos_market p = [] then ''KRW-BTC'' else pos_market p);
                replacement = find (\<lambda>q. pos_session_id q = pos_session_id p) open_positions
            in update_live_strategy_session now (pos_session_id p)
                 (\<lambda>r. r\<lparr>current_position_id := map_option pos_id replacement, current_open_order_uuid := None,
                        last_risk_result := Some ''CLOSED_POSITION_POINTER_REPAIRED''\<rparr>) s))"

definition exit_waiting :: "reconciled \<Rightarrow> bool" where
  "exit_waiting st \<longleftrightarrow> rc_status st = ''PARTIALLY_FILLED'' \<and> raw_state (rc_raw st) \<notin> {''cancel'', ''canceled'', ''cancelled''}"

text \<open>The cost of the sold part, and the profit or loss of the sale.\<close>

definition exit_basis :: "position \<Rightarrow> rat \<Rightarrow> rat" where
  "exit_basis p volume = (if entry_volume p > 0 then fmul (entry_amount_krw p) (min (fdiv volume (entry_volume p)) 1)
     else fmul (entry_price p) volume)"

definition exit_pnl :: "position \<Rightarrow> rat \<Rightarrow> rat \<Rightarrow> rat \<Rightarrow> rat" where
  "exit_pnl p volume amount fee = fsub (fsub amount (exit_basis p volume)) fee"

definition book_exit_fill :: "int \<Rightarrow> order_log \<Rightarrow> bool \<Rightarrow> position \<Rightarrow> rat \<Rightarrow> rat \<Rightarrow> rat \<Rightarrow> db \<Rightarrow> db" where
  "book_exit_fill now r waiting p volume amount fee s =
     (let pnl = exit_pnl p volume amount fee;
          realized = fadd (realized_pnl p) pnl;
          remaining = max (fsub (entry_volume p) volume) 0
      in if remaining \<le> volume_tolerance
         then repair_closed_position_session_pointer now p
           (update_live_position now (pos_id p)
             (\<lambda>q. q\<lparr>pos_status := ''CLOSED'', realized_pnl := realized, closed_at := Some now, exit_order_uuid := None\<rparr>) s)
         else update_live_position now (pos_id p)
           (\<lambda>q. q\<lparr>pos_status := (if waiting then ''CLOSING'' else ''OPEN''), entry_volume := remaining,
                  entry_amount_krw := max (fsub (entry_amount_krw p) (exit_basis p volume)) 0,
                  current_price := (if volume > 0 then fdiv amount volume else current_price p),
                  realized_pnl := realized, exit_order_uuid := (if waiting then log_order_uuid r else None)\<rparr>) s)"

definition set_actual_pnl :: "int \<Rightarrow> order_log \<Rightarrow> rat \<Rightarrow> db \<Rightarrow> db" where
  "set_actual_pnl now r pnl s = update_live_order_log now (request_id r) (\<lambda>x. x\<lparr>actual_pnl := Some pnl\<rparr>) s"

text \<open>One order that sells several positions: the fill is spread over them in the order of their ids.\<close>

definition aggregate_exit_step ::
  "int \<Rightarrow> order_log \<Rightarrow> bool \<Rightarrow> rat \<Rightarrow> rat \<Rightarrow> rat \<Rightarrow> int \<Rightarrow> rat \<times> rat \<times> db \<Rightarrow> rat \<times> rat \<times> db" where
  "aggregate_exit_step now r waiting fill amount fee i acc = (case acc of (left, pnl, s) \<Rightarrow>
     (case load_live_position s i of
        None \<Rightarrow> (left, pnl, s)
      | Some p \<Rightarrow>
          (let applied = min (entry_volume p) left; share = fdiv applied fill in
           if entry_volume p \<le> 0 then (left, pnl, s)
           else if applied \<le> 0
           then (left, pnl, if waiting
             then update_live_position now i (\<lambda>q. q\<lparr>pos_status := ''CLOSING'', exit_order_uuid := log_order_uuid r\<rparr>) s else s)
           else (max (fsub left applied) 0, fadd pnl (exit_pnl p applied (fmul amount share) (fmul fee share)),
                 book_exit_fill now r waiting p applied (fmul amount share) (fmul fee share) s))))"

definition sync_aggregate_exit_order_positions ::
  "int \<Rightarrow> order_log \<Rightarrow> bool \<Rightarrow> int list \<Rightarrow> rat \<Rightarrow> rat \<Rightarrow> rat \<Rightarrow> db \<Rightarrow> db" where
  "sync_aggregate_exit_order_positions now r waiting ids fill amount fee s =
     (if fill \<le> 0 then s
      else (case foldl (\<lambda>acc i. aggregate_exit_step now r waiting fill amount fee i acc) (fill, 0, s) ids of
        (left, pnl, s1) \<Rightarrow> set_actual_pnl now r pnl s1))"

definition reopen_position :: "int \<Rightarrow> int \<Rightarrow> db \<Rightarrow> db" where
  "reopen_position now i s = update_live_position now i (\<lambda>q. q\<lparr>pos_status := ''OPEN'', exit_order_uuid := None\<rparr>) s"

text \<open>
  \<open>seen\<close> is the volume, amount and fee of the earlier report (\<open>_previous_executed_volume\<close> and its
  kin, 0 where the caller's dict has no such keys).
\<close>

definition sync_exit_order_position :: "int \<Rightarrow> order_log \<Rightarrow> rat \<times> rat \<times> rat \<Rightarrow> reconciled \<Rightarrow> db \<Rightarrow> db" where
  "sync_exit_order_position now r seen st s =
     (case position_for_exit_order r s of None \<Rightarrow> s
      | Some p \<Rightarrow>
          (let fill = max (fsub (rc_executed st) (fst seen)) 0;
               amount = max (fsub (rc_amount st) (fst (snd seen))) 0;
               fee = max (fsub (rc_fee st) (snd (snd seen))) 0;
               ids = aggregate_exit_position_ids r;
               filled = (rc_status st \<in> {''FILLED'', ''PARTIALLY_FILLED''})
           in if ids \<noteq> [] \<and> filled
              then sync_aggregate_exit_order_positions now r (exit_waiting st) ids fill amount fee s
              else if ids \<noteq> [] \<and> rc_status st = ''CANCELED'' then foldl (\<lambda>s i. reopen_position now i s) s ids
              else if filled
              then if fill \<le> 0 then s
                   else book_exit_fill now r (exit_waiting st) p fill amount fee
                          (set_actual_pnl now r (exit_pnl p fill amount fee) s)
              else if rc_status st = ''CANCELED'' then reopen_position now (pos_id p) s
              else s))"

section \<open>Recovering the position of a filled entry\<close>

definition entry_price_from_log :: "order_log \<Rightarrow> rat" where
  "entry_price_from_log r = (if nz (log_price r) > 0 then nz (log_price r)
     else (let amount = num_or (filled_amount_krw r) (nz (log_amount_krw r));
               volume = num_or (executed_volume r) (nz (log_volume r))
           in if amount > 0 \<and> volume > 0 then fdiv amount volume else 0))"

definition filled_amount_from_log :: "order_log \<Rightarrow> rat \<Rightarrow> rat \<Rightarrow> rat" where
  "filled_amount_from_log r price volume = num_or (filled_amount_krw r) (num_or (nz (log_amount_krw r)) (fmul price volume))"

definition recovery_env_float :: "runtime \<Rightarrow> string \<Rightarrow> rat \<Rightarrow> rat" where
  "recovery_env_float rt k dflt = float_or dflt (getenv rt k (VFloat dflt))"

definition adopt_update :: "int \<Rightarrow> string \<Rightarrow> session \<Rightarrow> session" where
  "adopt_update i result r = r\<lparr>current_position_id := Some i, current_open_order_uuid := None,
     last_order_status := Some ''FILLED'', last_risk_result := Some result\<rparr>"

definition adopt_position_in_relevant_session :: "int \<Rightarrow> order_log \<Rightarrow> int \<Rightarrow> string \<Rightarrow> db \<Rightarrow> db" where
  "adopt_position_in_relevant_session now r i result s =
     (let s1 = (case or_int (log_session_id r) None of None \<Rightarrow> s
            | Some k \<Rightarrow> if k = 0 then s else update_live_strategy_session now k (adopt_update i result) s)
      in case load_latest_live_strategy_session s1 of None \<Rightarrow> s1
         | Some l \<Rightarrow> if ses_exchange l = log_exchange_or r \<and> ses_market l = log_market_or r
                \<and> ses_candidate_id l = (case log_candidate_id r of None \<Rightarrow> 0 | Some c \<Rightarrow> c)
              then update_live_strategy_session now (ses_id l) (adopt_update i result) s1 else s1)"

datatype recovery_result = RecoverySkipped | RecoveryAttached | RecoveryCreated

text \<open>A log without session or candidate makes \<open>int(None)\<close> raise; the result \<open>None\<close> is that exception,
  and the store is what had been written before it.\<close>

definition sync_session_of :: "order_log \<Rightarrow> string \<Rightarrow> session option" where
  "sync_session_of r uuid = (case (log_session_id r, log_candidate_id r) of
     (Some i, Some c) \<Rightarrow> Some \<lparr>ses_id = i, ses_exchange = log_exchange_or r, ses_market = log_market_or r,
        ses_candidate_id = c, ses_strategy_name = str_or (log_strategy_name r) ''live_strategy'', ses_parameters = [],
        ses_status = [], auto_enabled = False, ses_initial_balance = 0, ses_max_order_krw = 0, ses_max_orders_per_day = 0,
        ses_orders_today = 0, current_open_order_uuid = Some uuid, current_position_id = None, last_signal = [],
        last_signal_time = None, last_risk_result = None, last_order_status = None, last_order_time = None,
        last_processed_candle = None, stopped_at = None, ses_created_at = 0, ses_updated_at = 0\<rparr>
   | _ \<Rightarrow> None)"

definition recovered_position :: "int \<Rightarrow> runtime \<Rightarrow> order_log \<Rightarrow> session \<Rightarrow> string \<Rightarrow> rat \<Rightarrow> rat \<Rightarrow> position" where
  "recovered_position now rt r ses uuid price volume =
     \<lparr>pos_id = 0, pos_session_id = ses_id ses, pos_exchange = log_exchange_or r, pos_market = log_market_or r,
      pos_candidate_id = ses_candidate_id ses, pos_strategy_name = str_or (log_strategy_name r) ''live_strategy'',
      pos_status = ''OPEN'', entry_order_uuid = Some uuid, exit_order_uuid = None, entry_price = price,
      entry_volume = volume, entry_amount_krw = filled_amount_from_log r price volume, current_price = price,
      unrealized_pnl = 0, realized_pnl = 0,
      stop_loss_price = below price (recovery_env_float rt ''AUTO_STOP_LOSS_PERCENT'' (rnd (7 / 10))),
      take_profit_price = above price (recovery_env_float rt ''AUTO_TAKE_PROFIT_PERCENT'' 1),
      highest_price_since_entry = None, trailing_stop_price = None, trailing_stop_pct = None,
      last_trailing_update_at = None, scale_in_count = 0, last_scale_in_at = None, opened_at = Some (log_updated_at r),
      closed_at = None, pos_created_at = now, pos_updated_at = now\<rparr>"

definition recover_new_position ::
  "int \<Rightarrow> runtime \<Rightarrow> order_log \<Rightarrow> session \<Rightarrow> string \<Rightarrow> string \<Rightarrow> rat \<Rightarrow> rat \<Rightarrow> db \<Rightarrow> db" where
  "recover_new_position now rt r ses uuid source price volume s =
     (let (i, s1) = create_live_position now (recovered_position now rt r ses uuid price volume) s;
          s2 = update_live_order_log now (request_id r) (\<lambda>x. x\<lparr>log_position_id := Some i\<rparr>) s1;
          s3 = adopt_position_in_relevant_session now r i ''POSITION_OPEN_SYNCED'' s2
      in log_recovery_event now rt (recovery_event_of source ''WARNING'' (log_exchange_or r) (log_market_or r)
           (log_session_id r) (Some (request_id r)) (Some uuid)
           [(''position_id'', VInt i), (''entry_price'', VFloat price), (''entry_volume'', VFloat volume),
            (''entry_amount_krw'', VFloat (filled_amount_from_log r price volume))]) s3)"

definition scale_in_preview :: "order_log \<Rightarrow> bool" where
  "scale_in_preview r = truthy (dict_get (scale_preview (Some r)) ''scale_in'')"

definition recovery_skips :: "order_log \<Rightarrow> bool" where
  "recovery_skips r \<longleftrightarrow> py_upper (log_status r) \<noteq> ''FILLED'' \<or> py_upper (log_side r) \<noteq> ''BUY''
     \<or> py_upper (if order_purpose r = [] then ''ENTRY'' else order_purpose r) \<noteq> ''ENTRY''
     \<or> or_int (log_position_id r) None \<noteq> None \<and> log_position_id r \<noteq> Some 0 \<and> \<not> scale_in_preview r"

text \<open>The fill type of a result, as the name of the event that reports its adoption.\<close>

fun result_fill_type :: "sync_result \<Rightarrow> string" where
  "result_fill_type (Attached _ ft _) = ft"
| "result_fill_type (Merged _ ft) = ft"
| "result_fill_type (Created _ ft) = ft"
| "result_fill_type (Skipped _) = ''ENTRY''"

definition ensure_filled_entry_order_position ::
  "int \<Rightarrow> runtime \<Rightarrow> string \<Rightarrow> order_log \<Rightarrow> db \<Rightarrow> recovery_result option \<times> db" where
  "ensure_filled_entry_order_position now rt source r s =
     (let uuid = os (or_text (log_order_uuid r) (Some (raw_order_uuid (exchange_response_payload r)))) in
      if recovery_skips r \<or> uuid = [] then (Some RecoverySkipped, s)
      else case sync_session_of r uuid of None \<Rightarrow> (None, s)
      | Some ses \<Rightarrow>
          (let cx = \<lparr>cx_now = now, cx_runtime = rt, cx_stop_loss = 0, cx_take_profit = 0\<rparr>;
               (res, s1) = sync_filled_entry_order_to_position 1 cx ses source (Some r) (exchange_response_payload r) s
           in case result_position res of
                Some i \<Rightarrow> (Some (case res of Created _ _ \<Rightarrow> RecoveryCreated | _ \<Rightarrow> RecoveryAttached),
                  adopt_position_in_relevant_session now r i
                    ((if result_fill_type res = [] then ''ENTRY'' else result_fill_type res) @ ''_POSITION_SYNCED'') s1)
              | None \<Rightarrow>
                  (let price = entry_price_from_log r; volume = num_or (executed_volume r) (nz (log_volume r)) in
                   if price \<le> 0 \<or> volume \<le> 0 then (Some RecoverySkipped, s1)
                   else (Some RecoveryCreated, recover_new_position now rt r ses uuid source price volume s1))))"

record recovery_counts =
  n_created :: int
  n_attached :: int
  n_skipped :: int

fun count_recovery :: "recovery_result \<Rightarrow> recovery_counts \<Rightarrow> recovery_counts" where
  "count_recovery RecoveryCreated n = n\<lparr>n_created := n_created n + 1\<rparr>"
| "count_recovery RecoveryAttached n = n\<lparr>n_attached := n_attached n + 1\<rparr>"
| "count_recovery RecoverySkipped n = n\<lparr>n_skipped := n_skipped n + 1\<rparr>"

fun recover_logs :: "int \<Rightarrow> runtime \<Rightarrow> order_log list \<Rightarrow> recovery_counts \<Rightarrow> db \<Rightarrow> recovery_counts option \<times> db" where
  "recover_logs now rt [] n s = (Some n, s)"
| "recover_logs now rt (r # rs) n s =
     (case ensure_filled_entry_order_position now rt ''FILLED_ENTRY_POSITION_RECOVERY'' r s of
        (None, s1) \<Rightarrow> (None, s1)
      | (Some res, s1) \<Rightarrow> recover_logs now rt rs (count_recovery res n) s1)"

definition ensure_filled_entry_order_positions ::
  "int \<Rightarrow> runtime \<Rightarrow> string \<Rightarrow> string \<Rightarrow> db \<Rightarrow> recovery_counts option \<times> db" where
  "ensure_filled_entry_order_positions now rt exchange market s =
     recover_logs now rt (load_filled_entry_order_logs_without_position s exchange market)
       \<lparr>n_created = 0, n_attached = 0, n_skipped = 0\<rparr> s"

section \<open>Reconciling one order\<close>

text \<open>The columns a report writes on the order's row.\<close>

definition reconciled_log :: "order_log \<Rightarrow> reconciled \<Rightarrow> order_log \<Rightarrow> order_log" where
  "reconciled_log r st x = x\<lparr>log_status := rc_status st,
     risk_result := risk_result_for_status (rc_status st) (if risk_result r = [] then ''ALLOWED'' else risk_result r),
     exchange_response_payload := rc_raw st, log_order_uuid := or_text (Some (raw_order_uuid (rc_raw st))) (log_order_uuid r),
     executed_volume := rc_executed st, remaining_volume := rc_remaining st, filled_amount_krw := rc_amount st,
     paid_fee := rc_fee st,
     error_message := (if rc_status st \<in> {''WAITING'', ''FILLED'', ''CANCELED'', ''PARTIALLY_FILLED''} then None else error_message r)\<rparr>"

definition updated_view :: "order_log \<Rightarrow> reconciled \<Rightarrow> order_log" where
  "updated_view r st = r\<lparr>log_status := rc_status st, exchange_response_payload := rc_raw st,
     log_order_uuid := or_text (Some (raw_order_uuid (rc_raw st))) (log_order_uuid r),
     executed_volume := rc_executed st, remaining_volume := rc_remaining st, filled_amount_krw := rc_amount st,
     paid_fee := rc_fee st\<rparr>"

text \<open>\<open>False\<close> is an exception of the recovery of an entry.\<close>

definition apply_reconciled_order_status ::
  "int \<Rightarrow> runtime \<Rightarrow> string \<Rightarrow> order_log \<Rightarrow> reconciled \<Rightarrow> db \<Rightarrow> bool \<times> db" where
  "apply_reconciled_order_status now rt source r st s =
     (let s1 = update_live_order_log now (request_id r) (reconciled_log r st) s;
          s2 = log_recovery_event now rt (recovery_event_of source
                 (if rc_status st = ''PARTIALLY_FILLED'' then ''WARNING'' else ''INFO'') (log_exchange_or r) (log_market_or r)
                 (log_session_id r) (Some (request_id r)) (or_text (Some (raw_order_uuid (rc_raw st))) (log_order_uuid r))
                 [(''status'', VStr (rc_status st)), (''executed_volume'', VFloat (rc_executed st)),
                  (''remaining_volume'', VFloat (rc_remaining st)), (''filled_amount_krw'', VFloat (rc_amount st))]) s1;
          u = updated_view r st
      in if is_exit_order u
         then (True, sync_exit_order_position now u (executed_volume r, filled_amount_krw r, paid_fee r) st s2)
         else if rc_status st = ''FILLED''
         then (let (res, s3) = ensure_filled_entry_order_position now rt (source @ ''_POSITION_SYNC'') u s2 in (res \<noteq> None, s3))
         else (True, s2))"

text \<open>A failed request is \<open>Inl\<close> of its message.\<close>

type_synonym 'a answer = "string + 'a"

definition is_order_not_found_error :: "string \<Rightarrow> bool" where
  "is_order_not_found_error m = (let l = py_lower m in
     py_contains ''not_found'' l \<or> py_contains ''not found'' l \<or> py_contains ''404'' l)"

definition is_timeout_message :: "string \<Rightarrow> bool" where
  "is_timeout_message m = (let l = py_lower m in py_contains ''timeout'' l \<or> py_contains ''timed out'' l)"

datatype reconcile_outcome = NoUuid | NotFoundStale reconciled | RequestFailed string | Reconciled reconciled | ReconcileRaised

definition status_payload :: "order_log \<Rightarrow> pydict" where
  "status_payload r = [(''status'', VStr (log_status r))]"

definition reconcile_order_log ::
  "int \<Rightarrow> runtime \<Rightarrow> string \<Rightarrow> pydict answer \<Rightarrow> order_log \<Rightarrow> db \<Rightarrow> reconcile_outcome \<times> db" where
  "reconcile_order_log now rt source reply r s =
     (let uuid = os (log_order_uuid r);
          event = (\<lambda>ty severity u payload. log_recovery_event now rt (recovery_event_of ty severity (log_exchange_or r)
            (log_market_or r) (log_session_id r) (Some (request_id r)) u payload))
      in if uuid = [] then (NoUuid, event ''ORDER_STATUS_UNKNOWN_TIMEOUT'' ''ERROR'' None (status_payload r) s)
         else case reply of
           Inl m \<Rightarrow>
             if is_order_not_found_error m
             then (NotFoundStale \<lparr>rc_status = ''STALE_CANCELED'', rc_executed = executed_volume r,
                     rc_remaining = remaining_volume r, rc_amount = filled_amount_krw r, rc_fee = paid_fee r, rc_raw = []\<rparr>,
                   event ''ORDER_NOT_FOUND_STALE_CANCELED'' ''WARNING'' (Some uuid) (status_payload r)
                     (update_live_order_log now (request_id r) (\<lambda>x. x\<lparr>log_status := ''STALE_CANCELED'',
                        risk_result := ''STALE_CANCELED'',
                        error_message := Some ''Exchange order was not found during reconciliation; marked stale without deleting DB history.''\<rparr>) s))
             else (RequestFailed m, event ''API_ERROR'' ''ERROR'' (Some uuid) [(''error'', VStr m)] s)
         | Inr raw \<Rightarrow>
             (let st = normalize_exchange_order raw; (ok, s1) = apply_reconciled_order_status now rt source r st s
              in (if ok then Reconciled st else ReconcileRaised, s1)))"

section \<open>All open orders\<close>

definition last_by :: "(pydict \<Rightarrow> string) \<Rightarrow> pydict list \<Rightarrow> (string \<times> pydict) list" where
  "last_by key = foldl (\<lambda>t d. if key d = [] then t else dict_put t (key d) d) []"

definition get_live_order_log_by_uuid :: "db \<Rightarrow> string \<Rightarrow> order_log option" where
  "get_live_order_log_by_uuid s uuid = map_option normalize_live_order_log
     (head_row (order_desc (\<lambda>r. (log_updated_at r, log_id r)) (filter (canonical_for uuid) (order_logs s))))"

definition matching_exchange_order :: "pydict list \<Rightarrow> order_log \<Rightarrow> pydict option" where
  "matching_exchange_order orders r =
     (let by_uuid = (if os (log_order_uuid r) = [] then None else map_of (last_by raw_order_uuid orders) (os (log_order_uuid r)))
      in case by_uuid of Some d \<Rightarrow> Some d
         | None \<Rightarrow> map_of (last_by raw_client_order_id orders) (take 36 (request_id r)))"

datatype sync_outcome = ListFailed string | SyncRaised | SyncedOrders int "string list"

text \<open>\<open>reply u\<close> is the exchange's answer to a request for the order \<open>u\<close>.\<close>

fun sync_internal_orders ::
  "int \<Rightarrow> runtime \<Rightarrow> string \<Rightarrow> string \<Rightarrow> pydict list \<Rightarrow> (string \<Rightarrow> pydict answer) \<Rightarrow> order_log list \<Rightarrow> int \<Rightarrow> db
   \<Rightarrow> int option \<times> db" where
  "sync_internal_orders now rt exchange market orders reply [] n s = (Some n, s)"
| "sync_internal_orders now rt exchange market orders reply (r # rs) n s =
     (case matching_exchange_order orders r of
        Some d \<Rightarrow>
          (let (ok, s1) = apply_reconciled_order_status now rt ''OPEN_ORDER_SYNC'' r (normalize_exchange_order d) s
           in if ok then sync_internal_orders now rt exchange market orders reply rs (n + 1) s1 else (None, s1))
      | None \<Rightarrow>
          if os (log_order_uuid r) \<noteq> []
          then (case reconcile_order_log now rt ''OPEN_ORDER_DETAIL_RECONCILED'' (reply (os (log_order_uuid r))) r s of
                  (RequestFailed m, s1) \<Rightarrow> (None, s1)
                | (ReconcileRaised, s1) \<Rightarrow> (None, s1)
                | (_, s1) \<Rightarrow> sync_internal_orders now rt exchange market orders reply rs (n + 1) s1)
          else sync_internal_orders now rt exchange market orders reply rs n
            (log_recovery_event now rt (recovery_event_of ''ORDER_STATUS_UNKNOWN_TIMEOUT'' ''ERROR'' exchange market
               (log_session_id r) (Some (request_id r)) None (status_payload r))
              (update_live_order_log now (request_id r) (\<lambda>x. x\<lparr>log_status := ''SUBMITTED'',
                 risk_result := ''ORDER_STATUS_UNKNOWN_TIMEOUT'',
                 error_message := Some ''Order status is unknown; blocked until exchange reconciliation succeeds.''\<rparr>) s)))"

definition safe_order_payload :: "pydict \<Rightarrow> pydict" where
  "safe_order_payload d = filter (\<lambda>(k, _). k \<notin> {''authorization'', ''Authorization'', ''jwt'', ''secret'', ''access_key'', ''secret_key''}) d"

fun report_unknown_orders ::
  "int \<Rightarrow> runtime \<Rightarrow> string \<Rightarrow> string \<Rightarrow> (string \<times> pydict) list \<Rightarrow> string list \<Rightarrow> db \<Rightarrow> string list \<times> db" where
  "report_unknown_orders now rt exchange market [] ws s = (ws, s)"
| "report_unknown_orders now rt exchange market ((uuid, d) # ds) ws s =
     (if get_live_order_log_by_uuid s uuid \<noteq> None then report_unknown_orders now rt exchange market ds ws s
      else report_unknown_orders now rt exchange market ds (ws @ [uuid])
        (log_recovery_event now rt (recovery_event_of ''EXCHANGE_OPEN_ORDER_NOT_IN_DB'' ''WARNING'' exchange market None None
           (Some uuid) [(''exchange_order'', VDict (safe_order_payload d))]) s))"

text \<open>The orders of the answer are the dicts among its items; a warning is named by its order.\<close>

definition sync_open_orders ::
  "int \<Rightarrow> runtime \<Rightarrow> string \<Rightarrow> string \<Rightarrow> pydict list answer \<Rightarrow> (string \<Rightarrow> pydict answer) \<Rightarrow> db \<Rightarrow> sync_outcome \<times> db" where
  "sync_open_orders now rt exchange market listing reply s =
     (case listing of
        Inl m \<Rightarrow> (ListFailed m, log_recovery_event now rt
          (recovery_event_of ''API_ERROR'' ''ERROR'' exchange market None None None [(''error'', VStr m)]) s)
      | Inr orders \<Rightarrow>
          (case sync_internal_orders now rt exchange market orders reply
                  (load_reconcilable_live_order_logs s exchange market) 0 s of
             (None, s1) \<Rightarrow> (SyncRaised, s1)
           | (Some n, s1) \<Rightarrow>
               (let (ws, s2) = report_unknown_orders now rt exchange market (last_by raw_order_uuid orders) [] s1
                in (SyncedOrders n ws, s2))))"

text \<open>The restart: every running session of both kinds is paused, then open orders are synchronised.\<close>

definition count_running :: "db \<Rightarrow> nat \<times> nat" where
  "count_running s = (length (filter (\<lambda>r. ps_status r \<in> {''READY'', ''RUNNING''}) (pilot_sessions s)),
     length (filter (\<lambda>r. ses_status r \<in> {''READY'', ''RUNNING''}) (sessions s)))"

definition run_startup_live_recovery ::
  "int \<Rightarrow> runtime \<Rightarrow> pydict list answer \<Rightarrow> (string \<Rightarrow> pydict answer) \<Rightarrow> db \<Rightarrow> sync_outcome \<times> db" where
  "run_startup_live_recovery now rt listing reply s =
     (let (paused_auto, paused_strategy) = count_running s;
          s1 = pause_running_live_strategy_sessions_on_startup now (pause_running_auto_live_pilot_sessions_on_startup now s);
          s2 = (if paused_auto = 0 \<and> paused_strategy = 0 then s1 else log_recovery_event now rt
                 (recovery_event_of ''SERVER_RESTART_LIVE_PAUSED'' ''WARNING'' ''bithumb'' ''KRW-BTC'' None None None
                   [(''auto_live_pilot_sessions'', VInt (int paused_auto)), (''live_strategy_sessions'', VInt (int paused_strategy))]) s1);
          (res, s3) = sync_open_orders now rt ''bithumb'' ''KRW-BTC'' listing reply s2
      in (res, if res = SyncRaised then log_recovery_event now rt
                 (recovery_event_of ''API_ERROR'' ''ERROR'' ''bithumb'' ''KRW-BTC'' None None None []) s3 else s3))"

section \<open>Balances against positions\<close>

record balance_status =
  bs_status :: string
  bs_blocking :: bool
  bs_internal :: rat
  bs_exchange_total :: rat
  bs_difference :: rat
  bs_tolerance :: rat
  bs_is_btc :: bool
  bs_open_positions :: int
  bs_position_sync :: "recovery_counts option"

definition market_symbol :: "string \<Rightarrow> string" where
  "market_symbol market = py_upper (after_last_dash market)"

definition balance_tolerance :: "rat \<Rightarrow> rat" where
  "balance_tolerance internal = max volume_tolerance (fmul \<bar>internal\<bar> (rnd (1 / 100)))"

definition balance_payload :: "string \<Rightarrow> balance_status \<Rightarrow> pydict" where
  "balance_payload market b = (let btc = (\<lambda>x. VFloat (if bs_is_btc b then x else 0)) in
     [(''status'', VStr (bs_status b)), (''ok'', VBool (\<not> bs_blocking b)), (''blocking'', VBool (bs_blocking b)),
      (''market'', VStr market), (''symbol'', VStr (market_symbol market)),
      (''internal_position_volume'', VFloat (bs_internal b)), (''exchange_asset_total'', VFloat (bs_exchange_total b)),
      (''difference_volume'', VFloat (bs_difference b)), (''tolerance_volume'', VFloat (bs_tolerance b)),
      (''internal_btc_position'', btc (bs_internal b)), (''exchange_btc_total'', btc (bs_exchange_total b)),
      (''difference_btc'', btc (bs_difference b)), (''tolerance_btc'', btc (bs_tolerance b)),
      (''open_position_count'', VInt (bs_open_positions b))])"

definition balance_failed :: balance_status where
  "balance_failed = \<lparr>bs_status = ''FAILED'', bs_blocking = True, bs_internal = 0, bs_exchange_total = 0, bs_difference = 0,
     bs_tolerance = 0, bs_is_btc = False, bs_open_positions = 0, bs_position_sync = None\<rparr>"

definition compare_balance :: "string \<Rightarrow> recovery_counts \<Rightarrow> accounts \<Rightarrow> position list \<Rightarrow> balance_status" where
  "compare_balance market counts balances open_positions =
     (let symbol = market_symbol market;
          internal = py_sum (map entry_volume open_positions);
          total' = balance_amount balances symbol;
          difference = fsub total' internal;
          mismatch = (\<bar>difference\<bar> > balance_tolerance internal)
      in \<lparr>bs_status = (if mismatch then ''BALANCE_MISMATCH'' else ''OK''), bs_blocking = mismatch, bs_internal = internal,
          bs_exchange_total = total', bs_difference = difference, bs_tolerance = balance_tolerance internal,
          bs_is_btc = (symbol = ''BTC''), bs_open_positions = int (length open_positions), bs_position_sync = Some counts\<rparr>)"

text \<open>\<open>None\<close>: the recovery of an entry raised.\<close>

definition reconcile_balances ::
  "int \<Rightarrow> runtime \<Rightarrow> string \<Rightarrow> string \<Rightarrow> accounts answer \<Rightarrow> db \<Rightarrow> balance_status option \<times> db" where
  "reconcile_balances now rt exchange market reply s =
     (case reply of
        Inl m \<Rightarrow> (Some balance_failed, log_recovery_event now rt
          (recovery_event_of ''API_ERROR'' ''ERROR'' exchange market None None None [(''error'', VStr m)]) s)
      | Inr balances \<Rightarrow>
          (case ensure_filled_entry_order_positions now rt exchange market s of
             (None, s1) \<Rightarrow> (None, s1)
           | (Some counts, s1) \<Rightarrow>
               (let b = compare_balance market counts balances (load_open_live_positions s1 exchange market)
                in (Some b, if \<not> bs_blocking b then s1 else log_recovery_event now rt
                     (recovery_event_of ''BALANCE_MISMATCH'' ''ERROR'' exchange market None None None (balance_payload market b)) s1))))"

definition has_unresolved_live_order :: "db \<Rightarrow> string \<Rightarrow> string \<Rightarrow> bool" where
  "has_unresolved_live_order s exchange market \<longleftrightarrow> load_reconcilable_live_order_logs s exchange market \<noteq> []"

definition auto_order_recovery_block_reason ::
  "int \<Rightarrow> runtime \<Rightarrow> string \<Rightarrow> string \<Rightarrow> accounts answer \<Rightarrow> db \<Rightarrow> string option option \<times> db" where
  "auto_order_recovery_block_reason now rt exchange market reply s =
     (if has_unresolved_live_order s exchange market then (Some (Some ''BLOCKED_UNRESOLVED_LIVE_ORDER''), s)
      else case reconcile_balances now rt exchange market reply s of
        (None, s1) \<Rightarrow> (None, s1)
      | (Some b, s1) \<Rightarrow> (Some (if \<not> bs_blocking b then None
           else Some (if bs_status b = ''BALANCE_MISMATCH'' then ''BLOCKED_BALANCE_MISMATCH''
                      else ''BLOCKED_BALANCE_RECONCILIATION_FAILED'')), s1))"

section \<open>Importing the balance of the exchange\<close>

datatype import_outcome = ImportRefused string | ImportRaised | Imported int balance_status

text \<open>
  The three answers are those of the three requests for balances; \<open>price\<close> is the ticker's price,
  0 when there is none.
\<close>

definition imported_position :: "int \<Rightarrow> string \<Rightarrow> string \<Rightarrow> session \<Rightarrow> rat \<Rightarrow> rat \<Rightarrow> rat \<Rightarrow> position" where
  "imported_position now exchange market ses entry price volume =
     \<lparr>pos_id = 0, pos_session_id = ses_id ses, pos_exchange = exchange, pos_market = market,
      pos_candidate_id = ses_candidate_id ses, pos_strategy_name = ses_strategy_name ses @ '' (imported)'',
      pos_status = ''OPEN'', entry_order_uuid = Some ''IMPORTED_EXCHANGE_BALANCE'', exit_order_uuid = None,
      entry_price = entry, entry_volume = volume, entry_amount_krw = fmul entry volume, current_price = price,
      unrealized_pnl = fmul (fsub price entry) volume, realized_pnl = 0,
      stop_loss_price = fmul entry (rnd (993 / 1000)), take_profit_price = fmul entry (rnd (101 / 100)),
      highest_price_since_entry = None, trailing_stop_price = None, trailing_stop_pct = None,
      last_trailing_update_at = None, scale_in_count = 0, last_scale_in_at = None, opened_at = Some now,
      closed_at = None, pos_created_at = now, pos_updated_at = now\<rparr>"

definition import_session_ok :: "string \<Rightarrow> string \<Rightarrow> session \<Rightarrow> string option" where
  "import_session_ok exchange market ses =
     (if ses_status ses \<notin> {''READY'', ''RUNNING'', ''PAUSED'', ''LIVE_PAUSED''} then Some ''NO_LIVE_STRATEGY_SESSION''
      else if (if ses_exchange ses = [] then exchange else ses_exchange ses) \<noteq> exchange
           \<or> (if ses_market ses = [] then market else ses_market ses) \<noteq> market then Some ''SESSION_MARKET_MISMATCH''
      else None)"

definition import_refusal :: "balance_status \<Rightarrow> string option" where
  "import_refusal b = (let internal = (if bs_is_btc b then bs_internal b else 0);
       total' = (if bs_is_btc b then bs_exchange_total b else 0)
     in if \<not> bs_blocking b then Some ''NO_BALANCE_MISMATCH'' else if internal > 0 then Some ''INTERNAL_POSITION_EXISTS''
        else if total' \<le> 0 then Some ''NO_EXCHANGE_BTC'' else None)"

definition import_exchange_btc_position ::
  "int \<Rightarrow> runtime \<Rightarrow> string \<Rightarrow> string \<Rightarrow> string \<Rightarrow> accounts answer \<Rightarrow> accounts \<Rightarrow> accounts answer \<Rightarrow> rat \<Rightarrow> db
   \<Rightarrow> import_outcome \<times> db" where
  "import_exchange_btc_position now rt exchange market confirmation reply1 balances reply3 price s =
     (if confirmation \<noteq> ''IMPORT BTC POSITION'' then (ImportRefused ''CONFIRMATION_REQUIRED'', s)
      else case load_latest_live_strategy_session s of None \<Rightarrow> (ImportRefused ''NO_LIVE_STRATEGY_SESSION'', s)
      | Some ses \<Rightarrow>
       (case import_session_ok exchange market ses of Some why \<Rightarrow> (ImportRefused why, s)
        | None \<Rightarrow>
         (case reconcile_balances now rt exchange market reply1 s of (None, s1) \<Rightarrow> (ImportRaised, s1)
          | (Some b, s1) \<Rightarrow>
           (case import_refusal b of Some why \<Rightarrow> (ImportRefused why, s1)
            | None \<Rightarrow>
               (let avg = (case map_of balances ''BTC'' of None \<Rightarrow> 0 | Some a \<Rightarrow> ac_avg_buy_price a);
                    entry = (if avg > 0 then avg else price)
                in if entry \<le> 0 \<or> price \<le> 0 then (ImportRefused ''PRICE_UNAVAILABLE'', s1)
                   else (let (i, s2) = create_live_position now (imported_position now exchange market ses entry price (bs_exchange_total b)) s1;
                             s3 = update_live_strategy_session now (ses_id ses)
                               (\<lambda>r. r\<lparr>current_position_id := Some i, last_risk_result := Some ''IMPORTED_EXCHANGE_BALANCE'',
                                      last_order_status := Some ''POSITION_IMPORTED''\<rparr>) s2
                         in case reconcile_balances now rt exchange market reply3 s3 of (None, s4) \<Rightarrow> (ImportRaised, s4)
                            | (Some after, s4) \<Rightarrow> (Imported i after, log_recovery_event now rt
                                (recovery_event_of ''EXCHANGE_BALANCE_IMPORTED'' ''WARNING'' exchange market (Some (ses_id ses)) None None
                                  [(''position_id'', VInt i), (''exchange_btc_total'', VFloat (bs_exchange_total b)),
                                   (''entry_price'', VFloat entry), (''current_price'', VFloat price)]) s4)))))))"

section \<open>Lemmas\<close>

text \<open>The columns a later report reads back.\<close>

definition booked_columns :: "order_log \<Rightarrow> rat \<times> string \<times> string" where
  "booked_columns r = (executed_volume r, log_side r, order_purpose r)"

lemma get_live_order_log_cong: "order_logs s' = order_logs s \<Longrightarrow> get_live_order_log s' rid = get_live_order_log s rid"
  for s s' :: db
  by (simp add: get_live_order_log_def)

lemma get_live_order_log_id: "get_live_order_log s rid = Some r \<Longrightarrow> request_id r = rid"
  by (auto simp: get_live_order_log_def dest: first_row_SomeD)

lemma merge_log_booked:
  "executed_volume (merge_log logs c f) = executed_volume (f c)" "order_purpose (merge_log logs c f) = order_purpose (f c)"
  by (simp_all add: merge_log_def Let_def)

lemma write_columns_booked:
  "executed_volume (write_columns now m r) = executed_volume m" "order_purpose (write_columns now m r) = order_purpose m"
  "log_side (write_columns now m r) = log_side r" "request_id (write_columns now m r) = request_id r"
  by (simp_all add: write_columns_def)

lemma update_log_booked:
  fixes s :: db
  shows "map_option booked_columns (get_live_order_log (update_live_order_log now rid f s) rid)
    = map_option (\<lambda>c. (executed_volume (f c), log_side c, order_purpose (f c))) (get_live_order_log s rid)"
proof (cases "first_row (\<lambda>r. request_id r = rid) (order_logs s)")
  case None
  then show ?thesis by (simp add: update_live_order_log_def get_live_order_log_def)
next
  case (Some r)
  let ?m = "merge_log (order_logs s) (normalize_live_order_log r) f"
  have "first_row (\<lambda>r. request_id r = rid) (update_where (\<lambda>r. request_id r = rid) (write_columns now ?m) (order_logs s))
     = Some (write_columns now ?m r)"
    using Some by (subst first_row_update_key) (simp_all add: write_columns_booked)
  then show ?thesis
    using Some by (simp add: update_live_order_log_def get_live_order_log_def Let_def booked_columns_def
        write_columns_booked merge_log_booked normalize_live_order_log_def)
qed

lemma log_recovery_frame [table_simps]:
  "positions (log_recovery_event now rt e s) = positions s"
  "order_logs (log_recovery_event now rt e s) = order_logs s"
  "sessions (log_recovery_event now rt e s) = sessions s"
  "pilot_sessions (log_recovery_event now rt e s) = pilot_sessions s"
  by (simp_all add: log_recovery_event_def insert_live_recovery_event_def Let_def)

lemma book_exit_frame [table_simps]:
  "order_logs (book_exit_fill now r w p v a f s) = order_logs s"
  "order_logs (reopen_position now i s) = order_logs s"
  "order_logs (repair_closed_position_session_pointer now p s) = order_logs s"
  "positions (repair_closed_position_session_pointer now p s) = positions s"
  "positions (set_actual_pnl now r x s) = positions s"
  by (simp_all add: book_exit_fill_def repair_closed_position_session_pointer_def reopen_position_def Let_def
      update_live_position_def update_live_strategy_session_def set_actual_pnl_def table_simps)

lemma aggregate_logs [table_simps]:
  "order_logs (snd (snd (foldl (\<lambda>acc i. aggregate_exit_step now r w fill a f i acc) acc ids))) = order_logs (snd (snd acc))"
  by (induction ids arbitrary: acc)
    (simp_all add: aggregate_exit_step_def Let_def case_prod_beta table_simps update_live_position_def split: option.split)

lemma reopen_all_logs [table_simps]: "order_logs (foldl (\<lambda>s i. reopen_position now i s) s ids) = order_logs s"
  by (induction ids arbitrary: s) (simp_all add: table_simps)

lemma set_actual_pnl_booked:
  fixes s :: db
  assumes "get_live_order_log s' (request_id r) = get_live_order_log s (request_id r)"
  shows "map_option booked_columns (get_live_order_log (set_actual_pnl now r x s') (request_id r))
    = map_option booked_columns (get_live_order_log s (request_id r))"
  unfolding set_actual_pnl_def update_log_booked assms by (simp add: booked_columns_def [abs_def])

lemma sync_exit_booked:
  fixes s :: db
  shows "map_option booked_columns (get_live_order_log (sync_exit_order_position now r seen st s) (request_id r))
    = map_option booked_columns (get_live_order_log s (request_id r))"
proof -
  have same: "order_logs s' = order_logs s \<Longrightarrow> map_option booked_columns (get_live_order_log (set_actual_pnl now r x s') (request_id r))
    = map_option booked_columns (get_live_order_log s (request_id r))" for s' x
    by (rule set_actual_pnl_booked) (rule get_live_order_log_cong)
  have logs: "order_logs s' = order_logs s'' \<Longrightarrow> map_option booked_columns (get_live_order_log s' (request_id r))
    = map_option booked_columns (get_live_order_log s'' (request_id r))" for s' s'' :: db
    by (simp add: get_live_order_log_def)
  have agg: "map_option booked_columns (get_live_order_log (sync_aggregate_exit_order_positions now r w ids fill a f s) (request_id r))
    = map_option booked_columns (get_live_order_log s (request_id r))" for w ids fill a f
    by (simp add: sync_aggregate_exit_order_positions_def case_prod_beta)
      (intro impI same, simp add: table_simps)
  have book: "map_option booked_columns (get_live_order_log (book_exit_fill now r w p v a f (set_actual_pnl now r x s)) (request_id r))
    = map_option booked_columns (get_live_order_log s (request_id r))" for w p v a f x
    by (rule trans [OF logs [OF book_exit_frame(1)] same]) (rule refl)
  have "map_option booked_columns (get_live_order_log (reopen_position now i s) (request_id r))
    = map_option booked_columns (get_live_order_log s (request_id r))"
    "map_option booked_columns (get_live_order_log (foldl (\<lambda>s i. reopen_position now i s) s ids) (request_id r))
    = map_option booked_columns (get_live_order_log s (request_id r))" for i ids
    by (rule logs, simp add: table_simps)+
  then show ?thesis
    unfolding sync_exit_order_position_def by (simp add: Let_def agg book split: option.split)
qed

lemma exit_order_columns: "booked_columns r' = booked_columns r \<Longrightarrow> is_exit_order r' = is_exit_order r"
  by (simp add: booked_columns_def is_exit_order_def)

lemma updated_view_simps [simp]:
  "is_exit_order (updated_view r st) = is_exit_order r" "request_id (updated_view r st) = request_id r"
  "order_preview_payload (updated_view r st) = order_preview_payload r"
  by (simp_all add: updated_view_def is_exit_order_def)

definition filled_report :: "reconciled \<Rightarrow> bool" where
  "filled_report st \<longleftrightarrow> rc_status st \<in> {''FILLED'', ''PARTIALLY_FILLED''}"

text \<open>A report of no more than the booked volume moves no position.\<close>

lemma sync_exit_covered:
  assumes "filled_report st" "rc_executed st \<le> fst seen"
  shows "sync_exit_order_position now r seen st s = s"
proof -
  have "max (fsub (rc_executed st) (fst seen)) 0 = 0" using assms(2) by (simp add: fsub_nonpos)
  moreover have "rc_status st \<in> {''FILLED'', ''PARTIALLY_FILLED''}" using assms(1) by (simp add: filled_report_def)
  ultimately show ?thesis
    by (auto simp: sync_exit_order_position_def sync_aggregate_exit_order_positions_def Let_def split: option.split)
qed

lemma report_covered:
  assumes "is_exit_order r" "filled_report st" "rc_executed st \<le> executed_volume r"
  shows "positions (snd (apply_reconciled_order_status now rt src r st s)) = positions s"
  using assms(1) sync_exit_covered [OF assms(2), of "(executed_volume r, filled_amount_krw r, paid_fee r)"] assms(3)
  by (simp add: apply_reconciled_order_status_def Let_def table_simps)

text \<open>After a report the row holds its volume, and still belongs to an exit.\<close>

lemma report_booked:
  assumes "get_live_order_log s (request_id r) = Some r" "is_exit_order r"
    and "get_live_order_log (snd (apply_reconciled_order_status now rt src r st s)) (request_id r) = Some r'"
  shows "executed_volume r' = rc_executed st \<and> is_exit_order r'"
proof -
  let ?s1 = "update_live_order_log now (request_id r) (reconciled_log r st) s"
  have "map_option booked_columns (get_live_order_log (snd (apply_reconciled_order_status now rt src r st s)) (request_id r))
      = map_option booked_columns (get_live_order_log ?s1 (request_id r))"
    using assms(2) sync_exit_booked [of now "updated_view r st"]
    by (simp add: apply_reconciled_order_status_def Let_def get_live_order_log_def table_simps)
  also have "\<dots> = Some (rc_executed st, log_side r, order_purpose r)"
    unfolding update_log_booked using assms(1) by (simp add: reconciled_log_def)
  finally have "booked_columns r' = (rc_executed st, log_side r, order_purpose r)" using assms(3) by simp
  then show ?thesis using assms(2) by (simp add: booked_columns_def is_exit_order_def)
qed

section \<open>Exits only take volume away\<close>

definition positions_ok :: "db \<Rightarrow> bool" where
  "positions_ok s \<longleftrightarrow> distinct (map pos_id (positions s))
     \<and> list_all (\<lambda>p. is_flt (entry_volume p) \<and> 0 \<le> entry_volume p) (positions s)"

definition no_larger :: "position \<Rightarrow> position \<Rightarrow> bool" where
  "no_larger p q \<longleftrightarrow> pos_id q = pos_id p \<and> entry_volume q \<le> entry_volume p"

definition shrunk :: "db \<Rightarrow> db \<Rightarrow> bool" where
  "shrunk s s' \<longleftrightarrow> positions_ok s' \<and> list_all2 no_larger (positions s) (positions s')"

lemma shrunk_same: "positions_ok s \<Longrightarrow> positions s' = positions s \<Longrightarrow> shrunk s s'"
  by (simp add: shrunk_def positions_ok_def no_larger_def list_all2_same)

lemma no_larger_trans: "no_larger p q \<Longrightarrow> no_larger q r \<Longrightarrow> no_larger p r"
  by (simp add: no_larger_def)

lemma shrunk_trans: "shrunk s t \<Longrightarrow> shrunk t u \<Longrightarrow> shrunk s u"
  unfolding shrunk_def
  by (metis list_all2_trans [where ?P1.0 = no_larger and ?P2.0 = no_larger and ?P3.0 = no_larger] no_larger_trans)

lemma shrunk_positions: "shrunk s t \<Longrightarrow> positions u = positions t \<Longrightarrow> shrunk s u"
  by (simp add: shrunk_def positions_ok_def)

lemma shrunk_update:
  assumes "positions_ok s"
    and "\<And>p. p \<in> set (positions s) \<Longrightarrow> pos_id p = i
      \<Longrightarrow> no_larger p (f p) \<and> is_flt (entry_volume (f p)) \<and> 0 \<le> entry_volume (f p)"
  shows "shrunk s (update_live_position now i f s)"
proof -
  let ?f = "\<lambda>p. if pos_id p = i then (f p)\<lparr>pos_updated_at := now\<rparr> else p"
  have ps: "positions (update_live_position now i f s) = map ?f (positions s)"
    by (simp add: update_live_position_def update_where_def)
  have one: "no_larger p (?f p) \<and> is_flt (entry_volume (?f p)) \<and> 0 \<le> entry_volume (?f p)" if "p \<in> set (positions s)" for p
    using assms(1) assms(2) [OF that] that by (auto simp: positions_ok_def list_all_iff no_larger_def)
  have ids: "map pos_id (map ?f (positions s)) = map pos_id (positions s)"
    using one by (simp add: no_larger_def)
  have "list_all2 no_larger (positions s) (map ?f (positions s))"
    using one by (simp add: list.rel_map list_all2_same)
  moreover have "positions_ok (update_live_position now i f s)"
    unfolding positions_ok_def ps ids list_all_length list.pred_map comp_def
    using assms(1) one by (auto simp: positions_ok_def list_all_length)
  ultimately show ?thesis by (simp add: shrunk_def ps)
qed

lemma position_of_id: "positions_ok s \<Longrightarrow> p \<in> set (positions s) \<Longrightarrow> q \<in> set (positions s) \<Longrightarrow> pos_id q = pos_id p \<Longrightarrow> q = p"
  by (auto simp: positions_ok_def distinct_map inj_on_def)

lemma book_exit_shrinks:
  assumes "positions_ok s" "p \<in> set (positions s)" "0 \<le> volume"
  shows "shrunk s (book_exit_fill now r w p volume amount fee s)"
proof -
  have v: "is_flt (entry_volume p)" "0 \<le> entry_volume p" using assms(1,2) by (auto simp: positions_ok_def list_all_iff)
  have le: "max (fsub (entry_volume p) volume) 0 \<le> entry_volume p" using v assms(3) by (simp add: fsub_le_left)
  have flt: "is_flt (max (fsub (entry_volume p) volume) 0)" by simp
  have closed: "shrunk s (update_live_position now (pos_id p)
      (\<lambda>q. q\<lparr>pos_status := a, realized_pnl := b, closed_at := c, exit_order_uuid := d\<rparr>) s)" for a b c d
    by (rule shrunk_update [OF assms(1)]) (use position_of_id [OF assms(1,2)] v in \<open>auto simp: no_larger_def\<close>)
  have reduced: "shrunk s (update_live_position now (pos_id p)
      (\<lambda>q. q\<lparr>pos_status := a, entry_volume := max (fsub (entry_volume p) volume) 0, entry_amount_krw := b,
             current_price := c, realized_pnl := d, exit_order_uuid := e\<rparr>) s)" for a b c d e
    by (rule shrunk_update [OF assms(1)]) (use position_of_id [OF assms(1,2)] le flt in \<open>auto simp: no_larger_def\<close>)
  show ?thesis
    unfolding book_exit_fill_def Let_def
    by (simp only: if_split) (intro conjI impI reduced shrunk_positions [OF closed]; simp add: table_simps)
qed

lemma reopen_shrinks: "positions_ok s \<Longrightarrow> shrunk s (reopen_position now i s)"
  unfolding reopen_position_def by (rule shrunk_update) (auto simp: no_larger_def positions_ok_def list_all_iff)

lemma shrunk_ok: "shrunk s t \<Longrightarrow> positions_ok t"
  by (simp add: shrunk_def)

lemma load_in: "load_live_position s i = Some p \<Longrightarrow> p \<in> set (positions s)"
  by (auto simp: load_live_position_def dest: first_row_SomeD)

lemma find_in: "find P xs = Some x \<Longrightarrow> x \<in> set xs"
  by (induction xs) (auto split: if_splits)

lemma exit_target_in: "position_for_exit_order r s = Some p \<Longrightarrow> p \<in> set (positions s)"
  by (auto simp: position_for_exit_order_def load_open_live_positions_def Let_def
      dest!: load_in find_in split: option.splits if_splits)

lemma aggregate_step_shrinks:
  assumes "positions_ok (snd (snd acc))" "0 \<le> fst acc"
  shows "shrunk (snd (snd acc)) (snd (snd (aggregate_exit_step now r w fill a f i acc)))
    \<and> 0 \<le> fst (aggregate_exit_step now r w fill a f i acc)"
proof (cases acc)
  case (fields left pnl s)
  note ok = assms [unfolded fields, simplified]
  show ?thesis
  proof (cases "load_live_position s i")
    case None
    then show ?thesis using ok by (simp add: fields aggregate_exit_step_def shrunk_same)
  next
    case (Some p)
    have closing: "shrunk s (update_live_position now i (\<lambda>q. q\<lparr>pos_status := x, exit_order_uuid := y\<rparr>) s)" for x y
      by (rule shrunk_update [OF ok(1)]) (use ok(1) in \<open>auto simp: no_larger_def positions_ok_def list_all_iff\<close>)
    have book: "entry_volume p > 0 \<Longrightarrow> shrunk s (book_exit_fill now r w p (min (entry_volume p) left) b c s)" for b c
      by (rule book_exit_shrinks [OF ok(1) load_in [OF Some]]) (use ok(2) in simp)
    show ?thesis
      using ok book closing by (simp add: fields aggregate_exit_step_def Some Let_def shrunk_same)
  qed
qed

lemma aggregate_shrinks:
  assumes "positions_ok (snd (snd acc))" "0 \<le> fst acc"
  shows "shrunk (snd (snd acc)) (snd (snd (foldl (\<lambda>acc i. aggregate_exit_step now r w fill a f i acc) acc ids)))"
  using assms
proof (induction ids arbitrary: acc)
  case Nil
  then show ?case by (simp add: shrunk_same)
next
  case (Cons i ids)
  note step = aggregate_step_shrinks [OF Cons.prems, of now r w fill a f i]
  note ok = shrunk_ok [OF conjunct1 [OF step]]
  show ?case
    unfolding foldl_Cons by (rule shrunk_trans [OF conjunct1 [OF step] Cons.IH [OF ok conjunct2 [OF step]]])
qed

lemma reopen_all_shrinks: "positions_ok s \<Longrightarrow> shrunk s (foldl (\<lambda>s i. reopen_position now i s) s ids)"
proof (induction ids arbitrary: s)
  case (Cons i ids)
  show ?case
    unfolding foldl_Cons
    by (rule shrunk_trans [OF reopen_shrinks [OF Cons.prems] Cons.IH [OF shrunk_ok [OF reopen_shrinks [OF Cons.prems]]]])
qed (simp add: shrunk_same)

lemma sync_exit_shrinks:
  assumes "positions_ok s"
  shows "shrunk s (sync_exit_order_position now r seen st s)"
proof (cases "position_for_exit_order r s")
  case None
  then show ?thesis using assms by (simp add: sync_exit_order_position_def shrunk_same)
next
  case (Some p)
  have agg: "shrunk s (sync_aggregate_exit_order_positions now r w ids fill a f s)" for w ids fill a f
  proof (cases "fill \<le> 0")
    case False
    then show ?thesis
      using aggregate_shrinks [of "(fill, 0, s)" now r w fill a f ids] assms
      by (auto simp: sync_aggregate_exit_order_positions_def case_prod_beta table_simps elim: shrunk_positions)
  qed (use assms in \<open>simp add: sync_aggregate_exit_order_positions_def shrunk_same\<close>)
  have book: "shrunk s (book_exit_fill now r w p v a f (set_actual_pnl now r x s))" if "0 \<le> v" for w v a f x
  proof -
    have "positions_ok (set_actual_pnl now r x s)" using assms by (simp add: positions_ok_def table_simps)
    then show ?thesis
      using book_exit_shrinks [of "set_actual_pnl now r x s" p v] exit_target_in [OF Some] that
      by (auto simp: shrunk_def table_simps)
  qed
  show ?thesis
    using assms agg book reopen_shrinks reopen_all_shrinks
    by (simp add: sync_exit_order_position_def Some Let_def shrunk_same)
qed

section \<open>Session modes\<close>

text \<open>Which sessions of both kinds run, and whether they may trade by themselves.\<close>

definition session_modes :: "db \<Rightarrow> (int \<times> string \<times> bool) list \<times> (int \<times> string \<times> bool) list" where
  "session_modes s = (map (\<lambda>r. (ses_id r, ses_status r, auto_enabled r)) (sessions s),
     map (\<lambda>r. (ps_id r, ps_status r, ps_auto_enabled r)) (pilot_sessions s))"

named_theorems mode_simps \<open>operations that leave the session modes alone\<close>

lemma session_modes_cong: "sessions s' = sessions s \<Longrightarrow> pilot_sessions s' = pilot_sessions s \<Longrightarrow> session_modes s' = session_modes s"
  by (simp add: session_modes_def)

lemma update_session_modes:
  "(\<And>r. ses_id (f r) = ses_id r \<and> ses_status (f r) = ses_status r \<and> auto_enabled (f r) = auto_enabled r)
    \<Longrightarrow> session_modes (update_live_strategy_session now i f s) = session_modes s"
  by (simp add: session_modes_def update_live_strategy_session_def map_update_where)

lemma plain_modes [mode_simps]:
  fixes s :: db
  shows "session_modes (update_live_order_log now rid g s) = session_modes s"
    "session_modes (update_live_position now i h s) = session_modes s"
    "session_modes (log_recovery_event now rt e s) = session_modes s"
    "session_modes (snd (insert_position_fill_event now ev s)) = session_modes s"
    "session_modes (update_position_fill_event j u s) = session_modes s"
    "session_modes (record_ledger uuid k ft src log' v a fe s) = session_modes s"
    "session_modes (log_event now ty sev log' uuid k pl s) = session_modes s"
    "session_modes (snd (create_live_position now p s)) = session_modes s"
    "session_modes (set_actual_pnl now r x s) = session_modes s"
    "session_modes (reopen_position now i s) = session_modes s"
  by (rule session_modes_cong; simp add: update_live_order_log_def update_live_position_def log_recovery_event_def
      insert_live_recovery_event_def insert_position_fill_event_def update_position_fill_event_def record_ledger_def
      upsert_order_application_ledger_def log_event_def create_live_position_def set_actual_pnl_def reopen_position_def
      Let_def split: option.split)+

lemma session_update_modes [mode_simps]:
  "session_modes (settle_session now ses i res s) = session_modes s"
  "session_modes (repair_closed_position_session_pointer now p s) = session_modes s"
  "session_modes (update_live_strategy_session now k (adopt_update i res) s) = session_modes s"
  by (simp_all add: settle_session_def repair_closed_position_session_pointer_def adopt_update_def Let_def update_session_modes)

lemma adopt_modes [mode_simps]: "session_modes (adopt_position_in_relevant_session now r i res s) = session_modes s"
  by (simp add: adopt_position_in_relevant_session_def Let_def mode_simps split: option.split)

lemma attach_logs_modes [mode_simps]: "session_modes (attach_logs now rs i seen s) = session_modes s"
  by (induction now rs i seen s rule: attach_logs.induct) (simp_all add: mode_simps)

lemma finalize_modes [mode_simps]:
  "session_modes (finalize_entry_lifecycle_for_position now i s) = session_modes s"
  "session_modes (finalize_if_entry now l i s) = session_modes s"
proof -
  have "session_modes (update_next_entry_status now c st b s) = session_modes s" for c st b s
    by (rule session_modes_cong) (simp_all add: update_next_entry_status_def split: option.split)
  then show "session_modes (finalize_entry_lifecycle_for_position now i s) = session_modes s"
    by (simp add: finalize_entry_lifecycle_for_position_def Let_def session_modes_def split: option.split)
  then show "session_modes (finalize_if_entry now l i s) = session_modes s"
    by (simp add: finalize_if_entry_def)
qed

lemma sync_modes [mode_simps]:
  "session_modes (snd (sync_filled_entry_order_to_position n cx ses src log0 raw s)) = session_modes s"
proof -
  have delta: "session_modes (snd (apply_order_uuid_delta cx l uuid log' logs src ses v a f s)) = session_modes s"
    for l uuid log' logs v a f s
    by (simp add: apply_order_uuid_delta_def Let_def mode_simps split: option.split)
  have parts: "session_modes (snd (sync_scale_in cx ses p log' logs uuid src price v a f s)) = session_modes s"
    "session_modes (snd (sync_existing cx ses p log' logs uuid src f s)) = session_modes s"
    "session_modes (snd (sync_event_known cx ses logs ft e s)) = session_modes s"
    "session_modes (snd (sync_new cx ses log' logs uuid src price v a f s)) = session_modes s"
    for p log' logs uuid price v a f e ft s
    by (simp_all add: sync_scale_in_def sync_existing_def sync_event_known_def sync_new_def Let_def mode_simps case_prod_beta)
  show ?thesis
  proof (induction n arbitrary: s)
    case 0
    show ?case by (simp add: sync_filled_entry_order_to_position.simps)
  next
    case (Suc n)
    show ?case
      by (subst sync_filled_entry_order_to_position.simps)
        (simp add: Let_def delta parts Suc mode_simps split: option.split)
  qed
qed

lemma book_exit_modes [mode_simps]: "session_modes (book_exit_fill now r w p v a f s) = session_modes s"
  by (simp add: book_exit_fill_def Let_def mode_simps)

lemma aggregate_modes:
  "session_modes (snd (snd (foldl (\<lambda>acc i. aggregate_exit_step now r w fill a f i acc) acc ids))) = session_modes (snd (snd acc))"
  by (induction ids arbitrary: acc)
    (simp_all add: aggregate_exit_step_def Let_def case_prod_beta mode_simps split: option.split)

lemma reopen_all_modes [mode_simps]: "session_modes (foldl (\<lambda>s i. reopen_position now i s) s ids) = session_modes s"
  by (induction ids arbitrary: s) (simp_all add: mode_simps)

lemma sync_exit_modes [mode_simps]: "session_modes (sync_exit_order_position now r seen st s) = session_modes s"
  using aggregate_modes [of now r]
  by (simp add: sync_exit_order_position_def sync_aggregate_exit_order_positions_def Let_def case_prod_beta mode_simps
      split: option.split)

lemma ensure_modes [mode_simps]:
  "session_modes (snd (ensure_filled_entry_order_position now rt src r s)) = session_modes s"
  by (simp add: ensure_filled_entry_order_position_def recover_new_position_def Let_def case_prod_beta mode_simps
      split: option.split)

lemma apply_modes [mode_simps]: "session_modes (snd (apply_reconciled_order_status now rt src r st s)) = session_modes s"
  by (simp add: apply_reconciled_order_status_def Let_def case_prod_beta mode_simps)

lemma reconcile_modes [mode_simps]: "session_modes (snd (reconcile_order_log now rt src reply r s)) = session_modes s"
  by (simp add: reconcile_order_log_def Let_def case_prod_beta mode_simps split: sum.split)

lemma sync_internal_modes [mode_simps]:
  "session_modes (snd (sync_internal_orders now rt exchange market orders reply rs n s)) = session_modes s"
proof (induction rs arbitrary: n s)
  case (Cons r rs)
  have "session_modes s1 = session_modes s"
    if "reconcile_order_log now rt src rep r s = (res, s1)" for src rep res s1
    using reconcile_modes [of now rt src rep r s] that by simp
  then show ?case
    by (auto simp: Let_def case_prod_beta mode_simps Cons split: option.split prod.split reconcile_outcome.split)
qed simp

lemma report_unknown_modes [mode_simps]:
  "session_modes (snd (report_unknown_orders now rt exchange market ds ws s)) = session_modes s"
  by (induction ds arbitrary: ws s) (auto simp: mode_simps)

lemma sync_open_modes [mode_simps]:
  "session_modes (snd (sync_open_orders now rt exchange market listing reply s)) = session_modes s"
proof -
  have "session_modes s1 = session_modes s"
    if "sync_internal_orders now rt exchange market orders reply rs 0 s = (res, s1)" for orders rs res s1
    using sync_internal_modes [of now rt exchange market orders reply rs 0 s] that by simp
  then show ?thesis
    by (auto simp: sync_open_orders_def case_prod_beta mode_simps split: sum.split option.split prod.split)
qed

lemma startup_modes:
  "session_modes (snd (run_startup_live_recovery now rt listing reply s))
    = session_modes (pause_running_live_strategy_sessions_on_startup now (pause_running_auto_live_pilot_sessions_on_startup now s))"
  by (simp add: run_startup_live_recovery_def Let_def case_prod_beta mode_simps)

section \<open>Samples\<close>

definition sample_exit_log :: order_log where
  "sample_exit_log = (sample_log ''exit-1'' ''x1'')\<lparr>log_side := ''SELL'', order_purpose := ''EXIT'', log_status := ''SUBMITTED'',
     log_position_id := Some 1, executed_volume := 0, filled_amount_krw := 0, paid_fee := 0\<rparr>"

definition exit_db :: db where
  "exit_db = empty_db\<lparr>order_logs := [sample_exit_log], positions := [sample_position\<lparr>entry_volume := 2, entry_amount_krw := 100000\<rparr>],
     sessions := [sample_session]\<rparr>"

definition exit_raw :: "int \<Rightarrow> pydict" where
  "exit_raw v = [(''uuid'', VStr ''x1''), (''state'', VStr ''wait''), (''price'', VInt 50000), (''volume'', VInt 2),
     (''executed_volume'', VInt v)]"

section \<open>Mismatch events of other coins\<close>

text \<open>
  The signature that suppresses repeated mismatch events is built from fields that are 0 for every
  coin but BTC: for another coin all mismatches with equally many open positions count as the same
  event, whatever the volumes.
\<close>

lemma other_coins_share_a_signature:
  assumes "market_symbol market \<noteq> ''BTC''" "length ps = length qs"
  shows "balance_mismatch_signature (balance_payload market (compare_balance market n t ps))
    = balance_mismatch_signature (balance_payload market (compare_balance market n' t' qs))"
  using assms
  by (simp add: balance_mismatch_signature_def balance_payload_def compare_balance_def Let_def rounded_def int_or_def)

section \<open>Properties\<close>



text \<open>
  C13. Exits only take volume away. Applying any report to an exit order, of one position or of
  several that are sold together, creates and removes no position, raises no volume, and leaves
  ids distinct and volumes non-negative doubles.
\<close>

theorem exits_only_take_volume:
  assumes "positions_ok s" "is_exit_order r"
  shows "positions_ok (snd (apply_reconciled_order_status now rt src r st s))
    \<and> list_all2 (\<lambda>p q. pos_id q = pos_id p \<and> entry_volume q \<le> entry_volume p) (positions s)
        (positions (snd (apply_reconciled_order_status now rt src r st s)))"
proof -
  let ?u = "log_recovery_event now rt (recovery_event_of src (if rc_status st = ''PARTIALLY_FILLED'' then ''WARNING'' else ''INFO'')
     (log_exchange_or r) (log_market_or r) (log_session_id r) (Some (request_id r))
     (or_text (Some (raw_order_uuid (rc_raw st))) (log_order_uuid r))
     [(''status'', VStr (rc_status st)), (''executed_volume'', VFloat (rc_executed st)),
      (''remaining_volume'', VFloat (rc_remaining st)), (''filled_amount_krw'', VFloat (rc_amount st))])
     (update_live_order_log now (request_id r) (reconciled_log r st) s)"
  have same: "positions ?u = positions s" by (simp add: table_simps)
  have res: "snd (apply_reconciled_order_status now rt src r st s)
      = sync_exit_order_position now (updated_view r st) (executed_volume r, filled_amount_krw r, paid_fee r) st ?u"
    using assms(2) by (simp add: apply_reconciled_order_status_def Let_def)
  have "positions_ok ?u" using assms(1) same by (simp add: positions_ok_def)
  then show ?thesis
    using sync_exit_shrinks [of ?u] unfolding res shrunk_def no_larger_def [abs_def] same by blast
qed

theorem exits_only_take_volume_witness:
  "positions_ok (snd (apply_reconciled_order_status 2000 plain_runtime ''OPEN_ORDER_SYNC'' (normalize_live_order_log sample_exit_log)
        (normalize_exchange_order (exit_raw 2)) exit_db))
   \<and> map pos_status (positions (snd (apply_reconciled_order_status 2000 plain_runtime ''OPEN_ORDER_SYNC''
        (normalize_live_order_log sample_exit_log) (normalize_exchange_order (exit_raw 2)) exit_db))) = [''CLOSED'']"
proof -
  have a: "positions_ok exit_db" by (simp add: positions_ok_def exit_db_def)
  have b: "is_exit_order (normalize_live_order_log sample_exit_log)" by code_simp
  have "map pos_status (positions (snd (apply_reconciled_order_status 2000 plain_runtime ''OPEN_ORDER_SYNC''
        (normalize_live_order_log sample_exit_log) (normalize_exchange_order (exit_raw 2)) exit_db))) = [''CLOSED'']"
    by code_simp
  then show ?thesis using exits_only_take_volume [OF a b] by blast
qed



end
