(* ===== verification/CapitalSnapshot.thy ===== *)
theory CapitalSnapshot
  imports LiveRecovery
begin

text \<open>
  The capital snapshot (\<open>app/capital_snapshot.py\<close>): what the exchange and the database say about
  cash, positions, open orders, reservations and slots at one moment, with the budget that is left
  for new entries. The balances and the open orders of each market are arguments; a failed request
  is the name of its exception.
\<close>

section \<open>Environment\<close>

definition int_env :: "runtime \<Rightarrow> string \<Rightarrow> int \<Rightarrow> int \<Rightarrow> int option \<Rightarrow> int" where
  "int_env rt k dflt least most =
     (let v = max least (case parse_int (env_text rt k (int_str dflt)) of None \<Rightarrow> dflt | Some n \<Rightarrow> n)
      in case most of None \<Rightarrow> v | Some m \<Rightarrow> min v m)"

definition float_env :: "runtime \<Rightarrow> string \<Rightarrow> rat \<Rightarrow> rat \<Rightarrow> rat" where
  "float_env rt k dflt least = max least (case environ rt k of None \<Rightarrow> dflt
     | Some t \<Rightarrow> (case parse_float t of None \<Rightarrow> dflt | Some x \<Rightarrow> x))"

fun split_on :: "char \<Rightarrow> string \<Rightarrow> string list" where
  "split_on c [] = [[]]"
| "split_on c (x # xs) = (if x = c then [] # split_on c xs
     else case split_on c xs of [] \<Rightarrow> [[x]] | t # ts \<Rightarrow> (x # t) # ts)"

definition csv_env :: "runtime \<Rightarrow> string \<Rightarrow> string \<Rightarrow> string set" where
  "csv_env rt k dflt = set (map (\<lambda>t. py_upper (py_strip t))
     (filter (\<lambda>t. py_strip t \<noteq> []) (split_on CHR '','' (env_text rt k dflt))))"

section \<open>Values\<close>

text \<open>Position rows have no column \<open>current_value_krw\<close>; the first reading of the code is always 0.\<close>

definition snapshot_position_value :: "position \<Rightarrow> rat" where
  "snapshot_position_value p = fmul (num_or (current_price p) (entry_price p)) (entry_volume p)"

definition order_krw :: "pydict \<Rightarrow> rat" where
  "order_krw d =
     (let explicit = to_float (py_or (py_or (py_or (dict_get d ''remaining_fee'') (dict_get d ''reserved_fee''))
            (dict_get d ''locked'')) (dict_get d ''amount_krw''))
      in if explicit > 0 then explicit
         else case (py_float (py_or (dict_get d ''price'') (VFloat 0)),
                    py_float (py_or (py_or (dict_get d ''remaining_volume'') (dict_get d ''volume'')) (VFloat 0))) of
           (Some price, Some volume) \<Rightarrow> max (fmul price volume) 0
         | _ \<Rightarrow> 0)"

definition text_of :: "pyval \<Rightarrow> string" where
  "text_of v = (if truthy v then py_str v else [])"

definition is_buy_order :: "pydict \<Rightarrow> bool" where
  "is_buy_order d \<longleftrightarrow> py_lower (text_of (dict_get d ''side'')) \<in> {''bid'', ''buy''}"

definition snap_total :: "accounts option \<Rightarrow> string \<Rightarrow> rat" where
  "snap_total b currency = (case b of None \<Rightarrow> 0 | Some t \<Rightarrow> balance_amount t (py_upper currency))"

definition snap_available :: "accounts option \<Rightarrow> string \<Rightarrow> rat" where
  "snap_available b currency = (case b of None \<Rightarrow> 0 | Some t \<Rightarrow> available_balance t (py_upper currency))"

text \<open>Of the three price keys an account has only the average buy price.\<close>

definition balance_value_krw :: "account \<Rightarrow> rat \<Rightarrow> rat option" where
  "balance_value_krw a amount = (if ac_avg_buy_price a > 0 then Some (fmul amount (ac_avg_buy_price a)) else None)"

text \<open>\<open>list(dict.fromkeys(xs))\<close>.\<close>

definition uniq :: "'x list \<Rightarrow> 'x list" where
  "uniq xs = rev (remdups (rev xs))"

definition open_order_markets :: "runtime \<Rightarrow> position list \<Rightarrow> reservation list \<Rightarrow> order_log list \<Rightarrow> string list" where
  "open_order_markets rt ps rs ls = sort (remdups (env_text rt ''AUTO_ALLOWED_MARKET'' ''KRW-BTC''
     # filter (\<lambda>m. m \<noteq> []) (map pos_market ps @ map rv_market rs @ map log_market ls)))"

definition load_unresolved_live_order_logs_for_exchange :: "db \<Rightarrow> string \<Rightarrow> order_log list" where
  "load_unresolved_live_order_logs_for_exchange s exchange = map normalize_live_order_log
     (sort_key (\<lambda>r. (log_updated_at r, log_id r))
       (filter (\<lambda>r. log_exchange r = exchange \<and> log_status r \<in> {''SUBMITTED'', ''WAITING'', ''PARTIALLY_FILLED''}
          \<and> \<not> sql_status_event (request_id r)) (order_logs s)))"

definition load_position_slots :: "int \<Rightarrow> int \<Rightarrow> string \<Rightarrow> db \<Rightarrow> slot list \<times> db" where
  "load_position_slots now max_slots exchange s = reconcile_position_slots now max_slots exchange s"

section \<open>The snapshot\<close>

record capital_snapshot =
  cs_exchange :: string
  cs_created_at :: int
  cs_max_age :: int
  cs_error :: string
  cs_warnings :: "string list"
  cs_blockers :: "string list"
  cs_auto_enabled :: bool
  cs_max_total :: rat
  cs_loss_pct :: rat
  cs_available_krw :: "rat option"
  cs_cash_reserve :: rat
  cs_dust_value :: rat
  cs_db_value :: rat
  cs_exchange_value :: rat
  cs_pending_reserved :: rat
  cs_pending_exchange :: rat
  cs_remaining :: rat
  cs_budget :: rat
  cs_open_count :: int
  cs_max_open :: int
  cs_empty_slots :: int
  cs_balance_mismatch :: bool
  cs_order_mismatch :: bool
  cs_positions :: "position list"
  cs_balances :: "accounts option"
  cs_open_orders :: "pydict list"
  cs_db_orders :: "order_log list"
  cs_reservations :: "reservation list"
  cs_slots :: "slot list"

text \<open>Collecting the open orders: ids seen, orders, warnings.\<close>

definition exchange_order_key :: "pydict \<Rightarrow> pyval" where
  "exchange_order_key d = py_or (py_or (dict_get d ''uuid'') (dict_get d ''identifier'')) (dict_get d ''client_order_id'')"

definition collect_order :: "string \<Rightarrow> string list \<times> pydict list \<Rightarrow> pyval \<Rightarrow> string list \<times> pydict list" where
  "collect_order market acc v = (case acc of (seen, orders) \<Rightarrow>
     (case v of VDict d \<Rightarrow>
        (let i = (if truthy (exchange_order_key d) then py_str (exchange_order_key d)
                  else market @ '':'' @ int_str (int (length orders)))
         in if i \<in> set seen then (seen, orders) else (seen @ [i], orders @ [d]))
      | _ \<Rightarrow> (seen, orders)))"

fun collect_orders :: "(string \<Rightarrow> pyval answer) \<Rightarrow> string list \<Rightarrow> string list \<times> pydict list
    \<Rightarrow> string list \<Rightarrow> pydict list \<times> string list" where
  "collect_orders listing [] acc warnings = (snd acc, warnings)"
| "collect_orders listing (m # ms) acc warnings = (case listing m of
     Inl e \<Rightarrow> collect_orders listing ms acc (warnings @ [''OPEN_ORDER_FETCH_FAILED:'' @ m @ '':'' @ e])
   | Inr v \<Rightarrow> collect_orders listing ms (foldl (collect_order m) acc (as_list v)) warnings)"

text \<open>Volumes of the database by coin, and the last known price of each.\<close>

definition add_volume :: "(string \<times> rat) list \<Rightarrow> position \<Rightarrow> (string \<times> rat) list" where
  "add_volume t p = (let symbol = market_symbol (pos_market p) in
     if symbol = [] then t else dict_put t symbol (fadd (nz (map_of t symbol)) (entry_volume p)))"

definition note_price :: "(string \<times> rat) list \<Rightarrow> position \<Rightarrow> (string \<times> rat) list" where
  "note_price t p = (let symbol = market_symbol (pos_market p); price = num_or (current_price p) (entry_price p) in
     if symbol = [] \<or> \<not> price > 0 then t else dict_put t symbol price)"

definition volume_mismatch :: "accounts option \<Rightarrow> string \<times> rat \<Rightarrow> bool" where
  "volume_mismatch b v \<longleftrightarrow> b \<noteq> None
     \<and> \<bar>fsub (snap_total b (fst v)) (snd v)\<bar> > max (rnd (1 / 1000000)) (fmul \<bar>snd v\<bar> (rnd (1 / 100)))"

definition unbacked_balance :: "rat \<Rightarrow> string set \<Rightarrow> (string \<times> rat) list \<Rightarrow> string \<times> account \<Rightarrow> bool" where
  "unbacked_balance dust ignored volumes entry = (case entry of (currency, a) \<Rightarrow>
     (let symbol = py_upper currency; amount = fadd (ac_balance a) (ac_locked a)
      in symbol \<noteq> ''KRW'' \<and> symbol \<notin> ignored \<and> map_of volumes symbol = None \<and> amount > 0
         \<and> (case balance_value_krw a amount of None \<Rightarrow> True | Some v \<Rightarrow> v > dust)))"

definition db_order_ids :: "order_log list \<Rightarrow> string set" where
  "db_order_ids ls = set (map (\<lambda>r. if os (log_order_uuid r) = [] then request_id r else os (log_order_uuid r)) ls)"

definition exchange_order_ids :: "pydict list \<Rightarrow> string set" where
  "exchange_order_ids ds = set (map (\<lambda>d. text_of (exchange_order_key d)) ds)"

definition remaining_exposure :: "rat \<Rightarrow> rat \<Rightarrow> rat \<Rightarrow> rat \<Rightarrow> rat" where
  "remaining_exposure most db_value reserved pending = max (fsub (fsub (fsub most db_value) reserved) pending) 0"

definition available_budget :: "rat \<Rightarrow> rat option \<Rightarrow> rat \<Rightarrow> rat" where
  "available_budget remaining available reserve = (case available of None \<Rightarrow> 0
     | Some a \<Rightarrow> max (min remaining (fsub a reserve)) 0)"

definition budget_blockers :: "rat option \<Rightarrow> rat \<Rightarrow> rat \<Rightarrow> bool \<Rightarrow> bool \<Rightarrow> string list" where
  "budget_blockers available remaining reserve balance_mismatch order_mismatch =
     (if (case available of None \<Rightarrow> False | Some a \<Rightarrow> a \<le> 0) then [''BLOCKED_INSUFFICIENT_KRW_BALANCE''] else [])
     @ (if remaining \<le> 0 then [''BLOCKED_REMAINING_EXPOSURE_TOO_SMALL''] else [])
     @ (if (case available of None \<Rightarrow> False | Some a \<Rightarrow> a \<le> reserve) then [''BLOCKED_CASH_RESERVE_REQUIRED''] else [])
     @ (if balance_mismatch then [''BLOCKED_BALANCE_MISMATCH''] else [])
     @ (if order_mismatch then [''BLOCKED_OPEN_ORDER_MISMATCH''] else [])"

definition build_capital_snapshot ::
  "int \<Rightarrow> runtime \<Rightarrow> string \<Rightarrow> accounts answer \<Rightarrow> (string \<Rightarrow> pyval answer) \<Rightarrow> db \<times> risk_tables
   \<Rightarrow> capital_snapshot \<times> db \<times> risk_tables" where
  "build_capital_snapshot now rt name reply listing w = (case w of (s, t) \<Rightarrow>
     (let exchange = py_lower (py_strip (if name = [] then ''bithumb'' else name));
          (policy, t1) = load_global_bot_operation_policy now t;
          max_slots = int_env rt ''AUTO_MAX_OPEN_POSITION_COUNT'' 5 1 (Some 20);
          dust = float_env rt ''AUTO_CAPITAL_SNAPSHOT_DUST_VALUE_KRW'' 100 0;
          ignored = csv_env rt ''AUTO_CAPITAL_SNAPSHOT_IGNORED_BALANCE_SYMBOLS'' ''P'';
          ps = load_open_live_positions_for_exchange s exchange;
          rs = load_active_order_reservations now exchange s;
          ls = load_unresolved_live_order_logs_for_exchange s exchange;
          (free_slots, s1) = load_position_slots now max_slots exchange s;
          balances = (case reply of Inl _ \<Rightarrow> None | Inr b \<Rightarrow> Some b);
          (orders, warned) = (case reply of
             Inl e \<Rightarrow> ([], [''BALANCE_FETCH_FAILED:'' @ e])
           | Inr _ \<Rightarrow> collect_orders listing (open_order_markets rt ps rs ls) ([], []) []);
          available = map_option (\<lambda>b. snap_available (Some b) ''KRW'') balances;
          most = pol_max_exposure policy;
          reserve = fdiv (fmul most (float_env rt ''AUTO_CASH_RESERVE_PCT'' 5 0)) 100;
          db_value = py_sum (map snapshot_position_value ps);
          reserved = py_sum (map rv_amount_krw rs);
          pending = py_sum (map order_krw (filter is_buy_order orders));
          volumes = foldl add_volume [] ps;
          prices = foldl note_price [] ps;
          exchange_value = foldl (\<lambda>x v. fadd x (fmul (snap_total balances (fst v)) (nz (map_of prices (fst v))))) 0 volumes;
          mismatched = filter (volume_mismatch balances) volumes;
          unbacked = (case balances of None \<Rightarrow> [] | Some b \<Rightarrow> filter (unbacked_balance dust ignored volumes) b);
          order_mismatch = ((orders \<noteq> [] \<or> ls \<noteq> []) \<and> db_order_ids ls \<noteq> exchange_order_ids orders);
          remaining = remaining_exposure most db_value reserved pending
      in (\<lparr>cs_exchange = exchange, cs_created_at = now,
           cs_max_age = int_env rt ''AUTO_CAPITAL_SNAPSHOT_MAX_AGE_SECONDS'' 10 1 (Some 300),
           cs_error = (case reply of Inl _ \<Rightarrow> ''BALANCE_FETCH_FAILED'' | Inr _ \<Rightarrow> []),
           cs_warnings = uniq (warned @ map (\<lambda>v. ''EXCHANGE_BALANCE_MISMATCH:'' @ fst v) mismatched
             @ map (\<lambda>e. ''EXCHANGE_BALANCE_WITHOUT_DB_POSITION:'' @ py_upper (fst e)) unbacked
             @ (if order_mismatch then [''OPEN_ORDER_MISMATCH_DETECTED''] else [])),
           cs_blockers = uniq ((case reply of Inl _ \<Rightarrow> [''BLOCKED_EXCHANGE_BALANCE_UNAVAILABLE''] | Inr _ \<Rightarrow> [])
             @ budget_blockers available remaining reserve (mismatched \<noteq> []) order_mismatch),
           cs_auto_enabled = pol_enabled policy, cs_max_total = most, cs_loss_pct = pol_loss_pct policy,
           cs_available_krw = available, cs_cash_reserve = reserve, cs_dust_value = dust, cs_db_value = db_value,
           cs_exchange_value = exchange_value, cs_pending_reserved = reserved, cs_pending_exchange = pending,
           cs_remaining = remaining, cs_budget = available_budget remaining available reserve,
           cs_open_count = int (length ps), cs_max_open = max_slots,
           cs_empty_slots = int (length (filter (\<lambda>r. slot_status r = ''EMPTY'') free_slots)),
           cs_balance_mismatch = (mismatched \<noteq> []), cs_order_mismatch = order_mismatch, cs_positions = ps,
           cs_balances = balances, cs_open_orders = orders, cs_db_orders = ls, cs_reservations = rs,
           cs_slots = free_slots\<rparr>, s1, t1)))"

definition snapshot_is_fresh :: "int \<Rightarrow> runtime \<Rightarrow> capital_snapshot \<Rightarrow> bool" where
  "snapshot_is_fresh now rt c \<longleftrightarrow> cs_error c = []
     \<and> now - cs_created_at c \<le> (if cs_max_age c = 0 then int_env rt ''AUTO_CAPITAL_SNAPSHOT_MAX_AGE_SECONDS'' 10 1 None
                                else cs_max_age c)"

definition sellable_volume_for_position :: "capital_snapshot \<Rightarrow> position \<Rightarrow> rat" where
  "sellable_volume_for_position c p =
     max (min (entry_volume p) (snap_available (cs_balances c) (market_symbol (pos_market p)))) 0"

section \<open>Lemmas\<close>

lemma available_budget_bounds:
  "0 \<le> available_budget remaining available reserve"
  "0 \<le> remaining \<Longrightarrow> available_budget remaining available reserve \<le> remaining"
  "available = Some a \<Longrightarrow> available_budget remaining available reserve \<le> max (fsub a reserve) 0"
  by (auto simp: available_budget_def split: option.split)

lemma remaining_exposure_nonneg: "0 \<le> remaining_exposure most db_value reserved pending"
  by (simp add: remaining_exposure_def)

lemma sellable_bounds:
  "0 \<le> sellable_volume_for_position c p"
  "0 \<le> entry_volume p \<Longrightarrow> sellable_volume_for_position c p \<le> entry_volume p"
  by (auto simp: sellable_volume_for_position_def)

text \<open>
  The fee that an exchange reserves for an order is taken for the order's amount: a buy order of
  50000 KRW with a reserved fee of 25 counts as 25.
\<close>

lemma reserved_fee_is_taken_for_the_amount:
  "order_krw [(''price'', VInt 50000), (''volume'', VInt 1), (''reserved_fee'', VInt 25)] = 25
   \<and> order_krw [(''price'', VInt 50000), (''volume'', VInt 1)] = 50000"
  by code_simp

end
