(* ===== verification/PyTime.thy ===== *)
theory PyTime
  imports Prelude
begin

text \<open>
  Time stamps as texts. \<open>iso_seconds\<close> is \<open>datetime.fromisoformat\<close> on the extended form with an
  offset, as seconds since 1970 in UTC; \<open>None\<close> is its \<open>ValueError\<close>, or the \<open>TypeError\<close> when a stamp
  without offset meets one with an offset. Fractions of a second are dropped. The compact and the
  week forms, which no exchange sends, are not read.
\<close>

definition digits2 :: "string \<Rightarrow> (int \<times> string) option" where
  "digits2 s = (case s of a # b # r \<Rightarrow>
     (case (digit_val a, digit_val b) of (Some x, Some y) \<Rightarrow> Some (10 * x + y, r) | _ \<Rightarrow> None) | _ \<Rightarrow> None)"

definition digits4 :: "string \<Rightarrow> (int \<times> string) option" where
  "digits4 s = (case digits2 s of None \<Rightarrow> None
     | Some (x, r) \<Rightarrow> (case digits2 r of None \<Rightarrow> None | Some (y, r') \<Rightarrow> Some (100 * x + y, r')))"

definition sep_digits2 :: "char \<Rightarrow> string \<Rightarrow> (int \<times> string) option" where
  "sep_digits2 c s = (case s of [] \<Rightarrow> None | x # r \<Rightarrow> if x = c then digits2 r else None)"

definition leap :: "int \<Rightarrow> bool" where
  "leap y \<longleftrightarrow> y mod 4 = 0 \<and> y mod 100 \<noteq> 0 \<or> y mod 400 = 0"

definition days_in_month :: "int \<Rightarrow> int \<Rightarrow> int" where
  "days_in_month y m = (if m = 2 then (if leap y then 29 else 28) else if m \<in> {4, 6, 9, 11} then 30 else 31)"

text \<open>Days before a date, counted from 1970-01-01.\<close>

definition days_before_year :: "int \<Rightarrow> int" where
  "days_before_year y = (y - 1) * 365 + (y - 1) div 4 - (y - 1) div 100 + (y - 1) div 400"

definition days_from_civil :: "int \<Rightarrow> int \<Rightarrow> int \<Rightarrow> int" where
  "days_from_civil y m d = days_before_year y + sum_list (map (days_in_month y) [1..m - 1]) + d - 1 - 719162"

definition read_date :: "string \<Rightarrow> (int \<times> string) option" where
  "read_date s = (case digits4 s of None \<Rightarrow> None | Some (y, r) \<Rightarrow>
     (case sep_digits2 CHR ''-'' r of None \<Rightarrow> None | Some (m, r1) \<Rightarrow>
       (case sep_digits2 CHR ''-'' r1 of None \<Rightarrow> None | Some (d, r2) \<Rightarrow>
         if 1 \<le> y \<and> 1 \<le> m \<and> m \<le> 12 \<and> 1 \<le> d \<and> d \<le> days_in_month y m
         then Some (days_from_civil y m d, r2) else None)))"

definition read_clock :: "string \<Rightarrow> (int \<times> string) option" where
  "read_clock s = (case digits2 s of None \<Rightarrow> None | Some (h, r) \<Rightarrow>
     (case sep_digits2 CHR '':'' r of None \<Rightarrow> None | Some (m, r1) \<Rightarrow>
       (case sep_digits2 CHR '':'' r1 of None \<Rightarrow> None | Some (x, r2) \<Rightarrow>
         if h < 24 \<and> m < 60 \<and> x < 60 then Some (h * 3600 + m * 60 + x, r2) else None)))"

definition skip_fraction :: "string \<Rightarrow> string option" where
  "skip_fraction s = (case s of [] \<Rightarrow> Some []
     | c # r \<Rightarrow> if c \<in> {CHR ''.'', CHR '',''}
         then (if takeWhile (\<lambda>d. digit_val d \<noteq> None) r = [] then None else Some (dropWhile (\<lambda>d. digit_val d \<noteq> None) r))
         else Some s)"

definition read_offset :: "string \<Rightarrow> int option" where
  "read_offset s = (case s of [] \<Rightarrow> None
     | c # r \<Rightarrow> if c \<noteq> CHR ''+'' \<and> c \<noteq> CHR ''-'' then None
         else (case digits2 r of None \<Rightarrow> None | Some (h, r1) \<Rightarrow>
           (case sep_digits2 CHR '':'' r1 of
              Some (m, []) \<Rightarrow> if h < 24 \<and> m < 60 then Some ((if c = CHR ''-'' then -1 else 1) * (h * 3600 + m * 60)) else None
            | _ \<Rightarrow> None)))"

definition zulu :: "string \<Rightarrow> string" where
  "zulu s = concat (map (\<lambda>c. if c = CHR ''Z'' then ''+00:00'' else [c]) s)"

definition iso_seconds :: "string \<Rightarrow> int option" where
  "iso_seconds s = (case read_date (zulu s) of
     Some (day, _ # r) \<Rightarrow> (case read_clock r of
       Some (clock, r1) \<Rightarrow> (case skip_fraction r1 of
         Some r2 \<Rightarrow> map_option (\<lambda>offset. day * 86400 + clock - offset) (read_offset r2) | None \<Rightarrow> None)
     | None \<Rightarrow> None)
   | _ \<Rightarrow> None)"

lemma iso_seconds_examples:
  "iso_seconds ''1970-01-01T00:00:00Z'' = Some 0"
  "iso_seconds ''2024-02-29T09:00:00+09:00'' = Some 1709164800"
  "iso_seconds ''2023-02-29T00:00:00Z'' = None"
  "iso_seconds ''2024-03-01T00:00:00'' = None"
  by code_simp+

end
