(* ===== verification/LiveExit.thy ===== *)
theory LiveExit
  imports CapitalSnapshot PyTime
begin

text \<open>
  Live exits (\<open>app/live_exit.py\<close>) with the table \<open>exit_candidates\<close> of \<open>app/database.py\<close>: the price
  triggers with the trailing stop, exit candidates, the evaluation of an exit order, its preview,
  submission, reconciliation, cancellation and time-out. The answers of the exchange, the fresh
  request id and the clock are arguments. Message texts and the masked copy of the request that is
  kept in the log are left out.
\<close>

section \<open>Configuration\<close>

record exit_config =
  exit_enabled :: bool
  exit_order_type :: string
  market_order_enabled :: bool
  stop_loss_percent :: rat
  take_profit_percent :: rat
  max_hold_minutes :: int
  exit_price_offset_percent :: rat
  cancel_exit_order_after_seconds :: int
  max_exit_retry_count :: int
  require_manual_confirm :: bool
  exit_fee_rate :: rat

text \<open>\<open>None\<close>: a number of the environment does not parse.\<close>

definition exit_config_from_env :: "runtime \<Rightarrow> exit_config option" where
  "exit_config_from_env rt =
     (case (parse_float (env_text rt ''AUTO_EXIT_PRICE_OFFSET_PERCENT'' ''0.2''),
            parse_int (env_text rt ''AUTO_CANCEL_EXIT_ORDER_AFTER_SECONDS'' ''45''),
            parse_int (env_text rt ''AUTO_MAX_EXIT_RETRY_COUNT'' ''2''),
            parse_float (env_text rt ''LIVE_FEE_RATE'' ''0.0005'')) of
        (Some offset, Some cancel_after, Some retries, Some fee) \<Rightarrow>
          Some \<lparr>exit_enabled = env_flag rt ''AUTO_EXIT_ENABLED'',
            exit_order_type = py_lower (py_strip (env_text rt ''AUTO_EXIT_ORDER_TYPE'' ''limit'')),
            market_order_enabled = env_flag rt ''AUTO_MARKET_ORDER_ENABLED'',
            stop_loss_percent = runtime_setting_float rt ''AUTO_STOP_LOSS_PERCENT'' (rnd (8 / 10)),
            take_profit_percent = runtime_setting_float rt ''AUTO_TAKE_PROFIT_PERCENT'' (rnd (12 / 10)),
            max_hold_minutes = runtime_setting_int rt ''AUTO_MAX_HOLD_MINUTES'' 90,
            exit_price_offset_percent = offset, cancel_exit_order_after_seconds = cancel_after,
            max_exit_retry_count = retries,
            require_manual_confirm = env_flag rt ''AUTO_EXIT_REQUIRE_MANUAL_CONFIRM'', exit_fee_rate = fee\<rparr>
      | _ \<Rightarrow> None)"

text \<open>Prices in KRW come in ticks that grow with the price.\<close>

definition krw_tick :: "rat \<Rightarrow> int" where
  "krw_tick price = (if price \<ge> 1000000 then 1000 else if price \<ge> 100000 then 100 else if price \<ge> 10000 then 10 else 1)"

definition round_krw_price :: "rat \<Rightarrow> rat" where
  "round_krw_price price =
     (if price \<ge> 1000000 then rnd (of_int (\<lfloor>price / 1000\<rfloor> * 1000))
      else if price \<ge> 100000 then rnd (of_int (\<lfloor>price / 100\<rfloor> * 100))
      else if price \<ge> 10000 then rnd (of_int (\<lfloor>price / 10\<rfloor> * 10))
      else rnd (of_int (trunc price)))"

section \<open>The table of exit candidates\<close>

definition create_exit_candidate :: "int \<Rightarrow> exit_candidate \<Rightarrow> db \<Rightarrow> int \<times> db" where
  "create_exit_candidate now c s = (exit_seq s + 1, s\<lparr>exit_candidates := exit_candidates s @
     [c\<lparr>xc_id := exit_seq s + 1, xc_created_at := now, xc_updated_at := now\<rparr>], exit_seq := exit_seq s + 1\<rparr>)"

definition load_exit_candidate :: "db \<Rightarrow> int \<Rightarrow> exit_candidate option" where
  "load_exit_candidate s i = first_row (\<lambda>c. xc_id c = i) (exit_candidates s)"

definition newest_exit_candidate :: "(exit_candidate \<Rightarrow> bool) \<Rightarrow> db \<Rightarrow> exit_candidate option" where
  "newest_exit_candidate q s = head_row (order_desc (\<lambda>c. (xc_created_at c, xc_id c)) (filter q (exit_candidates s)))"

definition load_latest_exit_candidate :: "db \<Rightarrow> int option \<Rightarrow> int option \<Rightarrow> exit_candidate option" where
  "load_latest_exit_candidate s pid sid = newest_exit_candidate
     (\<lambda>c. (case pid of None \<Rightarrow> True | Some i \<Rightarrow> xc_position_id c = i) \<and> (case sid of None \<Rightarrow> True | Some i \<Rightarrow> xc_session_id c = i)) s"

definition load_active_exit_candidate :: "db \<Rightarrow> int \<Rightarrow> exit_candidate option" where
  "load_active_exit_candidate s pid = newest_exit_candidate
     (\<lambda>c. xc_position_id c = pid \<and> xc_status c \<in> {''PENDING'', ''APPROVED'', ''SUBMITTED''}) s"

definition update_exit_candidate :: "int \<Rightarrow> int \<Rightarrow> string \<Rightarrow> string \<Rightarrow> db \<Rightarrow> db" where
  "update_exit_candidate now i status result s = s\<lparr>exit_candidates := update_where (\<lambda>c. xc_id c = i)
     (\<lambda>c. c\<lparr>xc_status := status, xc_risk_result := result, xc_updated_at := now\<rparr>) (exit_candidates s)\<rparr>"

definition has_open_exit_order :: "db \<Rightarrow> int \<Rightarrow> bool" where
  "has_open_exit_order s pid \<longleftrightarrow> list_ex (\<lambda>r. log_position_id r = Some pid \<and> order_purpose r = ''EXIT''
     \<and> log_status r \<in> {''SUBMITTED'', ''WAITING'', ''PARTIALLY_FILLED''} \<and> \<not> sql_status_event (request_id r)) (order_logs s)"

definition count_exit_retries :: "db \<Rightarrow> int \<Rightarrow> int" where
  "count_exit_retries s cid = int (length (filter (\<lambda>r. exit_candidate_id r = Some cid \<and> order_purpose r = ''EXIT''
     \<and> log_status r \<in> {''SUBMITTED'', ''WAITING'', ''PARTIALLY_FILLED'', ''FILLED'', ''CANCELED'', ''FAILED''}
     \<and> \<not> sql_status_event (request_id r)) (order_logs s)))"

definition load_live_order_logs_with_events :: "nat \<Rightarrow> db \<Rightarrow> order_log list" where
  "load_live_order_logs_with_events limit s = map normalize_live_order_log
     (take limit (order_desc (\<lambda>r. (log_created_at r, log_id r)) (order_logs s)))"

section \<open>Price triggers\<close>

text \<open>What an update writes: the highest price, the stop and its distance.\<close>

record trailing =
  tr_highest :: rat
  tr_stop :: rat
  tr_pct :: rat

definition trailing_pct :: "runtime \<Rightarrow> position \<Rightarrow> rat option" where
  "trailing_pct rt p = (if nz (trailing_stop_pct p) \<noteq> 0 then Some (nz (trailing_stop_pct p))
     else parse_float (env_text rt ''AUTO_TRAILING_STOP_PERCENT'' ''0.7''))"

definition trailing_of :: "rat \<Rightarrow> position \<Rightarrow> rat \<Rightarrow> trailing" where
  "trailing_of pct p price =
     (let highest = max (max (nz (highest_price_since_entry p)) (entry_price p)) price
      in \<lparr>tr_highest = highest,
          tr_stop = (if highest > 0 \<and> pct > 0 then fmul highest (fsub 1 (fdiv pct 100)) else 0), tr_pct = pct\<rparr>)"

definition write_metrics :: "int \<Rightarrow> trailing \<Rightarrow> position \<Rightarrow> rat \<Rightarrow> string option \<Rightarrow> position \<Rightarrow> position" where
  "write_metrics now m p price status q = q\<lparr>current_price := price,
     unrealized_pnl := fmul (fsub price (entry_price p)) (entry_volume p),
     highest_price_since_entry := Some (tr_highest m), trailing_stop_price := Some (tr_stop m),
     trailing_stop_pct := Some (tr_pct m), last_trailing_update_at := Some now,
     pos_status := (case status of None \<Rightarrow> pos_status q | Some x \<Rightarrow> if x = [] then pos_status q else x)\<rparr>"

definition update_live_position_metrics ::
  "int \<Rightarrow> runtime \<Rightarrow> position \<Rightarrow> rat \<Rightarrow> string option \<Rightarrow> db \<Rightarrow> trailing option \<times> db" where
  "update_live_position_metrics now rt p price status s = (case trailing_pct rt p of
     None \<Rightarrow> (None, s)
   | Some pct \<Rightarrow> (let m = trailing_of pct p price
       in (Some m, update_live_position now (pos_id p) (write_metrics now m p price status) s)))"

datatype exit_creation = NoExit | ActiveExit exit_candidate | NewExit "exit_candidate option" | CreationRaised

definition new_exit_candidate :: "int \<Rightarrow> exit_config \<Rightarrow> position \<Rightarrow> string \<Rightarrow> rat \<Rightarrow> int option \<Rightarrow> exit_candidate" where
  "new_exit_candidate now c p reason price candle =
     (let target = round_krw_price (fmul price (fsub 1 (fdiv (exit_price_offset_percent c) 100)));
          amount = fmul target (entry_volume p);
          fee = fmul amount (exit_fee_rate c)
      in \<lparr>xc_id = 0, xc_position_id = pos_id p, xc_session_id = pos_session_id p, xc_exchange = pos_exchange p,
          xc_market = pos_market p, xc_candidate_id = pos_candidate_id p, xc_strategy_name = pos_strategy_name p,
          xc_reason = reason, xc_status = ''PENDING'', xc_entry_price = entry_price p, xc_current_price = price,
          xc_target_price = target, xc_volume = entry_volume p, xc_expected_amount = amount, xc_expected_fee = fee,
          xc_expected_pnl = fsub (fmul (fsub target (entry_price p)) (entry_volume p)) fee,
          xc_risk_result = ''EXIT_CANDIDATE'', xc_signal_time = Some now, xc_candle_time = candle,
          xc_created_at = now, xc_updated_at = now\<rparr>)"

definition create_exit_candidate_for_position ::
  "int \<Rightarrow> runtime \<Rightarrow> position \<Rightarrow> string \<Rightarrow> rat \<Rightarrow> int option \<Rightarrow> db \<Rightarrow> exit_creation \<times> db" where
  "create_exit_candidate_for_position now rt p reason price candle s =
     (if pos_status p \<in> {''CLOSED'', ''CLOSING'', ''ERROR'', ''MANUAL_REVIEW_REQUIRED''} then (NoExit, s)
      else case load_active_exit_candidate s (pos_id p) of
        Some a \<Rightarrow> (case update_live_position_metrics now rt p price None s of
            (None, s1) \<Rightarrow> (CreationRaised, s1) | (Some _, s1) \<Rightarrow> (ActiveExit a, s1))
      | None \<Rightarrow> (case exit_config_from_env rt of None \<Rightarrow> (CreationRaised, s)
          | Some c \<Rightarrow>
              (let (i, s1) = create_exit_candidate now (new_exit_candidate now c p reason price candle) s
               in case update_live_position_metrics now rt p price (Some ''EXIT_CANDIDATE'') s1 of
                    (None, s2) \<Rightarrow> (CreationRaised, s2)
                  | (Some _, s2) \<Rightarrow>
                      (let s3 = update_live_strategy_session now (pos_session_id p)
                            (\<lambda>r. r\<lparr>current_position_id := Some (pos_id p),
                                   last_risk_result := Some (reason @ ''_EXIT_CANDIDATE'')\<rparr>) s2
                       in (NewExit (load_exit_candidate s3 i), log_recovery_event now rt
                            (recovery_event_of ''EXIT_CANDIDATE_CREATED'' ''WARNING'' (pos_exchange p) (pos_market p)
                              (Some (pos_session_id p)) None None [(''position_id'', VInt (pos_id p)),
                               (''exit_candidate_id'', VInt i), (''reason'', VStr reason)]) s3)))))"

definition holding_minutes :: "int \<Rightarrow> position \<Rightarrow> rat" where
  "holding_minutes now p = (case opened_at p of None \<Rightarrow> 0 | Some t \<Rightarrow> fdiv (of_int (now - t)) 60)"

definition exit_trigger :: "rat \<Rightarrow> position \<Rightarrow> rat \<Rightarrow> rat \<Rightarrow> bool \<Rightarrow> string option" where
  "exit_trigger price p stop highest too_long =
     (if price \<le> stop_loss_price p then Some ''STOP_LOSS''
      else if price \<ge> take_profit_price p then Some ''TAKE_PROFIT''
      else if stop > 0 \<and> highest > entry_price p \<and> price \<le> stop then Some ''TRAILING_STOP''
      else if too_long then Some ''MAX_HOLD_TIME'' else None)"

text \<open>The configuration is read only when the first three triggers are silent.\<close>

definition maybe_create_price_exit_candidate ::
  "int \<Rightarrow> runtime \<Rightarrow> position \<Rightarrow> rat \<Rightarrow> int option \<Rightarrow> db \<Rightarrow> exit_creation \<times> db" where
  "maybe_create_price_exit_candidate now rt p price candle s =
     (case update_live_position_metrics now rt p price None s of
        (None, s1) \<Rightarrow> (CreationRaised, s1)
      | (Some m, s1) \<Rightarrow>
          (let stop = num_or (tr_stop m) (nz (trailing_stop_price p));
               highest = num_or (tr_highest m) (nz (highest_price_since_entry p))
           in case exit_trigger price p stop highest False of
                Some reason \<Rightarrow> create_exit_candidate_for_position now rt p reason price candle s1
              | None \<Rightarrow> (case exit_config_from_env rt of None \<Rightarrow> (CreationRaised, s1)
                  | Some c \<Rightarrow> (case exit_trigger price p stop highest (holding_minutes now p > of_int (max_hold_minutes c)) of
                        None \<Rightarrow> (NoExit, s1)
                      | Some reason \<Rightarrow> create_exit_candidate_for_position now rt p reason price candle s1))))"

definition approve_exit_candidate :: "int \<Rightarrow> int \<Rightarrow> db \<Rightarrow> exit_candidate option \<times> db" where
  "approve_exit_candidate now i s = (case load_exit_candidate s i of None \<Rightarrow> (None, s)
     | Some _ \<Rightarrow> (let s1 = update_exit_candidate now i ''APPROVED'' ''MANUAL_APPROVED'' s in (load_exit_candidate s1 i, s1)))"

definition reject_exit_candidate :: "int \<Rightarrow> int \<Rightarrow> db \<Rightarrow> exit_candidate option \<times> db" where
  "reject_exit_candidate now i s = (case load_exit_candidate s i of None \<Rightarrow> (None, s)
     | Some c \<Rightarrow>
         (let s1 = update_exit_candidate now i ''CANCELED'' ''REJECTED_BY_USER'' s;
              s2 = (case load_open_live_position s1 (Some (xc_session_id c)) (xc_exchange c) (xc_market c) of
                 None \<Rightarrow> s1
               | Some p \<Rightarrow> if pos_id p = xc_position_id c
                   then update_live_position now (pos_id p) (\<lambda>q. q\<lparr>pos_status := ''OPEN''\<rparr>) s1 else s1)
          in (load_exit_candidate s2 i, s2)))"

section \<open>The plan of an exit order\<close>

text \<open>
  The candidate as the evaluation overlays it (volume, amount, fee), and the positions that are
  sold together when small remainders of one market are swept up.
\<close>

record exit_plan =
  xp_candidate :: exit_candidate
  xp_ids :: "int list option"

text \<open>\<open>market.split("-", 1)[-1]\<close>.\<close>

definition after_first_dash :: "string \<Rightarrow> string" where
  "after_first_dash m = (case dropWhile (\<lambda>c. c \<noteq> CHR ''-'') m of [] \<Rightarrow> m | _ # r \<Rightarrow> r)"

definition balance_available_from_snapshot :: "capital_snapshot \<Rightarrow> string \<Rightarrow> rat" where
  "balance_available_from_snapshot snap symbol =
     (case cs_balances snap of None \<Rightarrow> 0 | Some b \<Rightarrow> available_balance b symbol)"

definition sweep_statuses :: "string set" where
  "sweep_statuses = {''OPEN'', ''EXIT_CANDIDATE'', ''EXIT_PENDING'', ''CLOSING'', ''MANUAL_REVIEW_REQUIRED''}"

text \<open>The open positions of the candidate's market, and what of them can be sold.\<close>

definition sweep_positions :: "db \<Rightarrow> exit_candidate \<Rightarrow> capital_snapshot \<Rightarrow> position list" where
  "sweep_positions s cand snap =
     (let exchange = (if xc_exchange cand = [] then ''bithumb'' else xc_exchange cand);
          listed = (if cs_positions snap = [] then load_open_live_positions s exchange (xc_market cand) else cs_positions snap)
      in filter (\<lambda>q. (if pos_exchange q = [] then exchange else pos_exchange q) = exchange \<and> pos_market q = xc_market cand
           \<and> pos_status q \<in> sweep_statuses) listed)"

definition has_dust :: "rat \<Rightarrow> rat \<Rightarrow> position list \<Rightarrow> bool" where
  "has_dust target least = list_ex (\<lambda>q. 0 < fmul (entry_volume q) target \<and> fmul (entry_volume q) target < least)"

definition sweep_volume :: "exit_candidate \<Rightarrow> capital_snapshot \<Rightarrow> position list \<Rightarrow> rat" where
  "sweep_volume cand snap ps =
     min (py_sum (map entry_volume ps)) (balance_available_from_snapshot snap (after_first_dash (xc_market cand)))"

definition opened_order :: "position \<Rightarrow> (int \<times> int) \<times> int" where
  "opened_order q = ((case opened_at q of None \<Rightarrow> (0, 0) | Some t \<Rightarrow> (1, t)), pos_id q)"

definition swept_plan :: "exit_config \<Rightarrow> exit_candidate \<Rightarrow> rat \<Rightarrow> position list \<Rightarrow> exit_plan" where
  "swept_plan c cand volume ps =
     \<lparr>xp_candidate = cand\<lparr>xc_volume := volume, xc_expected_amount := fmul volume (xc_target_price cand),
        xc_expected_fee := fmul (fmul volume (xc_target_price cand)) (exit_fee_rate c)\<rparr>,
      xp_ids = Some (map pos_id (sort_key opened_order ps))\<rparr>"

definition aggregate_same_market_exit_candidate ::
  "exit_config \<Rightarrow> live_config \<Rightarrow> db \<Rightarrow> exit_candidate \<Rightarrow> position \<Rightarrow> capital_snapshot \<Rightarrow> exit_plan" where
  "aggregate_same_market_exit_candidate c lc s cand p snap =
     (let alone = \<lparr>xp_candidate = cand, xp_ids = None\<rparr>;
          target = xc_target_price cand;
          ps = sweep_positions s cand snap;
          volume = sweep_volume cand snap ps
      in if target \<le> 0 \<or> length ps \<le> 1 then alone
         else if list_ex (\<lambda>q. pos_id q \<noteq> pos_id p \<and> has_open_exit_order s (pos_id q)) ps then alone
         else if fmul (sellable_volume_for_position snap p) target \<ge> lc_min_order_krw lc \<and> \<not> has_dust target (lc_min_order_krw lc) ps
         then alone
         else if volume \<le> 0 \<or> fmul volume target < lc_min_order_krw lc then alone
         else swept_plan c cand volume ps)"

text \<open>Answers of the exchange during one evaluation.\<close>

record exit_answers =
  xa_reconcile :: "accounts answer"
  xa_balances :: "accounts answer"
  xa_chance :: "pydict answer"
  xa_snapshot :: "accounts answer"
  xa_listing :: "string \<Rightarrow> pyval answer"

definition exit_statuses :: "string set" where
  "exit_statuses = {''OPEN'', ''EXIT_CANDIDATE'', ''EXIT_PENDING''}"

text \<open>The guards before the exchange is asked; \<open>None\<close> passes.\<close>

definition exit_guard ::
  "exit_config \<Rightarrow> bool \<Rightarrow> exit_candidate option \<Rightarrow> position option \<Rightarrow> bool \<Rightarrow> bool \<Rightarrow> db \<Rightarrow> string option" where
  "exit_guard c emergency cand pos confirmed auto s = (case cand of None \<Rightarrow> Some ''EXIT_CANDIDATE_NOT_FOUND''
     | Some x \<Rightarrow> (case pos of None \<Rightarrow> Some ''BLOCKED_POSITION_NOT_OPEN''
     | Some p \<Rightarrow>
         if xc_exchange x \<noteq> ''bithumb'' then Some ''BLOCKED_EXCHANGE_NOT_ALLOWED''
         else if xc_market x \<noteq> pos_market p then Some ''BLOCKED_SELL_POSITION_NOT_FOUND''
         else if exit_order_type c \<noteq> ''limit'' then Some ''BLOCKED_MARKET_ORDER_DISABLED''
         else if market_order_enabled c then Some ''BLOCKED_MARKET_ORDER_DISABLED''
         else if auto \<and> emergency then Some ''BLOCKED_EMERGENCY_STOP''
         else if auto \<and> \<not> exit_enabled c then Some ''BLOCKED_EXIT_DISABLED''
         else if pos_status p \<notin> exit_statuses then Some ''BLOCKED_POSITION_NOT_OPEN''
         else if has_open_exit_order s (pos_id p) then Some ''BLOCKED_OPEN_EXIT_ORDER_EXISTS''
         else if count_exit_retries s (xc_id x) \<ge> max_exit_retry_count c then Some ''BLOCKED_MAX_EXIT_RETRY''
         else if \<not> auto \<and> require_manual_confirm c \<and> (\<not> confirmed \<or> xc_status x \<noteq> ''APPROVED'')
         then Some ''BLOCKED_MANUAL_CONFIRM_REQUIRED''
         else None))"

definition volume_slack :: rat where
  "volume_slack = rnd (1 / 10 ^ 12)"

text \<open>The checks of volume and amount against the snapshot: a block code, and the plan.\<close>

definition plan_exit ::
  "exit_config \<Rightarrow> live_config \<Rightarrow> db \<Rightarrow> exit_candidate \<Rightarrow> position \<Rightarrow> capital_snapshot \<Rightarrow> string option \<times> exit_plan" where
  "plan_exit c lc s cand p snap =
     (let plan = aggregate_same_market_exit_candidate c lc s cand p snap;
          x = xp_candidate plan;
          own = sellable_volume_for_position snap p;
          sellable = (if xp_ids plan = None then own else num_or (xc_volume x) own);
          amount = fmul sellable (xc_target_price x)
      in if sellable \<le> 0 then (Some ''BLOCKED_SELL_BALANCE_ZERO'', plan)
         else if fadd sellable volume_slack < xc_volume x
         then if amount < lc_min_order_krw lc then (Some ''BLOCKED_SELL_VOLUME_BELOW_MIN'', plan)
              else (None, plan\<lparr>xp_candidate := x\<lparr>xc_volume := sellable, xc_expected_amount := amount\<rparr>\<rparr>)
         else if xc_expected_amount x < lc_min_order_krw lc then (Some ''BLOCKED_SELL_VOLUME_BELOW_MIN'', plan)
         else (None, plan))"

text \<open>What the evaluation found: code, reason, plan, balances and whether they differ.\<close>

record exit_finding =
  xf_code :: "string option"
  xf_reason :: string
  xf_plan :: "exit_plan option"
  xf_balances :: "accounts option"
  xf_mismatch :: "bool option"

definition found :: "string option \<Rightarrow> exit_candidate option \<Rightarrow> exit_finding" where
  "found code cand = \<lparr>xf_code = code, xf_reason = [],
     xf_plan = map_option (\<lambda>x. \<lparr>xp_candidate = x, xp_ids = None\<rparr>) cand, xf_balances = None, xf_mismatch = None\<rparr>"

definition chance_failed :: "string \<Rightarrow> exit_finding \<Rightarrow> exit_finding" where
  "chance_failed m f = f\<lparr>xf_code := Some ''BLOCKED_ORDER_CHANCE_FAILED'', xf_reason := m\<rparr>"

type_synonym world = "db \<times> risk_tables"

definition ask_exchange ::
  "int \<Rightarrow> runtime \<Rightarrow> exit_answers \<Rightarrow> exit_config \<Rightarrow> live_config \<Rightarrow> exit_candidate \<Rightarrow> position \<Rightarrow> world \<Rightarrow> exit_finding \<times> world" where
  "ask_exchange now rt xa c lc x p w =
     (let f = (found None (Some x))\<lparr>xf_mismatch := Some False\<rparr>
      in case xa_balances xa of Inl m \<Rightarrow> (chance_failed m f, w)
       | Inr b \<Rightarrow>
          (let f1 = f\<lparr>xf_balances := Some b\<rparr>
           in case xa_chance xa of Inl m \<Rightarrow> (chance_failed m f1, w)
            | Inr _ \<Rightarrow>
               (let (snap, s1, t1) = build_capital_snapshot now rt (xc_exchange x) (xa_snapshot xa) (xa_listing xa) w
                in if \<not> snapshot_is_fresh now rt snap then (f1\<lparr>xf_code := Some ''BLOCKED_SNAPSHOT_STALE''\<rparr>, s1, t1)
                   else (let (code, plan) = plan_exit c lc s1 x p snap
                         in (f1\<lparr>xf_code := code, xf_plan := Some plan\<rparr>, s1, t1)))))"

definition examine_exit ::
  "int \<Rightarrow> runtime \<Rightarrow> bool \<Rightarrow> exit_answers \<Rightarrow> exit_config \<Rightarrow> live_config \<Rightarrow> exit_candidate option \<Rightarrow> position option
   \<Rightarrow> bool \<Rightarrow> bool \<Rightarrow> world \<Rightarrow> exit_finding option \<times> world" where
  "examine_exit now rt emergency xa c lc cand pos confirmed auto w =
     (case exit_guard c emergency cand pos confirmed auto (fst w) of
        Some code \<Rightarrow> (Some (found (Some code) cand), w)
      | None \<Rightarrow> (case (cand, pos) of
          (Some x, Some p) \<Rightarrow>
            (case reconcile_balances now rt (xc_exchange x) (xc_market x) (xa_reconcile xa) (fst w) of
               (None, s1) \<Rightarrow> (None, s1, snd w)
             | (Some b, s1) \<Rightarrow>
                 if bs_blocking b
                 then (Some ((found (Some ''BLOCKED_BALANCE_MISMATCH'') cand)\<lparr>xf_mismatch := Some True\<rparr>), s1, snd w)
                 else (let (f, w1) = ask_exchange now rt xa c lc x p (s1, snd w) in (Some f, w1)))
        | _ \<Rightarrow> (Some (found (Some ''EXIT_CANDIDATE_NOT_FOUND'') cand), w)))"

definition exit_result :: "exit_finding \<Rightarrow> bool \<Rightarrow> bool \<Rightarrow> pydict" where
  "exit_result f confirmed auto =
     (let allowed = (xf_code f = None);
          code = (case xf_code f of None \<Rightarrow> ''ALLOWED'' | Some k \<Rightarrow> k);
          num = (\<lambda>g. VFloat (case xf_plan f of None \<Rightarrow> 0 | Some plan \<Rightarrow> g (xp_candidate plan)));
          ids = (case xf_plan f of None \<Rightarrow> None | Some plan \<Rightarrow> xp_ids plan)
      in [(''allowed'', VBool allowed), (''risk_result'', VStr code),
          (''blocked_reason'', VStr (if \<not> allowed \<and> xf_reason f = [] then code else xf_reason f)),
          (''order_purpose'', VStr ''EXIT''), (''side'', VStr ''SELL''), (''order_type'', VStr ''LIMIT''),
          (''price'', num xc_target_price), (''volume'', num xc_volume), (''amount_krw'', num xc_expected_amount),
          (''fee_estimate'', num xc_expected_fee), (''expected_pnl'', num xc_expected_pnl),
          (''manual_confirmed'', VBool confirmed), (''is_auto_exit'', VBool auto),
          (''aggregate_exit'', VBool (ids \<noteq> None)),
          (''aggregate_exit_position_ids'', VList (case ids of None \<Rightarrow> [] | Some xs \<Rightarrow> map VInt xs)),
          (''aggregate_exit_reason'', if ids = None then VNone else VStr ''SAME_MARKET_DUST_SWEEP'')])"

text \<open>The balances as the dict the risk check reads.\<close>

definition accounts_dict :: "accounts \<Rightarrow> pydict" where
  "accounts_dict b = [(''by_currency'', VDict (map (\<lambda>(k, a). (k, VDict [(''currency'', VStr (ac_currency a)),
     (''balance'', VFloat (ac_balance a)), (''locked'', VFloat (ac_locked a)),
     (''avg_buy_price'', VFloat (ac_avg_buy_price a)), (''unit_currency'', ac_unit_currency a)])) b))]"

definition exit_risk_order :: "string \<Rightarrow> exit_candidate \<Rightarrow> pydict" where
  "exit_risk_order rid x = [(''request_id'', VStr (if rid = [] then ''exit-candidate-'' @ int_str (xc_id x) else rid)),
     (''exchange'', VStr (xc_exchange x)), (''market'', VStr (xc_market x)), (''side'', VStr ''SELL''),
     (''order_type'', VStr ''LIMIT''), (''price'', VFloat (xc_target_price x)), (''volume'', VFloat (xc_volume x)),
     (''amount_krw'', VFloat (xc_expected_amount x))]"

definition exit_risk_input :: "exit_finding \<Rightarrow> exit_candidate \<Rightarrow> bool \<Rightarrow> bool \<Rightarrow> string \<Rightarrow> risk_input" where
  "exit_risk_input f x confirmed auto rid = \<lparr>ri_order = exit_risk_order rid x, ri_purpose = ''EXIT'',
     ri_base = Some (exit_result f confirmed auto),
     ri_mode = (if auto then ''AUTO_STRATEGY_RUNNING'' else ''LIVE_MANUAL_ONLY''),
     ri_session = Some (xc_session_id x), ri_position = Some (xc_position_id x), ri_candidate = Some (xc_candidate_id x),
     ri_candle = xc_candle_time x, ri_snapshot = Some [(''price'', VFloat (xc_target_price x))],
     ri_balances = map_option accounts_dict (xf_balances f), ri_equity = None, ri_mismatch = xf_mismatch f,
     ri_is_auto = auto, ri_profit_engine = False\<rparr>"

text \<open>\<open>None\<close>: an exception that leaves the evaluation.\<close>

definition evaluate_exit_order ::
  "(rat list \<Rightarrow> rat) \<Rightarrow> int \<Rightarrow> runtime \<Rightarrow> mode_state \<Rightarrow> exit_answers \<Rightarrow> exit_candidate option \<Rightarrow> position option
   \<Rightarrow> bool \<Rightarrow> bool \<Rightarrow> string \<Rightarrow> world \<Rightarrow> pydict option \<times> world" where
  "evaluate_exit_order sqlsum now rt live xa cand pos confirmed auto rid w =
     (case (exit_config_from_env rt,
            for_exchange rt (case cand of None \<Rightarrow> ''bithumb'' | Some x \<Rightarrow> if xc_exchange x = [] then ''bithumb'' else xc_exchange x)) of
        (Some c, Some lc) \<Rightarrow>
          (case examine_exit now rt (emergency_stop live) xa c lc cand pos confirmed auto w of
             (None, w1) \<Rightarrow> (None, w1)
           | (Some f, (s1, t1)) \<Rightarrow> (case xf_plan f of
                None \<Rightarrow> (Some (exit_result f confirmed auto), s1, t1)
              | Some plan \<Rightarrow>
                  (let (r, t2) = check_order_risk sqlsum now rt live s1
                         (exit_risk_input f (xp_candidate plan) confirmed auto rid) t1
                   in (r, s1, t2))))
      | _ \<Rightarrow> (None, w))"

section \<open>Preview\<close>

definition exit_ready_position :: "position option \<Rightarrow> position option" where
  "exit_ready_position pos = (case pos of None \<Rightarrow> None | Some p \<Rightarrow> if pos_status p \<in> exit_statuses then Some p else None)"

definition exit_log_payload :: "int \<Rightarrow> exit_candidate \<Rightarrow> string \<Rightarrow> pydict \<Rightarrow> bool \<Rightarrow> bool \<Rightarrow> order_log" where
  "exit_log_payload now x rid risk confirmed auto =
     (let allowed = res_allowed risk; num = (\<lambda>k. to_float (dict_get risk k))
      in \<lparr>log_id = 0, request_id = rid, log_session_id = Some (xc_session_id x), log_candidate_id = Some (xc_candidate_id x),
          log_exchange = xc_exchange x, log_market = xc_market x, log_side = ''SELL'', log_order_type = ''LIMIT'',
          log_price = Some (num ''price''), log_volume = Some (num ''volume''), log_amount_krw = Some (num ''amount_krw''),
          fee_estimate = num ''fee_estimate'', risk_result = py_str (dict_get risk ''risk_result''),
          order_preview_payload = risk, exchange_response_payload = [],
          log_status = (if allowed then ''PREVIEWED'' else ''BLOCKED''),
          error_message = (if allowed then None else Some (py_str (dict_get risk ''blocked_reason''))),
          log_order_uuid = None, executed_volume = 0, remaining_volume = 0, filled_amount_krw = 0, paid_fee = 0,
          log_position_id = Some (xc_position_id x), exit_candidate_id = Some (xc_id x), order_purpose = ''EXIT'',
          exit_reason = Some (xc_reason x), expected_pnl = num ''expected_pnl'', actual_pnl = None,
          is_auto_exit = auto, manual_confirmed = confirmed, log_strategy_name = Some (xc_strategy_name x),
          signal_reason = Some (xc_reason x), signal_type = None, candle_time_utc = xc_candle_time x,
          client_order_id = None, idempotency_key = None, candle_close_at_utc = None, signal_generated_at_utc = None,
          order_requested_at_utc = None, order_executed_at_utc = None, log_created_at = now, log_updated_at = now\<rparr>)"

datatype preview_outcome = CandidateMissing | PreviewRaised | Previewed bool string pydict

definition create_exit_order_preview ::
  "(rat list \<Rightarrow> rat) \<Rightarrow> int \<Rightarrow> runtime \<Rightarrow> mode_state \<Rightarrow> exit_answers \<Rightarrow> string \<Rightarrow> int \<Rightarrow> bool \<Rightarrow> bool \<Rightarrow> world
   \<Rightarrow> preview_outcome \<times> world" where
  "create_exit_order_preview sqlsum now rt live xa rid i confirmed auto w =
     (case load_exit_candidate (fst w) i of None \<Rightarrow> (CandidateMissing, w)
      | Some x \<Rightarrow>
         (case evaluate_exit_order sqlsum now rt live xa (Some x)
                 (exit_ready_position (load_live_position (fst w) (xc_position_id x))) confirmed auto rid w of
            (None, w1) \<Rightarrow> (PreviewRaised, w1)
          | (Some risk, (s1, t1)) \<Rightarrow>
             (case insert_live_order_log now (exit_log_payload now x rid risk confirmed auto) s1 of
                Inl _ \<Rightarrow> (PreviewRaised, s1, t1)
              | Inr (_, s2) \<Rightarrow>
                 (Previewed (res_allowed risk) rid risk,
                  update_exit_candidate now i (if res_allowed risk then ''APPROVED'' else ''BLOCKED'')
                    (py_str (dict_get risk ''risk_result'')) s2, t1))))"

section \<open>Reconciliation and cancellation\<close>

definition candidate_status_for_order :: "string \<Rightarrow> string" where
  "candidate_status_for_order st = (if st = ''FILLED'' then ''COMPLETED'' else if st = ''CANCELED'' then ''CANCELED''
     else if st = ''PARTIALLY_FILLED'' then ''SUBMITTED'' else st)"

text \<open>An exit order that reached the exchange.\<close>

definition placed_exit :: "db \<Rightarrow> string \<Rightarrow> (order_log \<times> string) option" where
  "placed_exit s rid = (case get_live_order_log s rid of None \<Rightarrow> None
     | Some r \<Rightarrow> if order_purpose r = ''EXIT'' \<and> os (log_order_uuid r) \<noteq> [] then Some (r, os (log_order_uuid r)) else None)"

datatype exit_reconcile = NothingPlaced | QueryFailed string | ExitReconciled reconciled

text \<open>The dict handed on has no \<open>_previous_\<close> keys: the fill seen before counts as 0.\<close>

definition write_exit_report :: "order_log \<Rightarrow> reconciled \<Rightarrow> rat \<Rightarrow> order_log \<Rightarrow> order_log" where
  "write_exit_report r st pnl x = x\<lparr>log_status := rc_status st, exchange_response_payload := rc_raw st,
     executed_volume := rc_executed st, remaining_volume := rc_remaining st, filled_amount_krw := rc_amount st,
     paid_fee := rc_fee st, actual_pnl := (if rc_status st = ''FILLED'' then Some pnl else actual_pnl r)\<rparr>"

definition reconcile_exit_order :: "int \<Rightarrow> pydict answer \<Rightarrow> string \<Rightarrow> db \<Rightarrow> exit_reconcile \<times> db" where
  "reconcile_exit_order now reply rid s = (case placed_exit s rid of None \<Rightarrow> (NothingPlaced, s)
     | Some (r, _) \<Rightarrow> (case reply of Inl m \<Rightarrow> (QueryFailed m, s)
     | Inr raw \<Rightarrow>
         (let st = normalize_exchange_order raw;
              pos = (case or_int (log_position_id r) None of None \<Rightarrow> None
                 | Some i \<Rightarrow> if i = 0 then None else load_live_position s i);
              basis = (case pos of None \<Rightarrow> 0 | Some p \<Rightarrow> fmul (entry_price p) (rc_executed st));
              pnl = fsub (fsub (rc_amount st) basis) (rc_fee st);
              s1 = update_live_order_log now rid (write_exit_report r st pnl) s;
              s2 = (case exit_candidate_id r of None \<Rightarrow> s1
                 | Some c \<Rightarrow> if c = 0 then s1
                     else update_exit_candidate now c (candidate_status_for_order (rc_status st)) (rc_status st) s1)
          in (ExitReconciled st, sync_exit_order_position now (r\<lparr>actual_pnl := Some pnl\<rparr>) (0, 0, 0) st s2))))"

datatype exit_cancel = NothingToCancel | ExitCanceled | CancelFailed string

definition cancel_failed :: "int \<Rightarrow> runtime \<Rightarrow> order_log \<Rightarrow> string \<Rightarrow> string \<Rightarrow> db \<Rightarrow> exit_cancel \<times> db" where
  "cancel_failed now rt r rid m s = (CancelFailed m, log_recovery_event now rt (recovery_event_of ''EXIT_ORDER_CANCEL_FAILED''
     ''ERROR'' (log_exchange r) (log_market r) (log_session_id r) (Some rid) (log_order_uuid r) [(''error'', VStr m)]) s)"

definition cancel_exit_order :: "int \<Rightarrow> runtime \<Rightarrow> pydict answer \<Rightarrow> string \<Rightarrow> db \<Rightarrow> exit_cancel \<times> db" where
  "cancel_exit_order now rt reply rid s = (case placed_exit s rid of None \<Rightarrow> (NothingToCancel, s)
     | Some (r, _) \<Rightarrow> (case reply of Inl m \<Rightarrow> cancel_failed now rt r rid m s
     | Inr response \<Rightarrow>
         (let s1 = update_live_order_log now rid
                (\<lambda>x. x\<lparr>log_status := ''CANCELED'', exchange_response_payload := response\<rparr>) s;
              cid = (case exit_candidate_id r of Some c \<Rightarrow> c | None \<Rightarrow> 0);
              freed = (\<lambda>u. if (case log_position_id r of None \<Rightarrow> 0 | Some i \<Rightarrow> i) = 0 then u
                 else update_live_position now (the (log_position_id r))
                   (\<lambda>q. q\<lparr>pos_status := (if cid \<noteq> 0 then ''EXIT_CANDIDATE'' else ''OPEN''), exit_order_uuid := None\<rparr>) u);
              told = (\<lambda>u. if (case log_session_id r of None \<Rightarrow> 0 | Some i \<Rightarrow> i) = 0 then u
                 else update_live_strategy_session now (the (log_session_id r))
                   (\<lambda>x. x\<lparr>current_open_order_uuid := None, last_order_status := Some ''CANCELED'',
                          last_risk_result := Some ''AUTO_CANCELED_STALE_EXIT_ORDER''\<rparr>) u)
          in if cid = 0 then (ExitCanceled, told (freed s1))
             else case exit_config_from_env rt of
               None \<Rightarrow> cancel_failed now rt r rid ''invalid number in the environment'' s1
             | Some c \<Rightarrow>
                 (let again = (count_exit_retries s1 cid < max_exit_retry_count c)
                  in (ExitCanceled, told (freed (update_exit_candidate now cid
                        (if again then ''PENDING'' else ''CANCELED'') (if again then ''RETRY_PENDING'' else ''CANCELED'') s1)))))))"

text \<open>Since when the order waits: the exchange's own time stamp when it has one; \<open>None\<close> does not parse.\<close>

definition exit_timeout_basis :: "order_log \<Rightarrow> int option" where
  "exit_timeout_basis r = (let v = dict_get (exchange_response_payload r) ''created_at''
     in if truthy v then iso_seconds (py_str v) else Some (log_created_at r))"

text \<open>\<open>False\<close>: an exception leaves the handler.\<close>

definition manage_exit_order_timeout ::
  "int \<Rightarrow> runtime \<Rightarrow> exit_config option \<Rightarrow> pydict answer \<Rightarrow> pydict answer \<Rightarrow> position \<Rightarrow> db \<Rightarrow> bool \<times> db" where
  "manage_exit_order_timeout now rt cfg reply cancel_reply p s =
     (case (case cfg of None \<Rightarrow> exit_config_from_env rt | c \<Rightarrow> c) of None \<Rightarrow> (False, s)
      | Some c \<Rightarrow>
         (case find (\<lambda>r. order_purpose r = ''EXIT'' \<and> log_position_id r = Some (pos_id p)
                 \<and> log_status r \<in> {''SUBMITTED'', ''WAITING''}) (load_live_order_logs_with_events 300 s) of
            None \<Rightarrow> (True, s)
          | Some r \<Rightarrow>
             (let (res, s1) = reconcile_exit_order now reply (request_id r) s
              in case res of QueryFailed _ \<Rightarrow> (False, s1)
               | _ \<Rightarrow>
                  (case get_live_order_log s1 (request_id r) of None \<Rightarrow> (True, s1)
                   | Some x \<Rightarrow>
                      if log_status x \<noteq> ''WAITING'' then (True, s1)
                      else case exit_timeout_basis x of None \<Rightarrow> (False, s1)
                        | Some t \<Rightarrow>
                           if now - t \<ge> cancel_exit_order_after_seconds c
                           then (True, snd (cancel_exit_order now rt cancel_reply (request_id x) s1)) else (True, s1)))))"

section \<open>Submission\<close>

datatype submit_outcome = ConfirmationRequired | PreviewMissing | NotSubmittable string | SubmitBlocked pydict
  | SubmitRaised | ExitSubmitted string string | StatusUnknown | SubmitFailed string

definition exit_order_fields :: "order_log \<Rightarrow> pydict" where
  "exit_order_fields r = [(''request_id'', VStr (request_id r)), (''client_order_id'', VStr (take 36 (request_id r))),
     (''exchange'', VStr (log_exchange r)), (''market'', VStr (log_market r)), (''side'', VStr ''SELL''),
     (''ord_type'', VStr ''limit''), (''order_type'', VStr ''LIMIT''),
     (''price'', case log_price r of None \<Rightarrow> VNone | Some x \<Rightarrow> VFloat x),
     (''volume'', case log_volume r of None \<Rightarrow> VNone | Some x \<Rightarrow> VFloat x),
     (''amount_krw'', case log_amount_krw r of None \<Rightarrow> VNone | Some x \<Rightarrow> VFloat x), (''order_purpose'', VStr ''EXIT'')]"

definition response_uuid :: "pydict \<Rightarrow> string" where
  "response_uuid d = text_of (py_or (py_or (dict_get d ''uuid'') (dict_get d ''order_id'')) (dict_get d ''id''))"

definition close_position :: "int \<Rightarrow> string \<Rightarrow> int \<Rightarrow> db \<Rightarrow> db" where
  "close_position now uuid i s =
     update_live_position now i (\<lambda>q. q\<lparr>pos_status := ''CLOSING'', exit_order_uuid := Some uuid\<rparr>) s"

text \<open>What is written after the exchange has accepted the order.\<close>

definition record_submission ::
  "int \<Rightarrow> order_log \<Rightarrow> exit_candidate \<Rightarrow> position \<Rightarrow> pydict \<Rightarrow> string \<Rightarrow> db \<Rightarrow> db" where
  "record_submission now r x p response uuid s =
     (let s1 = update_live_order_log now (request_id r)
            (\<lambda>y. y\<lparr>log_status := ''SUBMITTED'', risk_result := ''ALLOWED'', log_order_uuid := Some uuid,
                   exchange_response_payload := response, error_message := None\<rparr>) s;
          s2 = close_position now uuid (pos_id p) (update_exit_candidate now (xc_id x) ''SUBMITTED'' ''ALLOWED'' s1);
          ids = map (int_or 0) (as_list (dict_get (order_preview_payload r) ''aggregate_exit_position_ids''))
      in update_live_strategy_session now (pos_session_id p)
           (\<lambda>y. y\<lparr>last_order_status := Some ''SUBMITTED'', last_risk_result := Some ''EXIT_SUBMITTED''\<rparr>)
           (foldl (\<lambda>u i. if i = pos_id p then u else close_position now uuid i u) s2 ids))"

definition submission_failed ::
  "int \<Rightarrow> runtime \<Rightarrow> order_log \<Rightarrow> exit_candidate \<Rightarrow> position \<Rightarrow> string \<Rightarrow> db \<Rightarrow> submit_outcome \<times> db" where
  "submission_failed now rt r x p m s =
     (if is_timeout_message m
      then (StatusUnknown, log_recovery_event now rt
        (recovery_event_of ''EXIT_ORDER_STATUS_UNKNOWN_TIMEOUT'' ''ERROR'' (log_exchange r) (log_market r) (log_session_id r)
          (Some (request_id r)) None [])
        (update_exit_candidate now (xc_id x) ''SUBMITTED'' ''ORDER_STATUS_UNKNOWN_TIMEOUT''
          (update_live_order_log now (request_id r)
            (\<lambda>y. y\<lparr>log_status := ''SUBMITTED'', risk_result := ''ORDER_STATUS_UNKNOWN_TIMEOUT'',
                   error_message := Some ''Exit order request timed out; status reconciliation is required before retry.''\<rparr>) s)))
      else (SubmitFailed m, update_live_position now (pos_id p) (\<lambda>q. q\<lparr>pos_status := ''ERROR''\<rparr>)
        (update_live_order_log now (request_id r)
          (\<lambda>y. y\<lparr>log_status := ''FAILED'', risk_result := ''BLOCKED_API_RESPONSE_ERROR'', error_message := Some m\<rparr>) s)))"

text \<open>An allowed evaluation has a candidate and a position; without them nothing is placed.\<close>

definition place_exit ::
  "int \<Rightarrow> runtime \<Rightarrow> (pydict \<Rightarrow> pydict answer) \<Rightarrow> pydict answer \<Rightarrow> order_log \<Rightarrow> exit_candidate \<Rightarrow> position \<Rightarrow> db \<Rightarrow> submit_outcome \<times> db" where
  "place_exit now rt placed status_reply r x p s = (case placed (exit_order_fields r) of
     Inl m \<Rightarrow> submission_failed now rt r x p m s
   | Inr response \<Rightarrow>
      (let uuid = response_uuid response;
           s1 = record_submission now r x p response uuid s;
           (res, s2) = (if uuid = [] then (NothingPlaced, s1) else reconcile_exit_order now status_reply (request_id r) s1)
       in case res of QueryFailed m \<Rightarrow> submission_failed now rt r x p m s2
        | _ \<Rightarrow> (ExitSubmitted (case get_live_order_log s2 (request_id r) of None \<Rightarrow> ''SUBMITTED'' | Some y \<Rightarrow> log_status y) uuid, s2)))"

definition submit_exit_order ::
  "(rat list \<Rightarrow> rat) \<Rightarrow> int \<Rightarrow> runtime \<Rightarrow> mode_state \<Rightarrow> exit_answers \<Rightarrow> (pydict \<Rightarrow> pydict answer)
   \<Rightarrow> pydict answer \<Rightarrow> string \<Rightarrow> string \<Rightarrow> world
   \<Rightarrow> submit_outcome \<times> world" where
  "submit_exit_order sqlsum now rt live xa placed status_reply rid confirmation w =
     (if confirmation \<noteq> ''SUBMIT LIMIT EXIT ORDER'' then (ConfirmationRequired, w)
      else case get_live_order_log (fst w) rid of None \<Rightarrow> (PreviewMissing, w)
      | Some r \<Rightarrow>
         if log_status r \<noteq> ''PREVIEWED'' \<or> risk_result r \<noteq> ''ALLOWED'' then (NotSubmittable (risk_result r), w)
         else case exit_candidate_id r of None \<Rightarrow> (SubmitRaised, w)
         | Some cid \<Rightarrow>
            (let cand = load_exit_candidate (fst w) cid;
                 pos = (case log_position_id r of None \<Rightarrow> None
                    | Some i \<Rightarrow> if i = 0 then None else exit_ready_position (load_live_position (fst w) i))
             in case evaluate_exit_order sqlsum now rt live xa cand pos True (is_auto_exit r) rid w of
                  (None, w1) \<Rightarrow> (SubmitRaised, w1)
                | (Some risk, (s1, t1)) \<Rightarrow>
                   if \<not> res_allowed risk
                   then (let s2 = update_live_order_log now rid (\<lambda>y. y\<lparr>log_status := ''BLOCKED'',
                               risk_result := py_str (dict_get risk ''risk_result''),
                               error_message := Some (py_str (dict_get risk ''blocked_reason''))\<rparr>) s1
                         in (SubmitBlocked risk, (case cand of None \<Rightarrow> s2
                               | Some x \<Rightarrow> update_exit_candidate now (xc_id x) ''BLOCKED'' (py_str (dict_get risk ''risk_result'')) s2), t1))
                   else case (cand, pos) of
                     (Some x, Some p) \<Rightarrow> (let (res, s2) = place_exit now rt placed status_reply r x p s1 in (res, s2, t1))
                   | _ \<Rightarrow> (SubmitRaised, s1, t1)))"

section \<open>Status\<close>

definition live_exit_status :: "runtime \<Rightarrow> int option \<Rightarrow> int option \<Rightarrow> db \<Rightarrow> (exit_candidate option \<times> exit_config) option" where
  "live_exit_status rt sid pid s =
     (let cand = (if pid \<noteq> None then load_latest_exit_candidate s pid None
            else if sid \<noteq> None then load_latest_exit_candidate s None sid else None)
      in case (exit_config_from_env rt, for_exchange rt (case cand of None \<Rightarrow> ''bithumb''
                | Some x \<Rightarrow> if xc_exchange x = [] then ''bithumb'' else xc_exchange x)) of
           (Some c, Some _) \<Rightarrow> Some (cand, c) | _ \<Rightarrow> None)"

section \<open>Lemmas\<close>

text \<open>The risk check only overwrites its own keys of the result it is given.\<close>

definition risk_keys :: "string set" where
  "risk_keys = {''allowed'', ''risk_level'', ''block_code'', ''block_reason'', ''warnings'', ''max_allowed_order_krw'', ''checked_at'',
     ''checks'', ''cooldown_remaining_seconds'', ''loss_cooldown_remaining_seconds'', ''risk_result'', ''blocked_reason'',
     ''operation_policy''}"

lemma run_checks_keeps_key:
  assumes "k \<notin> risk_keys"
  shows "dict_get (fst (run_checks vs r)) k = dict_get r k"
proof (induction vs rule: rev_induct)
  case Nil
  show ?case by (simp add: run_checks_def)
next
  case (snoc x vs)
  obtain n v where x: "x = (n, v)" by (cases x)
  obtain a b where g: "run_checks vs r = (a, b)" by (cases "run_checks vs r")
  show ?case using snoc assms by (cases v) (simp_all add: x g dict_get_def block_result_keeps risk_keys_def)
qed

lemma checked_keeps_key:
  assumes "check_order_risk sqlsum now rt live s i t = (Some r, t')" "k \<notin> risk_keys"
  shows "dict_get r k = dict_get (case_option [] id (ri_base i)) k"
proof -
  obtain c f most g where g: "g = run_checks (order_verdicts i f) (standard_result now (ri_base i) c)"
    and r: "r = finish_result i f most g"
    by (rule check_order_riskE [OF assms(1)]) blast
  have k: "k \<noteq> ''allowed''" "k \<noteq> ''risk_level''" "k \<noteq> ''block_code''" "k \<noteq> ''block_reason''" "k \<noteq> ''warnings''"
      "k \<noteq> ''max_allowed_order_krw''" "k \<noteq> ''checked_at''" "k \<noteq> ''checks''" "k \<noteq> ''cooldown_remaining_seconds''"
      "k \<noteq> ''loss_cooldown_remaining_seconds''" "k \<noteq> ''risk_result''" "k \<noteq> ''blocked_reason''" "k \<noteq> ''operation_policy''"
    using assms(2) by (simp_all add: risk_keys_def)
  have "dict_get r k = dict_get (fst g) k"
    by (cases g) (simp add: r finish_result_def final_level_def dict_get_dict_update k)
  also have "\<dots> = dict_get (standard_result now (ri_base i) c) k"
    unfolding g by (rule run_checks_keeps_key [OF assms(2)])
  also have "\<dots> = dict_get (case_option [] id (ri_base i)) k"
    by (simp add: standard_result_def Let_def dict_get_dict_update k)
  finally show ?thesis .
qed

lemma exit_result_values:
  "dict_get (exit_result f confirmed auto) ''allowed'' = VBool (xf_code f = None)"
  "xf_plan f = Some plan \<Longrightarrow> dict_get (exit_result f confirmed auto) ''volume'' = VFloat (xc_volume (xp_candidate plan))"
  "xf_plan f = Some plan \<Longrightarrow> dict_get (exit_result f confirmed auto) ''amount_krw'' = VFloat (xc_expected_amount (xp_candidate plan))"
  by (simp_all add: exit_result_def Let_def dict_get_def)

lemma exit_guard_passes:
  assumes "exit_guard c emergency cand pos confirmed auto s = None"
  obtains x p where "cand = Some x" "pos = Some p" "xc_exchange x = ''bithumb''" "xc_market x = pos_market p"
    "pos_status p \<in> exit_statuses" "\<not> has_open_exit_order s (pos_id p)"
    "count_exit_retries s (xc_id x) < max_exit_retry_count c" "auto \<longrightarrow> \<not> emergency \<and> exit_enabled c"
    "\<not> auto \<and> require_manual_confirm c \<longrightarrow> confirmed \<and> xc_status x = ''APPROVED''"
proof -
  obtain x p where xp: "cand = Some x" "pos = Some p"
    using assms by (simp add: exit_guard_def split: option.splits)
  show ?thesis
    using assms by (intro that [OF xp]) (auto simp: exit_guard_def xp split: if_split_asm)
qed

text \<open>A plan that passes sells at least the minimum and no more than there is, up to the slack.\<close>

definition sellable_at :: "accounts option \<Rightarrow> string \<Rightarrow> rat" where
  "sellable_at b market = max 0 (max (snap_available b (market_symbol market))
     (case b of None \<Rightarrow> 0 | Some t \<Rightarrow> available_balance t (after_first_dash market)))"

definition sell_limit :: "accounts option \<Rightarrow> string \<Rightarrow> rat" where
  "sell_limit b market = max (sellable_at b market) (fadd (sellable_at b market) volume_slack)"

lemma sweep_alone_or_limited:
  fixes c lc s cand p snap
  defines "plan \<equiv> aggregate_same_market_exit_candidate c lc s cand p snap"
  shows "plan = \<lparr>xp_candidate = cand, xp_ids = None\<rparr>
   \<or> xp_ids plan \<noteq> None \<and> xc_volume (xp_candidate plan) > 0
     \<and> xc_volume (xp_candidate plan) \<le> balance_available_from_snapshot snap (after_first_dash (xc_market cand))"
  unfolding plan_def aggregate_same_market_exit_candidate_def Let_def
  by (auto simp: swept_plan_def sweep_volume_def)

lemma plan_exit_bounds:
  assumes "plan_exit c lc s x p snap = (None, plan)" "pos_market p = xc_market x"
  shows "xc_volume (xp_candidate plan) \<le> sell_limit (cs_balances snap) (xc_market x)
    \<and> lc_min_order_krw lc \<le> xc_expected_amount (xp_candidate plan)"
proof -
  define q where "q = aggregate_same_market_exit_candidate c lc s x p snap"
  define sell where "sell = (if xp_ids q = None then sellable_volume_for_position snap p
     else num_or (xc_volume (xp_candidate q)) (sellable_volume_for_position snap p))"
  have own: "sellable_volume_for_position snap p \<le> sellable_at (cs_balances snap) (xc_market x)"
    by (auto simp: sellable_volume_for_position_def sellable_at_def assms(2))
  have sell: "sell \<le> sellable_at (cs_balances snap) (xc_market x)"
    using sweep_alone_or_limited [of c lc s x p snap] own
    by (auto simp: q_def [symmetric] sell_def num_or_def sellable_at_def balance_available_from_snapshot_def split: option.splits)
  then have "fadd sell volume_slack \<le> fadd (sellable_at (cs_balances snap) (xc_market x)) volume_slack"
    by (intro fadd_mono) simp_all
  then have le: "fadd sell volume_slack \<le> sell_limit (cs_balances snap) (xc_market x)"
    "sell \<le> sell_limit (cs_balances snap) (xc_market x)"
    using sell by (simp_all add: sell_limit_def)
  have eq: "plan_exit c lc s x p snap =
     (if sell \<le> 0 then (Some ''BLOCKED_SELL_BALANCE_ZERO'', q)
      else if fadd sell volume_slack < xc_volume (xp_candidate q)
      then if fmul sell (xc_target_price (xp_candidate q)) < lc_min_order_krw lc then (Some ''BLOCKED_SELL_VOLUME_BELOW_MIN'', q)
           else (None, q\<lparr>xp_candidate := (xp_candidate q)\<lparr>xc_volume := sell,
                  xc_expected_amount := fmul sell (xc_target_price (xp_candidate q))\<rparr>\<rparr>)
      else if xc_expected_amount (xp_candidate q) < lc_min_order_krw lc then (Some ''BLOCKED_SELL_VOLUME_BELOW_MIN'', q)
      else (None, q))"
    unfolding plan_exit_def Let_def q_def [symmetric] sell_def [symmetric] by (rule refl)
  show ?thesis
  proof (cases "fadd sell volume_slack < xc_volume (xp_candidate q)")
    case True
    then have "plan = q\<lparr>xp_candidate := (xp_candidate q)\<lparr>xc_volume := sell,
          xc_expected_amount := fmul sell (xc_target_price (xp_candidate q))\<rparr>\<rparr>"
        "\<not> fmul sell (xc_target_price (xp_candidate q)) < lc_min_order_krw lc"
      using assms(1) by (simp_all add: eq split: if_split_asm)
    then show ?thesis using le by simp
  next
    case False
    then have "plan = q" "\<not> xc_expected_amount (xp_candidate q) < lc_min_order_krw lc"
      using assms(1) by (simp_all add: eq split: if_split_asm)
    then show ?thesis using le False by simp
  qed
qed

lemma fresh_snapshot_balances:
  assumes "build_capital_snapshot now rt name reply listing w = (snap, w1)" "snapshot_is_fresh now' rt snap"
  shows "\<exists>b. reply = Inr b \<and> cs_balances snap = Some b"
  using assms by (auto simp: build_capital_snapshot_def Let_def snapshot_is_fresh_def split: prod.splits sum.splits)

lemma ask_exchange_passes:
  assumes "ask_exchange now rt xa c lc x p w = (f, w1)" "xf_code f = None" "pos_market p = xc_market x"
  shows "\<exists>b plan. xa_snapshot xa = Inr b \<and> xf_plan f = Some plan
    \<and> xc_volume (xp_candidate plan) \<le> sell_limit (Some b) (xc_market x)
    \<and> lc_min_order_krw lc \<le> xc_expected_amount (xp_candidate plan)"
proof -
  obtain b1 where b1: "xa_balances xa = Inr b1"
    using assms(1,2) by (cases "xa_balances xa") (auto simp: ask_exchange_def Let_def chance_failed_def)
  obtain d where d: "xa_chance xa = Inr d"
    using assms(1,2) b1 by (cases "xa_chance xa") (auto simp: ask_exchange_def Let_def chance_failed_def)
  obtain snap s1 t1 where snap: "build_capital_snapshot now rt (xc_exchange x) (xa_snapshot xa) (xa_listing xa) w = (snap, s1, t1)"
    by (cases "build_capital_snapshot now rt (xc_exchange x) (xa_snapshot xa) (xa_listing xa) w") auto
  have fresh: "snapshot_is_fresh now rt snap"
    using assms(1,2) by (auto simp: ask_exchange_def Let_def b1 d snap split: if_splits)
  obtain code plan where plan: "plan_exit c lc s1 x p snap = (code, plan)" by (cases "plan_exit c lc s1 x p snap")
  have "code = None" "xf_plan f = Some plan"
    using assms(1,2) by (auto simp: ask_exchange_def Let_def b1 d snap fresh plan)
  then show ?thesis
    using fresh_snapshot_balances [OF snap fresh] plan_exit_bounds [OF plan [unfolded \<open>code = None\<close>] assms(3)] by auto
qed

lemma examine_exit_passes:
  assumes "examine_exit now rt emergency xa c lc cand pos confirmed auto w = (Some f, w1)" "xf_code f = None"
  obtains x p s1 t1 where "cand = Some x" "pos = Some p" "exit_guard c emergency cand pos confirmed auto (fst w) = None"
    "ask_exchange now rt xa c lc x p (s1, t1) = (f, w1)"
proof -
  have guard: "exit_guard c emergency cand pos confirmed auto (fst w) = None"
    using assms by (cases "exit_guard c emergency cand pos confirmed auto (fst w)")
      (auto simp: examine_exit_def found_def)
  obtain x p where xp: "cand = Some x" "pos = Some p" by (rule exit_guard_passes [OF guard]) blast
  obtain res s1 where b: "reconcile_balances now rt (xc_exchange x) (xc_market x) (xa_reconcile xa) (fst w) = (res, s1)"
    by (cases "reconcile_balances now rt (xc_exchange x) (xc_market x) (xa_reconcile xa) (fst w)")
  have "ask_exchange now rt xa c lc x p (s1, snd w) = (f, w1)"
    using assms by (auto simp: examine_exit_def guard xp b [unfolded xp] found_def
        split: option.splits if_splits prod.splits)
  then show ?thesis using that xp guard by blast
qed

section \<open>Samples\<close>

lemma some_pair: "fst e \<noteq> None \<Longrightarrow> e = (Some (the (fst e)), snd e)"
  by (cases e) auto

definition exit_answers_of :: "accounts \<Rightarrow> exit_answers" where
  "exit_answers_of b = \<lparr>xa_reconcile = Inr b, xa_balances = Inr b, xa_chance = Inr [], xa_snapshot = Inr b,
     xa_listing = (\<lambda>_. Inr (VList []))\<rparr>"

definition btc_accounts :: "int \<Rightarrow> accounts" where
  "btc_accounts v = normalize_accounts [[(''currency'', VStr ''BTC''), (''balance'', VInt v)],
     [(''currency'', VStr ''KRW''), (''balance'', VInt 100000)]]"

definition sample_exit_db :: db where
  "sample_exit_db = empty_db\<lparr>positions := [sample_position\<lparr>entry_volume := 2, entry_amount_krw := 20000, entry_price := 10000, highest_price_since_entry := None,
       pos_status := ''OPEN''\<rparr>], sessions := [sample_session]\<rparr>"

definition sample_exit_candidate :: exit_candidate where
  "sample_exit_candidate = new_exit_candidate 1000 \<lparr>exit_enabled = True, exit_order_type = ''limit'', market_order_enabled = False,
     stop_loss_percent = 1, take_profit_percent = 1, max_hold_minutes = 90, exit_price_offset_percent = 0,
     cancel_exit_order_after_seconds = 45, max_exit_retry_count = 2, require_manual_confirm = False, exit_fee_rate = 0\<rparr>
     (hd (positions sample_exit_db)) ''STOP_LOSS'' 9000 None"

definition exit_runtime :: runtime where
  "exit_runtime = plain_runtime\<lparr>environ := (\<lambda>k. if k = ''AUTO_MAX_OPEN_POSITION_COUNT'' then Some ''1'' else None)\<rparr>"

definition sample_finding :: exit_finding where
  "sample_finding = \<lparr>xf_code = None, xf_reason = [], xf_plan = Some \<lparr>xp_candidate = sample_exit_candidate, xp_ids = None\<rparr>,
     xf_balances = Some (btc_accounts 2), xf_mismatch = Some False\<rparr>"

definition sample_world :: world where
  "sample_world = (snd (load_position_slots 5000 1 ''bithumb'' sample_exit_db), sample_tables)"

text \<open>The sample evaluation, in the steps of the code.\<close>

lemma sample_exit_config: "exit_config_from_env exit_runtime \<noteq> None" "for_exchange exit_runtime ''bithumb'' \<noteq> None"
  by code_simp+

lemma sample_reconcile:
  "case reconcile_balances 5000 exit_runtime ''bithumb'' ''KRW-BTC'' (Inr (btc_accounts 2)) sample_exit_db of
     (None, s) \<Rightarrow> False | (Some b, s) \<Rightarrow> \<not> bs_blocking b \<and> s = sample_exit_db"
  by code_simp

lemma sample_ask:
  "ask_exchange 5000 exit_runtime (exit_answers_of (btc_accounts 2)) (the (exit_config_from_env exit_runtime))
     (the (for_exchange exit_runtime ''bithumb'')) sample_exit_candidate (hd (positions sample_exit_db)) (sample_exit_db, sample_tables)
   = (sample_finding, sample_world)"
  by code_simp

lemma sample_guard:
  "exit_guard (the (exit_config_from_env exit_runtime)) False (Some sample_exit_candidate) (Some (hd (positions sample_exit_db)))
     True False sample_exit_db = None"
  by code_simp

lemma sample_risk:
  "case check_order_risk plain_sum 5000 exit_runtime armed_mode (fst sample_world)
      (exit_risk_input sample_finding sample_exit_candidate True False ''exit-9'') (snd sample_world) of
     (None, t) \<Rightarrow> False | (Some r, t) \<Rightarrow> res_allowed r"
  by code_simp

lemma sample_fields: "xc_exchange sample_exit_candidate = ''bithumb''" "xc_market sample_exit_candidate = ''KRW-BTC''"
    "emergency_stop armed_mode = False" "xa_snapshot (exit_answers_of b) = Inr b" "xa_reconcile (exit_answers_of b) = Inr b"
    "xf_plan sample_finding = Some \<lparr>xp_candidate = sample_exit_candidate, xp_ids = None\<rparr>"
  by (simp_all add: sample_exit_candidate_def new_exit_candidate_def Let_def sample_exit_db_def sample_position_def armed_mode_def
      exit_answers_of_def sample_finding_def)

lemma sample_evaluation:
  "\<exists>r w. evaluate_exit_order plain_sum 5000 exit_runtime armed_mode (exit_answers_of (btc_accounts 2)) (Some sample_exit_candidate)
      (Some (hd (positions sample_exit_db))) True False ''exit-9'' (sample_exit_db, sample_tables) = (Some r, w) \<and> res_allowed r"
proof -
  obtain c lc where c: "exit_config_from_env exit_runtime = Some c" and lc: "for_exchange exit_runtime ''bithumb'' = Some lc"
    using sample_exit_config by auto
  obtain b where b: "reconcile_balances 5000 exit_runtime ''bithumb'' ''KRW-BTC'' (Inr (btc_accounts 2)) sample_exit_db
      = (Some b, sample_exit_db)" "\<not> bs_blocking b"
    using sample_reconcile by (simp split: prod.splits option.splits)
  have "examine_exit 5000 exit_runtime False (exit_answers_of (btc_accounts 2)) c lc (Some sample_exit_candidate)
      (Some (hd (positions sample_exit_db))) True False (sample_exit_db, sample_tables) = (Some sample_finding, sample_world)"
    using sample_guard sample_ask by (simp add: examine_exit_def c lc b sample_fields)
  moreover obtain r t where "check_order_risk plain_sum 5000 exit_runtime armed_mode (fst sample_world)
      (exit_risk_input sample_finding sample_exit_candidate True False ''exit-9'') (snd sample_world) = (Some r, t)" "res_allowed r"
    using sample_risk by (simp split: prod.splits option.splits)
  ultimately show ?thesis
    by (simp add: evaluate_exit_order_def c lc sample_fields case_prod_unfold)
qed

section \<open>Properties\<close>

text \<open>
  C7. An exit that the evaluation allows is backed: there is an open position of the candidate's
  market without another open exit order, retries are left, no emergency stop holds, automatic
  exits are enabled if it is one, the order is worth at least the minimum, and its volume is
  within what the exchange reports as available, up to a slack of 1e-12.
\<close>

theorem allowed_exit_is_backed:
  assumes "evaluate_exit_order sqlsum now rt live xa cand pos confirmed auto rid (s, t) = (Some r, w)" "res_allowed r"
  shows "\<exists>x p b c lc. cand = Some x \<and> pos = Some p \<and> xa_snapshot xa = Inr b
    \<and> exit_config_from_env rt = Some c \<and> for_exchange rt ''bithumb'' = Some lc
    \<and> xc_market x = pos_market p \<and> pos_status p \<in> exit_statuses \<and> \<not> has_open_exit_order s (pos_id p)
    \<and> count_exit_retries s (xc_id x) < max_exit_retry_count c \<and> \<not> emergency_stop live
    \<and> (\<not> auto \<or> exit_enabled c)
    \<and> lc_min_order_krw lc \<le> to_float (dict_get r ''amount_krw'')
    \<and> to_float (dict_get r ''volume'') \<le> sell_limit (Some b) (xc_market x)"
proof -
  obtain c lc where c: "exit_config_from_env rt = Some c"
    and lc: "for_exchange rt (case cand of None \<Rightarrow> ''bithumb'' | Some x \<Rightarrow> if xc_exchange x = [] then ''bithumb'' else xc_exchange x) = Some lc"
    using assms(1) by (auto simp: evaluate_exit_order_def split: option.splits)
  obtain f s1 t1 where f: "examine_exit now rt (emergency_stop live) xa c lc cand pos confirmed auto (s, t) = (Some f, s1, t1)"
    using assms(1) by (auto simp: evaluate_exit_order_def c lc split: option.splits prod.splits)
  have code: "xf_code f = None"
  proof (cases "xf_plan f")
    case None
    then show ?thesis
      using assms by (simp add: evaluate_exit_order_def c lc f exit_result_values)
        (auto simp: exit_result_values)
  next
    case (Some plan)
    then obtain t2 where risk: "check_order_risk sqlsum now rt live s1 (exit_risk_input f (xp_candidate plan) confirmed auto rid) t1 = (Some r, t2)"
      using assms(1) by (auto simp: evaluate_exit_order_def c lc f split: prod.splits)
    then obtain rc where "risk_config_from_env rt = Some rc" by (rule check_order_riskE)
    from checked_allowed [OF risk this] assms(2)
    have "base_allows (exit_risk_input f (xp_candidate plan) confirmed auto rid)" by simp
    then show ?thesis by (simp add: base_allows_def exit_risk_input_def dict_get_or_def exit_result_def Let_def)
  qed
  obtain x p s2 t2 where xp: "cand = Some x" "pos = Some p" and guard: "exit_guard c (emergency_stop live) cand pos confirmed auto s = None"
    and ask: "ask_exchange now rt xa c lc x p (s2, t2) = (f, s1, t1)"
    using examine_exit_passes [OF f code] by (metis fst_conv)
  have g: "xc_exchange x = ''bithumb''" "xc_market x = pos_market p" "pos_status p \<in> exit_statuses"
    "\<not> has_open_exit_order s (pos_id p)" "count_exit_retries s (xc_id x) < max_exit_retry_count c"
    "auto \<longrightarrow> \<not> emergency_stop live \<and> exit_enabled c"
    by (rule exit_guard_passes [OF guard]; use xp in simp)+
  obtain b plan where b: "xa_snapshot xa = Inr b" and plan: "xf_plan f = Some plan"
    and bounds: "xc_volume (xp_candidate plan) \<le> sell_limit (Some b) (xc_market x)"
      "lc_min_order_krw lc \<le> xc_expected_amount (xp_candidate plan)"
    using ask_exchange_passes [OF ask code g(2) [symmetric]] by blast
  obtain t3 where risk: "check_order_risk sqlsum now rt live s1 (exit_risk_input f (xp_candidate plan) confirmed auto rid) t1 = (Some r, t3)"
    using assms(1) by (auto simp: evaluate_exit_order_def c lc f plan split: prod.splits)
  obtain rc where rc: "risk_config_from_env rt = Some rc" using risk by (rule check_order_riskE)
  have calm: "\<not> emergency_stop live"
    using checked_allowed [OF risk rc] assms(2) by (auto dest!: order_verdicts_pass(1) mode_passes)
  have keep: "dict_get r k = dict_get (exit_result f confirmed auto) k" if "k \<notin> risk_keys" for k
    using checked_keeps_key [OF risk that] by (simp add: exit_risk_input_def)
  have "dict_get r ''volume'' = VFloat (xc_volume (xp_candidate plan))"
    "dict_get r ''amount_krw'' = VFloat (xc_expected_amount (xp_candidate plan))"
    by (simp_all add: keep risk_keys_def exit_result_values(2,3) [OF plan])
  then have "lc_min_order_krw lc \<le> to_float (dict_get r ''amount_krw'')"
      "to_float (dict_get r ''volume'') \<le> sell_limit (Some b) (xc_market x)"
    using bounds by (simp_all add: float_or_def)
  moreover have "for_exchange rt ''bithumb'' = Some lc" using lc g(1) by (simp add: xp)
  ultimately show ?thesis using xp b c calm g(2-6) by blast
qed

theorem allowed_exit_is_backed_witness:
  "\<exists>r w. evaluate_exit_order plain_sum 5000 exit_runtime armed_mode (exit_answers_of (btc_accounts 2)) (Some sample_exit_candidate)
      (Some (hd (positions sample_exit_db))) True False ''exit-9'' (sample_exit_db, sample_tables) = (Some r, w)
    \<and> res_allowed r \<and> to_float (dict_get r ''volume'') \<le> sell_limit (Some (btc_accounts 2)) ''KRW-BTC''"
proof -
  obtain r w where e: "evaluate_exit_order plain_sum 5000 exit_runtime armed_mode (exit_answers_of (btc_accounts 2)) (Some sample_exit_candidate)
      (Some (hd (positions sample_exit_db))) True False ''exit-9'' (sample_exit_db, sample_tables) = (Some r, w)" and ok: "res_allowed r"
    using sample_evaluation by blast
  have "to_float (dict_get r ''volume'') \<le> sell_limit (Some (btc_accounts 2)) ''KRW-BTC''"
    using allowed_exit_is_backed [OF e ok] by (elim exE conjE) (simp only: option.inject sum.inject sample_fields)
  then show ?thesis using e ok by blast
qed

text \<open>
  C26. The trailing stop never falls. Let a price update be written to a position; then any later
  update of that position, at whatever price, finds a highest price and a stop that are at least
  as high, and the same distance between them.
\<close>

theorem trailing_stop_never_falls:
  assumes "update_live_position_metrics now rt p price status s = (Some m, s1)" "load_live_position s1 (pos_id p) = Some q"
    and "update_live_position_metrics later rt q price' status' s1 = (Some m', s2)" "tr_pct m \<le> 100"
  shows "tr_stop m \<le> tr_stop m' \<and> tr_highest m \<le> tr_highest m' \<and> price' \<le> tr_highest m' \<and> tr_pct m' = tr_pct m"
proof -
  obtain pct where pct: "trailing_pct rt p = Some pct" and m: "m = trailing_of pct p price"
    and s1: "s1 = update_live_position now (pos_id p) (write_metrics now m p price status) s"
    using assms(1) by (auto simp: update_live_position_metrics_def Let_def split: option.splits)
  have q: "highest_price_since_entry q = Some (tr_highest m)" "trailing_stop_pct q = Some pct"
    using assms(2) first_row_SomeD [OF assms(2) [unfolded load_live_position_def]]
    by (auto simp: s1 update_live_position_def write_metrics_def set_update_where m trailing_of_def Let_def)
  have "trailing_pct rt q = Some pct" using pct by (auto simp: trailing_pct_def q split: if_splits)
  then have m': "m' = trailing_of pct q price'"
    using assms(3) by (auto simp: update_live_position_metrics_def Let_def)
  have high: "tr_highest m \<le> tr_highest m'" by (simp add: m' trailing_of_def Let_def q)
  define k where "k = fsub 1 (fdiv pct 100)"
  have k: "0 \<le> k"
    using rnd_mono [of "pct / 100" 1] assms(4) by (simp add: k_def m trailing_of_def Let_def fsub_def fdiv_def rnd_nonneg)
  have stops: "tr_stop m = (if tr_highest m > 0 \<and> pct > 0 then fmul (tr_highest m) k else 0)"
    "tr_stop m' = (if tr_highest m' > 0 \<and> pct > 0 then fmul (tr_highest m') k else 0)"
    by (simp_all add: m m' k_def trailing_of_def Let_def)
  have "fmul (tr_highest m) k \<le> fmul (tr_highest m') k" using high k by (simp add: fmul_def rnd_mono mult_right_mono)
  moreover have "0 < tr_highest m' \<Longrightarrow> 0 \<le> fmul (tr_highest m') k" using k by (simp add: fmul_def rnd_nonneg)
  ultimately have "tr_stop m \<le> tr_stop m'" using high by (simp add: stops)
  then show ?thesis using high by (simp add: m m' trailing_of_def Let_def)
qed

theorem trailing_stop_never_falls_witness:
  "let p = hd (positions sample_exit_db);
       u = update_live_position_metrics 2000 plain_runtime p 12000 None sample_exit_db;
       q = the (load_live_position (snd u) (pos_id p));
       v = update_live_position_metrics 3000 plain_runtime q 8000 None (snd u)
   in tr_stop (the (fst u)) \<le> tr_stop (the (fst v)) \<and> tr_highest (the (fst v)) = 12000"
proof -
  let ?p = "hd (positions sample_exit_db)"
  let ?u = "update_live_position_metrics 2000 plain_runtime ?p 12000 None sample_exit_db"
  let ?q = "the (load_live_position (snd ?u) (pos_id ?p))"
  let ?v = "update_live_position_metrics 3000 plain_runtime ?q 8000 None (snd ?u)"
  have "fst ?u \<noteq> None" "fst ?v \<noteq> None" "load_live_position (snd ?u) (pos_id ?p) \<noteq> None" by code_simp+
  then have u: "?u = (Some (the (fst ?u)), snd ?u)" and v: "?v = (Some (the (fst ?v)), snd ?v)"
    and q: "load_live_position (snd ?u) (pos_id ?p) = Some ?q" by (iprover intro: some_pair option.collapse [symmetric])+
  have pct: "tr_pct (the (fst ?u)) \<le> 100" and top: "tr_highest (the (fst ?v)) = 12000" by code_simp+
  show ?thesis using trailing_stop_never_falls [OF u q v pct] top by (simp add: Let_def)
qed

text \<open>
  C30. Prices are rounded down to the tick of their range: the rounded price is a multiple of the
  tick, not above the price, and less than one tick below it.
\<close>

theorem krw_price_is_rounded_down:
  assumes "is_flt price" "0 \<le> price" "price \<le> 2 ^ 53"
  shows "(\<exists>k. round_krw_price price = of_int (k * krw_tick price))
    \<and> round_krw_price price \<le> price \<and> price < round_krw_price price + of_int (krw_tick price)"
proof -
  have tick: "krw_tick price > 0" by (simp add: krw_tick_def)
  define k where "k = \<lfloor>price / of_int (krw_tick price)\<rfloor>"
  have low: "of_int (k * krw_tick price) \<le> price" and high: "price < of_int (k * krw_tick price) + of_int (krw_tick price)"
    using of_int_floor_le [of "price / of_int (krw_tick price)"] floor_correct [of "price / of_int (krw_tick price)"] tick
    by (simp_all add: k_def [symmetric] pos_le_divide_eq pos_divide_less_eq algebra_simps)
  have "0 \<le> k" using assms(2) tick by (simp add: k_def)
  then have "0 \<le> k * krw_tick price" using tick by simp
  moreover have "(of_int (k * krw_tick price) :: rat) \<le> of_int (2 ^ 53)" using low assms(3) by simp
  then have "k * krw_tick price \<le> 2 ^ 53" by (simp only: of_int_le_iff)
  ultimately have "is_flt (of_int (k * krw_tick price))" by (intro is_flt_of_int) simp
  moreover have "round_krw_price price = rnd (of_int (k * krw_tick price))"
    using assms(2) by (simp add: round_krw_price_def krw_tick_def k_def trunc_def del: of_int_mult rnd_flt)
  ultimately have eq: "round_krw_price price = of_int (k * krw_tick price)" by simp
  then show ?thesis using low high by auto
qed

theorem krw_price_is_rounded_down_witness:
  "round_krw_price 1234567 = 1234000 \<and> round_krw_price 1234567 \<le> 1234567 \<and> 1234567 < round_krw_price 1234567 + of_int (krw_tick 1234567)"
proof -
  have "round_krw_price 1234567 = 1234000" by code_simp
  then show ?thesis using krw_price_is_rounded_down [of 1234567] by simp
qed

section \<open>Observations\<close>

text \<open>
  \<open>reconcile_exit_order\<close> hands on a dict without the volume seen before: the same report, read
  twice, is booked twice. Of two coins one is reported sold; the second reading sells the other.
\<close>

lemma exit_fill_is_booked_again:
  "let s1 = snd (reconcile_exit_order 2000 (Inr (exit_raw 1)) ''exit-1'' exit_db);
       s2 = snd (reconcile_exit_order 3000 (Inr (exit_raw 1)) ''exit-1'' s1)
   in map entry_volume (positions s1) = [1] \<and> map pos_status (positions s1) = [''CLOSING'']
    \<and> map pos_status (positions s2) = [''CLOSED'']"
  by code_simp

text \<open>
  The status query that follows a successful placement is inside the same \<open>try\<close>: when it fails,
  the order that the exchange accepted is marked FAILED, and no longer counts as an open exit.
\<close>

lemma accepted_exit_is_marked_failed:
  "let r = normalize_live_order_log sample_exit_log;
       (res, s1) = place_exit 2000 plain_runtime (\<lambda>_. Inr [(''uuid'', VStr ''x1'')]) (Inl ''HTTP 500'') r
         (sample_exit_candidate\<lparr>xc_id := 1\<rparr>) (hd (positions exit_db)) exit_db
   in res = SubmitFailed ''HTTP 500'' \<and> map log_status (order_logs s1) = [''FAILED''] \<and> map pos_status (positions s1) = [''ERROR'']
    \<and> \<not> has_open_exit_order s1 1"
  by code_simp

text \<open>A take-profit price of 0 triggers at any price above the stop.\<close>

lemma zero_take_profit_sells_at_once:
  "stop_loss_price p < price \<Longrightarrow> take_profit_price p = 0 \<Longrightarrow> 0 \<le> price
   \<Longrightarrow> exit_trigger price p stop highest long_held = Some ''TAKE_PROFIT''"
  by (simp add: exit_trigger_def)

end
