(* ===== verification/StrategyTables.thy ===== *)
theory StrategyTables
  imports RiskManager Locks
begin

text \<open>
  The tables around candidate strategies (\<open>app/database.py\<close>): their status with the promotion log,
  the active selection, the log of switches, the statistics of the adaptive edge, and the runs and
  decisions of the capital allocator; and the record of all tables the allocator and the state
  reconciler work on.
\<close>

section \<open>Tables\<close>

record promotion =
  pm_candidate :: int
  pm_from :: string
  pm_to :: string
  pm_reason :: string
  pm_score :: rat
  pm_metadata :: pydict

record selection =
  sl_id :: int
  sl_candidate :: int
  sl_market :: string
  sl_strategy :: string
  sl_unit :: int
  sl_parameters :: pydict
  sl_status :: string
  sl_reason :: string
  sl_selected_at :: int
  sl_replaced :: "int option"
  sl_cooldown_until :: "int option"
  sl_updated_at :: int

record switch_log =
  sw_from :: "int option"
  sw_to :: "int option"
  sw_from_market :: "string option"
  sw_to_market :: "string option"
  sw_decision :: string
  sw_reason :: string
  sw_blocked_reason :: string
  sw_score_delta :: rat

record edge_stat =
  es_exchange :: string
  es_market :: string
  es_strategy :: string
  es_candidate :: int
  es_unit :: int
  es_edge :: rat
  es_confidence :: rat
  es_samples :: int
  es_slippage :: rat
  es_adverse :: rat
  es_fill_time :: rat
  es_updated_at :: int

record alloc_run =
  ar_id :: int
  ar_reason :: string
  ar_status :: string
  ar_max_total :: rat
  ar_exposure :: rat
  ar_reserved :: rat
  ar_available :: "rat option"
  ar_remaining :: rat
  ar_empty_slots :: int
  ar_candidates :: int
  ar_accepted :: int
  ar_blocked :: int
  ar_started_at :: int
  ar_finished_at :: "int option"
  ar_error :: "string option"

record alloc_decision =
  ad_run :: int
  ad_candidate :: int
  ad_market :: string
  ad_strategy :: string
  ad_score :: rat
  ad_desired :: rat
  ad_approved :: rat
  ad_blocked_reason :: string
  ad_fee_rate :: rat
  ad_fee :: rat
  ad_slippage :: rat
  ad_expected_edge :: rat
  ad_required_edge :: rat
  ad_decision :: string

record strategy_tables =
  promotions :: "promotion list"
  selections :: "selection list"
  sel_seq :: int
  switches :: "switch_log list"
  edge_stats :: "edge_stat list"
  alloc_runs :: "alloc_run list"
  run_seq :: int
  alloc_decisions :: "alloc_decision list"

record desk =
  dk_db :: db
  dk_risk :: risk_tables
  dk_strat :: strategy_tables
  dk_tasks :: task_table

section \<open>Candidates\<close>

definition candidate_statuses :: "string list" where
  "candidate_statuses = [''DISCOVERED'', ''BACKTEST_RUNNING'', ''BACKTEST_PASSED'', ''BACKTEST_FAILED'', ''SHADOW_RUNNING'',
     ''SHADOW_PASSED'', ''LIVE_ELIGIBLE'', ''LIVE_ACTIVE'', ''PAUSED'', ''REJECTED'', ''ACTIVE'', ''INACTIVE'']"

definition normalize_candidate_status :: "string option \<Rightarrow> string \<Rightarrow> string" where
  "normalize_candidate_status status fallback =
     (let n = py_upper (py_strip (str_or status fallback)) in if n \<in> set candidate_statuses then n else fallback)"

definition load_candidate_strategies :: "nat \<Rightarrow> string list \<Rightarrow> string option \<Rightarrow> risk_tables \<Rightarrow> candidate list" where
  "load_candidate_strategies limit statuses market t = take limit
     (order_desc (\<lambda>c. (cd_score c, cd_updated_at c, cd_id c))
       (filter (\<lambda>c. (statuses = [] \<or> cd_status c \<in> (\<lambda>x. Some (normalize_candidate_status (Some x) ''ACTIVE'')) ` set statuses)
          \<and> (os market = [] \<or> cd_market c = os market)) (candidates t)))"

definition load_live_eligible_candidate_strategies :: "nat \<Rightarrow> risk_tables \<Rightarrow> candidate list" where
  "load_live_eligible_candidate_strategies limit t = load_candidate_strategies limit [''LIVE_ACTIVE'', ''LIVE_ELIGIBLE''] None t"

text \<open>\<open>update_candidate_strategy(id, {"status": ...})\<close>, the one update the modelled code makes.\<close>

definition update_candidate_status :: "int \<Rightarrow> int \<Rightarrow> string \<Rightarrow> risk_tables \<Rightarrow> candidate option \<times> risk_tables" where
  "update_candidate_status now i status t = (case load_candidate_strategy t i of None \<Rightarrow> (None, t)
     | Some c \<Rightarrow>
         (let t1 = t\<lparr>candidates := update_where (\<lambda>c. cd_id c = i)
                (\<lambda>x. x\<lparr>cd_status := Some (normalize_candidate_status (Some status) (os (cd_status c))), cd_updated_at := now\<rparr>)
                (candidates t)\<rparr>
          in (load_candidate_strategy t1 i, t1)))"

definition mark_market_live_allowed :: "int \<Rightarrow> string \<Rightarrow> string \<Rightarrow> risk_tables \<Rightarrow> int \<times> risk_tables" where
  "mark_market_live_allowed now exchange market t =
     (let own = (\<lambda>u. un_exchange u = exchange \<and> un_market u = market \<and> un_enabled u);
          any = (\<lambda>u. un_market u = market \<and> un_enabled u);
          hit = (if list_ex own (universe t) then own else any)
      in (int (length (filter hit (universe t))),
          t\<lparr>universe := update_where hit (\<lambda>u. u\<lparr>un_live_allowed := True, un_updated_at := now\<rparr>) (universe t)\<rparr>))"

definition record_candidate_promotion :: "int \<Rightarrow> string \<Rightarrow> string \<Rightarrow> string \<Rightarrow> rat \<Rightarrow> pydict \<Rightarrow> strategy_tables \<Rightarrow> strategy_tables" where
  "record_candidate_promotion i from_status to_status reason score metadata g = g\<lparr>promotions := promotions g @
     [\<lparr>pm_candidate = i, pm_from = normalize_candidate_status (Some from_status) from_status,
       pm_to = normalize_candidate_status (Some to_status) to_status, pm_reason = reason, pm_score = score,
       pm_metadata = metadata\<rparr>]\<rparr>"

definition live_allowed_exchange :: "runtime \<Rightarrow> pydict \<Rightarrow> string" where
  "live_allowed_exchange rt metadata =
     (let v = dict_get metadata ''exchange'';
          x = py_lower (py_strip (if truthy v then py_str v else env_text rt ''AUTO_ALLOWED_EXCHANGE'' ''bithumb''))
      in if x = [] then ''bithumb'' else x)"

definition promote_candidate_strategy :: "int \<Rightarrow> runtime \<Rightarrow> int \<Rightarrow> string \<Rightarrow> string \<Rightarrow> pydict option \<Rightarrow> desk \<Rightarrow> candidate option \<times> desk" where
  "promote_candidate_strategy now rt i to_status reason metadata d = (case load_candidate_strategy (dk_risk d) i of
     None \<Rightarrow> (None, d)
   | Some c \<Rightarrow>
      (let from_status = str_or (cd_status c) ''ACTIVE'';
           status = normalize_candidate_status (Some to_status) from_status;
           (updated, t1) = update_candidate_status now i status (dk_risk d)
       in case updated of None \<Rightarrow> (None, d\<lparr>dk_risk := t1\<rparr>)
        | Some u \<Rightarrow>
           (let given = (case metadata of None \<Rightarrow> [] | Some m \<Rightarrow> m);
                (n, t2) = (if status \<in> {''LIVE_ELIGIBLE'', ''LIVE_ACTIVE''}
                  then mark_market_live_allowed now (live_allowed_exchange rt given)
                         (if cd_market u = [] then (if cd_market c = [] then ''KRW-BTC'' else cd_market c) else cd_market u) t1
                  else (0, t1));
                noted = (if status \<in> {''LIVE_ELIGIBLE'', ''LIVE_ACTIVE''}
                  then dict_put given ''market_live_allowed_updates'' (VInt n) else given)
            in (Some u, d\<lparr>dk_risk := t2,
                 dk_strat := record_candidate_promotion i from_status status reason (cd_score u) noted (dk_strat d)\<rparr>))))"

section \<open>Selection and switches\<close>

definition save_active_strategy_selection :: "int \<Rightarrow> candidate \<Rightarrow> string \<Rightarrow> int option \<Rightarrow> strategy_tables \<Rightarrow> strategy_tables" where
  "save_active_strategy_selection now c reason replaced g = g\<lparr>selections :=
     update_where (\<lambda>x. sl_status x = ''LIVE_ACTIVE'') (\<lambda>x. x\<lparr>sl_status := ''REPLACED'', sl_updated_at := now\<rparr>) (selections g)
     @ [\<lparr>sl_id = sel_seq g + 1, sl_candidate = cd_id c, sl_market = cd_market c, sl_strategy = cd_strategy c,
         sl_unit = cd_unit c, sl_parameters = cd_parameters c, sl_status = ''LIVE_ACTIVE'', sl_reason = reason,
         sl_selected_at = now, sl_replaced = replaced, sl_cooldown_until = None, sl_updated_at = now\<rparr>],
     sel_seq := sel_seq g + 1\<rparr>"

definition record_strategy_switch :: "switch_log \<Rightarrow> strategy_tables \<Rightarrow> strategy_tables" where
  "record_strategy_switch e g = g\<lparr>switches := switches g @ [e]\<rparr>"

definition load_adaptive_edge_stats ::
  "string \<Rightarrow> string \<Rightarrow> string \<Rightarrow> int option \<Rightarrow> int option \<Rightarrow> nat \<Rightarrow> strategy_tables \<Rightarrow> edge_stat list" where
  "load_adaptive_edge_stats exchange market strategy candidate unit limit g = take (max limit 1)
     (order_desc (\<lambda>e. (es_edge e, es_confidence e, es_samples e, es_updated_at e))
       (filter (\<lambda>e. es_exchange e = exchange \<and> (market = [] \<or> es_market e = market) \<and> (strategy = [] \<or> es_strategy e = strategy)
          \<and> (case candidate of None \<Rightarrow> True | Some c \<Rightarrow> es_candidate e = c)
          \<and> (case unit of None \<Rightarrow> True | Some u \<Rightarrow> es_unit e = u)) (edge_stats g)))"

section \<open>Allocation runs\<close>

definition create_capital_allocation_run :: "int \<Rightarrow> string \<Rightarrow> strategy_tables \<Rightarrow> int \<times> strategy_tables" where
  "create_capital_allocation_run now reason g = (run_seq g + 1, g\<lparr>alloc_runs := alloc_runs g @
     [\<lparr>ar_id = run_seq g + 1, ar_reason = reason, ar_status = ''RUNNING'', ar_max_total = 0, ar_exposure = 0, ar_reserved = 0,
       ar_available = None, ar_remaining = 0, ar_empty_slots = 0, ar_candidates = 0, ar_accepted = 0, ar_blocked = 0,
       ar_started_at = now, ar_finished_at = None, ar_error = None\<rparr>], run_seq := run_seq g + 1\<rparr>)"

definition finish_capital_allocation_run :: "int \<Rightarrow> int \<Rightarrow> (alloc_run \<Rightarrow> alloc_run) \<Rightarrow> strategy_tables \<Rightarrow> strategy_tables" where
  "finish_capital_allocation_run now i f g =
     g\<lparr>alloc_runs := update_where (\<lambda>r. ar_id r = i) (\<lambda>r. (f r)\<lparr>ar_finished_at := Some now\<rparr>) (alloc_runs g)\<rparr>"

definition insert_capital_allocation_decision :: "alloc_decision \<Rightarrow> strategy_tables \<Rightarrow> strategy_tables" where
  "insert_capital_allocation_decision e g = g\<lparr>alloc_decisions := alloc_decisions g @ [e]\<rparr>"

section \<open>The queue of next entries\<close>

definition entry_of :: "candidate \<Rightarrow> string \<Rightarrow> rat \<Rightarrow> string \<Rightarrow> queued_entry" where
  "entry_of c market score reason = \<lparr>nq_id = 0, nq_candidate_id = cd_id c, nq_market = market, nq_strategy = cd_strategy c,
     nq_unit = cd_unit c, nq_score = cd_score c, nq_allocation_score = score, nq_status = ''QUEUED'',
     nq_blocked_reason = Some reason, nq_queued_at = 0, nq_expires_at = None, nq_updated_at = 0\<rparr>"

definition queue_candidate :: "int \<Rightarrow> candidate \<Rightarrow> string \<Rightarrow> rat \<Rightarrow> string \<Rightarrow> int \<Rightarrow> desk \<Rightarrow> desk" where
  "queue_candidate now c market score reason ttl d =
     d\<lparr>dk_db := snd (enqueue_next_entry now (entry_of c market score reason) ttl (dk_db d))\<rparr>"

definition on_db :: "(db \<Rightarrow> db) \<Rightarrow> desk \<Rightarrow> desk" where
  "on_db f d = d\<lparr>dk_db := f (dk_db d)\<rparr>"

definition on_strat :: "(strategy_tables \<Rightarrow> strategy_tables) \<Rightarrow> desk \<Rightarrow> desk" where
  "on_strat f d = d\<lparr>dk_strat := f (dk_strat d)\<rparr>"

section \<open>Lemmas\<close>

lemma on_db_simps [simp]: "dk_db (on_db f d) = f (dk_db d)" "dk_risk (on_db f d) = dk_risk d" "dk_strat (on_db f d) = dk_strat d"
    "dk_tasks (on_db f d) = dk_tasks d"
  by (simp_all add: on_db_def)

lemma on_strat_simps [simp]: "dk_db (on_strat f d) = dk_db d" "dk_risk (on_strat f d) = dk_risk d"
    "dk_strat (on_strat f d) = f (dk_strat d)" "dk_tasks (on_strat f d) = dk_tasks d"
  by (simp_all add: on_strat_def)

lemma promote_db [simp]: "dk_db (snd (promote_candidate_strategy now rt i st reason m d)) = dk_db d"
  by (simp add: promote_candidate_strategy_def Let_def split: option.split prod.split)

lemma promote_selections [simp]:
  "selections (dk_strat (snd (promote_candidate_strategy now rt i st reason m d))) = selections (dk_strat d)"
  by (simp add: promote_candidate_strategy_def record_candidate_promotion_def Let_def split: option.split prod.split)

lemma queue_candidate_simps [simp]: "dk_risk (queue_candidate now c market score reason ttl d) = dk_risk d"
    "dk_strat (queue_candidate now c market score reason ttl d) = dk_strat d"
  by (simp_all add: queue_candidate_def)

lemma enqueue_tables [simp]:
  "slots (snd (enqueue_next_entry now e ttl s)) = slots s"
  "reservations (snd (enqueue_next_entry now e ttl s)) = reservations s"
  "positions (snd (enqueue_next_entry now e ttl s)) = positions s"
  "sessions (snd (enqueue_next_entry now e ttl s)) = sessions s"
  by (simp_all add: enqueue_next_entry_def Let_def split: option.split)

lemma normalize_known:
  assumes "st \<in> set candidate_statuses"
  shows "normalize_candidate_status (Some st) f = st"
proof -
  have "list_all (\<lambda>x. py_upper (py_strip x) = x \<and> x \<noteq> []) candidate_statuses" by code_simp
  then have "py_upper (py_strip st) = st \<and> st \<noteq> []" using assms by (auto simp: list_all_iff)
  then show ?thesis using assms by (simp add: normalize_candidate_status_def str_or_def Let_def)
qed

text \<open>A promotion to a known status writes that status and nothing else of a candidate's identity.\<close>

lemma mark_allowed_candidates [simp]: "candidates (snd (mark_market_live_allowed now exchange market t)) = candidates t"
  by (simp add: mark_market_live_allowed_def Let_def)

lemma promote_candidates:
  assumes "st \<in> set candidate_statuses"
  shows "map (\<lambda>c. (cd_id c, cd_status c)) (candidates (dk_risk (snd (promote_candidate_strategy now rt i st reason m d))))
    = map (\<lambda>c. (cd_id c, if cd_id c = i then Some st else cd_status c)) (candidates (dk_risk d))"
proof (cases "load_candidate_strategy (dk_risk d) i")
  case None
  then have "\<forall>c \<in> set (candidates (dk_risk d)). cd_id c \<noteq> i" by (simp add: load_candidate_strategy_def first_row_None_iff)
  then show ?thesis by (simp add: promote_candidate_strategy_def None)
next
  case (Some c)
  obtain u t1 where u: "update_candidate_status now i st (dk_risk d) = (u, t1)" by (cases "update_candidate_status now i st (dk_risk d)")
  then have t: "candidates t1 = update_where (\<lambda>c. cd_id c = i) (\<lambda>x. x\<lparr>cd_status := Some st, cd_updated_at := now\<rparr>) (candidates (dk_risk d))"
    by (auto simp add: update_candidate_status_def Some Let_def normalize_known assms)
  have "candidates (dk_risk (snd (promote_candidate_strategy now rt i st reason m d))) = candidates t1"
  proof (cases u)
    case None
    then show ?thesis by (simp add: promote_candidate_strategy_def Some Let_def normalize_known assms u)
  next
    case (Some v)
    let ?ex = "live_allowed_exchange rt (case m of None \<Rightarrow> [] | Some m \<Rightarrow> m)"
    let ?mk = "if cd_market v = [] then if cd_market c = [] then ''KRW-BTC'' else cd_market c else cd_market v"
    obtain n t2 where t2: "mark_market_live_allowed now ?ex ?mk t1 = (n, t2)" by (cases "mark_market_live_allowed now ?ex ?mk t1")
    have "candidates t2 = candidates t1" using mark_allowed_candidates [of now ?ex ?mk t1] by (simp only: t2 snd_conv)
    then show ?thesis
      unfolding promote_candidate_strategy_def \<open>load_candidate_strategy (dk_risk d) i = Some c\<close> option.case Let_def
        normalize_known [OF assms] u prod.case Some t2 if_distrib [of "case_prod _"]
      by (simp split: if_split)
  qed
  then show ?thesis by (simp add: t update_where_def)
qed

end
