(* ===== verification/StateReconciler.thy ===== *)
theory StateReconciler
  imports StrategyTables LiveExit
begin

text \<open>
  The state reconciler (\<open>app/live_state_reconciler.py\<close>): eight repairs of the live tables, each a
  query that finds the rows in question and, unless it is a dry run, the writes that repair them,
  with the warnings computed from the same queries. Where a query joins tables and leaves the order
  of equal rows open, rows come in the order they were inserted.
\<close>

section \<open>Status sets\<close>

definition active_slot_statuses :: "string set" where
  "active_slot_statuses = {''OPEN'', ''RESERVED'', ''ENTERING'', ''CLOSING'', ''EXIT_PENDING'', ''EXIT_CANDIDATE'', ''MANUAL_REVIEW_REQUIRED''}"

definition active_reservation_statuses :: "string set" where
  "active_reservation_statuses = {''RESERVED'', ''ORDER_SUBMITTED''}"

definition pointer_session_statuses :: "string set" where
  "pointer_session_statuses = {''READY'', ''RUNNING'', ''LIVE_PAUSED''}"

definition release_blockers :: "string set" where
  "release_blockers = {''PROFIT_ENGINE_BLOCKED_TREND_DOWN'', ''SMART_AGGRESSIVE_TREND_DOWN_BLOCKED'', ''SMART_MIN_REBALANCE_DELTA'',
     ''BLOCKED_EXPECTED_EDGE_BELOW_COST''}"

definition bool_env :: "runtime \<Rightarrow> string \<Rightarrow> bool \<Rightarrow> bool" where
  "bool_env rt k dflt = (case environ rt k of None \<Rightarrow> dflt
     | Some v \<Rightarrow> py_lower (py_strip v) \<in> {''1'', ''true'', ''yes'', ''on''})"

text \<open>\<open>not value\<close> on a nullable id and on a nullable text.\<close>

definition no_id :: "int option \<Rightarrow> bool" where
  "no_id v \<longleftrightarrow> v = None \<or> v = Some 0"

definition no_text :: "string option \<Rightarrow> bool" where
  "no_text v \<longleftrightarrow> os v = []"

text \<open>What a repair reports: rows found, repaired, left for manual review, queued again.\<close>

record tidy =
  td_checked :: int
  td_done :: int
  td_manual :: int
  td_queued :: int

section \<open>Candidates marked LIVE\_ACTIVE without an execution link\<close>

record candidate_links =
  had_slot :: bool
  had_reservation :: bool
  had_open_position :: bool
  had_running_session :: bool
  had_active_selection :: bool

definition candidate_links_of :: "int \<Rightarrow> desk \<Rightarrow> int \<Rightarrow> candidate_links" where
  "candidate_links_of now d i =
     \<lparr>had_slot = list_ex (\<lambda>r. slot_candidate_id r = Some i \<and> slot_status r \<in> active_slot_statuses) (slots (dk_db d)),
      had_reservation = list_ex (\<lambda>r. rv_candidate_id r = i \<and> rv_status r \<in> active_reservation_statuses \<and> reservation_live now r)
        (reservations (dk_db d)),
      had_open_position = list_ex (\<lambda>p. pos_candidate_id p = i \<and> pos_status p \<in> active_statuses) (positions (dk_db d)),
      had_running_session = list_ex (\<lambda>r. ses_candidate_id r = i \<and> ses_status r \<in> {''READY'', ''RUNNING''}) (sessions (dk_db d)),
      had_active_selection = list_ex (\<lambda>x. sl_candidate x = i \<and> sl_status x = ''LIVE_ACTIVE'') (selections (dk_strat d))\<rparr>"

definition is_orphan :: "candidate_links \<Rightarrow> bool" where
  "is_orphan l \<longleftrightarrow> \<not> (had_slot l \<or> had_reservation l \<or> had_open_position l \<or> had_running_session l \<or> had_active_selection l)"

definition latest_active_selection_status :: "desk \<Rightarrow> int \<Rightarrow> string option" where
  "latest_active_selection_status d i = map_option sl_status (head_row (order_desc (\<lambda>x. (sl_selected_at x, sl_id x))
     (filter (\<lambda>x. sl_candidate x = i) (selections (dk_strat d)))))"

definition live_active_candidates :: "desk \<Rightarrow> candidate list" where
  "live_active_candidates d = order_desc (\<lambda>c. (cd_updated_at c, cd_id c))
     (filter (\<lambda>c. cd_status c = Some ''LIVE_ACTIVE'') (candidates (dk_risk d)))"

definition find_orphan_live_active_candidates :: "int \<Rightarrow> desk \<Rightarrow> candidate list" where
  "find_orphan_live_active_candidates now d = filter (\<lambda>c. is_orphan (candidate_links_of now d (cd_id c))) (live_active_candidates d)"

definition orphan_metadata :: "candidate_links \<Rightarrow> string option \<Rightarrow> pydict" where
  "orphan_metadata l selected = [(''previous_status'', VStr ''LIVE_ACTIVE''), (''had_slot'', VBool (had_slot l)),
     (''had_reservation'', VBool (had_reservation l)), (''had_open_position'', VBool (had_open_position l)),
     (''had_running_session'', VBool (had_running_session l)), (''had_active_selection'', VBool (had_active_selection l)),
     (''active_selection_status'', case selected of None \<Rightarrow> VNone | Some x \<Rightarrow> VStr x)]"

definition demote_orphan :: "int \<Rightarrow> runtime \<Rightarrow> bool \<Rightarrow> bool \<Rightarrow> candidate \<Rightarrow> tidy \<times> desk \<Rightarrow> tidy \<times> desk" where
  "demote_orphan now rt dry enqueue c acc = (case acc of (n, d) \<Rightarrow>
     (let l = candidate_links_of now d (cd_id c)
      in if \<not> is_orphan l then (n, d)
         else if dry then (n\<lparr>td_manual := td_manual n + 1\<rparr>, d)
         else (let d1 = snd (promote_candidate_strategy now rt (cd_id c) ''LIVE_ELIGIBLE'' ''ORPHAN_LIVE_ACTIVE_RECONCILED''
                     (Some (orphan_metadata l (latest_active_selection_status d (cd_id c)))) d)
               in if enqueue
                  then (n\<lparr>td_done := td_done n + 1, td_queued := td_queued n + 1\<rparr>,
                        queue_candidate now c (cd_market c) (cd_score c) ''ORPHAN_LIVE_ACTIVE_RECONCILED'' 360 d1)
                  else (n\<lparr>td_done := td_done n + 1\<rparr>, d1))))"

text \<open>In a dry run \<open>td_manual\<close> counts the orphans that were found.\<close>

definition reconcile_orphan_live_active_candidates :: "int \<Rightarrow> runtime \<Rightarrow> bool \<Rightarrow> bool \<Rightarrow> desk \<Rightarrow> tidy \<times> desk" where
  "reconcile_orphan_live_active_candidates now rt dry enqueue d =
     foldl (\<lambda>acc c. demote_orphan now rt dry enqueue c acc)
       (\<lparr>td_checked = int (length (live_active_candidates d)), td_done = 0, td_manual = 0, td_queued = 0\<rparr>, d)
       (live_active_candidates d)"

section \<open>Sessions that point at a position that is over\<close>

definition replacement_open_position :: "db \<Rightarrow> session \<Rightarrow> position option" where
  "replacement_open_position s r =
     (let exchange = (if ses_exchange r = [] then ''bithumb'' else ses_exchange r);
          newest = (\<lambda>q. head_row (order_desc (\<lambda>p. (pos_updated_at p, pos_id p))
            (filter (\<lambda>p. q p \<and> pos_exchange p = exchange \<and> pos_market p = ses_market r \<and> pos_status p \<in> active_statuses)
              (positions s))))
      in case newest (\<lambda>p. pos_session_id p = ses_id r) of Some p \<Rightarrow> Some p
         | None \<Rightarrow> newest (\<lambda>p. pos_candidate_id p = ses_candidate_id r))"

record stale_session =
  st_session :: int
  st_new_position :: "int option"
  st_new_status :: string

definition points_at_active :: "db \<Rightarrow> int \<Rightarrow> bool" where
  "points_at_active s i = (case load_live_position s i of None \<Rightarrow> False | Some p \<Rightarrow> pos_status p \<in> active_statuses)"

definition stale_session_of :: "db \<Rightarrow> session \<Rightarrow> stale_session" where
  "stale_session_of s r = (let new = replacement_open_position s r in
     \<lparr>st_session = ses_id r, st_new_position = map_option pos_id new,
      st_new_status = (if new = None \<and> py_strip (os (current_open_order_uuid r)) = [] then ''STOPPED'' else ses_status r)\<rparr>)"

definition pointing_sessions :: "db \<Rightarrow> session list" where
  "pointing_sessions s = order_desc (\<lambda>r. (ses_updated_at r, ses_id r))
     (filter (\<lambda>r. ses_status r \<in> pointer_session_statuses \<and> current_position_id r \<noteq> None) (sessions s))"

definition find_stale_live_strategy_sessions :: "db \<Rightarrow> stale_session list" where
  "find_stale_live_strategy_sessions s = map (stale_session_of s)
     (filter (\<lambda>r. \<not> points_at_active s (the (current_position_id r))) (pointing_sessions s))"

definition repair_stale :: "int \<Rightarrow> stale_session \<Rightarrow> session \<Rightarrow> session" where
  "repair_stale now x r =
     (let r1 = r\<lparr>current_position_id := st_new_position x, last_risk_result := Some ''STALE_SESSION_POSITION_POINTER_RECONCILED''\<rparr>
      in if st_new_status x = ''STOPPED''
         then r1\<lparr>ses_status := ''STOPPED'', auto_enabled := False, last_order_status := Some ''STALE_POSITION_POINTER_CLEARED'',
                 stopped_at := Some now\<rparr>
         else r1)"

definition reconcile_stale_live_strategy_sessions :: "int \<Rightarrow> bool \<Rightarrow> db \<Rightarrow> tidy \<times> db" where
  "reconcile_stale_live_strategy_sessions now dry s =
     (let found = find_stale_live_strategy_sessions s;
          n = \<lparr>td_checked = int (length (pointing_sessions s)), td_done = (if dry then 0 else int (length found)),
               td_manual = 0, td_queued = 0\<rparr>
      in (n, if dry then s
             else foldl (\<lambda>u x. update_live_strategy_session now (st_session x) (repair_stale now x) u) s found))"

section \<open>Slots whose session is of another market or strategy\<close>

definition slot_session :: "db \<Rightarrow> slot \<Rightarrow> session option" where
  "slot_session s r = (case slot_session_id r of None \<Rightarrow> None | Some i \<Rightarrow> load_live_strategy_session s i)"

definition session_mismatch :: "db \<Rightarrow> slot \<Rightarrow> bool" where
  "session_mismatch s r \<longleftrightarrow> slot_session_id r \<noteq> None \<and> slot_status r \<in> active_slot_statuses
     \<and> (case slot_session s r of None \<Rightarrow> True
        | Some x \<Rightarrow> os (slot_market r) \<noteq> ses_market x
            \<or> (case slot_candidate_id r of None \<Rightarrow> 0 | Some c \<Rightarrow> c) \<noteq> ses_candidate_id x)"

definition slot_order :: "slot \<Rightarrow> int \<times> int" where
  "slot_order r = (slot_number r, slot_id r)"

definition find_mismatched_position_slot_sessions :: "db \<Rightarrow> slot list" where
  "find_mismatched_position_slot_sessions s = sort_key slot_order (filter (session_mismatch s) (slots s))"

definition bare_reserved :: "slot \<Rightarrow> bool" where
  "bare_reserved r \<longleftrightarrow> py_upper (slot_status r) = ''RESERVED'' \<and> no_id (slot_position_id r) \<and> no_text (slot_entry_uuid r)"

definition stopped_session :: "int \<Rightarrow> string \<Rightarrow> string \<Rightarrow> session \<Rightarrow> session" where
  "stopped_session now reason order_status r = r\<lparr>ses_status := ''STOPPED'', auto_enabled := False, last_risk_result := Some reason,
     last_order_status := Some order_status, stopped_at := Some now\<rparr>"

definition requeue :: "int \<Rightarrow> runtime \<Rightarrow> bool \<Rightarrow> int \<Rightarrow> string \<Rightarrow> string \<Rightarrow> int \<Rightarrow> desk \<Rightarrow> desk" where
  "requeue now rt enqueue i market reason ttl d =
     (if i = 0 then d
      else (let d1 = snd (promote_candidate_strategy now rt i ''LIVE_ELIGIBLE'' reason None d)
            in case load_candidate_strategy (dk_risk d1) i of
                 Some c \<Rightarrow> if enqueue then queue_candidate now c market (cd_score c) reason ttl d1 else d1
               | None \<Rightarrow> d1))"

definition free_mismatched_slot :: "int \<Rightarrow> slot \<Rightarrow> db \<Rightarrow> db" where
  "free_mismatched_slot now r s =
     s\<lparr>reservations := update_where (\<lambda>v. rv_slot_id v = Some (slot_id r) \<and> rv_status v \<in> active_reservation_statuses)
         (\<lambda>v. v\<lparr>rv_status := ''EXPIRED'', rv_updated_at := now\<rparr>) (reservations s),
       slots := update_where (\<lambda>x. slot_id x = slot_id r)
         (\<lambda>x. x\<lparr>slot_status := ''EMPTY'', slot_market := None, slot_candidate_id := None, slot_session_id := None,
            allocated_krw := 0, reserved_krw := 0, entry_reason := Some ''MISMATCHED_SLOT_SESSION_RECONCILED'',
            slot_updated_at := now\<rparr>) (slots s)\<rparr>"

definition release_mismatched :: "int \<Rightarrow> runtime \<Rightarrow> bool \<Rightarrow> slot \<Rightarrow> desk \<Rightarrow> desk" where
  "release_mismatched now rt enqueue r d =
     (let sid = (case slot_session_id r of None \<Rightarrow> 0 | Some i \<Rightarrow> i);
          d1 = on_db (free_mismatched_slot now r) d;
          d2 = (if sid = 0 then d1 else on_db (update_live_strategy_session now sid
            (stopped_session now ''MISMATCHED_SLOT_SESSION_RECONCILED'' ''REPLACED'')) d1)
      in requeue now rt enqueue (case slot_candidate_id r of None \<Rightarrow> 0 | Some c \<Rightarrow> c) (os (slot_market r))
           ''MISMATCHED_SLOT_SESSION_RECONCILED'' 360 d2)"

text \<open>All repairs of this shape: the found rows that are safe are repaired, the others counted.\<close>

definition tidy_rows :: "bool \<Rightarrow> ('r \<Rightarrow> bool) \<Rightarrow> ('r \<Rightarrow> desk \<Rightarrow> desk) \<Rightarrow> 'r list \<Rightarrow> desk \<Rightarrow> tidy \<times> desk" where
  "tidy_rows dry safe repair rows d =
     (let ok = filter safe rows
      in (\<lparr>td_checked = int (length rows), td_done = (if dry then 0 else int (length ok)),
           td_manual = int (length rows) - int (length ok), td_queued = 0\<rparr>,
          if dry then d else foldl (\<lambda>u r. repair r u) d ok))"

definition reconcile_mismatched_position_slot_sessions :: "int \<Rightarrow> runtime \<Rightarrow> bool \<Rightarrow> bool \<Rightarrow> desk \<Rightarrow> tidy \<times> desk" where
  "reconcile_mismatched_position_slot_sessions now rt dry enqueue d =
     tidy_rows dry bare_reserved (release_mismatched now rt enqueue) (find_mismatched_position_slot_sessions (dk_db d)) d"

section \<open>Reservations that have run out\<close>

definition reservation_slot :: "db \<Rightarrow> reservation \<Rightarrow> slot option" where
  "reservation_slot s v = (case rv_slot_id v of None \<Rightarrow> None | Some i \<Rightarrow> first_row (\<lambda>r. slot_id r = i) (slots s))"

definition run_out :: "int \<Rightarrow> reservation \<Rightarrow> bool" where
  "run_out now v \<longleftrightarrow> rv_status v \<in> active_reservation_statuses \<and> (case rv_expires_at v of None \<Rightarrow> False | Some t \<Rightarrow> t \<le> now)"

definition find_expired_order_reservations :: "int \<Rightarrow> db \<Rightarrow> (reservation \<times> slot option \<times> session option) list" where
  "find_expired_order_reservations now s = map (\<lambda>v. let r = reservation_slot s v in
       (v, r, case r of None \<Rightarrow> None | Some x \<Rightarrow> slot_session s x))
     (sort_key (\<lambda>v. (the (rv_expires_at v), rv_id v)) (filter (run_out now) (reservations s)))"

definition idle_session :: "session option \<Rightarrow> bool" where
  "idle_session x \<longleftrightarrow> (case x of None \<Rightarrow> True | Some r \<Rightarrow> no_text (current_open_order_uuid r) \<and> no_id (current_position_id r))"

definition expired_is_safe :: "reservation \<times> slot option \<times> session option \<Rightarrow> bool" where
  "expired_is_safe x = (case x of (_, r, q) \<Rightarrow> idle_session q \<and> (case r of None \<Rightarrow> True
     | Some y \<Rightarrow> py_upper (slot_status y) \<in> {'''', ''RESERVED''} \<and> no_id (slot_position_id y) \<and> no_text (slot_entry_uuid y)))"

definition free_reserved_slot :: "int \<Rightarrow> int \<Rightarrow> int \<Rightarrow> string \<Rightarrow> string \<Rightarrow> db \<Rightarrow> db" where
  "free_reserved_slot now i candidate reason status s =
     s\<lparr>reservations := update_where (\<lambda>v. rv_slot_id v = Some i \<and> rv_candidate_id v = candidate
           \<and> rv_status v \<in> active_reservation_statuses) (\<lambda>v. v\<lparr>rv_status := status, rv_updated_at := now\<rparr>) (reservations s),
       slots := update_where (\<lambda>x. slot_id x = i)
         (\<lambda>x. x\<lparr>slot_status := ''EMPTY'', slot_market := None, slot_candidate_id := None, slot_position_id := None,
            slot_session_id := None, slot_entry_uuid := None, slot_exit_uuid := None, allocated_krw := 0, reserved_krw := 0,
            current_value_krw := 0, slot_unrealized := 0, slot_realized := 0, entry_reason := Some reason,
            slot_updated_at := now\<rparr>) (slots s)\<rparr>"

definition release_reserved_slot ::
  "int \<Rightarrow> runtime \<Rightarrow> int option \<Rightarrow> int \<Rightarrow> string \<Rightarrow> string \<Rightarrow> string \<Rightarrow> int option \<Rightarrow> bool \<Rightarrow> int option \<Rightarrow> desk \<Rightarrow> desk" where
  "release_reserved_slot now rt slot candidate market reason status sid enqueue ttl d =
     (let d1 = on_db (\<lambda>s. if no_id slot
            then s\<lparr>reservations := update_where (\<lambda>v. rv_candidate_id v = candidate \<and> rv_market v = market
                     \<and> rv_status v \<in> active_reservation_statuses)
                   (\<lambda>v. v\<lparr>rv_status := status, rv_updated_at := now\<rparr>) (reservations s)\<rparr>
            else free_reserved_slot now (the slot) candidate reason status s) d;
          d2 = (if no_id sid then d1 else case load_live_strategy_session (dk_db d1) (the sid) of None \<Rightarrow> d1
            | Some r \<Rightarrow> if idle_session (Some r)
                then on_db (update_live_strategy_session now (the sid) (stopped_session now reason status)) d1 else d1)
      in requeue now rt enqueue candidate market reason (case ttl of None \<Rightarrow> 360 | Some m \<Rightarrow> if m = 0 then 360 else m) d2)"

definition release_expired :: "int \<Rightarrow> runtime \<Rightarrow> bool \<Rightarrow> reservation \<times> slot option \<times> session option \<Rightarrow> desk \<Rightarrow> desk" where
  "release_expired now rt enqueue x d = (case x of (v, r, _) \<Rightarrow>
     release_reserved_slot now rt (rv_slot_id v) (rv_candidate_id v) (rv_market v) ''EXPIRED_ORDER_RESERVATION_RECONCILED'' ''EXPIRED''
       (case r of None \<Rightarrow> None | Some y \<Rightarrow> slot_session_id y) enqueue None d)"

definition reconcile_expired_order_reservations :: "int \<Rightarrow> runtime \<Rightarrow> bool \<Rightarrow> bool \<Rightarrow> desk \<Rightarrow> tidy \<times> desk" where
  "reconcile_expired_order_reservations now rt dry enqueue d =
     tidy_rows dry expired_is_safe (release_expired now rt enqueue) (find_expired_order_reservations now (dk_db d)) d"

section \<open>Reserved slots with an outdated session\<close>

definition active_session_for_reserved_slot :: "db \<Rightarrow> slot \<Rightarrow> session option" where
  "active_session_for_reserved_slot s r =
     head_row (order_desc (\<lambda>x. ((if ses_status x = ''RUNNING'' then 1 else 0 :: int), ses_updated_at x, ses_id x))
       (filter (\<lambda>x. ses_exchange x = (if slot_exchange r = [] then ''bithumb'' else slot_exchange r)
          \<and> ses_market x = os (slot_market r) \<and> Some (ses_candidate_id x) = (case slot_candidate_id r of None \<Rightarrow> Some 0 | c \<Rightarrow> c)
          \<and> ses_status x \<in> {''READY'', ''RUNNING''} \<and> auto_enabled x \<and> current_open_order_uuid x = None
          \<and> current_position_id x = None) (sessions s)))"

definition reserved_slots :: "db \<Rightarrow> slot list" where
  "reserved_slots s = sort_key slot_order (filter (\<lambda>r. slot_status r = ''RESERVED'' \<and> slot_candidate_id r \<noteq> None) (slots s))"

definition session_fits :: "db \<Rightarrow> slot \<Rightarrow> bool" where
  "session_fits s r \<longleftrightarrow> (case slot_session_id r of None \<Rightarrow> False | Some i \<Rightarrow> i > 0)
     \<and> (case slot_session s r of None \<Rightarrow> False
        | Some x \<Rightarrow> py_upper (ses_status x) \<in> {''READY'', ''RUNNING''} \<and> ses_market x = os (slot_market r)
            \<and> Some (ses_candidate_id x) = slot_candidate_id r)"

definition find_reserved_slot_session_pointer_mismatches :: "db \<Rightarrow> (slot \<times> int) list" where
  "find_reserved_slot_session_pointer_mismatches s = concat (map (\<lambda>r. case active_session_for_reserved_slot s r of
       None \<Rightarrow> []
     | Some x \<Rightarrow> if session_fits s r \<or> ses_id x = 0 \<or> slot_session_id r = Some (ses_id x) then [] else [(r, ses_id x)])
     (reserved_slots s))"

definition pointer_is_safe :: "slot \<times> int \<Rightarrow> bool" where
  "pointer_is_safe x \<longleftrightarrow> no_id (slot_position_id (fst x)) \<and> no_text (slot_entry_uuid (fst x))"

definition repoint_slot :: "int \<Rightarrow> slot \<times> int \<Rightarrow> desk \<Rightarrow> desk" where
  "repoint_slot now x d = (case x of (r, new) \<Rightarrow>
     (let d1 = on_db (\<lambda>s. s\<lparr>slots := update_where (\<lambda>y. slot_id y = slot_id r)
            (\<lambda>y. y\<lparr>slot_session_id := Some new, entry_reason := Some ''RESERVED_SLOT_SESSION_POINTER_RECONCILED'',
                   slot_updated_at := now\<rparr>) (slots s)\<rparr>) d
      in if no_id (slot_session_id r) then d1
         else case load_live_strategy_session (dk_db d1) (the (slot_session_id r)) of None \<Rightarrow> d1
           | Some q \<Rightarrow> if py_upper (ses_status q) \<in> {''READY'', ''LIVE_PAUSED''} \<and> idle_session (Some q)
               then on_db (update_live_strategy_session now (the (slot_session_id r))
                      (stopped_session now ''RESERVED_SLOT_SESSION_POINTER_RECONCILED'' ''REPLACED'')) d1
               else d1))"

definition reconcile_reserved_slot_session_pointer :: "int \<Rightarrow> bool \<Rightarrow> desk \<Rightarrow> tidy \<times> desk" where
  "reconcile_reserved_slot_session_pointer now dry d =
     tidy_rows dry pointer_is_safe (repoint_slot now) (find_reserved_slot_session_pointer_mismatches (dk_db d)) d"

section \<open>Entries whose fill was not finalised\<close>

definition find_entry_fill_lifecycle_gaps :: "db \<Rightarrow> (slot \<times> position \<times> reservation option) list" where
  "find_entry_fill_lifecycle_gaps s = concat (map (\<lambda>r. concat (map (\<lambda>p.
       (let vs = filter (\<lambda>v. rv_slot_id v = Some (slot_id r) \<and> rv_status v \<in> active_reservation_statuses) (reservations s)
        in if vs = [] then [(r, p, None)] else map (\<lambda>v. (r, p, Some v)) vs))
       (filter (\<lambda>p. pos_exchange p = slot_exchange r \<and> Some (pos_market p) = slot_market r
          \<and> Some (pos_candidate_id p) = slot_candidate_id r \<and> Some (pos_session_id p) = slot_session_id r
          \<and> pos_status p \<in> active_statuses) (positions s))))
     (sort_key slot_order (filter (\<lambda>r. slot_status r \<in> {''RESERVED'', ''ENTERING''} \<and> slot_candidate_id r \<noteq> None) (slots s))))"

text \<open>The join already requires what is tested here, but for a position id of 0.\<close>

definition gap_is_safe :: "slot \<times> position \<times> reservation option \<Rightarrow> bool" where
  "gap_is_safe x = (case x of (r, p, _) \<Rightarrow> pos_id p > 0 \<and> Some (pos_session_id p) = slot_session_id r \<and> Some (pos_market p) = slot_market r)"

definition reconcile_entry_fill_lifecycles :: "int \<Rightarrow> bool \<Rightarrow> desk \<Rightarrow> tidy \<times> desk" where
  "reconcile_entry_fill_lifecycles now dry d =
     tidy_rows dry gap_is_safe (\<lambda>x. on_db (finalize_entry_lifecycle_for_position now (pos_id (fst (snd x)))))
       (find_entry_fill_lifecycle_gaps (dk_db d)) d"

section \<open>Several sessions for one position\<close>

definition find_duplicate_position_sessions :: "db \<Rightarrow> session list" where
  "find_duplicate_position_sessions s = map fst
     (sort_key (\<lambda>(r, p). (pos_id p, ses_updated_at r, ses_id r))
       (filter (\<lambda>(r, p). pos_status p \<in> active_statuses \<and> ses_id r \<noteq> pos_session_id p)
         (concat (map (\<lambda>r. case current_position_id r of None \<Rightarrow> []
              | Some i \<Rightarrow> (case load_live_position s i of None \<Rightarrow> [] | Some p \<Rightarrow> [(r, p)]))
            (filter (\<lambda>r. ses_status r \<in> pointer_session_statuses) (sessions s))))))"

definition stop_duplicate :: "int \<Rightarrow> session \<Rightarrow> desk \<Rightarrow> desk" where
  "stop_duplicate now r d = on_db (update_live_strategy_session now (ses_id r)
     (\<lambda>x. (stopped_session now ''DUPLICATE_POSITION_SESSION_RECONCILED'' ''REPLACED'' x)
            \<lparr>current_position_id := None, current_open_order_uuid := None\<rparr>)) d"

definition reconcile_duplicate_position_sessions :: "int \<Rightarrow> bool \<Rightarrow> desk \<Rightarrow> tidy \<times> desk" where
  "reconcile_duplicate_position_sessions now dry d =
     tidy_rows dry (\<lambda>r. no_text (current_open_order_uuid r)) (stop_duplicate now) (find_duplicate_position_sessions (dk_db d)) d"

section \<open>Reserved slots whose entry is blocked again and again\<close>

definition blocked_results :: "nat \<Rightarrow> db \<Rightarrow> slot \<Rightarrow> string list" where
  "blocked_results limit s r = map risk_result (take limit (order_desc (\<lambda>x. (log_created_at x, log_id x))
     (filter (\<lambda>x. log_candidate_id x = slot_candidate_id r \<and> log_market x = os (slot_market r) \<and> order_purpose x = ''ENTRY''
        \<and> log_status x = ''BLOCKED'') (order_logs s))))"

definition find_reserved_entry_blocked_slots :: "runtime \<Rightarrow> db \<Rightarrow> slot list" where
  "find_reserved_entry_blocked_slots rt s =
     (let threshold = int_env rt ''AUTO_RESERVED_ENTRY_MAX_BLOCKED_TICKS'' 2 1 (Some 20)
      in filter (\<lambda>r. let results = blocked_results (nat threshold) s r
           in int (length results) \<ge> threshold \<and> list_all (\<lambda>x. x \<in> release_blockers) results) (reserved_slots s))"

definition blocked_is_safe :: "db \<Rightarrow> slot \<Rightarrow> bool" where
  "blocked_is_safe s r \<longleftrightarrow> no_id (slot_position_id r) \<and> no_text (slot_entry_uuid r) \<and> idle_session (slot_session s r)"

definition release_blocked :: "int \<Rightarrow> runtime \<Rightarrow> bool \<Rightarrow> slot \<Rightarrow> desk \<Rightarrow> desk" where
  "release_blocked now rt enqueue r = release_reserved_slot now rt (Some (slot_id r)) (the (slot_candidate_id r)) (os (slot_market r))
     ''RESERVED_ENTRY_BLOCK_RECONCILED'' ''RELEASED'' (slot_session_id r) enqueue
     (Some (int_env rt ''AUTO_RESERVED_ENTRY_RELEASE_COOLDOWN_MINUTES'' 30 1 (Some 1440)))"

definition reconcile_reserved_entry_blocked_slots :: "int \<Rightarrow> runtime \<Rightarrow> bool \<Rightarrow> bool \<Rightarrow> desk \<Rightarrow> tidy \<times> desk" where
  "reconcile_reserved_entry_blocked_slots now rt dry enqueue d =
     tidy_rows dry (\<lambda>r. bool_env rt ''AUTO_RESERVED_ENTRY_BLOCK_RELEASE_ENABLED'' True \<and> blocked_is_safe (dk_db d) r)
       (release_blocked now rt enqueue) (find_reserved_entry_blocked_slots rt (dk_db d)) d"

section \<open>Warnings, and all repairs in order\<close>

text \<open>\<open>next_entry_queue\<close> is unique in candidate and status; the count of conflicts is a check of that.\<close>

definition next_entry_queue_conflict_count :: "db \<Rightarrow> int" where
  "next_entry_queue_conflict_count s = (let keys = map (\<lambda>q. (nq_candidate_id q, nq_status q)) (next_entries s)
     in int (length (filter (\<lambda>k. count_list keys k > 1) (remdups keys))))"

definition live_state_warnings :: "int \<Rightarrow> runtime \<Rightarrow> desk \<Rightarrow> string list" where
  "live_state_warnings now rt d =
     (let s = dk_db d; row = map_of (dk_tasks d) ''capital_allocator''
      in (if find_orphan_live_active_candidates now d \<noteq> [] then [''ORPHAN_LIVE_ACTIVE_CANDIDATES_DETECTED''] else [])
       @ (if find_stale_live_strategy_sessions s \<noteq> [] then [''STALE_SESSION_POSITION_POINTER_DETECTED''] else [])
       @ (if find_mismatched_position_slot_sessions s \<noteq> [] then [''MISMATCHED_POSITION_SLOT_SESSION_DETECTED''] else [])
       @ (if find_expired_order_reservations now s \<noteq> [] then [''EXPIRED_ORDER_RESERVATION_DETECTED''] else [])
       @ (if find_reserved_slot_session_pointer_mismatches s \<noteq> [] then [''RESERVED_SLOT_SESSION_POINTER_MISMATCH''] else [])
       @ (if find_entry_fill_lifecycle_gaps s \<noteq> [] then [''ENTRY_FILL_LIFECYCLE_GAP_DETECTED''] else [])
       @ (if find_duplicate_position_sessions s \<noteq> [] then [''DUPLICATE_POSITION_SESSION_DETECTED''] else [])
       @ (if find_reserved_entry_blocked_slots rt s \<noteq> [] then [''RESERVED_ENTRY_BLOCKED_SLOT_DETECTED''] else [])
       @ (if (case row of None \<Rightarrow> False | Some r \<Rightarrow> task_status r = ''FAILED'' \<or> last_error r \<noteq> [])
          then [''CAPITAL_ALLOCATOR_LAST_RUN_FAILED''] else []))"

definition stale_on_desk :: "int \<Rightarrow> bool \<Rightarrow> desk \<Rightarrow> tidy \<times> desk" where
  "stale_on_desk now dry d = (case reconcile_stale_live_strategy_sessions now dry (dk_db d) of (n, s) \<Rightarrow> (n, d\<lparr>dk_db := s\<rparr>))"

definition repairs :: "int \<Rightarrow> runtime \<Rightarrow> bool \<Rightarrow> (desk \<Rightarrow> tidy \<times> desk) list" where
  "repairs now rt dry = [stale_on_desk now dry, reconcile_orphan_live_active_candidates now rt dry True,
     reconcile_mismatched_position_slot_sessions now rt dry True, reconcile_expired_order_reservations now rt dry True,
     reconcile_reserved_slot_session_pointer now dry, reconcile_entry_fill_lifecycles now dry,
     reconcile_duplicate_position_sessions now dry, reconcile_reserved_entry_blocked_slots now rt dry True]"

fun run_repairs :: "(desk \<Rightarrow> tidy \<times> desk) list \<Rightarrow> desk \<Rightarrow> tidy list \<times> desk" where
  "run_repairs [] d = ([], d)"
| "run_repairs (f # fs) d = (let (n, d1) = f d; (ns, d2) = run_repairs fs d1 in (n # ns, d2))"

definition reconcile_live_state :: "int \<Rightarrow> runtime \<Rightarrow> bool \<Rightarrow> desk \<Rightarrow> tidy list \<times> string list option \<times> desk" where
  "reconcile_live_state now rt dry d = (case run_repairs (repairs now rt dry) d of
     (ns, d1) \<Rightarrow> (ns, if dry then None else Some (live_state_warnings now rt d1), d1))"

section \<open>Lemmas\<close>

lemma tidy_rows_dry: "snd (tidy_rows True safe repair rows d) = d"
  by (simp add: tidy_rows_def Let_def)

lemma orphan_dry: "snd (reconcile_orphan_live_active_candidates now rt True enqueue d) = d"
proof -
  have "snd (foldl (\<lambda>acc c. demote_orphan now rt True enqueue c acc) (n, d) cs) = d" for n cs
    by (induction cs arbitrary: n) (simp_all add: demote_orphan_def Let_def)
  then show ?thesis by (simp add: reconcile_orphan_live_active_candidates_def)
qed

lemma dry_repairs: "f \<in> set (repairs now rt True) \<Longrightarrow> snd (f d) = d"
  by (auto simp: repairs_def tidy_rows_dry orphan_dry stale_on_desk_def reconcile_stale_live_strategy_sessions_def Let_def
      reconcile_mismatched_position_slot_sessions_def reconcile_expired_order_reservations_def
      reconcile_reserved_slot_session_pointer_def reconcile_entry_fill_lifecycles_def
      reconcile_duplicate_position_sessions_def reconcile_reserved_entry_blocked_slots_def)

lemma run_repairs_keep:
  assumes "\<And>f d. f \<in> set fs \<Longrightarrow> snd (f d) = d"
  shows "snd (run_repairs fs d) = d"
  using assms by (induction fs arbitrary: d) (simp_all add: Let_def case_prod_unfold)

lemma dry_run_changes_nothing: "snd (snd (reconcile_live_state now rt True d)) = d"
  using run_repairs_keep [of "repairs now rt True" d] dry_repairs
  by (simp add: reconcile_live_state_def split: prod.split) (metis snd_conv)

text \<open>Demoting orphans changes statuses, but no link of any candidate.\<close>

lemma demote_step:
  assumes "demote_orphan now rt False enqueue c (n, d) = (n', d')"
  shows "candidate_links_of now d' i = candidate_links_of now d i"
    and "map (\<lambda>x. (cd_id x, cd_status x)) (candidates (dk_risk d'))
      = map (\<lambda>x. (cd_id x, if cd_id x = cd_id c \<and> is_orphan (candidate_links_of now d (cd_id c)) then Some ''LIVE_ELIGIBLE'' else cd_status x))
          (candidates (dk_risk d))"
proof -
  let ?p = "snd (promote_candidate_strategy now rt (cd_id c) ''LIVE_ELIGIBLE'' ''ORPHAN_LIVE_ACTIVE_RECONCILED''
      (Some (orphan_metadata (candidate_links_of now d (cd_id c)) (latest_active_selection_status d (cd_id c)))) d)"
  have known: "''LIVE_ELIGIBLE'' \<in> set candidate_statuses" by (simp add: candidate_statuses_def)
  have d': "d' = (if is_orphan (candidate_links_of now d (cd_id c))
      then if enqueue then queue_candidate now c (cd_market c) (cd_score c) ''ORPHAN_LIVE_ACTIVE_RECONCILED'' 360 ?p else ?p else d)"
    using assms by (auto simp: demote_orphan_def Let_def split: if_splits)
  show "candidate_links_of now d' i = candidate_links_of now d i"
    by (simp add: d' candidate_links_of_def queue_candidate_def)
  show "map (\<lambda>x. (cd_id x, cd_status x)) (candidates (dk_risk d'))
      = map (\<lambda>x. (cd_id x, if cd_id x = cd_id c \<and> is_orphan (candidate_links_of now d (cd_id c)) then Some ''LIVE_ELIGIBLE'' else cd_status x))
          (candidates (dk_risk d))"
    by (simp add: d' promote_candidates [OF known])
qed

lemma demote_run:
  assumes "foldl (\<lambda>acc c. demote_orphan now rt False enqueue c acc) (n, d) cs = (n', d')"
  shows "candidate_links_of now d' = candidate_links_of now d
    \<and> map (\<lambda>x. (cd_id x, cd_status x)) (candidates (dk_risk d'))
      = map (\<lambda>x. (cd_id x, if cd_id x \<in> cd_id ` set cs \<and> is_orphan (candidate_links_of now d (cd_id x))
             then Some ''LIVE_ELIGIBLE'' else cd_status x)) (candidates (dk_risk d))"
  using assms
proof (induction cs arbitrary: n d)
  case Nil
  then show ?case by simp
next
  case (Cons c cs)
  obtain n1 d1 where s: "demote_orphan now rt False enqueue c (n, d) = (n1, d1)"
    by (cases "demote_orphan now rt False enqueue c (n, d)")
  have links: "candidate_links_of now d1 = candidate_links_of now d" by (rule ext) (rule demote_step(1) [OF s])
  have ih: "candidate_links_of now d' = candidate_links_of now d1"
    "map (\<lambda>x. (cd_id x, cd_status x)) (candidates (dk_risk d'))
      = map (\<lambda>x. (cd_id x, if cd_id x \<in> cd_id ` set cs \<and> is_orphan (candidate_links_of now d1 (cd_id x))
             then Some ''LIVE_ELIGIBLE'' else cd_status x)) (candidates (dk_risk d1))"
    using Cons.IH [of n1 d1] Cons.prems by (simp_all add: s)
  have "map (\<lambda>x. (cd_id x, if cd_id x \<in> cd_id ` set cs \<and> is_orphan (candidate_links_of now d1 (cd_id x))
             then Some ''LIVE_ELIGIBLE'' else cd_status x)) (candidates (dk_risk d1))
      = map (\<lambda>(i, st). (i, if i \<in> cd_id ` set cs \<and> is_orphan (candidate_links_of now d i) then Some ''LIVE_ELIGIBLE'' else st))
          (map (\<lambda>x. (cd_id x, cd_status x)) (candidates (dk_risk d1)))"
    by (simp add: links)
  also have "\<dots> = map (\<lambda>x. (cd_id x, if cd_id x \<in> cd_id ` set (c # cs) \<and> is_orphan (candidate_links_of now d (cd_id x))
             then Some ''LIVE_ELIGIBLE'' else cd_status x)) (candidates (dk_risk d))"
    unfolding demote_step(2) [OF s] by auto
  finally show ?case using ih links by simp
qed

text \<open>Updates of different sessions, one after the other, seen by one row.\<close>

definition repaired_row :: "int \<Rightarrow> stale_session list \<Rightarrow> session \<Rightarrow> session" where
  "repaired_row now xs r = foldl (\<lambda>r x. if ses_id r = st_session x then (repair_stale now x r)\<lparr>ses_updated_at := now\<rparr> else r) r xs"

lemma repair_stale_id [simp]: "ses_id (repair_stale now x r) = ses_id r"
  by (simp add: repair_stale_def Let_def)

lemma repaired_sessions:
  "sessions (foldl (\<lambda>u x. update_live_strategy_session now (st_session x) (repair_stale now x) u) s xs)
     = map (repaired_row now xs) (sessions s)
   \<and> positions (foldl (\<lambda>u x. update_live_strategy_session now (st_session x) (repair_stale now x) u) s xs) = positions s"
  by (induction xs arbitrary: s)
    (simp_all add: repaired_row_def map_idI comp_def update_live_strategy_session_def update_where_def)

lemma repaired_row_other: "ses_id r \<notin> st_session ` set xs \<Longrightarrow> repaired_row now xs r = r"
  by (induction xs) (simp_all add: repaired_row_def)

lemma repaired_row_own:
  assumes "distinct (map st_session xs)" "x \<in> set xs" "st_session x = ses_id r"
  shows "repaired_row now xs r = (repair_stale now x r)\<lparr>ses_updated_at := now\<rparr>"
  using assms
proof (induction xs)
  case (Cons y ys)
  show ?case
  proof (cases "x = y")
    case True
    have "ses_id ((repair_stale now x r)\<lparr>ses_updated_at := now\<rparr>) \<notin> st_session ` set ys" using Cons.prems True by auto
    then show ?thesis using repaired_row_other True Cons.prems by (simp add: repaired_row_def)
  next
    case False
    then have "x \<in> set ys" using Cons.prems(2) by simp
    then have "ses_id r \<noteq> st_session y" using Cons.prems(1,3) by (metis distinct.simps(2) image_eqI list.simps(9) list.set_map)
    then show ?thesis using Cons False by (simp add: repaired_row_def)
  qed
qed simp

lemma replacement_is_active:
  assumes "replacement_open_position s r = Some p" "distinct (map pos_id (positions s))"
  shows "points_at_active s (pos_id p)"
proof -
  have p: "p \<in> set (positions s)" "pos_status p \<in> active_statuses"
    using assms(1) by (auto simp: replacement_open_position_def Let_def dest!: head_row_SomeD split: option.splits)
  have "first_row (\<lambda>q. pos_id q = pos_id p) t = Some p" if "p \<in> set t" "distinct (map pos_id t)" for t
    using that by (induction t) (auto simp: rev_image_eqI)
  then show ?thesis using p assms(2) by (simp add: points_at_active_def load_live_position_def)
qed

definition is_stale :: "db \<Rightarrow> session \<Rightarrow> bool" where
  "is_stale s r \<longleftrightarrow> ses_status r \<in> pointer_session_statuses \<and> current_position_id r \<noteq> None
     \<and> \<not> points_at_active s (the (current_position_id r))"

lemma stale_session_of_simps [simp]: "st_session (stale_session_of s r) = ses_id r"
    "st_new_position (stale_session_of s r) = map_option pos_id (replacement_open_position s r)"
  by (simp_all add: stale_session_of_def Let_def)

lemma set_found: "set (find_stale_live_strategy_sessions s) = stale_session_of s ` {r \<in> set (sessions s). is_stale s r}"
  unfolding find_stale_live_strategy_sessions_def pointing_sessions_def is_stale_def by auto

lemma found_empty: "find_stale_live_strategy_sessions s = [] \<longleftrightarrow> (\<forall>r \<in> set (sessions s). \<not> is_stale s r)"
  using set_found [of s] by (metis (mono_tags, lifting) empty_Collect_eq image_is_empty set_empty)

lemma distinct_found:
  assumes "distinct (map ses_id (sessions s))"
  shows "distinct (map st_session (find_stale_live_strategy_sessions s))"
proof -
  have inj: "inj_on ses_id (set (sessions s))" and dist: "distinct (sessions s)" using assms by (simp_all add: distinct_map)
  have own: "st_session \<circ> stale_session_of s = ses_id" by (rule ext) simp
  have "distinct (pointing_sessions s)" "set (pointing_sessions s) \<subseteq> set (sessions s)"
    using dist by (auto simp: pointing_sessions_def order_desc_def)
  then have "distinct (map ses_id (filter (\<lambda>r. \<not> points_at_active s (the (current_position_id r))) (pointing_sessions s)))"
    unfolding distinct_map by (intro conjI distinct_filter inj_on_subset [OF inj]) auto
  then show ?thesis by (simp add: find_stale_live_strategy_sessions_def own)
qed

text \<open>
  The repair of mismatched slots stops the session a wrong pointer leads to, even when that session
  holds an open position of its own market, and switches off the exits of that position.
\<close>

definition mismatch_slot :: slot where
  "mismatch_slot = (new_slot 1000 1 1 ''bithumb'')
     \<lparr>slot_status := ''RESERVED'', slot_market := Some ''KRW-ETH'', slot_session_id := Some 1\<rparr>"

definition mismatch_db :: db where
  "mismatch_db = empty_db\<lparr>positions := [sample_position], slots := [mismatch_slot],
     sessions := [sample_session\<lparr>current_position_id := Some 1, current_open_order_uuid := None\<rparr>]\<rparr>"

lemma mismatch_repair_stops_a_trading_session:
  assumes "dk_db d = mismatch_db"
  shows "pos_id sample_position = 1 \<and> pos_status sample_position = ''OPEN''
    \<and> (let t = dk_db (snd (reconcile_mismatched_position_slot_sessions 5000 rt False False d))
       in positions t = [sample_position] \<and> map ses_status (sessions t) = [''STOPPED''] \<and> map auto_enabled (sessions t) = [False])"
proof -
  have "find_mismatched_position_slot_sessions mismatch_db = [mismatch_slot]" by code_simp
  moreover have "bare_reserved mismatch_slot" by code_simp
  moreover have "slot_candidate_id mismatch_slot = None" "slot_session_id mismatch_slot = Some 1" by code_simp+
  moreover have "pos_id sample_position = 1" "pos_status sample_position = ''OPEN''" "ses_id sample_session = 1" by code_simp+
  ultimately show ?thesis
    by (simp add: reconcile_mismatched_position_slot_sessions_def tidy_rows_def release_mismatched_def requeue_def assms
        free_mismatched_slot_def update_live_strategy_session_def update_where_def stopped_session_def mismatch_db_def Let_def)
qed

section \<open>Properties\<close>

text \<open>
  C28. The repair of orphans is complete: after it, no candidate marked LIVE\_ACTIVE is without a slot,
  a live reservation, an open position, a running session or an active selection, so a second
  search finds nothing.
\<close>

theorem no_orphan_is_left:
  "find_orphan_live_active_candidates now (snd (reconcile_orphan_live_active_candidates now rt False enqueue d)) = []"
proof -
  obtain n' d' where r: "reconcile_orphan_live_active_candidates now rt False enqueue d = (n', d')"
    by (cases "reconcile_orphan_live_active_candidates now rt False enqueue d")
  have links: "candidate_links_of now d' = candidate_links_of now d"
    and st: "map (\<lambda>x. (cd_id x, cd_status x)) (candidates (dk_risk d'))
      = map (\<lambda>x. (cd_id x, if cd_id x \<in> cd_id ` set (live_active_candidates d) \<and> is_orphan (candidate_links_of now d (cd_id x))
             then Some ''LIVE_ELIGIBLE'' else cd_status x)) (candidates (dk_risk d))"
    using demote_run [OF r [unfolded reconcile_orphan_live_active_candidates_def]] by blast+
  have "\<not> is_orphan (candidate_links_of now d' (cd_id c))" if "c \<in> set (live_active_candidates d')" for c
  proof
    assume orphan: "is_orphan (candidate_links_of now d' (cd_id c))"
    have "c \<in> set (candidates (dk_risk d'))" "cd_status c = Some ''LIVE_ACTIVE''"
      using that by (auto simp: live_active_candidates_def)
    then have "(cd_id c, Some ''LIVE_ACTIVE'') \<in> set (map (\<lambda>x. (cd_id x, cd_status x)) (candidates (dk_risk d')))" by force
    then obtain x where x: "x \<in> set (candidates (dk_risk d))" "cd_id x = cd_id c" "cd_status x = Some ''LIVE_ACTIVE''"
        "\<not> (cd_id x \<in> cd_id ` set (live_active_candidates d) \<and> is_orphan (candidate_links_of now d (cd_id x)))"
      unfolding st by (auto split: if_splits)
    then have "x \<in> set (live_active_candidates d)" by (simp add: live_active_candidates_def)
    then have "cd_id x \<in> cd_id ` set (live_active_candidates d)" by (rule imageI)
    then show False using x orphan by (simp add: links)
  qed
  then show ?thesis by (simp add: r find_orphan_live_active_candidates_def filter_empty_conv)
qed

text \<open>
  C20. The repair of session pointers is complete: after it, no session that is READY, RUNNING or
  LIVE\_PAUSED points at a position that is gone or over.
\<close>

theorem no_stale_pointer_is_left:
  assumes "distinct (map ses_id (sessions s))" "distinct (map pos_id (positions s))"
  shows "find_stale_live_strategy_sessions (snd (reconcile_stale_live_strategy_sessions now False s)) = []"
proof -
  let ?found = "find_stale_live_strategy_sessions s"
  let ?t = "snd (reconcile_stale_live_strategy_sessions now False s)"
  have ses: "sessions ?t = map (repaired_row now ?found) (sessions s)" and pos: "positions ?t = positions s"
    using repaired_sessions [of now s ?found] by (simp_all add: reconcile_stale_live_strategy_sessions_def Let_def)
  have same: "points_at_active ?t = points_at_active s" by (rule ext) (simp add: points_at_active_def load_live_position_def pos)
  have "\<not> is_stale s (repaired_row now ?found r)" if r: "r \<in> set (sessions s)" for r
  proof (cases "is_stale s r")
    case True
    then have x: "stale_session_of s r \<in> set ?found" using r by (simp add: set_found)
    have row: "repaired_row now ?found r = (repair_stale now (stale_session_of s r) r)\<lparr>ses_updated_at := now\<rparr>"
      by (rule repaired_row_own [OF distinct_found [OF assms(1)] x]) simp
    have "current_position_id (repaired_row now ?found r) = map_option pos_id (replacement_open_position s r)"
      by (simp add: row repair_stale_def Let_def)
    then show ?thesis using replacement_is_active [OF _ assms(2)]
      by (cases "replacement_open_position s r") (simp_all add: is_stale_def)
  next
    case False
    have "ses_id r \<notin> st_session ` set ?found"
    proof
      assume "ses_id r \<in> st_session ` set ?found"
      then obtain y where y: "y \<in> set (sessions s)" "ses_id y = ses_id r" "is_stale s y" by (force simp: set_found)
      moreover have "inj_on ses_id (set (sessions s))" using assms(1) by (simp add: distinct_map)
      ultimately have "y = r" using r by (simp add: inj_on_def)
      then show False using False y by simp
    qed
    then show ?thesis using False by (simp add: repaired_row_other)
  qed
  moreover have "is_stale ?t = is_stale s" by (rule ext) (simp add: is_stale_def same)
  ultimately show ?thesis by (simp add: found_empty ses)
qed

theorem no_stale_pointer_is_left_witness:
  "let s = empty_db\<lparr>positions := [sample_position\<lparr>pos_status := ''CLOSED''\<rparr>, sample_position\<lparr>pos_id := 2\<rparr>],
         sessions := [sample_session\<lparr>current_position_id := Some 1\<rparr>, sample_session\<lparr>ses_id := 2, ses_status := ''READY'', current_position_id := Some 9\<rparr>]\<rparr>;
       t = snd (reconcile_stale_live_strategy_sessions 5000 False s)
   in find_stale_live_strategy_sessions t = [] \<and> map current_position_id (sessions t) = [Some 2, Some 2]"
proof -
  let ?s = "empty_db\<lparr>positions := [sample_position\<lparr>pos_status := ''CLOSED''\<rparr>, sample_position\<lparr>pos_id := 2\<rparr>],
         sessions := [sample_session\<lparr>current_position_id := Some 1\<rparr>, sample_session\<lparr>ses_id := 2, ses_status := ''READY'', current_position_id := Some 9\<rparr>]\<rparr>"
  have a: "distinct (map ses_id (sessions ?s))" "distinct (map pos_id (positions ?s))" by code_simp+
  have b: "map current_position_id (sessions (snd (reconcile_stale_live_strategy_sessions 5000 False ?s))) = [Some 2, Some 2]" by code_simp
  show ?thesis using no_stale_pointer_is_left [OF a] b by (simp add: Let_def)
qed

end
