(* ===== verification/MarketOpportunity.thy ===== *)
theory MarketOpportunity
  imports StrategyTables CapitalSnapshot Sizing
begin

text \<open>
  The ranking of candidates (\<open>app/market_opportunity.py\<close>): what blocks a candidate, the components
  of its score, the best statistics of its adaptive edge, and the order in which candidates are
  offered to the capital allocator. The sums over the realised trades of a candidate (SQLite's SUM
  and AVG of \<open>trade_outcome_logs\<close>) are an argument.
\<close>

section \<open>Queries\<close>

definition load_market_universe_item :: "risk_tables \<Rightarrow> string \<Rightarrow> string \<Rightarrow> universe_item option" where
  "load_market_universe_item t exchange market = first_row (\<lambda>u. un_exchange u = exchange \<and> un_market u = market) (universe t)"

definition unresolved_log :: "string \<Rightarrow> order_log \<Rightarrow> bool" where
  "unresolved_log exchange r \<longleftrightarrow> log_exchange r = exchange \<and> log_status r \<in> {''SUBMITTED'', ''WAITING'', ''PARTIALLY_FILLED''}
     \<and> \<not> sql_status_event (request_id r)"

definition has_unresolved_live_order_for_exchange :: "db \<Rightarrow> string \<Rightarrow> bool" where
  "has_unresolved_live_order_for_exchange s exchange \<longleftrightarrow> list_ex (unresolved_log exchange) (order_logs s)"

definition has_unresolved_entry_live_order_for_exchange :: "db \<Rightarrow> string \<Rightarrow> bool" where
  "has_unresolved_entry_live_order_for_exchange s exchange \<longleftrightarrow>
     list_ex (\<lambda>r. unresolved_log exchange r \<and> order_purpose r = ''ENTRY'') (order_logs s)"

definition best_adaptive_edge :: "string \<Rightarrow> candidate \<Rightarrow> strategy_tables \<Rightarrow> edge_stat option" where
  "best_adaptive_edge exchange c g =
     (case load_adaptive_edge_stats exchange (cd_market c) (cd_strategy c) (Some (cd_id c)) (Some (cd_unit c)) 1 g of
        e # _ \<Rightarrow> Some e
      | [] \<Rightarrow> head_row (load_adaptive_edge_stats exchange (cd_market c) (cd_strategy c) None None 1 g))"

definition edge_value :: "(edge_stat \<Rightarrow> rat) \<Rightarrow> edge_stat option \<Rightarrow> rat" where
  "edge_value f e = (case e of None \<Rightarrow> 0 | Some x \<Rightarrow> f x)"

definition open_markets_of :: "desk \<Rightarrow> string \<Rightarrow> capital_snapshot option \<Rightarrow> string set" where
  "open_markets_of d exchange snapshot = set (filter (\<lambda>m. m \<noteq> []) (map pos_market
     (case snapshot of Some c \<Rightarrow> cs_positions c | None \<Rightarrow> load_open_live_positions_for_exchange (dk_db d) exchange)))"

section \<open>Blockers\<close>

text \<open>\<open>_dedupe\<close>: the first occurrence of each value stays; the codes below are never empty.\<close>

definition dedupe :: "string list \<Rightarrow> string list" where
  "dedupe xs = uniq (filter (\<lambda>x. x \<noteq> []) xs)"

definition explain_candidate_blockers :: "desk \<Rightarrow> string \<Rightarrow> candidate \<Rightarrow> capital_snapshot option \<Rightarrow> string list" where
  "explain_candidate_blockers d exchange c snapshot =
     (let market = cd_market c; mkt = load_market_universe_item (dk_risk d) exchange market; s = dk_db d
      in dedupe
       ((if market \<in> open_markets_of d exchange snapshot \<or> load_open_live_positions s exchange market \<noteq> []
         then [''BLOCKED_DUPLICATE_MARKET_POSITION''] else [])
        @ (if (case snapshot of None \<Rightarrow> False | Some x \<Rightarrow> cs_order_mismatch x) then [''BLOCKED_OPEN_ORDER_MISMATCH''] else [])
        @ (if (case snapshot of None \<Rightarrow> False | Some x \<Rightarrow> cs_balance_mismatch x) then [''BLOCKED_BALANCE_MISMATCH''] else [])
        @ (if has_unresolved_live_order s exchange market \<or> has_unresolved_entry_live_order_for_exchange s exchange
           then [''UNRESOLVED_OPEN_ORDER''] else [])
        @ (if \<not> market_is_live_allowed (dk_risk d) exchange market then [''MARKET_NOT_LIVE_ALLOWED''] else [])
        @ (case mkt of None \<Rightarrow> [] | Some u \<Rightarrow> if un_auto_selectable u then [] else [''MARKET_NOT_AUTO_SELECTABLE''])
        @ (case mkt of None \<Rightarrow> [] | Some u \<Rightarrow> if un_liquidity u < 10 then [''LOW_LIQUIDITY''] else [])))"

section \<open>The score\<close>

definition execution_quality_score :: "edge_stat option \<Rightarrow> rat" where
  "execution_quality_score e =
     (let slippage = max (edge_value es_slippage e) 0; adverse = max (edge_value es_adverse e) 0;
          fill_time = max (edge_value es_fill_time e) 0
      in float_round 6 (max 0 (fsub (fsub (fsub 100 (fmul slippage 12)) (fmul adverse 10)) (min (fdiv fill_time 10) 20))))"

text \<open>What the trades of a candidate brought: the sum of the profits and the mean return.\<close>

record recent_performance =
  rp_pnl :: rat
  rp_return :: rat

definition score_breakdown ::
  "candidate \<Rightarrow> universe_item option \<Rightarrow> edge_stat option \<Rightarrow> recent_performance \<Rightarrow> string list \<Rightarrow> (string \<times> rat) list" where
  "score_breakdown c mkt e recent blockers =
     (let weight = min (fdiv (edge_value es_confidence e) 100) 1;
          liquidity = (case mkt of None \<Rightarrow> 0 | Some u \<Rightarrow> un_liquidity u);
          volatility = (case mkt of None \<Rightarrow> 0 | Some u \<Rightarrow> un_volatility u);
          risk = (case mkt of None \<Rightarrow> 0 | Some u \<Rightarrow> un_risk u);
          loss = fadd (fmul \<bar>min (rp_return recent) 0\<bar> 2) (if rp_pnl recent < 0 then 5 else 0)
      in [(''candidate_score_component'', fmul (cd_score c) (rnd (42 / 100))),
          (''adaptive_edge_component'', fmul (max (min (fmul (edge_value es_edge e) 10) 25) (- 25)) weight),
          (''recent_performance_component'', max (min (fmul (rp_return recent) 4) 15) (- 15)),
          (''liquidity_component'', fmul liquidity (rnd (12 / 100))),
          (''volatility_quality_component'',
             if volatility = 0 then 0 else fmul (max 0 (fsub 100 \<bar>fsub volatility 45\<bar>)) (rnd (8 / 100))),
          (''execution_quality_component'', fmul (execution_quality_score e) (rnd (8 / 100))),
          (''market_risk_penalty'', fmul (- risk) (rnd (8 / 100))),
          (''spread_slippage_penalty'', fmul (- max (edge_value es_slippage e) 0) 2),
          (''adverse_selection_penalty'', fmul (- max (edge_value es_adverse e) 0) 2),
          (''recent_loss_penalty'', - loss),
          (''duplicate_exposure_penalty'', if ''BLOCKED_DUPLICATE_MARKET_POSITION'' \<in> set blockers then - 25 else 0),
          (''unresolved_order_penalty'',
             if ''UNRESOLVED_OPEN_ORDER'' \<in> set blockers \<or> ''BLOCKED_OPEN_ORDER_MISMATCH'' \<in> set blockers then - 20 else 0),
          (''liquidity_penalty'', if ''LOW_LIQUIDITY'' \<in> set blockers then - 15 else 0)])"

definition opportunity_score :: "(string \<times> rat) list \<Rightarrow> rat" where
  "opportunity_score b = float_round 6 (max 0 (min 100 (py_sum (map snd b))))"

definition expected_order_amount :: "rat \<Rightarrow> capital_snapshot option \<Rightarrow> rat" where
  "expected_order_amount score snapshot = (case snapshot of None \<Rightarrow> 0
     | Some c \<Rightarrow> if cs_budget c \<le> 0 \<or> cs_remaining c \<le> 0 then 0
         else float_round 6 (fdiv (fmul (min (cs_budget c) (cs_remaining c)) (min (max score 0) 100)) 100))"

record opportunity =
  op_candidate :: candidate
  op_score :: rat
  op_breakdown :: "(string \<times> rat) list"
  op_blockers :: "string list"
  op_eligible :: bool
  op_action :: string
  op_expected :: rat
  op_edge :: rat
  op_confidence :: rat
  op_quality :: rat
  op_recent :: recent_performance

definition recommended_action :: "bool \<Rightarrow> rat \<Rightarrow> string" where
  "recommended_action eligible score = (if \<not> eligible then ''BLOCKED'' else if score \<ge> 75 then ''ALLOCATE''
     else if score \<ge> 55 then ''WATCH'' else ''OBSERVE'')"

type_synonym performance = "string \<Rightarrow> candidate \<Rightarrow> recent_performance"

definition enrich_candidate_opportunity ::
  "performance \<Rightarrow> desk \<Rightarrow> string \<Rightarrow> capital_snapshot option \<Rightarrow> candidate \<Rightarrow> opportunity" where
  "enrich_candidate_opportunity perf d exchange snapshot c =
     (let mkt = load_market_universe_item (dk_risk d) exchange (cd_market c);
          e = best_adaptive_edge exchange c (dk_strat d); recent = perf exchange c;
          blockers = explain_candidate_blockers d exchange c snapshot;
          breakdown = score_breakdown c mkt e recent blockers; score = opportunity_score breakdown
      in \<lparr>op_candidate = c, op_score = score, op_breakdown = breakdown, op_blockers = blockers, op_eligible = (blockers = []),
          op_action = recommended_action (blockers = []) score,
          op_expected = (if blockers = [] then expected_order_amount score snapshot else 0),
          op_edge = edge_value es_edge e, op_confidence = edge_value es_confidence e,
          op_quality = execution_quality_score e, op_recent = recent\<rparr>)"

section \<open>The ranking\<close>

text \<open>\<open>list.sort(key=..., reverse=True)\<close>: descending, and rows of equal key keep their order.\<close>

definition sort_desc :: "('r \<Rightarrow> 'k::linorder) \<Rightarrow> 'r list \<Rightarrow> 'r list" where
  "sort_desc k xs = rev (sort_key k (rev xs))"

definition rank_key :: "opportunity \<Rightarrow> int \<times> rat \<times> rat \<times> int" where
  "rank_key x = ((if op_eligible x then 1 else 0), op_score x, cd_score (op_candidate x), - cd_id (op_candidate x))"

definition rank_live_candidates ::
  "performance \<Rightarrow> desk \<Rightarrow> string \<Rightarrow> candidate list option \<Rightarrow> capital_snapshot option \<Rightarrow> int \<Rightarrow> opportunity list" where
  "rank_live_candidates perf d exchange given snapshot limit =
     (let cs = (case given of None \<Rightarrow> load_live_eligible_candidate_strategies 100 (dk_risk d) | Some cs \<Rightarrow> cs);
          ranked = sort_desc rank_key (map (enrich_candidate_opportunity perf d exchange snapshot) cs)
      in if limit = 0 then ranked else take (nat (max limit 1)) ranked)"

text \<open>The best opportunity of each market, in rank order, at most \<open>limit\<close> of them (at least one).\<close>

fun top_markets :: "int \<Rightarrow> opportunity list \<Rightarrow> opportunity list \<Rightarrow> opportunity list" where
  "top_markets limit best [] = best"
| "top_markets limit best (x # xs) =
     (if cd_market (op_candidate x) \<in> (\<lambda>y. cd_market (op_candidate y)) ` set best then top_markets limit best xs
      else (let best1 = best @ [x] in if int (length best1) \<ge> limit then best1 else top_markets limit best1 xs))"

definition build_market_opportunity_rankings ::
  "performance \<Rightarrow> desk \<Rightarrow> string \<Rightarrow> candidate list option \<Rightarrow> capital_snapshot option \<Rightarrow> int \<Rightarrow> opportunity list \<times> opportunity list" where
  "build_market_opportunity_rankings perf d exchange given snapshot limit =
     (let ranked = rank_live_candidates perf d exchange given snapshot (max limit 1)
      in (top_markets limit [] ranked, if limit \<ge> 0 then take (nat limit) ranked else take (length ranked - nat (- limit)) ranked))"

section \<open>Lemmas\<close>

lemma set_sort_desc [simp]: "set (sort_desc k xs) = set xs"
  by (simp add: sort_desc_def)

lemma sorted_sort_desc: "sorted_wrt (\<lambda>x y. k y \<le> k x) (sort_desc k xs)"
  unfolding sort_desc_def sorted_wrt_rev using sorted_sort_key [of k "rev xs"] by (simp add: sorted_map)

lemma sort_desc_stable: "filter (\<lambda>x. k x = v) (sort_desc k xs) = filter (\<lambda>x. k x = v) xs"
  by (simp add: sort_desc_def rev_filter [symmetric] sort_key_stable)

lemma opportunity_score_bounds: "0 \<le> opportunity_score b \<and> opportunity_score b \<le> 100"
proof -
  let ?x = "max 0 (min 100 (py_sum (map snd b)))"
  have "float_round 6 0 = 0" "float_round 6 100 = 100" by code_simp+
  then show ?thesis using float_round_mono [of 0 ?x 6] float_round_mono [of ?x 100 6] by (simp add: opportunity_score_def)
qed

lemma enriched_facts:
  "0 \<le> op_score (enrich_candidate_opportunity perf d exchange snapshot c)"
  "op_score (enrich_candidate_opportunity perf d exchange snapshot c) \<le> 100"
  "op_expected (enrich_candidate_opportunity perf d exchange snapshot c)
     = (if op_eligible (enrich_candidate_opportunity perf d exchange snapshot c)
        then expected_order_amount (op_score (enrich_candidate_opportunity perf d exchange snapshot c)) snapshot else 0)"
  "op_candidate (enrich_candidate_opportunity perf d exchange snapshot c) = c"
  by (simp_all add: enrich_candidate_opportunity_def Let_def opportunity_score_bounds)

text \<open>The specification of the loop over markets: the first opportunity of each market, in order.\<close>

definition market_of :: "opportunity \<Rightarrow> string" where
  "market_of x = cd_market (op_candidate x)"

fun first_of_each_market :: "opportunity list \<Rightarrow> opportunity list" where
  "first_of_each_market [] = []"
| "first_of_each_market (x # xs) = x # filter (\<lambda>y. market_of y \<noteq> market_of x) (first_of_each_market xs)"

lemma top_markets_Cons:
  "top_markets limit best (x # xs) =
     (if market_of x \<in> market_of ` set best then top_markets limit best xs
      else if int (length best) + 1 \<ge> limit then best @ [x] else top_markets limit (best @ [x]) xs)"
  by (simp add: market_of_def Let_def)

lemma top_markets_spec:
  assumes "length best < nat (max limit 1)"
  shows "top_markets limit best xs
    = best @ take (nat (max limit 1) - length best) (filter (\<lambda>y. market_of y \<notin> market_of ` set best) (first_of_each_market xs))"
  using assms
proof (induction xs arbitrary: best)
  case Nil
  show ?case by simp
next
  case (Cons x xs)
  let ?seen = "market_of ` set best" and ?left = "nat (max limit 1) - length best"
  let ?rest = "\<lambda>M. filter (\<lambda>y. market_of y \<notin> M) (first_of_each_market xs)"
  have rest: "filter (\<lambda>y. market_of y \<notin> ?seen) (first_of_each_market (x # xs))
      = (if market_of x \<in> ?seen then ?rest ?seen else x # ?rest (insert (market_of x) ?seen))"
    by (auto simp del: image_iff intro!: filter_cong)
  consider "market_of x \<in> ?seen" | "market_of x \<notin> ?seen" "?left = 1" "limit \<le> int (length best) + 1"
    | "market_of x \<notin> ?seen" "?left = Suc (nat (max limit 1) - length (best @ [x]))" "\<not> limit \<le> int (length best) + 1"
    using Cons.prems by fastforce
  then show ?case
  proof cases
    case 1
    then show ?thesis unfolding rest top_markets_Cons using Cons.IH [OF Cons.prems] by (simp only: if_True)
  next
    case 2
    then show ?thesis unfolding rest top_markets_Cons by (simp only: if_True if_False take_Suc_Cons take0 One_nat_def list.simps)
  next
    case 3
    then have "length (best @ [x]) < nat (max limit 1)" by simp
    then have "top_markets limit (best @ [x]) xs = (best @ [x]) @ take (nat (max limit 1) - length (best @ [x])) (?rest (market_of ` set (best @ [x])))"
      by (rule Cons.IH)
    moreover have "market_of ` set (best @ [x]) = insert (market_of x) ?seen" by simp
    ultimately show ?thesis unfolding rest top_markets_Cons using 3
      by (simp only: if_False take_Suc_Cons append_assoc append_Cons append_Nil)
  qed
qed

section \<open>Properties\<close>

text \<open>
  The ranking never offers a blocked candidate before one without blockers, and among those
  that are equally eligible the better score comes first; every score lies between 0 and 100, and
  a blocked candidate is offered no money.
\<close>

lemma ranking_is_by_eligibility_then_score:
  "sorted_wrt (\<lambda>x y. (op_eligible y, op_score y) \<le> (op_eligible x, op_score x))
      (rank_live_candidates perf d exchange given snapshot limit)
   \<and> list_all (\<lambda>x. 0 \<le> op_score x \<and> op_score x \<le> 100
        \<and> op_expected x = (if op_eligible x then expected_order_amount (op_score x) snapshot else 0))
      (rank_live_candidates perf d exchange given snapshot limit)"
proof -
  obtain cs n where r: "rank_live_candidates perf d exchange given snapshot limit
      = take n (sort_desc rank_key (map (enrich_candidate_opportunity perf d exchange snapshot) cs))"
    unfolding rank_live_candidates_def Let_def by (metis take_all order_refl)
  have key: "(op_eligible y, op_score y) \<le> (op_eligible x, op_score x)" if "rank_key y \<le> rank_key x" for x y
    using that by (auto simp: rank_key_def less_eq_prod_def less_bool_def split: if_splits)
  show ?thesis unfolding r
    by (intro conjI sorted_wrt_take sorted_wrt_mono_rel [OF _ sorted_sort_desc] key)
      (auto simp: list_all_iff enriched_facts dest!: in_set_takeD)
qed


end
