(* ===== verification/CapitalAllocator.thy ===== *)
theory CapitalAllocator
  imports MarketOpportunity StateReconciler
begin

text \<open>
  The capital allocator (\<open>app/capital_allocator.py\<close>): the run that gives free slots and the money
  that is left to the best candidates, and replaces a reserved candidate of the same market by a
  clearly better one. It repairs the tables, takes the snapshot, ranks the candidates and decides
  on one after the other; every decision is logged. The exchange's answers, the realised trades and
  the request ids (\<open>uuid4().hex\<close>) are arguments; an exception ends the loop and marks the run as failed.
\<close>

section \<open>Configuration\<close>

record alloc_config =
  al_enabled :: bool
  al_exchange :: string
  al_max_slots :: int
  al_max_new :: int
  al_single_pct :: rat
  al_cash_pct :: rat
  al_min_edge :: rat
  al_fee_rate :: rat
  al_slippage :: rat
  al_margin :: rat
  al_max_order :: rat
  al_min_order :: rat
  al_reservation_ttl :: int
  al_queue_ttl :: int
  al_lock_ttl :: int
  al_min_delta :: rat

definition allocator_config :: "runtime \<Rightarrow> alloc_config" where
  "allocator_config rt =
     \<lparr>al_enabled = bool_env rt ''AUTO_CAPITAL_ALLOCATOR_ENABLED'' True,
      al_exchange = py_lower (py_strip (env_text rt ''AUTO_ALLOWED_EXCHANGE'' (env_text rt ''EXCHANGE'' ''bithumb''))),
      al_max_slots = int_env rt ''AUTO_MAX_OPEN_POSITION_COUNT'' 5 1 (Some 20),
      al_max_new = max (min (runtime_setting_int rt ''AUTO_MAX_NEW_ENTRIES_PER_TICK'' 2) 10) 1,
      al_single_pct = runtime_setting_float rt ''AUTO_SINGLE_POSITION_MAX_EXPOSURE_PCT'' 45,
      al_cash_pct = float_env rt ''AUTO_CASH_RESERVE_PCT'' 5 0,
      al_min_edge = float_env rt ''AUTO_MIN_EXPECTED_EDGE_PCT'' (rnd (45 / 100)) 0,
      al_fee_rate = float_env rt ''AUTO_FEE_RATE'' (rnd (5 / 10000)) 0,
      al_slippage = float_env rt ''AUTO_SLIPPAGE_RATE'' (rnd (5 / 10000)) 0,
      al_margin = float_env rt ''AUTO_EDGE_SAFETY_MARGIN_PCT'' (rnd (15 / 100)) 0,
      al_max_order = runtime_setting_float rt ''AUTO_MAX_ORDER_KRW'' 30000,
      al_min_order = float_env rt ''AUTO_MIN_ORDER_KRW'' 5000 0,
      al_reservation_ttl = int_env rt ''AUTO_ORDER_RESERVATION_TTL_MINUTES'' 30 1 (Some 1440),
      al_queue_ttl = int_env rt ''AUTO_NEXT_ENTRY_TTL_MINUTES'' 360 5 (Some 10080),
      al_lock_ttl = int_env rt ''AUTO_CAPITAL_ALLOCATOR_LOCK_TTL_SECONDS'' 300 30 (Some 1800),
      al_min_delta = float_env rt ''AUTO_ALLOCATOR_REPLACE_MIN_SCORE_DELTA''
        (float_env rt ''AUTO_SELECTOR_MIN_SCORE_DELTA'' 10 0) 0\<rparr>"

section \<open>Scores and edges\<close>

definition candidate_edge_pct :: "candidate \<Rightarrow> rat" where
  "candidate_edge_pct c = (if cd_total_return c \<noteq> 0 then fmul (cd_total_return c) 100 else max (fdiv (cd_score c) 100) 0)"

definition required_edge_pct :: "alloc_config \<Rightarrow> rat" where
  "required_edge_pct g = max (al_min_edge g)
     (fadd (fadd (fmul (fmul (al_fee_rate g) 2) 100) (fmul (fmul (al_slippage g) 2) 100)) (al_margin g))"

text \<open>The opportunity score is missing for a candidate that was not ranked.\<close>

definition allocation_score :: "candidate \<Rightarrow> rat option \<Rightarrow> alloc_config \<Rightarrow> rat" where
  "allocation_score c opportunity g =
     (let mdd = fmul (cd_mdd c) 100; trades = min (rnd (of_int (cd_trade_count c))) 50;
          edge_bonus = fmul (max (fsub (candidate_edge_pct c) (required_edge_pct g)) 0) (rnd (15 / 10));
          mdd_penalty = fmul (max (fsub mdd 10) 0) (rnd (12 / 10)); trade_bonus = fmul trades (rnd (2 / 10));
          adjustment = (case opportunity of None \<Rightarrow> 0 | Some x \<Rightarrow> fmul (fsub x 50) (rnd (5 / 10)))
      in max 0 (fsub (fadd (fadd (fadd (cd_score c) edge_bonus) trade_bonus) adjustment) mdd_penalty))"

definition score_of :: "alloc_config \<Rightarrow> opportunity \<Rightarrow> rat" where
  "score_of g x = allocation_score (op_candidate x) (Some (op_score x)) g"

section \<open>Blocks\<close>

definition candidate_block_reason :: "desk \<Rightarrow> string \<Rightarrow> string set \<Rightarrow> alloc_config \<Rightarrow> candidate \<Rightarrow> string" where
  "candidate_block_reason d exchange open_markets g c =
     (let market = cd_market c in
      if market \<in> open_markets then ''BLOCKED_DUPLICATE_MARKET_POSITION''
      else if load_open_live_positions (dk_db d) exchange market \<noteq> [] then ''BLOCKED_DUPLICATE_MARKET_POSITION''
      else if has_unresolved_live_order (dk_db d) exchange market \<or> has_unresolved_live_order_for_exchange (dk_db d) exchange
        then ''UNRESOLVED_OPEN_ORDER''
      else if \<not> market_is_live_allowed (dk_risk d) exchange market then ''MARKET_NOT_LIVE_ALLOWED''
      else if candidate_edge_pct c < required_edge_pct g then ''BLOCKED_EXPECTED_EDGE_BELOW_COST''
      else [])"

text \<open>\<open>Inr\<close> the slot whose candidate may be replaced, \<open>Inl\<close> why there is none.\<close>

definition same_market_reserved_slot :: "desk \<Rightarrow> alloc_config \<Rightarrow> slot list \<Rightarrow> candidate \<Rightarrow> string + slot" where
  "same_market_reserved_slot d g rs c = (case first_row (\<lambda>r. os (slot_market r) = cd_market c) rs of
     None \<Rightarrow> Inl ''NO_SAME_MARKET_RESERVED_SLOT''
   | Some r \<Rightarrow>
       if py_upper (slot_status r) \<noteq> ''RESERVED'' \<or> \<not> no_id (slot_position_id r) then Inl ''BLOCKED_DUPLICATE_MARKET_POSITION''
       else (let i = (case slot_candidate_id r of None \<Rightarrow> 0 | Some i \<Rightarrow> i) in
         if i = cd_id c then Inl ''SAME_MARKET_CANDIDATE_ALREADY_RESERVED''
         else case (if i = 0 then None else load_candidate_strategy (dk_risk d) i) of
           Some old \<Rightarrow> if fsub (cd_score c) (cd_score old) < al_min_delta g then Inl ''SAME_MARKET_REPLACE_SCORE_DELTA_TOO_SMALL''
                       else Inr r
         | None \<Rightarrow> Inr r))"

section \<open>Sessions, slots and reservations\<close>

text \<open>What one run of the allocator works with.\<close>

record alloc_ctx =
  ax_now :: int
  ax_rt :: runtime
  ax_reason :: string
  ax_exchange :: string
  ax_config :: alloc_config
  ax_snapshot :: capital_snapshot
  ax_enabled :: bool
  ax_max_total :: rat
  ax_max_single :: rat
  ax_run :: int
  ax_hex :: "int \<Rightarrow> string"

text \<open>The result of an operation that may raise: the tables as they are then, and the error or the value.\<close>

type_synonym 'a outcome = "(string + 'a) \<times> desk"

definition allocator_session :: "alloc_ctx \<Rightarrow> candidate \<Rightarrow> rat \<Rightarrow> session" where
  "allocator_session x c approved = \<lparr>ses_id = 0, ses_exchange = ax_exchange x, ses_market = cd_market c, ses_candidate_id = cd_id c,
     ses_strategy_name = cd_strategy c, ses_parameters = cd_parameters c, ses_status = ''READY'', auto_enabled = True,
     ses_initial_balance = 0, ses_max_order_krw = approved,
     ses_max_orders_per_day = int_env (ax_rt x) ''AUTO_MAX_ORDERS_PER_DAY'' 3 1 None, ses_orders_today = 0,
     current_open_order_uuid = None, current_position_id = None, last_signal = ''NONE'', last_signal_time = None,
     last_risk_result = None, last_order_status = None, last_order_time = None, last_processed_candle = None, stopped_at = None,
     ses_created_at = 0, ses_updated_at = 0\<rparr>"

definition create_allocator_session :: "alloc_ctx \<Rightarrow> candidate \<Rightarrow> rat \<Rightarrow> desk \<Rightarrow> int outcome" where
  "create_allocator_session x c approved d =
     (let (i, s) = create_live_strategy_session (ax_now x) (allocator_session x c approved) (dk_db d); d1 = d\<lparr>dk_db := s\<rparr>
      in case load_live_strategy_session s i of
           None \<Rightarrow> (Inl (''ALLOCATOR_SESSION_CREATE_MISSING:'' @ int_str i), d1)
         | Some r \<Rightarrow> if ses_market r \<noteq> cd_market c \<or> ses_candidate_id r \<noteq> cd_id c
             then (Inl (''ALLOCATOR_SESSION_CANDIDATE_MISMATCH:session_id='' @ int_str i @ '':session_market='' @ ses_market r
                @ '':session_candidate='' @ int_str (ses_candidate_id r) @ '':candidate_market='' @ cd_market c
                @ '':candidate_id='' @ int_str (cd_id c)), d1)
             else (Inr i, d1))"

definition allocator_reservation :: "alloc_ctx \<Rightarrow> string \<Rightarrow> candidate \<Rightarrow> slot \<Rightarrow> rat \<Rightarrow> reservation" where
  "allocator_reservation x request c r approved = \<lparr>rv_id = 0, rv_request_id = request, rv_exchange = ax_exchange x,
     rv_market = cd_market c, rv_candidate_id = cd_id c, rv_slot_id = Some (slot_id r), rv_amount_krw = approved,
     rv_status = ''RESERVED'', rv_expires_at = Some (ax_now x + 60 * al_reservation_ttl (ax_config x)),
     rv_created_at = 0, rv_updated_at = 0\<rparr>"

definition reserve_on_desk :: "alloc_ctx \<Rightarrow> string \<Rightarrow> candidate \<Rightarrow> slot \<Rightarrow> rat \<Rightarrow> desk \<Rightarrow> int outcome" where
  "reserve_on_desk x request c r approved d =
     (case create_order_reservation (ax_now x) (allocator_reservation x request c r approved) (dk_db d) of
        None \<Rightarrow> (Inl ''UNIQUE constraint failed: order_reservations.request_id'', d)
      | Some (i, s) \<Rightarrow> (Inr i, d\<lparr>dk_db := s\<rparr>))"

definition occupy_on_desk :: "alloc_ctx \<Rightarrow> candidate \<Rightarrow> slot \<Rightarrow> int \<Rightarrow> rat \<Rightarrow> desk \<Rightarrow> slot option \<times> desk" where
  "occupy_on_desk x c r sid approved d =
     (let (u, s) = reserve_position_slot (ax_now x) (slot_id r) (ax_exchange x) (cd_market c) (cd_id c) (Some sid) approved
            (ax_reason x) (dk_db d)
      in (u, d\<lparr>dk_db := s\<rparr>))"

definition switched :: "candidate \<Rightarrow> int option \<Rightarrow> string option \<Rightarrow> string \<Rightarrow> rat \<Rightarrow> switch_log" where
  "switched c old old_market reason delta = \<lparr>sw_from = old, sw_to = Some (cd_id c), sw_from_market = old_market,
     sw_to_market = Some (cd_market c), sw_decision = ''APPLIED'', sw_reason = reason, sw_blocked_reason = [], sw_score_delta = delta\<rparr>"

record accepted_entry =
  ac_candidate :: candidate
  ac_slot :: int
  ac_session :: int
  ac_reservation :: int
  ac_amount :: rat
  ac_replaced :: "int option"

text \<open>What a replacement does to the candidate and the session that held the slot.\<close>

definition retire_reserved :: "alloc_ctx \<Rightarrow> string \<Rightarrow> slot \<Rightarrow> desk \<Rightarrow> desk" where
  "retire_reserved x market r d =
     (let old = (case slot_candidate_id r of None \<Rightarrow> 0 | Some i \<Rightarrow> i); sid = (case slot_session_id r of None \<Rightarrow> 0 | Some i \<Rightarrow> i);
          d1 = (if old = 0 then d
                else snd (promote_candidate_strategy (ax_now x) (ax_rt x) old ''LIVE_ELIGIBLE''
                       ''Replaced by stronger same-market candidate before entry'' None
                       (on_db (update_order_reservation_status (ax_now x) (Some old) (Some market) ''REPLACED'' [''RESERVED'']) d)))
      in if sid = 0 then d1
         else on_db (update_live_strategy_session (ax_now x) sid (stopped_session (ax_now x) ''REPLACED_BEFORE_ENTRY'' ''REPLACED'')) d1)"

definition activate :: "alloc_ctx \<Rightarrow> candidate \<Rightarrow> string \<Rightarrow> string \<Rightarrow> int option \<Rightarrow> switch_log \<Rightarrow> desk \<Rightarrow> desk" where
  "activate x c promoted selected replaced e d =
     (let d1 = snd (promote_candidate_strategy (ax_now x) (ax_rt x) (cd_id c) ''LIVE_ACTIVE'' promoted None d)
      in on_strat (\<lambda>g. record_strategy_switch e (save_active_strategy_selection (ax_now x) c selected replaced g)) d1)"

definition replace_reserved_slot_candidate :: "alloc_ctx \<Rightarrow> slot \<Rightarrow> candidate \<Rightarrow> rat \<Rightarrow> desk \<Rightarrow> (slot option \<times> int \<times> int \<times> int option) outcome" where
  "replace_reserved_slot_candidate x r c approved d =
     (let old = (case slot_candidate_id r of None \<Rightarrow> 0 | Some i \<Rightarrow> i);
          before = (if old = 0 then None else load_candidate_strategy (dk_risk d) old);
          replaced = (if old = 0 then None else Some old);
          reason = ''Replaced same-market reserved slot''
      in case create_allocator_session x c approved (retire_reserved x (cd_market c) r d) of
           (Inl e, d1) \<Rightarrow> (Inl e, d1)
         | (Inr sid, d1) \<Rightarrow>
             (case reserve_on_desk x (''allocator-replace-'' @ take 16 (ax_hex x (cd_id c))) c r approved d1 of
                (Inl e, d2) \<Rightarrow> (Inl e, d2)
              | (Inr rid, d2) \<Rightarrow>
                  (let (u, d3) = occupy_on_desk x c r sid approved d2
                   in (Inr (u, sid, rid, replaced),
                       activate x c reason reason replaced (switched c replaced (Some (cd_market c)) (reason @ '' before entry'')
                         (fsub (cd_score c) (case before of None \<Rightarrow> 0 | Some b \<Rightarrow> cd_score b))) d3))))"

definition take_empty_slot :: "alloc_ctx \<Rightarrow> slot \<Rightarrow> candidate \<Rightarrow> rat \<Rightarrow> desk \<Rightarrow> (int \<times> int) outcome" where
  "take_empty_slot x r c approved d = (case create_allocator_session x c approved d of
     (Inl e, d1) \<Rightarrow> (Inl e, d1)
   | (Inr sid, d1) \<Rightarrow>
       (case reserve_on_desk x (''allocator-'' @ take 24 (ax_hex x (cd_id c))) c r approved d1 of
          (Inl e, d2) \<Rightarrow> (Inl e, d2)
        | (Inr rid, d2) \<Rightarrow>
            (let (_, d3) = occupy_on_desk x c r sid approved d2
             in (Inr (sid, rid), activate x c ''Assigned to capital allocator slot'' ''Latest allocator slot assignment'' None
                   (switched c None None (''Assigned to capital allocator slot '' @ int_str (slot_number r)) (cd_score c)) d3))))"

section \<open>The decision on one candidate\<close>

record alloc_state =
  as_desk :: desk
  as_slots :: "slot list"
  as_empty :: "slot list"
  as_open :: "string set"
  as_budget :: rat
  as_accepted :: "accepted_entry list"
  as_blocked :: "(opportunity \<times> string) list"

record alloc_verdict =
  vd_score :: rat
  vd_desired :: rat
  vd_approved :: rat
  vd_reason :: string
  vd_slot :: "slot option"

definition allocator_block :: "alloc_ctx \<Rightarrow> alloc_state \<Rightarrow> candidate \<Rightarrow> string + slot \<Rightarrow> string" where
  "allocator_block x st c same =
     (let r = (case same of Inl e \<Rightarrow> if e \<noteq> ''NO_SAME_MARKET_RESERVED_SLOT'' then e
                 else if as_empty st = [] then ''NO_EMPTY_SLOT''
                 else candidate_block_reason (as_desk st) (ax_exchange x) (as_open st) (ax_config x) c
               | Inr _ \<Rightarrow> candidate_block_reason (as_desk st) (ax_exchange x) (as_open st) (ax_config x) c);
          snap = ax_snapshot x
      in if r \<noteq> [] then r
         else if cs_error snap \<noteq> [] then ''BLOCKED_SNAPSHOT_FAILED''
         else if cs_balance_mismatch snap then ''BLOCKED_BALANCE_MISMATCH''
         else if cs_order_mismatch snap then ''BLOCKED_OPEN_ORDER_MISMATCH'' else [])"

definition released_by :: "string + slot \<Rightarrow> rat" where
  "released_by same = (case same of Inl _ \<Rightarrow> 0 | Inr r \<Rightarrow> reserved_krw r)"

definition budget_for :: "alloc_ctx \<Rightarrow> alloc_state \<Rightarrow> string + slot \<Rightarrow> rat" where
  "budget_for x st same = (case same of Inl _ \<Rightarrow> as_budget st
     | Inr r \<Rightarrow> min (max (fadd (cs_remaining (ax_snapshot x)) (reserved_krw r)) 0)
                 (max (fsub (nz (cs_available_krw (ax_snapshot x))) (cs_cash_reserve (ax_snapshot x))) 0))"

definition too_small_reason :: "alloc_ctx \<Rightarrow> string + slot \<Rightarrow> string" where
  "too_small_reason x same =
     (let snap = ax_snapshot x; least = al_min_order (ax_config x);
          left = (case same of Inl _ \<Rightarrow> cs_remaining snap | Inr r \<Rightarrow> fadd (cs_remaining snap) (reserved_krw r))
      in case cs_available_krw snap of None \<Rightarrow> ''BLOCKED_EXCHANGE_BALANCE_UNAVAILABLE''
         | Some a \<Rightarrow> if a < least then ''BLOCKED_INSUFFICIENT_KRW_BALANCE''
             else if left < least then ''BLOCKED_REMAINING_EXPOSURE_TOO_SMALL'' else ''BLOCKED_CAPITAL_TOO_SMALL'')"

definition alloc_verdict_of :: "alloc_ctx \<Rightarrow> alloc_state \<Rightarrow> opportunity \<Rightarrow> alloc_verdict" where
  "alloc_verdict_of x st o1 =
     (let c = op_candidate o1; g = ax_config x; same = same_market_reserved_slot (as_desk st) g (as_slots st) c;
          r = allocator_block x st c same; score = score_of g o1; single = ax_max_single x;
          desired = min single (max (al_min_order g) (fdiv (fmul single (min score 100)) 100));
          approved = min (min (min (budget_for x st same) desired) single) (al_max_order g)
      in \<lparr>vd_score = score, vd_desired = desired, vd_approved = approved,
          vd_reason = (if approved < al_min_order g \<and> r = [] then too_small_reason x same else r),
          vd_slot = (case same of Inl _ \<Rightarrow> None | Inr s \<Rightarrow> Some s)\<rparr>)"

definition decision_of :: "alloc_ctx \<Rightarrow> opportunity \<Rightarrow> alloc_verdict \<Rightarrow> alloc_decision" where
  "decision_of x o1 v = (let c = op_candidate o1; g = ax_config x in
     \<lparr>ad_run = ax_run x, ad_candidate = cd_id c, ad_market = cd_market c, ad_strategy = cd_strategy c, ad_score = vd_score v,
      ad_desired = vd_desired v, ad_approved = (if vd_reason v = [] then vd_approved v else 0), ad_blocked_reason = vd_reason v,
      ad_fee_rate = al_fee_rate g, ad_fee = fmul (fmul (vd_approved v) (al_fee_rate g)) 2,
      ad_slippage = fmul (fmul (vd_approved v) (al_slippage g)) 2, ad_expected_edge = candidate_edge_pct c,
      ad_required_edge = required_edge_pct g, ad_decision = (if vd_reason v = [] then ''ACCEPTED'' else ''BLOCKED'')\<rparr>)"

definition block_candidate :: "alloc_ctx \<Rightarrow> opportunity \<Rightarrow> string \<Rightarrow> alloc_state \<Rightarrow> alloc_state" where
  "block_candidate x o1 reason st =
     st\<lparr>as_desk := queue_candidate (ax_now x) (op_candidate o1) (cd_market (op_candidate o1)) (score_of (ax_config x) o1) reason
          (al_queue_ttl (ax_config x)) (as_desk st),
        as_blocked := as_blocked st @ [(o1, reason)]\<rparr>"

definition promoted_entry :: "alloc_ctx \<Rightarrow> candidate \<Rightarrow> desk \<Rightarrow> desk" where
  "promoted_entry x c = on_db (update_next_entry_status (ax_now x) (cd_id c) ''PROMOTED_TO_SLOT'' None)"

definition accept_replacement :: "alloc_ctx \<Rightarrow> opportunity \<Rightarrow> alloc_verdict \<Rightarrow> slot \<Rightarrow> alloc_state \<Rightarrow> string option \<times> alloc_state" where
  "accept_replacement x o1 v r st = (let c = op_candidate o1 in
     case replace_reserved_slot_candidate x r c (vd_approved v) (as_desk st) of
       (Inl e, d) \<Rightarrow> (Some e, st\<lparr>as_desk := d\<rparr>)
     | (Inr (None, _), d) \<Rightarrow> (Some (CHR 0x27 # ''id'' @ [CHR 0x27]), st\<lparr>as_desk := d\<rparr>)
     | (Inr (Some u, sid, rid, replaced), d) \<Rightarrow>
         (None, st\<lparr>as_desk := promoted_entry x c d,
            as_accepted := as_accepted st @ [\<lparr>ac_candidate = c, ac_slot = slot_id u, ac_session = sid, ac_reservation = rid,
              ac_amount = vd_approved v, ac_replaced = replaced\<rparr>],
            as_open := insert (cd_market c) (as_open st),
            as_budget := max (fsub (fadd (as_budget st) (reserved_krw r)) (vd_approved v)) 0,
            as_slots := update_where (\<lambda>y. slot_id y = slot_id u) (\<lambda>_. u) (as_slots st)\<rparr>))"

definition accept_new :: "alloc_ctx \<Rightarrow> opportunity \<Rightarrow> alloc_verdict \<Rightarrow> alloc_state \<Rightarrow> string option \<times> alloc_state" where
  "accept_new x o1 v st = (let c = op_candidate o1 in
     case as_empty st of
       [] \<Rightarrow> (Some ''pop from empty list'', st)
     | r # rest \<Rightarrow>
        (case take_empty_slot x r c (vd_approved v) (as_desk st) of
           (Inl e, d) \<Rightarrow> (Some e, st\<lparr>as_desk := d, as_empty := rest\<rparr>)
         | (Inr (sid, rid), d) \<Rightarrow>
             (None, st\<lparr>as_desk := promoted_entry x c d, as_empty := rest,
                as_accepted := as_accepted st @ [\<lparr>ac_candidate = c, ac_slot = slot_id r, ac_session = sid, ac_reservation = rid,
                  ac_amount = vd_approved v, ac_replaced = None\<rparr>],
                as_open := insert (cd_market c) (as_open st),
                as_budget := max (fsub (as_budget st) (vd_approved v)) 0\<rparr>)))"

definition alloc_step :: "alloc_ctx \<Rightarrow> opportunity \<Rightarrow> alloc_state \<Rightarrow> string option \<times> alloc_state" where
  "alloc_step x o1 st =
     (if \<not> ax_enabled x then (None, block_candidate x o1 ''POLICY_AUTO_TRADING_DISABLED'' st)
      else (let v = alloc_verdict_of x st o1;
                st1 = st\<lparr>as_desk := on_strat (insert_capital_allocation_decision (decision_of x o1 v)) (as_desk st)\<rparr>
            in if vd_reason v \<noteq> [] then (None, block_candidate x o1 (vd_reason v) st1)
               else case vd_slot v of Some r \<Rightarrow> accept_replacement x o1 v r st1 | None \<Rightarrow> accept_new x o1 v st1))"

fun alloc_loop :: "alloc_ctx \<Rightarrow> opportunity list \<Rightarrow> alloc_state \<Rightarrow> string option \<times> alloc_state" where
  "alloc_loop x [] st = (None, st)"
| "alloc_loop x (o1 # os1) st =
     (if int (length (as_accepted st)) \<ge> al_max_new (ax_config x) then (None, st)
      else (case alloc_step x o1 st of (Some e, st1) \<Rightarrow> (Some e, st1) | (None, st1) \<Rightarrow> alloc_loop x os1 st1))"

section \<open>The run\<close>

text \<open>What the outside contributes to a run: the exchange's answers, the realised trades, fresh ids.\<close>

record alloc_world =
  aw_balances :: "accounts answer"
  aw_orders :: "string \<Rightarrow> pyval answer"
  aw_performance :: performance
  aw_hex :: "int \<Rightarrow> string"
  aw_emergency :: bool

definition snapshot_on_desk :: "int \<Rightarrow> runtime \<Rightarrow> string \<Rightarrow> alloc_world \<Rightarrow> desk \<Rightarrow> capital_snapshot \<times> desk" where
  "snapshot_on_desk now rt exchange w d =
     (let (c, s, t) = build_capital_snapshot now rt exchange (aw_balances w) (aw_orders w) (dk_db d, dk_risk d)
      in (c, d\<lparr>dk_db := s, dk_risk := t\<rparr>))"

definition reconcile_on_desk :: "int \<Rightarrow> int \<Rightarrow> string \<Rightarrow> desk \<Rightarrow> slot list \<times> desk" where
  "reconcile_on_desk now n exchange d =
     (let (r, s) = reconcile_position_slots now n exchange (dk_db d) in (r, d\<lparr>dk_db := s\<rparr>))"

definition eligible_only :: "risk_tables \<Rightarrow> candidate list" where
  "eligible_only t = filter (\<lambda>c. py_upper (os (cd_status c)) = ''LIVE_ELIGIBLE'') (load_live_eligible_candidate_strategies 100 t)"

record prepared =
  pr_ctx :: alloc_ctx
  pr_state :: alloc_state
  pr_ranked :: "opportunity list"

definition prepare_run :: "int \<Rightarrow> runtime \<Rightarrow> string \<Rightarrow> string \<Rightarrow> int \<Rightarrow> alloc_world \<Rightarrow> desk \<Rightarrow> prepared" where
  "prepare_run now rt reason exchange run w d =
     (let g = allocator_config rt;
          (policy, t) = load_global_bot_operation_policy now (dk_risk d);
          (_, d1) = run_repairs (repairs now rt False) (d\<lparr>dk_risk := t\<rparr>);
          (_, d2) = reconcile_on_desk now (al_max_slots g) exchange d1;
          (snap, d3) = snapshot_on_desk now rt exchange w d2;
          (given, d4) = (if cs_slots snap \<noteq> [] then (cs_slots snap, d3) else reconcile_on_desk now (al_max_slots g) exchange d3);
          ps = (if cs_positions snap \<noteq> [] then cs_positions snap else load_open_live_positions_for_exchange (dk_db d4) exchange);
          ranked = rank_live_candidates (aw_performance w) d4 exchange (Some (eligible_only (dk_risk d4))) (Some snap) 100;
          most = num_or (cs_max_total snap) (pol_max_exposure policy)
      in \<lparr>pr_ctx = \<lparr>ax_now = now, ax_rt = rt, ax_reason = reason, ax_exchange = exchange, ax_config = g, ax_snapshot = snap,
            ax_enabled = pol_enabled policy, ax_max_total = most, ax_max_single = fdiv (fmul most (al_single_pct g)) 100, ax_run = run, ax_hex = aw_hex w\<rparr>,
          pr_state = \<lparr>as_desk = d4, as_slots = given, as_empty = filter (\<lambda>r. slot_status r = ''EMPTY'') given,
            as_open = set (map pos_market ps), as_budget = cs_budget snap, as_accepted = [], as_blocked = []\<rparr>,
          pr_ranked = sort_desc (score_of g) ranked\<rparr>)"

definition allocator_task :: string where "allocator_task = ''capital_allocator''"

definition finish_task_on_desk :: "int \<Rightarrow> string \<Rightarrow> pydict \<Rightarrow> string \<Rightarrow> desk \<Rightarrow> desk" where
  "finish_task_on_desk now status result err d =
     d\<lparr>dk_tasks := snd (finish_scheduler_task now allocator_task status result err None (dk_tasks d))\<rparr>"

definition close_run :: "int \<Rightarrow> int \<Rightarrow> string \<Rightarrow> string option \<Rightarrow> pydict \<Rightarrow> (alloc_run \<Rightarrow> alloc_run) \<Rightarrow> desk \<Rightarrow> desk" where
  "close_run now run status err result f d = finish_task_on_desk now status result (if status = ''FAILED'' then os err else [])
     (on_strat (finish_capital_allocation_run now run (\<lambda>r. (f r)\<lparr>ar_status := status, ar_error := or_text err (ar_error r)\<rparr>)) d)"

definition run_totals :: "prepared \<Rightarrow> alloc_state \<Rightarrow> alloc_run \<Rightarrow> alloc_run" where
  "run_totals p st r = (let snap = ax_snapshot (pr_ctx p) in
     r\<lparr>ar_max_total := ax_max_total (pr_ctx p), ar_exposure := cs_db_value snap, ar_reserved := cs_pending_reserved snap,
       ar_available := cs_available_krw snap, ar_remaining := cs_remaining snap, ar_empty_slots := int (length (as_empty st)),
       ar_candidates := int (length (pr_ranked p)), ar_accepted := int (length (as_accepted st)),
       ar_blocked := int (length (as_blocked st))\<rparr>)"

definition run_status :: "alloc_state \<Rightarrow> string" where
  "run_status st = (if as_blocked st = [] then ''COMPLETED''
     else if as_accepted st \<noteq> [] then ''COMPLETED_WITH_BLOCKS'' else ''BLOCKED'')"

datatype alloc_result = SkippedLocked | Skipped string | Done "accepted_entry list" "(opportunity \<times> string) list"
  | Failed string "accepted_entry list" "(opportunity \<times> string) list"

text \<open>The status report at the end takes a second snapshot, with the answers \<open>w2\<close>.\<close>

definition run_capital_allocator_once ::
  "int \<Rightarrow> runtime \<Rightarrow> string \<Rightarrow> string option \<Rightarrow> alloc_world \<Rightarrow> alloc_world \<Rightarrow> desk \<Rightarrow> alloc_result \<times> desk" where
  "run_capital_allocator_once now rt reason name w w2 d =
     (let g = allocator_config rt; exchange = str_or name (al_exchange g) in
      case acquire_scheduler_task_lock now allocator_task reason (al_lock_ttl g) (dk_tasks d) of
        ((False, _), tasks) \<Rightarrow> (SkippedLocked, d\<lparr>dk_tasks := tasks\<rparr>)
      | ((True, _), tasks) \<Rightarrow>
         (let (run, strat) = create_capital_allocation_run now reason (dk_strat d);
              d1 = d\<lparr>dk_tasks := tasks, dk_strat := strat\<rparr>;
              skip = (\<lambda>why. (Skipped why, close_run now run ''SKIPPED'' (Some why)
                 [(''reason'', VStr reason), (''skip_reason'', VStr why), (''run_id'', VInt run)] id d1))
          in if \<not> al_enabled g then skip ''CAPITAL_ALLOCATOR_DISABLED''
             else if aw_emergency w then skip ''EMERGENCY_STOP_ACTIVE''
             else (let p = prepare_run now rt reason exchange run w d1 in
               case alloc_loop (pr_ctx p) (pr_ranked p) (pr_state p) of
                 (Some e, st) \<Rightarrow> (Failed e (as_accepted st) (as_blocked st),
                    close_run now run ''FAILED'' (Some e) [(''reason'', VStr reason), (''run_id'', VInt run)] id (as_desk st))
               | (None, st) \<Rightarrow>
                   (Done (as_accepted st) (as_blocked st),
                    snd (snapshot_on_desk now rt exchange w2 (close_run now run (run_status st) None
                      [(''reason'', VStr reason), (''run_id'', VInt run), (''candidate_count'', VInt (int (length (pr_ranked p)))),
                       (''accepted_count'', VInt (int (length (as_accepted st)))), (''blocked_count'', VInt (int (length (as_blocked st)))),
                       (''empty_slot_count'', VInt (int (length (as_empty st)))), (''snapshot_error'', VStr (cs_error (ax_snapshot (pr_ctx p))))]
                      (run_totals p st) (as_desk st)))))))"

section \<open>Lemmas\<close>

lemma same_market_not_blank: "same_market_reserved_slot d g rs c \<noteq> Inl []"
  by (simp add: same_market_reserved_slot_def Let_def split: option.split if_split)

lemma candidate_block_open: "candidate_block_reason d exchange M g c = [] \<Longrightarrow> cd_market c \<notin> M"
  by (simp add: candidate_block_reason_def Let_def split: if_splits)

lemma allocator_block_open:
  assumes "allocator_block x st c same = []" "same \<noteq> Inl []"
  shows "cd_market c \<notin> as_open st"
  using assms by (cases same) (auto simp: allocator_block_def Let_def split: if_splits dest: candidate_block_open)

lemma too_small_not_blank: "too_small_reason x same \<noteq> []"
  by (simp add: too_small_reason_def Let_def split: option.split)

lemma vd_reason_of: "vd_reason (alloc_verdict_of x st o1) =
    (if vd_approved (alloc_verdict_of x st o1) < al_min_order (ax_config x)
        \<and> allocator_block x st (op_candidate o1) (same_market_reserved_slot (as_desk st) (ax_config x) (as_slots st) (op_candidate o1)) = []
     then too_small_reason x (same_market_reserved_slot (as_desk st) (ax_config x) (as_slots st) (op_candidate o1))
     else allocator_block x st (op_candidate o1) (same_market_reserved_slot (as_desk st) (ax_config x) (as_slots st) (op_candidate o1)))"
  unfolding alloc_verdict_of_def Let_def alloc_verdict.select_convs by (rule refl)

lemma vd_approved_le:
  "vd_approved (alloc_verdict_of x st o1) \<le> al_max_order (ax_config x)"
  "vd_approved (alloc_verdict_of x st o1) \<le> ax_max_single x"
  unfolding alloc_verdict_of_def Let_def alloc_verdict.select_convs by (rule min.cobounded2, rule min.coboundedI1, rule min.cobounded2)

text \<open>What a verdict without a reason to block says of the amount and the market.\<close>

lemma accepted_verdict:
  assumes "vd_reason (alloc_verdict_of x st o1) = []"
  shows "cd_market (op_candidate o1) \<notin> as_open st"
    and "al_min_order (ax_config x) \<le> vd_approved (alloc_verdict_of x st o1)"
    and "vd_approved (alloc_verdict_of x st o1) \<le> al_max_order (ax_config x)"
    and "vd_approved (alloc_verdict_of x st o1) \<le> ax_max_single x"
proof -
  let ?same = "same_market_reserved_slot (as_desk st) (ax_config x) (as_slots st) (op_candidate o1)"
  have block: "allocator_block x st (op_candidate o1) ?same = []" and least: "\<not> vd_approved (alloc_verdict_of x st o1) < al_min_order (ax_config x)"
    using assms too_small_not_blank [of x ?same] unfolding vd_reason_of by (metis (full_types))+
  show "cd_market (op_candidate o1) \<notin> as_open st" by (rule allocator_block_open [OF block same_market_not_blank])
  show "al_min_order (ax_config x) \<le> vd_approved (alloc_verdict_of x st o1)" using least by simp
  show "vd_approved (alloc_verdict_of x st o1) \<le> al_max_order (ax_config x)" "vd_approved (alloc_verdict_of x st o1) \<le> ax_max_single x"
    by (rule vd_approved_le)+
qed

definition entry_market :: "accepted_entry \<Rightarrow> string" where
  "entry_market a = cd_market (ac_candidate a)"

definition entry_ok :: "alloc_config \<Rightarrow> string set \<Rightarrow> accepted_entry \<Rightarrow> bool" where
  "entry_ok g M a \<longleftrightarrow> al_min_order g \<le> ac_amount a \<and> ac_amount a \<le> al_max_order g \<and> entry_market a \<notin> M"

definition alloc_inv :: "alloc_ctx \<Rightarrow> string set \<Rightarrow> alloc_state \<Rightarrow> bool" where
  "alloc_inv x M st \<longleftrightarrow> list_all (entry_ok (ax_config x) M) (as_accepted st) \<and> distinct (map entry_market (as_accepted st))
     \<and> M \<subseteq> as_open st \<and> entry_market ` set (as_accepted st) \<subseteq> as_open st
     \<and> int (length (as_accepted st)) \<le> al_max_new (ax_config x)"

text \<open>A step either accepts nothing or appends one entry of the candidate with the approved amount.\<close>

lemma alloc_step_accepts:
  assumes "alloc_step x o1 st = (r, st')"
  shows "(as_accepted st' = as_accepted st \<and> as_open st' = as_open st)
    \<or> (\<exists>a. as_accepted st' = as_accepted st @ [a] \<and> ac_candidate a = op_candidate o1 \<and> as_open st' = insert (entry_market a) (as_open st)
        \<and> ac_amount a = vd_approved (alloc_verdict_of x st o1) \<and> vd_reason (alloc_verdict_of x st o1) = [])"
proof -
  have new: "(as_accepted u' = as_accepted u \<and> as_open u' = as_open u)
      \<or> (\<exists>a. as_accepted u' = as_accepted u @ [a] \<and> ac_candidate a = op_candidate o1 \<and> as_open u' = insert (entry_market a) (as_open u)
          \<and> ac_amount a = vd_approved v)"
    if "accept_new x o1 v u = (r, u')" for u u' v
    using that by (auto simp: accept_new_def entry_market_def Let_def split: list.splits prod.splits sum.splits)
  have replaced: "(as_accepted u' = as_accepted u \<and> as_open u' = as_open u)
      \<or> (\<exists>a. as_accepted u' = as_accepted u @ [a] \<and> ac_candidate a = op_candidate o1 \<and> as_open u' = insert (entry_market a) (as_open u)
          \<and> ac_amount a = vd_approved v)"
    if "accept_replacement x o1 v y u = (r, u')" for u u' v y
    using that by (auto simp: accept_replacement_def entry_market_def Let_def split: option.splits prod.splits sum.splits)
  consider "\<not> ax_enabled x \<or> vd_reason (alloc_verdict_of x st o1) \<noteq> []" | "ax_enabled x" "vd_reason (alloc_verdict_of x st o1) = []" by blast
  then show ?thesis
  proof cases
    case 1
    then show ?thesis using assms by (auto simp: alloc_step_def block_candidate_def Let_def split: if_splits)
  next
    case 2
    then show ?thesis using assms
      by (cases "vd_slot (alloc_verdict_of x st o1)") (auto simp: alloc_step_def Let_def dest!: new replaced)
  qed
qed

lemma alloc_step_inv:
  assumes "alloc_step x o1 st = (r, st')" "alloc_inv x M st" "int (length (as_accepted st)) < al_max_new (ax_config x)"
  shows "alloc_inv x M st'"
  using alloc_step_accepts [OF assms(1)]
proof (elim disjE exE conjE)
  fix a
  assume a: "as_accepted st' = as_accepted st @ [a]" "ac_candidate a = op_candidate o1" "as_open st' = insert (entry_market a) (as_open st)"
    "ac_amount a = vd_approved (alloc_verdict_of x st o1)" "vd_reason (alloc_verdict_of x st o1) = []"
  have "entry_market a \<notin> as_open st" using accepted_verdict(1) [OF a(5)] a(2) by (simp add: entry_market_def)
  then show ?thesis using assms(2,3) a accepted_verdict(2,3) [OF a(5)]
    by (auto simp: alloc_inv_def entry_ok_def)
qed (use assms(2) in \<open>simp add: alloc_inv_def\<close>)

lemma alloc_loop_inv:
  assumes "alloc_loop x os1 st = (r, st')" "alloc_inv x M st"
  shows "alloc_inv x M st'"
  using assms
proof (induction os1 arbitrary: st)
  case (Cons o1 os1)
  obtain e st1 where s: "alloc_step x o1 st = (e, st1)" by (cases "alloc_step x o1 st")
  show ?case
  proof (cases "int (length (as_accepted st)) \<ge> al_max_new (ax_config x)")
    case False
    then have "alloc_inv x M st1" using alloc_step_inv [OF s Cons.prems(2)] by simp
    then show ?thesis using Cons.IH [of st1] Cons.prems(1) s False by (auto split: option.splits)
  qed (use Cons.prems in simp)
qed simp

lemma prepared_inv:
  "alloc_inv (pr_ctx (prepare_run now rt reason exchange run w d)) (as_open (pr_state (prepare_run now rt reason exchange run w d)))
     (pr_state (prepare_run now rt reason exchange run w d))"
  "ax_config (pr_ctx (prepare_run now rt reason exchange run w d)) = allocator_config rt"
proof -
  have "1 \<le> al_max_new (allocator_config rt)" by (simp add: allocator_config_def)
  then show "alloc_inv (pr_ctx (prepare_run now rt reason exchange run w d)) (as_open (pr_state (prepare_run now rt reason exchange run w d)))
     (pr_state (prepare_run now rt reason exchange run w d))"
    by (simp add: alloc_inv_def prepare_run_def Let_def split: prod.split)
  show "ax_config (pr_ctx (prepare_run now rt reason exchange run w d)) = allocator_config rt"
    by (simp add: prepare_run_def Let_def split: prod.split)
qed

definition accepted_of :: "alloc_result \<Rightarrow> accepted_entry list" where
  "accepted_of r = (case r of Done a _ \<Rightarrow> a | Failed _ a _ \<Rightarrow> a | _ \<Rightarrow> [])"

lemma accepted_of_run:
  assumes "P []" "\<And>run d1 st r. alloc_loop (pr_ctx (prepare_run now rt reason (str_or name (al_exchange (allocator_config rt))) run w d1))
      (pr_ranked (prepare_run now rt reason (str_or name (al_exchange (allocator_config rt))) run w d1))
      (pr_state (prepare_run now rt reason (str_or name (al_exchange (allocator_config rt))) run w d1)) = (r, st) \<Longrightarrow> P (as_accepted st)"
  shows "P (accepted_of (fst (run_capital_allocator_once now rt reason name w w2 d)))"
  using assms(1)
  by (auto simp: run_capital_allocator_once_def accepted_of_def Let_def split: prod.split option.split bool.split intro: assms(2))

lemma finished_task_is_free:
  "fst (fst (acquire_scheduler_task_lock later k owner ttl (snd (finish_scheduler_task now k status result err next tbl))))"
  by (simp add: acquire_scheduler_task_lock_def task_refuses_def task_locked_def finish_scheduler_task_def Let_def split: option.split)

lemma close_run_tasks: "dk_tasks (close_run now run status err result f d)
    = snd (finish_scheduler_task now allocator_task status result (if status = ''FAILED'' then os err else []) None (dk_tasks d))"
  by (simp add: close_run_def finish_task_on_desk_def)

lemma snapshot_tasks: "dk_tasks (snd (snapshot_on_desk now rt exchange w d)) = dk_tasks d"
  by (simp add: snapshot_on_desk_def split: prod.split)

lemma update_next_entry_tables [simp]:
  "slots (update_next_entry_status now i st b s) = slots s"
  "reservations (update_next_entry_status now i st b s) = reservations s"
  "sessions (update_next_entry_status now i st b s) = sessions s"
  by (simp_all add: update_next_entry_status_def split: option.split)

lemma activate_db [simp]: "dk_db (activate x c promoted selected replaced e d) = dk_db d"
  by (simp add: activate_def Let_def)

lemma first_row_fresh: "list_all (\<lambda>r. k r \<noteq> i) t \<Longrightarrow> k y = i \<Longrightarrow> first_row (\<lambda>r. k r = i) (t @ [y]) = Some y"
  by (induction t) auto

text \<open>What taking an empty slot leaves in the tables.\<close>

lemma new_session_loads:
  assumes "create_live_strategy_session (ax_now x) (allocator_session x c a) s = (i, s1)" "list_all (\<lambda>q. ses_id q \<le> ses_seq s) (sessions s)"
  obtains q where "load_live_strategy_session s1 i = Some q" "ses_status q = ''READY''" "auto_enabled q" "ses_market q = cd_market c"
    "ses_candidate_id q = cd_id c" "ses_max_order_krw q = a"
proof -
  let ?old = "update_where (\<lambda>r. ses_status r \<in> {''READY'', ''RUNNING'', ''PAUSED''} \<and> ses_exchange r = ax_exchange x
      \<and> ses_market r = cd_market c \<and> ses_candidate_id r = cd_id c)
    (\<lambda>r. r\<lparr>ses_status := ''STOPPED'', auto_enabled := False, stopped_at := Some (ax_now x), ses_updated_at := ax_now x\<rparr>) (sessions s)"
  have "list_all (\<lambda>r. ses_id r \<noteq> ses_seq s + 1) ?old" using assms(2) by (auto simp: list_all_iff set_update_where)
  from first_row_fresh [OF this] assms(1) show ?thesis
    by (intro that) (auto simp: create_live_strategy_session_def allocator_session_def load_live_strategy_session_def Let_def)
qed

definition slot_taken :: "alloc_ctx \<Rightarrow> candidate \<Rightarrow> int \<Rightarrow> rat \<Rightarrow> slot \<Rightarrow> slot" where
  "slot_taken x c sid a r = r\<lparr>slot_status := ''RESERVED'', slot_exchange := ax_exchange x, slot_market := Some (cd_market c),
     slot_candidate_id := Some (cd_id c), slot_session_id := Some sid, allocated_krw := a, reserved_krw := a,
     entry_reason := Some (ax_reason x), slot_opened_at := Some (ax_now x), slot_closed_at := None, slot_updated_at := ax_now x\<rparr>"

lemma take_empty_slot_tables:
  assumes "take_empty_slot x r c a d = (Inr (sid, rid), d')"
    and new: "create_live_strategy_session (ax_now x) (allocator_session x c a) (dk_db d) = (i, s1)"
  shows "sid = i \<and> sessions (dk_db d') = sessions s1 \<and> slots (dk_db d') = update_where (\<lambda>y. slot_id y = slot_id r) (slot_taken x c sid a) (slots (dk_db d))
    \<and> (\<exists>z. z \<in> set (reservations (dk_db d')) \<and> rv_id z = rid \<and> rv_slot_id z = Some (slot_id r) \<and> rv_status z = ''RESERVED''
         \<and> rv_amount_krw z = a)"
proof -
  let ?req = "''allocator-'' @ take 24 (ax_hex x (cd_id c))"
  let ?z = "(allocator_reservation x ?req c r a)\<lparr>rv_id := rid, rv_created_at := ax_now x, rv_updated_at := ax_now x\<rparr>"
  obtain e1 d1 where made: "create_allocator_session x c a d = (e1, d1)" by (metis surj_pair)
  then obtain e1': "e1 = Inr sid" using assms(1) by (cases e1) (auto simp: take_empty_slot_def Let_def split: sum.splits prod.splits)
  then have one: "sid = i" "d1 = d\<lparr>dk_db := s1\<rparr>"
    using made by (auto simp: create_allocator_session_def new Let_def split: option.splits if_splits)
  obtain e2 d2 where held: "reserve_on_desk x ?req c r a d1 = (e2, d2)" by (metis surj_pair)
  have e2: "e2 = Inr rid"
    using assms(1) unfolding take_empty_slot_def made e1' sum.case prod.case held by (cases e2) (auto simp: Let_def split: prod.splits)
  obtain s2 where s2: "create_order_reservation (ax_now x) (allocator_reservation x ?req c r a) s1 = Some (rid, s2)" "d2 = d\<lparr>dk_db := s2\<rparr>"
    using held unfolding e2 one(2) reserve_on_desk_def by (auto split: option.splits)
  obtain u d3 where placed: "occupy_on_desk x c r sid a d2 = (u, d3)" by (metis surj_pair)
  have d': "dk_db d' = dk_db d3"
    using assms(1) unfolding take_empty_slot_def made e1' sum.case prod.case held e2 placed Let_def by auto
  have "slots s1 = slots (dk_db d)" using new by (auto simp: create_live_strategy_session_def Let_def)
  then have tables: "slots s2 = slots (dk_db d)" "sessions s2 = sessions s1" "?z \<in> set (reservations s2)"
    using s2(1) by (auto simp: create_order_reservation_def split: if_splits)
  have "sessions (dk_db d3) = sessions s2" "reservations (dk_db d3) = reservations s2"
      "slots (dk_db d3) = update_where (\<lambda>y. slot_id y = slot_id r) (slot_taken x c sid a) (slots s2)"
    using placed by (auto simp: occupy_on_desk_def s2(2) reserve_position_slot_def slot_taken_def [abs_def] Let_def)
  moreover have "rv_id ?z = rid" "rv_slot_id ?z = Some (slot_id r)" "rv_status ?z = ''RESERVED''" "rv_amount_krw ?z = a"
    by (simp_all add: allocator_reservation_def)
  ultimately show ?thesis unfolding d' using one(1) tables by auto
qed

definition sample_candidate :: candidate where
  "sample_candidate = \<lparr>cd_id = 7, cd_market = ''KRW-ETH'', cd_status = Some ''LIVE_ELIGIBLE'', cd_strategy = ''trend'', cd_parameters = [],
     cd_unit = 60, cd_score = 80, cd_total_return = 0, cd_mdd = 0, cd_trade_count = 10, cd_updated_at = 900\<rparr>"

definition sample_desk :: desk where
  "sample_desk = \<lparr>dk_db = empty_db\<lparr>slots := [new_slot 1000 1 1 ''bithumb'', new_slot 1000 2 2 ''bithumb''], sessions := [sample_session], ses_seq := 1\<rparr>,
     dk_risk = \<lparr>risk_states = [], risk_seq = 0, risk_logs = [], policies = [], universe = [], candidates = [sample_candidate]\<rparr>,
     dk_strat = \<lparr>promotions = [], selections = [], sel_seq = 0, switches = [], edge_stats = [], alloc_runs = [], run_seq = 0, alloc_decisions = []\<rparr>,
     dk_tasks = []\<rparr>"

definition sample_snapshot :: capital_snapshot where
  "sample_snapshot = \<lparr>cs_exchange = ''bithumb'', cs_created_at = 1000, cs_max_age = 10, cs_error = [], cs_warnings = [], cs_blockers = [],
     cs_auto_enabled = True, cs_max_total = 100000, cs_loss_pct = 3, cs_available_krw = Some 50000, cs_cash_reserve = 5000, cs_dust_value = 100,
     cs_db_value = 0, cs_exchange_value = 0, cs_pending_reserved = 0, cs_pending_exchange = 0, cs_remaining = 100000, cs_budget = 45000,
     cs_open_count = 0, cs_max_open = 2, cs_empty_slots = 2, cs_balance_mismatch = False, cs_order_mismatch = False, cs_positions = [],
     cs_balances = None, cs_open_orders = [], cs_db_orders = [], cs_reservations = [], cs_slots = slots (dk_db sample_desk)\<rparr>"

definition sample_ctx_alloc :: alloc_ctx where
  "sample_ctx_alloc = \<lparr>ax_now = 1000, ax_rt = plain_runtime, ax_reason = ''SCHEDULED'', ax_exchange = ''bithumb'',
     ax_config = allocator_config plain_runtime, ax_snapshot = sample_snapshot, ax_enabled = True, ax_max_total = 100000, ax_max_single = 45000,
     ax_run = 1, ax_hex = (\<lambda>_. ''ab'')\<rparr>"

definition sample_state :: alloc_state where
  "sample_state = \<lparr>as_desk = sample_desk, as_slots = slots (dk_db sample_desk), as_empty = slots (dk_db sample_desk), as_open = {''KRW-BTC''},
     as_budget = 45000, as_accepted = [], as_blocked = []\<rparr>"

definition sample_opportunity :: opportunity where
  "sample_opportunity = \<lparr>op_candidate = sample_candidate, op_score = 70, op_breakdown = [], op_blockers = [], op_eligible = True,
     op_action = ''WATCH'', op_expected = 0, op_edge = 0, op_confidence = 0, op_quality = 100, op_recent = \<lparr>rp_pnl = 0, rp_return = 0\<rparr>\<rparr>"

definition sample_verdict :: alloc_verdict where
  "sample_verdict = \<lparr>vd_score = 92, vd_desired = 41400, vd_approved = 30000, vd_reason = [], vd_slot = None\<rparr>"


text \<open>
  The budget of a replacement is computed from the snapshot alone: what the same run has already
  given to other candidates is not subtracted.
\<close>

lemma replacement_budget_ignores_the_run: "budget_for x (st\<lparr>as_budget := b\<rparr>) (Inr r) = budget_for x st (Inr r)"
  by (simp add: budget_for_def)

section \<open>Properties\<close>

text \<open>
  C17. Whatever the exchange answers and whether it ends well or not, a run of the allocator accepts
  at most the configured number of entries, each of an amount between the smallest and the largest
  order, and no two of them in the same market.
\<close>

theorem allocator_run_is_bounded:
  "int (length (accepted_of (fst (run_capital_allocator_once now rt reason name w w2 d)))) \<le> al_max_new (allocator_config rt)
    \<and> list_all (\<lambda>a. al_min_order (allocator_config rt) \<le> ac_amount a \<and> ac_amount a \<le> al_max_order (allocator_config rt))
        (accepted_of (fst (run_capital_allocator_once now rt reason name w w2 d)))
    \<and> distinct (map entry_market (accepted_of (fst (run_capital_allocator_once now rt reason name w w2 d))))"
proof (rule accepted_of_run)
  have "1 \<le> al_max_new (allocator_config rt)" by (simp add: allocator_config_def)
  then show "int (length []) \<le> al_max_new (allocator_config rt) \<and> list_all (\<lambda>a. al_min_order (allocator_config rt) \<le> ac_amount a \<and> ac_amount a \<le> al_max_order (allocator_config rt)) []
      \<and> distinct (map entry_market [])" by simp
next
  fix run d1 st r
  let ?p = "prepare_run now rt reason (str_or name (al_exchange (allocator_config rt))) run w d1"
  assume "alloc_loop (pr_ctx ?p) (pr_ranked ?p) (pr_state ?p) = (r, st)"
  then have "alloc_inv (pr_ctx ?p) (as_open (pr_state ?p)) st" using prepared_inv(1) by (rule alloc_loop_inv)
  then show "int (length (as_accepted st)) \<le> al_max_new (allocator_config rt)
      \<and> list_all (\<lambda>a. al_min_order (allocator_config rt) \<le> ac_amount a \<and> ac_amount a \<le> al_max_order (allocator_config rt)) (as_accepted st)
      \<and> distinct (map entry_market (as_accepted st))"
    unfolding alloc_inv_def prepared_inv(2)  entry_ok_def by (simp add: list_all_iff)
qed

text \<open>
  C31. A run never keeps the allocator's lock: unless the lock was held by another run, the next
  request for it is granted at once, also after a run that was skipped or failed.
\<close>

theorem allocator_run_frees_its_lock:
  "fst (run_capital_allocator_once now rt reason name w w2 d) = SkippedLocked
   \<or> fst (fst (acquire_scheduler_task_lock later allocator_task owner ttl
        (dk_tasks (snd (run_capital_allocator_once now rt reason name w w2 d)))))"
  by (auto simp: run_capital_allocator_once_def Let_def close_run_tasks snapshot_tasks finished_task_is_free
      split: prod.split option.split bool.split)



end
