(* ===== verification/Spec2Isabelle.thy ===== *)
theory Spec2Isabelle
  imports FillsLedger Sizing Locks PositionSync RiskManager LiveRecovery LiveExit CapitalSnapshot StateReconciler CapitalAllocator
begin

text \<open>
  The trading core of auto-coin-bot (\<open>src/app\<close>), a FastAPI service over one SQLite database that trades
  KRW markets of a Korean exchange by itself.

  \<^bold>\<open>The program and the theories.\<close> A cycle of the program is: the repairs put the tables in order, the
  capital allocator reserves slots and money for candidate strategies, an entry order passes the
  order size, the risk gate and the live broker's own check and is logged before it is sent, its
  fills are booked on a position, the exit watches the price and sells, and after a restart the
  recovery compares all of it with the exchange. Each theory models one part:

  \<^item> \<open>PyFloat\<close>, \<open>PyValue\<close>, \<open>PyTime\<close>: Python's numbers (binary64 as rational numbers with rounding
    \<open>rnd\<close>, \<open>round\<close>, \<open>sum\<close>), values of JSON objects and dicts, texts of times. \<open>Prelude\<close>: nullable columns,
    tables as lists of rows, queries and updates. \<open>Interfaces\<close>: the locales \<open>keyed_store\<close>
    (\<open>INSERT .. ON CONFLICT\<close>) and \<open>two_step_lock\<close> with the interleaved steps of several processes.
  \<^item> \<open>Settings\<close>: \<open>aggression_presets.py\<close>, runtime settings, presets and the forced safety settings.
  \<^item> \<open>LiveBroker\<close>: \<open>live_broker.py\<close>, configuration, the machine of live modes with the emergency stop,
    the check of one order, the payloads. \<open>mode_step\<close> is a step relation, its properties hold for all runs.
  \<^item> \<open>OrderLog\<close>: the log of live orders with its idempotency table (\<open>database.py\<close>).
  \<^item> \<open>LiveStore\<close>: positions, sessions, slots, reservations, queue, fill events, the ledger of applied
    orders, recovery events (\<open>database.py\<close>), in the record \<open>db\<close>, which extends the order log.
  \<^item> \<open>PositionSync\<close>: \<open>live_position_sync.py\<close>, applying a filled entry order to a position.
  \<^item> \<open>FillsLedger\<close>: \<open>exchange_fills_ledger.py\<close>, the ledger of exchange fills and its FIFO accounting.
  \<^item> \<open>Sizing\<close>: \<open>order_sizing.py\<close> and \<open>dynamic_sizing.py\<close>.
  \<^item> \<open>RiskManager\<close>: \<open>risk_manager.py\<close>, the state of the day, the gate over all orders and the operation
    policy (\<open>database.py\<close>); the checks of the gate are a list of named verdicts.
  \<^item> \<open>Locks\<close>: the lock of a scheduler task and the runtime lock of a process (\<open>database.py\<close>).
  \<^item> \<open>LiveRecovery\<close>: \<open>live_recovery.py\<close>, reading an exchange order, applying it to log and positions,
    lost entries, comparing balances, recovery at startup, import of a position.
  \<^item> \<open>CapitalSnapshot\<close>: \<open>capital_snapshot.py\<close>, cash, exposure and budget at one moment.
  \<^item> \<open>LiveExit\<close>: \<open>live_exit.py\<close>, price exits, trailing stop, the check of an exit, its submission,
    time-out and reconciliation.
  \<^item> \<open>StrategyTables\<close>: candidates, promotions, selection, statistics, allocation runs (\<open>database.py\<close>); its
    record \<open>desk\<close> puts all tables together.
  \<^item> \<open>StateReconciler\<close>: \<open>live_state_reconciler.py\<close>, the eight repairs.
  \<^item> \<open>MarketOpportunity\<close>: \<open>market_opportunity.py\<close>, blockers, score and rank of candidates.
  \<^item> \<open>CapitalAllocator\<close>: \<open>capital_allocator.py\<close>, the run that reserves slots; it calls the repairs,
    the snapshot, the ranking and the tables above and holds the task lock of \<open>Locks\<close>.

  \<^bold>\<open>State and errors.\<close> A function of the code that writes tables takes them and returns them changed
  (\<open>db\<close>, \<open>risk_tables\<close>, pairs of them, \<open>desk\<close>); a table is the list of its rows in the order of insertion.
  What comes from outside is an argument: the time (\<open>now\<close>), the environment and the settings
  (\<open>runtime\<close>), the answers of the exchange (\<open>'a answer\<close>, \<open>Inl\<close> the failure), fresh ids, and SQLite's \<open>SUM\<close> and
  \<open>AVG\<close>. An exception is a value: \<open>None\<close>, \<open>Inl\<close>, or a result that carries the tables as they then are.

  \<^bold>\<open>What the lemmas show.\<close> For each table operation what a later query reads; for the order log and
  the ledgers invariants over all runs of operations; for the handlers (order gate, position
  sync, recovery, exit) case analyses of all branches from which the properties follow; for the
  repairs that a dry run writes nothing and that a second search finds nothing; for the
  allocator an invariant of its loop. Theorems at the end of a theory that carry a number are its
  properties; lemmas named as observations compute a behaviour that is probably not intended.

  \<^bold>\<open>Bounds.\<close> The handler of a filled entry order may call itself and has a bound on these calls;
  \<open>PositionSync.sync_never_calls_itself\<close> shows that one call is always enough. All other loops run over lists.

  \<^bold>\<open>Concurrency.\<close> The two steps of a lock request (reading the row, then the write transaction) are
  separate steps, because nothing in the code holds them together: exclusion is proved for all
  orders of the steps in which no other request for the lock stands between the two steps of the
  holder, and \<open>task_requests_race\<close> and \<open>runtime_requests_race\<close> show what happens otherwise. Other operations
  are modelled one after the other.

  \<^bold>\<open>Where the model is coarser.\<close> Numbers are finite: \<open>nan\<close> and \<open>inf\<close> as texts are no numbers here, while
  Python reads them. Time stamps are whole seconds; a cooldown is not shortened by a fraction of a second.
  An empty snapshot dict counts as one without fields. A position id in a scale-in preview that is not a
  number reads as 0 where Python would raise. The reset of the emergency stop assumes that the
  configuration can be read. Texts of messages, Korean reasons and notification payloads are left
  out, as is the other request id in the message of a duplicate order.

  \<^bold>\<open>Not modelled.\<close> The HTTP routes (\<open>main.py\<close>), authentication and notifications, market data and
  strategies (HTTP and pandas), paper trading and backtests, the smart engine, reports and diagnostics, the
  cycles that call the modelled parts (\<open>live_strategy_pilot.py\<close>, \<open>controlled_auto_live.py\<close>, \<open>limited_auto_live.py\<close>),
  the protected worker, offline repair scripts, and the tables of \<open>database.py\<close> only these use. Next in the
  plan: matching of fills (\<open>trading_reconciliation.py\<close>), the kill switch and the promotion of strategies, the
  profit engine, and the pilot's order submission.
\<close>

end
